(* ===== verification/Gateway_Prelude.thy ===== *)
theory Gateway_Prelude
  imports Main "HOL-Library.Sublist"
begin

text \<open>
  Shared material of the development: the outcome type of a computation that may return,
  panic or run forever, Rust's fixed-width integers as \<open>int\<close> with the wrap-around written
  out, and the operations of Rust's \<open>str\<close> and \<open>String\<close> that the gateway uses.

  A text is a HOL \<open>string\<close>; one \<open>char\<close> is one Unicode scalar value of the range U+0000 to
  U+00FF. In this range the White-Space characters are U+0009 to U+000D, U+0020, U+0085 and
  U+00A0 (\<open>is_ws\<close>), the set that \<^verbatim>\<open>str::trim\<close>, \<^verbatim>\<open>str::split_whitespace\<close> and the regex class
  \<^verbatim>\<open>\s\<close> use.
\<close>

named_theorems text_simps \<open>evaluation rules for the operations on texts\<close>

section \<open>Outcomes\<close>

text \<open>
  \<open>Ret\<close> is a normal return, \<open>Panic\<close> a failed \<^verbatim>\<open>expect\<close>/\<^verbatim>\<open>unwrap\<close> or index, \<open>Diverge\<close> a
  computation that used up its fuel. \<open>'e + 'a\<close> models \<^verbatim>\<open>Result<'a, 'e>\<close> (\<open>Inl\<close> is \<^verbatim>\<open>Err\<close>).
\<close>

datatype 'a exec = Ret 'a | Panic | Diverge

type_synonym ('e, 'a) result = "'e + 'a"

fun bind_exec :: "'a exec \<Rightarrow> ('a \<Rightarrow> 'b exec) \<Rightarrow> 'b exec" where
  "bind_exec (Ret x) f = f x"
| "bind_exec Panic f = Panic"
| "bind_exec Diverge f = Diverge"

definition expect :: "'a option \<Rightarrow> 'a exec" where
  "expect x = (case x of Some a \<Rightarrow> Ret a | None \<Rightarrow> Panic)"

lemma expect_simps [simp]: "expect (Some a) = Ret a" "expect None = Panic"
  by (simp_all add: expect_def)

section \<open>Fixed-width integers\<close>

text \<open>
  The crate is built with the default release profile, where signed overflow wraps. The
  supported targets are 64 bit, so \<^verbatim>\<open>isize\<close> is 64 bits wide.
\<close>

definition i64_min :: int where "i64_min = - (2 ^ 63)"
definition i64_max :: int where "i64_max = 2 ^ 63 - 1"

definition wrap64 :: "int \<Rightarrow> int" where
  "wrap64 x = (x + 2 ^ 63) mod 2 ^ 64 - 2 ^ 63"

definition in_i64 :: "int \<Rightarrow> bool" where
  "in_i64 x \<longleftrightarrow> i64_min \<le> x \<and> x \<le> i64_max"

definition i64_neg :: "int \<Rightarrow> int" where
  "i64_neg x = wrap64 (- x)"

definition i64_add :: "int \<Rightarrow> int \<Rightarrow> int" where
  "i64_add x y = wrap64 (x + y)"

definition wrap32 :: "int \<Rightarrow> int" where
  "wrap32 x = (x + 2 ^ 31) mod 2 ^ 32 - 2 ^ 31"

lemma wrap64_id [simp]: "in_i64 x \<Longrightarrow> wrap64 x = x"
  by (auto simp: wrap64_def in_i64_def i64_min_def i64_max_def)

lemma wrap64_range: "in_i64 (wrap64 x)"
  by (auto simp: wrap64_def in_i64_def i64_min_def i64_max_def intro: order.strict_trans2)

lemma i64_neg_min [simp]: "i64_neg i64_min = i64_min"
  by (simp add: i64_neg_def wrap64_def i64_min_def)

lemma i64_neg_id: "in_i64 x \<Longrightarrow> x \<noteq> i64_min \<Longrightarrow> i64_neg x = - x"
  by (auto simp: i64_neg_def wrap64_def in_i64_def i64_min_def i64_max_def)

lemma mod_pos_sub: "(m::int) \<le> x \<Longrightarrow> x < 2 * m \<Longrightarrow> x mod m = x - m"
  by (metis add_diff_cancel_right' diff_ge_0_iff_ge diff_less_eq mod_add_self2 mod_pos_pos_trivial mult_2 diff_add_cancel)

lemma i64_add_id [simp]: "in_i64 (x + y) \<Longrightarrow> i64_add x y = x + y"
  by (simp add: i64_add_def)

section \<open>Source texts\<close>

text \<open>
  A HOL string literal cannot hold a backslash or two single quotes in a row. In the literals
  below \<open>src_text\<close> the character \<^verbatim>\<open>%\<close> stands for a backslash and the grave accent for a
  single quote; below \<open>sql_text\<close> only the grave accent is replaced.
\<close>

definition src_char :: "char \<Rightarrow> char" where
  "src_char c = (if c = CHR ''%'' then CHR 0x5C else if c = CHR 0x60 then CHR 0x27 else c)"

definition src_text :: "string \<Rightarrow> string" where
  "src_text = map src_char"

definition sql_text :: "string \<Rightarrow> string" where
  "sql_text = map (\<lambda>c. if c = CHR 0x60 then CHR 0x27 else c)"

abbreviation squote :: char where "squote \<equiv> CHR 0x27"
abbreviation dquote :: char where "dquote \<equiv> CHR 0x22"
abbreviation backslash :: char where "backslash \<equiv> CHR 0x5C"

section \<open>Characters\<close>

definition is_ws :: "char \<Rightarrow> bool" where
  "is_ws c \<longleftrightarrow> c = CHR '' '' \<or> c = CHR 0x0A \<or> c = CHR 0x09 \<or> c = CHR 0x0D \<or>
     c = CHR 0x0B \<or> c = CHR 0x0C \<or> c = CHR 0x85 \<or> c = CHR 0xA0"

definition code_point :: "char \<Rightarrow> int" where
  "code_point c = of_char c"

definition is_ascii_upper :: "char \<Rightarrow> bool" where
  "is_ascii_upper c \<longleftrightarrow> 65 \<le> code_point c \<and> code_point c \<le> 90"

definition is_ascii_lower :: "char \<Rightarrow> bool" where
  "is_ascii_lower c \<longleftrightarrow> 97 \<le> code_point c \<and> code_point c \<le> 122"

definition is_digit :: "char \<Rightarrow> bool" where
  "is_digit c \<longleftrightarrow> 48 \<le> code_point c \<and> code_point c \<le> 57"

definition is_ascii_alnum :: "char \<Rightarrow> bool" where
  "is_ascii_alnum c \<longleftrightarrow> is_ascii_upper c \<or> is_ascii_lower c \<or> is_digit c"

definition upper_char :: "char \<Rightarrow> char" where
  "upper_char c = (if is_ascii_lower c then char_of (code_point c - 32) else c)"

definition lower_char :: "char \<Rightarrow> char" where
  "lower_char c = (if is_ascii_upper c then char_of (code_point c + 32) else c)"

definition to_ascii_uppercase :: "string \<Rightarrow> string" where
  "to_ascii_uppercase = map upper_char"

definition to_ascii_lowercase :: "string \<Rightarrow> string" where
  "to_ascii_lowercase = map lower_char"

definition eq_ignore_ascii_case :: "string \<Rightarrow> string \<Rightarrow> bool" where
  "eq_ignore_ascii_case a b \<longleftrightarrow> to_ascii_lowercase a = to_ascii_lowercase b"

section \<open>Operations of \<open>str\<close>\<close>

definition trim_start_by :: "(char \<Rightarrow> bool) \<Rightarrow> string \<Rightarrow> string" where
  "trim_start_by p s = dropWhile p s"

definition trim_end_by :: "(char \<Rightarrow> bool) \<Rightarrow> string \<Rightarrow> string" where
  "trim_end_by p s = rev (dropWhile p (rev s))"

definition trim_by :: "(char \<Rightarrow> bool) \<Rightarrow> string \<Rightarrow> string" where
  "trim_by p s = trim_end_by p (trim_start_by p s)"

abbreviation trim :: "string \<Rightarrow> string" where "trim \<equiv> trim_by is_ws"

text \<open>\<^verbatim>\<open>str::split_whitespace\<close>: the maximal runs of characters that are not white space.\<close>

fun words_from :: "string \<Rightarrow> string \<Rightarrow> string list" where
  "words_from acc [] = (if acc = [] then [] else [rev acc])"
| "words_from acc (c # cs) =
     (if is_ws c then (if acc = [] then words_from [] cs else rev acc # words_from [] cs)
      else words_from (c # acc) cs)"

definition split_whitespace :: "string \<Rightarrow> string list" where
  "split_whitespace s = words_from [] s"

text \<open>\<^verbatim>\<open>str::find\<close> of a text, \<^verbatim>\<open>str::contains\<close>, \<^verbatim>\<open>str::starts_with\<close>, \<^verbatim>\<open>str::ends_with\<close>.\<close>

fun find_text :: "string \<Rightarrow> string \<Rightarrow> nat option" where
  "find_text pat [] = (if pat = [] then Some 0 else None)"
| "find_text pat (c # cs) =
     (if prefix pat (c # cs) then Some 0 else map_option Suc (find_text pat cs))"

definition contains :: "string \<Rightarrow> string \<Rightarrow> bool" where
  "contains s pat \<longleftrightarrow> find_text pat s \<noteq> None"

definition starts_with :: "string \<Rightarrow> string \<Rightarrow> bool" where
  "starts_with s pat \<longleftrightarrow> prefix pat s"

definition ends_with :: "string \<Rightarrow> string \<Rightarrow> bool" where
  "ends_with s pat \<longleftrightarrow> prefix (rev pat) (rev s)"

text \<open>
  \<^verbatim>\<open>str::replace\<close> for a pattern that is not empty (the only kind the gateway uses): matches
  are found from the left and do not overlap.
\<close>

function replace_text :: "string \<Rightarrow> string \<Rightarrow> string \<Rightarrow> string" where
  "replace_text pat by [] = []"
| "replace_text pat by (c # cs) =
     (if pat \<noteq> [] \<and> prefix pat (c # cs) then by @ replace_text pat by (drop (length pat) (c # cs))
      else c # replace_text pat by cs)"
  by pat_completeness auto
termination
  by (relation "measure (\<lambda>(pat, by, s). length s)") auto

text \<open>\<^verbatim>\<open>str::split\<close> at a character.\<close>

fun split_at :: "char \<Rightarrow> string \<Rightarrow> string \<Rightarrow> string list" where
  "split_at sep acc [] = [rev acc]"
| "split_at sep acc (c # cs) =
     (if c = sep then rev acc # split_at sep [] cs else split_at sep (c # acc) cs)"

definition split_char :: "char \<Rightarrow> string \<Rightarrow> string list" where
  "split_char sep s = split_at sep [] s"

definition join_with :: "string \<Rightarrow> string list \<Rightarrow> string" where
  "join_with sep xs = concat (case xs of [] \<Rightarrow> [] | y # ys \<Rightarrow> y # map (\<lambda>z. sep @ z) ys)"

section \<open>Numbers as text\<close>

definition digit_value :: "char \<Rightarrow> nat" where
  "digit_value c = nat (code_point c - 48)"

definition digits_value :: "string \<Rightarrow> nat" where
  "digits_value s = foldl (\<lambda>n c. 10 * n + digit_value c) 0 s"

definition parse_digits :: "string \<Rightarrow> nat option" where
  "parse_digits s = (if s \<noteq> [] \<and> list_all is_digit s then Some (digits_value s) else None)"

text \<open>
  \<^verbatim>\<open>str::parse\<close>: an optional sign (only \<^verbatim>\<open>+\<close> for an unsigned type), then at least one digit;
  a value outside the type is an error.
\<close>

definition parse_int :: "string \<Rightarrow> int option" where
  "parse_int s =
     (case s of
        [] \<Rightarrow> None
      | c # cs \<Rightarrow>
          if c = CHR ''-'' then map_option (\<lambda>n. - int n) (parse_digits cs)
          else if c = CHR ''+'' then map_option int (parse_digits cs)
          else map_option int (parse_digits s))"

definition in_i32 :: "int \<Rightarrow> bool" where
  "in_i32 x \<longleftrightarrow> - (2 ^ 31) \<le> x \<and> x < 2 ^ 31"

definition parse_i64 :: "string \<Rightarrow> int option" where
  "parse_i64 s = (case parse_int s of Some n \<Rightarrow> if in_i64 n then Some n else None | None \<Rightarrow> None)"

definition parse_i32 :: "string \<Rightarrow> int option" where
  "parse_i32 s = (case parse_int s of Some n \<Rightarrow> if in_i32 n then Some n else None | None \<Rightarrow> None)"

definition parse_unsigned :: "nat \<Rightarrow> string \<Rightarrow> nat option" where
  "parse_unsigned w s =
     (let v = (case s of
                 c # cs \<Rightarrow> if c = CHR ''+'' then parse_digits cs else parse_digits s
               | [] \<Rightarrow> None)
      in case v of Some n \<Rightarrow> if n < 2 ^ w then Some n else None | None \<Rightarrow> None)"

definition digit_char :: "nat \<Rightarrow> char" where
  "digit_char n = char_of (48 + int n)"

fun show_nat :: "nat \<Rightarrow> string" where
  "show_nat n = (if n < 10 then [digit_char n] else show_nat (n div 10) @ [digit_char (n mod 10)])"

declare show_nat.simps [simp del]

definition show_int :: "int \<Rightarrow> string" where
  "show_int n = (if n < 0 then CHR ''-'' # show_nat (nat (- n)) else show_nat (nat n))"

section \<open>Laws of the text operations\<close>

lemma find_text_Some:
  "find_text pat s = Some i \<Longrightarrow> i \<le> length s \<and> prefix pat (drop i s) \<and> (\<forall>j<i. \<not> prefix pat (drop j s))"
proof (induction s arbitrary: i)
  case Nil
  then show ?case by (auto split: if_splits)
next
  case (Cons c s)
  show ?case
  proof (cases "prefix pat (c # s)")
    case False
    with Cons.prems obtain k where k: "find_text pat s = Some k" "i = Suc k" by auto
    show ?thesis
    proof (intro conjI allI impI)
      fix j assume "j < i"
      then show "\<not> prefix pat (drop j (c # s))"
        using Cons.IH [OF k(1)] False k(2) by (cases j) auto
    qed (use Cons.IH [OF k(1)] k in auto)
  qed (use Cons.prems in auto)
qed

lemma find_text_None: "find_text pat s = None \<longleftrightarrow> \<not> sublist pat s"
  by (induction s) (auto simp: sublist_Cons_right)

lemma contains_iff: "contains s pat \<longleftrightarrow> sublist pat s"
  by (simp add: contains_def find_text_None)

lemma ends_with_iff: "ends_with s pat \<longleftrightarrow> suffix pat s"
  by (simp add: ends_with_def suffix_to_prefix)

lemma dropWhile_hd_id: "s = [] \<or> \<not> p (hd s) \<Longrightarrow> dropWhile p s = s"
  by (cases s) auto

lemma trim_by_id: "s = [] \<or> \<not> p (hd s) \<and> \<not> p (last s) \<Longrightarrow> trim_by p s = s"
  using dropWhile_hd_id [of s p] dropWhile_hd_id [of "rev s" p]
  by (auto simp: trim_by_def trim_start_by_def trim_end_by_def hd_rev)

lemma dropWhile_hd: "dropWhile p s \<noteq> [] \<Longrightarrow> \<not> p (hd (dropWhile p s))"
  by (induction s) auto

lemma trim_end_by_last: "trim_end_by p s \<noteq> [] \<Longrightarrow> \<not> p (last (trim_end_by p s))"
  unfolding trim_end_by_def using dropWhile_hd [of p "rev s"] by (simp add: last_rev)

lemma trim_end_by_prefix: "prefix (trim_end_by p s) s"
  unfolding trim_end_by_def
  by (metis rev_rev_ident suffix_dropWhile suffix_to_prefix)

lemma prefix_hd: "prefix xs ys \<Longrightarrow> xs \<noteq> [] \<Longrightarrow> hd xs = hd ys"
  by (auto simp: prefix_def)

lemma trim_by_ends: "trim_by p s \<noteq> [] \<Longrightarrow> \<not> p (hd (trim_by p s)) \<and> \<not> p (last (trim_by p s))"
  unfolding trim_by_def trim_start_by_def
  using trim_end_by_last [of p "dropWhile p s"] dropWhile_hd [of p s]
    trim_end_by_prefix [of p "dropWhile p s"] prefix_hd [of "trim_end_by p (dropWhile p s)" "dropWhile p s"]
  by (cases "dropWhile p s = []") (auto simp: trim_end_by_def)

lemma trim_by_idem [simp]: "trim_by p (trim_by p s) = trim_by p s"
  by (rule trim_by_id) (use trim_by_ends in blast)

lemma trim_by_set: "set (trim_by p s) \<subseteq> set s"
  unfolding trim_by_def trim_start_by_def trim_end_by_def
  by (metis (no_types, lifting) set_dropWhileD set_rev subsetI)

text \<open>Doubling a quote character and undoing it.\<close>

definition double_quote :: "char \<Rightarrow> string \<Rightarrow> string" where
  "double_quote q s = concat (map (\<lambda>c. if c = q then [q, q] else [c]) s)"

lemma double_quote_simps [simp]:
  "double_quote q [] = []"
  "double_quote q (c # s) = (if c = q then q # q # double_quote q s else c # double_quote q s)"
  by (simp_all add: double_quote_def)

lemma replace_doubles: "replace_text [q] [q, q] s = double_quote q s"
  by (induction s) auto

lemma replace_undoubles: "replace_text [q, q] [q] (double_quote q s) = s"
proof (induction s)
  case (Cons c s)
  then show ?case by (cases s) auto
qed simp

text \<open>Decimal texts.\<close>

lemma digit_char_props: "n < 10 \<Longrightarrow> is_digit (digit_char n) \<and> digit_value (digit_char n) = n"
  by (simp add: is_digit_def digit_value_def digit_char_def code_point_def)

lemma show_nat_parse: "show_nat n \<noteq> [] \<and> list_all is_digit (show_nat n) \<and> digits_value (show_nat n) = n"
proof (induction n rule: less_induct)
  case (less n)
  show ?case
  proof (cases "n < 10")
    case True
    then show ?thesis
      using digit_char_props [of n] by (simp add: show_nat.simps [of n] digits_value_def)
  next
    case False
    then have "n div 10 < n" by simp
    from less.IH [OF this] False show ?thesis
      using digit_char_props [of "n mod 10"]
      by (simp add: show_nat.simps [of n] digits_value_def)
  qed
qed

lemma parse_digits_show [simp]: "parse_digits (show_nat n) = Some n"
  using show_nat_parse [of n] by (simp add: parse_digits_def)

lemma show_nat_sign: "show_nat n = c # cs \<Longrightarrow> c \<noteq> CHR ''-'' \<and> c \<noteq> CHR ''+''"
  using show_nat_parse [of n] by (auto simp: is_digit_def code_point_def)

lemma parse_int_show [simp]: "parse_int (show_int n) = Some n"
  using show_nat_sign [of "nat n"] show_nat_parse [of "nat n"] parse_digits_show [of "nat n"]
  by (cases "show_nat (nat n)") (auto simp: parse_int_def show_int_def)

lemma parse_i64_show: "in_i64 n \<Longrightarrow> parse_i64 (show_int n) = Some n"
  by (simp add: parse_i64_def)

lemma wrap32_id [simp]: "in_i32 x \<Longrightarrow> wrap32 x = x"
  by (auto simp: wrap32_def in_i32_def)

lemma parse_i64_range: "parse_i64 s = Some n \<Longrightarrow> in_i64 n"
  by (auto simp: parse_i64_def split: option.splits if_splits)

lemma parse_unsigned_show: "n < 2 ^ w \<Longrightarrow> parse_unsigned w (show_nat n) = Some n"
  using show_nat_sign [of n] show_nat_parse [of n] parse_digits_show [of n]
  by (cases "show_nat n") (auto simp: parse_unsigned_def)

text \<open>Words.\<close>

lemma words_from_clean:
  "list_all (\<lambda>c. \<not> is_ws c) acc \<Longrightarrow>
   list_all (\<lambda>w. w \<noteq> [] \<and> list_all (\<lambda>c. \<not> is_ws c) w) (words_from acc s)"
  by (induction acc s rule: words_from.induct) auto

lemma split_whitespace_clean:
  "list_all (\<lambda>w. w \<noteq> [] \<and> list_all (\<lambda>c. \<not> is_ws c) w) (split_whitespace s)"
  by (simp add: split_whitespace_def words_from_clean)

lemma words_from_word:
  "list_all (\<lambda>c. \<not> is_ws c) w \<Longrightarrow> words_from acc (w @ s) = words_from (rev w @ acc) s"
  by (induction w arbitrary: acc) auto

lemma split_whitespace_word:
  "w \<noteq> [] \<Longrightarrow> list_all (\<lambda>c. \<not> is_ws c) w \<Longrightarrow> is_ws c \<Longrightarrow>
   split_whitespace (w @ c # s) = w # split_whitespace s"
  by (simp add: split_whitespace_def words_from_word)

lemma split_whitespace_single:
  "w \<noteq> [] \<Longrightarrow> list_all (\<lambda>c. \<not> is_ws c) w \<Longrightarrow> split_whitespace w = [w]"
  using words_from_word [of w "[]" "[]"] by (simp add: split_whitespace_def)

lemma join_with_Cons: "join_with sep (x # y # ys) = x @ sep @ join_with sep (y # ys)"
  by (simp add: join_with_def)

lemma join_with_single [simp]: "join_with sep [x] = x" "join_with sep [] = []"
  by (simp_all add: join_with_def)

lemma split_whitespace_join:
  assumes "list_all (\<lambda>w. w \<noteq> [] \<and> list_all (\<lambda>c. \<not> is_ws c) w) ws"
  shows "split_whitespace (join_with '' '' ws) = ws"
  using assms
proof (induction ws)
  case (Cons w ws)
  show ?case
  proof (cases ws)
    case Nil
    then show ?thesis using Cons.prems by (simp add: split_whitespace_single)
  next
    case (Cons v vs)
    have "is_ws (CHR '' '')" by (simp add: is_ws_def)
    then show ?thesis
      using Cons.prems Cons.IH split_whitespace_word [of w "CHR '' ''" "join_with '' '' ws"] local.Cons
      by (simp add: join_with_Cons)
  qed
qed (simp add: split_whitespace_def)

lemma replace_text_absent: "pat \<noteq> [] \<Longrightarrow> hd pat \<notin> set s \<Longrightarrow> replace_text pat by s = s"
  by (induction s) (auto simp: prefix_Cons)

text \<open>An identifier in double quotes.\<close>

definition quote_ident :: "string \<Rightarrow> string" where
  "quote_ident s = dquote # double_quote dquote s @ [dquote]"

lemma double_quote_ends:
  "s \<noteq> [] \<Longrightarrow> double_quote q s \<noteq> [] \<and> hd (double_quote q s) = hd s \<and> last (double_quote q s) = last s"
  by (induction s) auto

lemma double_quote_set: "list_all P s \<Longrightarrow> P q \<Longrightarrow> list_all P (double_quote q s)"
  by (induction s) auto

lemma code_point_inj: "code_point c = code_point d \<longleftrightarrow> c = d"
  by (simp add: code_point_def)

lemma code_point_lower: "code_point (lower_char c) = (if is_ascii_upper c then code_point c + 32 else code_point c)"
  by (auto simp: lower_char_def is_ascii_upper_def code_point_def)

lemma is_digit_props: "is_digit c \<Longrightarrow> \<not> is_ws c \<and> lower_char c = c \<and> upper_char c = c \<and> c \<noteq> CHR ''-''"
  by (auto simp: is_digit_def is_ws_def lower_char_def upper_char_def is_ascii_upper_def
      is_ascii_lower_def code_point_def)

lemma show_int_chars: "show_int n \<noteq> [] \<and> list_all (\<lambda>c. is_digit c \<or> c = CHR ''-'') (show_int n)"
  using show_nat_parse [of "nat n"] show_nat_parse [of "nat (- n)"]
  by (auto simp: show_int_def list_all_iff)

lemma number_char_not_ws: "is_digit c \<or> c = CHR ''-'' \<Longrightarrow> \<not> is_ws c"
  by (auto simp: is_digit_def is_ws_def code_point_def)

lemma show_int_clean: "show_int n \<noteq> [] \<and> list_all (\<lambda>c. \<not> is_ws c) (show_int n)"
proof
  show "show_int n \<noteq> []" using show_int_chars [of n] by (rule conjunct1)
  show "list_all (\<lambda>c. \<not> is_ws c) (show_int n)"
    by (rule list.pred_mono_strong [OF show_int_chars [THEN conjunct2, of n]]) (rule number_char_not_ws)
qed

text \<open>A number is no keyword.\<close>

lemma show_int_not_word:
  assumes "is_ascii_lower (lower_char c)"
  shows "\<not> eq_ignore_ascii_case (show_int n) (c # cs)"
proof -
  obtain d ds where d: "show_int n = d # ds" using show_int_chars [of n] by (cases "show_int n") auto
  then have "is_digit d \<or> d = CHR ''-''" using show_int_chars [of n] by simp
  then have "\<not> is_ascii_lower (lower_char d)"
    by (auto simp: is_digit_props is_digit_def is_ascii_lower_def lower_char_def is_ascii_upper_def code_point_def)
  with assms d show ?thesis by (auto simp: eq_ignore_ascii_case_def to_ascii_lowercase_def)
qed

section \<open>String literals of SQL\<close>

definition sql_string_literal :: "string \<Rightarrow> string" where
  "sql_string_literal v = squote # replace_text [squote] [squote, squote] v @ [squote]"

lemma sql_string_literal_eq: "sql_string_literal v = squote # double_quote squote v @ [squote]"
  by (simp add: sql_string_literal_def replace_doubles)

section \<open>Errors of the wire protocol\<close>

text \<open>
  \<^verbatim>\<open>PgWireError\<close> as the gateway builds it: \<open>UserError\<close> carries severity, SQLSTATE and
  message of an \<^verbatim>\<open>ErrorInfo\<close>.
\<close>

datatype pg_wire_error =
    UserError string string string
  | UserNameRequired
  | NotReadyForQuery
  | PortalNotFound string
  | OtherWireError string

definition pg_error :: "string \<Rightarrow> string \<Rightarrow> pg_wire_error" where
  "pg_error code message = UserError ''ERROR'' code message"

end
