(* ===== verification/Cursor.thy ===== *)
theory Cursor
  imports Gateway_Prelude
begin

text \<open>
  SQL cursors (\<^verbatim>\<open>src/src/pg_server.rs\<close>, \<^verbatim>\<open>GatewayCursor\<close> and the batch helpers; the
  directions are \<^verbatim>\<open>CursorDirection\<close> of \<^verbatim>\<open>src/src/policy.rs\<close>). A cursor materialises the whole
  result of its query and keeps a position between \<open>-1\<close> (before the first row) and the number
  of rows (after the last row). The rows are either typed text rows (WebSocket transport) or
  Arrow record batches (Arrow transport).

  Arrow is a third-party crate: its operations are the fields of \<open>batch_ops\<close>, an argument of
  every definition that touches a batch, and the locale \<open>record_batch\<close> states what the code
  relies on. \<open>columnar_ops\<close> is a columnar implementation that satisfies the laws.
\<close>

section \<open>Data\<close>

datatype cursor_direction =
    Next | Prior | First | Last
  | Absolute int | Relative int
  | Forward "int option" | Backward "int option"
  | AllRows
  | Count int

type_synonym text_row = "string option list"

record ('b, 's, 'c) batch_ops =
  rb_num_rows :: "'b \<Rightarrow> nat"
  rb_slice :: "'b \<Rightarrow> nat \<Rightarrow> nat \<Rightarrow> 'b"
  rb_schema :: "'b \<Rightarrow> 's"
  rb_columns :: "'b \<Rightarrow> 'c list"
  rb_take :: "'c \<Rightarrow> nat list \<Rightarrow> 'c option"
  rb_try_new :: "'s \<Rightarrow> 'c list \<Rightarrow> 'b option"
  rb_empty_schema :: 's

datatype ('b, 's, 'col) cursor_data =
    ArrowData 's "'b list"
  | TypedData "'col list" "text_row list"

record ('b, 's, 'col) gateway_cursor =
  cur_data :: "('b, 's, 'col) cursor_data"
  cur_position :: int
  cur_scroll :: bool
  cur_hold :: bool

datatype 'b cursor_step_rows = ArrowStep "'b list" | TypedStep "text_row list"

record 'b cursor_step =
  step_rows :: "'b cursor_step_rows"
  step_count :: int

datatype ('s, 'col) cursor_metadata = ArrowMeta 's | TypedMeta "'col list"

section \<open>Batches\<close>

definition total_rows :: "('b, 's, 'c) batch_ops \<Rightarrow> 'b list \<Rightarrow> nat" where
  "total_rows ops batches = sum_list (map (rb_num_rows ops) batches) mod 2 ^ 64"

fun slice_loop :: "('b, 's, 'c) batch_ops \<Rightarrow> nat \<Rightarrow> nat \<Rightarrow> nat \<Rightarrow> 'b list \<Rightarrow> 'b list" where
  "slice_loop ops start end offset [] = []"
| "slice_loop ops start end offset (batch # batches) =
     (let len = rb_num_rows ops batch in
      if len = 0 then slice_loop ops start end offset batches
      else
        let batch_start = offset; batch_end = offset + len in
        if batch_end \<le> start then slice_loop ops start end batch_end batches
        else if batch_start \<ge> end then []
        else
          let local_start = start - batch_start;
              local_end = min (end - batch_start) len in
          if local_end > local_start
          then rb_slice ops batch local_start (local_end - local_start)
                 # slice_loop ops start end batch_end batches
          else slice_loop ops start end batch_end batches)"

definition slice_batches :: "('b, 's, 'c) batch_ops \<Rightarrow> 'b list \<Rightarrow> nat \<Rightarrow> nat \<Rightarrow> 'b list" where
  "slice_batches ops batches start end =
     (if start \<ge> end then [] else slice_loop ops start end 0 batches)"

text \<open>
  \<open>reverse_batch\<close> takes every column at the indices \<open>len-1, \<dots>, 0\<close> (the length is cast to 32
  bits) and rebuilds the batch; both steps are \<^verbatim>\<open>expect\<close>ed to succeed.
\<close>

definition reverse_batch :: "('b, 's, 'c) batch_ops \<Rightarrow> 'b \<Rightarrow> 'b exec" where
  "reverse_batch ops batch =
     (let len = rb_num_rows ops batch in
      if len \<le> 1 then Ret batch
      else
        let indices = rev [0..<len mod 2 ^ 32] in
        bind_exec (expect (those (map (\<lambda>col. rb_take ops col indices) (rb_columns ops batch))))
          (\<lambda>cols. expect (rb_try_new ops (rb_schema ops batch) cols)))"

fun reverse_each :: "('b, 's, 'c) batch_ops \<Rightarrow> 'b list \<Rightarrow> 'b list exec" where
  "reverse_each ops [] = Ret []"
| "reverse_each ops (b # bs) =
     bind_exec (reverse_batch ops b) (\<lambda>b'. bind_exec (reverse_each ops bs) (\<lambda>bs'. Ret (b' # bs')))"

text \<open>The loop pops slices off the end: the last slice comes first.\<close>

definition reverse_slice_batches ::
  "('b, 's, 'c) batch_ops \<Rightarrow> 'b list \<Rightarrow> nat \<Rightarrow> nat \<Rightarrow> 'b list exec" where
  "reverse_slice_batches ops batches start end =
     reverse_each ops (rev (slice_batches ops batches start end))"

definition cursor_schema_for :: "('b, 's, 'c) batch_ops \<Rightarrow> 'b list \<Rightarrow> 's" where
  "cursor_schema_for ops batches =
     (case batches of [] \<Rightarrow> rb_empty_schema ops | b # _ \<Rightarrow> rb_schema ops b)"

section \<open>Reading a cursor\<close>

fun empty_like :: "('b, 's, 'col) cursor_data \<Rightarrow> 'b cursor_step_rows" where
  "empty_like (ArrowData _ _) = ArrowStep []"
| "empty_like (TypedData _ _) = TypedStep []"

fun data_row_count :: "('b, 's, 'c) batch_ops \<Rightarrow> ('b, 's, 'col) cursor_data \<Rightarrow> nat" where
  "data_row_count ops (ArrowData _ batches) = total_rows ops batches"
| "data_row_count ops (TypedData _ rows) = length rows"

definition cursor_len ::
  "('b, 's, 'c) batch_ops \<Rightarrow> ('b, 's, 'col) cursor_data \<Rightarrow> (pg_wire_error, int) result" where
  "cursor_len ops d =
     (let n = int (data_row_count ops d) in
      if n \<le> i64_max then Inr n
      else Inl (pg_error ''54000'' ''cursor result set is too large''))"

fun slice_step_rows ::
  "('b, 's, 'c) batch_ops \<Rightarrow> ('b, 's, 'col) cursor_data \<Rightarrow> nat \<Rightarrow> nat \<Rightarrow> 'b cursor_step_rows"
where
  "slice_step_rows ops (ArrowData _ batches) start end =
     ArrowStep (slice_batches ops batches start end)"
| "slice_step_rows ops (TypedData _ rows) start end =
     TypedStep (if start \<ge> end \<or> start \<ge> length rows then []
                else take (min end (length rows) - start) (drop start rows))"

fun reverse_slice_step_rows ::
  "('b, 's, 'c) batch_ops \<Rightarrow> ('b, 's, 'col) cursor_data \<Rightarrow> nat \<Rightarrow> nat \<Rightarrow> 'b cursor_step_rows exec"
where
  "reverse_slice_step_rows ops (ArrowData _ batches) start end =
     map_exec ArrowStep (reverse_slice_batches ops batches start end)"
| "reverse_slice_step_rows ops (TypedData _ rows) start end =
     (let upper = min end (length rows) in
      Ret (TypedStep (if start \<ge> upper then []
                      else rev (take (upper - start) (drop start rows)))))"

fun step_rows_count :: "('b, 's, 'c) batch_ops \<Rightarrow> 'b cursor_step_rows \<Rightarrow> nat" where
  "step_rows_count ops (ArrowStep batches) = total_rows ops batches"
| "step_rows_count ops (TypedStep rows) = length rows"

definition current_row_step_rows ::
  "('b, 's, 'c) batch_ops \<Rightarrow> ('b, 's, 'col) gateway_cursor \<Rightarrow> 'b cursor_step_rows" where
  "current_row_step_rows ops c =
     (let total = int (data_row_count ops (cur_data c)); p = cur_position c in
      if p \<ge> 0 \<and> p < total then slice_step_rows ops (cur_data c) (nat p) (nat p + 1)
      else empty_like (cur_data c))"

fun cursor_metadata_of :: "('b, 's, 'col) cursor_data \<Rightarrow> ('s, 'col) cursor_metadata" where
  "cursor_metadata_of (ArrowData s _) = ArrowMeta s"
| "cursor_metadata_of (TypedData cols _) = TypedMeta cols"

section \<open>Moving a cursor\<close>

type_synonym ('b, 's, 'col) cursor_result =
  "(pg_wire_error, 'b cursor_step \<times> ('b, 's, 'col) gateway_cursor) result exec"

definition stay :: "'b cursor_step_rows \<Rightarrow> int \<Rightarrow> ('b, 's, 'col) gateway_cursor \<Rightarrow>
    ('b, 's, 'col) cursor_result" where
  "stay rows count c = Ret (Inr (\<lparr>step_rows = rows, step_count = count\<rparr>, c))"

text \<open>The \<open>count = 0\<close> branch, the same in \<^verbatim>\<open>forward\<close> and \<^verbatim>\<open>backward\<close>.\<close>

definition refetch :: "('b, 's, 'c) batch_ops \<Rightarrow> bool \<Rightarrow> ('b, 's, 'col) gateway_cursor \<Rightarrow>
    ('b, 's, 'col) cursor_result" where
  "refetch ops return_rows c =
     (let rows = (if return_rows then current_row_step_rows ops c else empty_like (cur_data c));
          count = (if return_rows then int (step_rows_count ops rows) else 0)
      in stay rows count c)"

definition clamp_pos :: "int \<Rightarrow> int \<Rightarrow> int" where
  "clamp_pos x hi = (if x < 0 then 0 else if x > hi then hi else x)"

definition forward_positive :: "('b, 's, 'c) batch_ops \<Rightarrow> int \<Rightarrow> int \<Rightarrow> bool \<Rightarrow>
    ('b, 's, 'col) gateway_cursor \<Rightarrow> ('b, 's, 'col) cursor_result" where
  "forward_positive ops len count return_rows c =
     (let start = clamp_pos (i64_add (cur_position c) 1) len in
      if start \<ge> len then stay (empty_like (cur_data c)) 0 (c\<lparr>cur_position := len\<rparr>)
      else
        let requested = min count (len - start);
            end = start + requested;
            rows = (if return_rows then slice_step_rows ops (cur_data c) (nat start) (nat end)
                    else empty_like (cur_data c));
            pos = (if requested < count then len else end - 1)
        in stay rows requested (c\<lparr>cur_position := pos\<rparr>))"

definition forward_all :: "('b, 's, 'c) batch_ops \<Rightarrow> int \<Rightarrow> bool \<Rightarrow>
    ('b, 's, 'col) gateway_cursor \<Rightarrow> ('b, 's, 'col) cursor_result" where
  "forward_all ops len return_rows c =
     (let start = clamp_pos (i64_add (cur_position c) 1) len;
          rows = (if return_rows \<and> start < len
                  then slice_step_rows ops (cur_data c) (nat start) (nat len)
                  else empty_like (cur_data c))
      in stay rows (len - start) (c\<lparr>cur_position := len\<rparr>))"

definition backward_start :: "int \<Rightarrow> int \<Rightarrow> int" where
  "backward_start len position = (if position \<ge> len then len - 1 else position - 1)"

definition backward_positive :: "('b, 's, 'c) batch_ops \<Rightarrow> int \<Rightarrow> int \<Rightarrow> bool \<Rightarrow>
    ('b, 's, 'col) gateway_cursor \<Rightarrow> ('b, 's, 'col) cursor_result" where
  "backward_positive ops len count return_rows c =
     (let start = backward_start len (cur_position c) in
      if start < 0 then stay (empty_like (cur_data c)) 0 (c\<lparr>cur_position := -1\<rparr>)
      else
        let requested = min count (start + 1);
            end = start - requested + 1;
            pos = (if requested < count then -1 else end)
        in bind_exec
             (if return_rows
              then reverse_slice_step_rows ops (cur_data c) (nat end) (nat (start + 1))
              else Ret (empty_like (cur_data c)))
             (\<lambda>rows. stay rows requested (c\<lparr>cur_position := pos\<rparr>)))"

definition backward_all :: "('b, 's, 'c) batch_ops \<Rightarrow> int \<Rightarrow> bool \<Rightarrow>
    ('b, 's, 'col) gateway_cursor \<Rightarrow> ('b, 's, 'col) cursor_result" where
  "backward_all ops len return_rows c =
     (let start = backward_start len (cur_position c) in
      if start < 0 then stay (empty_like (cur_data c)) 0 (c\<lparr>cur_position := -1\<rparr>)
      else
        bind_exec
          (if return_rows
           then reverse_slice_step_rows ops (cur_data c) 0 (nat (start + 1))
           else Ret (empty_like (cur_data c)))
          (\<lambda>rows. stay rows (start + 1) (c\<lparr>cur_position := -1\<rparr>)))"

text \<open>
  \<^verbatim>\<open>forward\<close> and \<^verbatim>\<open>backward\<close> call each other on a negative count with the count negated. The
  negation wraps, so on \<open>i64_min\<close> they call each other forever; \<open>fuel\<close> bounds the depth.
\<close>

fun forward :: "nat \<Rightarrow> ('b, 's, 'c) batch_ops \<Rightarrow> int option \<Rightarrow> bool \<Rightarrow>
    ('b, 's, 'col) gateway_cursor \<Rightarrow> ('b, 's, 'col) cursor_result"
  and backward :: "nat \<Rightarrow> ('b, 's, 'c) batch_ops \<Rightarrow> int option \<Rightarrow> bool \<Rightarrow>
    ('b, 's, 'col) gateway_cursor \<Rightarrow> ('b, 's, 'col) cursor_result"
where
  "forward 0 ops count return_rows c = Diverge"
| "forward (Suc fuel) ops count return_rows c =
     (case cursor_len ops (cur_data c) of
        Inl e \<Rightarrow> Ret (Inl e)
      | Inr len \<Rightarrow>
          (case count of
             Some n \<Rightarrow>
               if n < 0 then backward fuel ops (Some (i64_neg n)) return_rows c
               else if n = 0 then refetch ops return_rows c
               else forward_positive ops len n return_rows c
           | None \<Rightarrow> forward_all ops len return_rows c))"
| "backward 0 ops count return_rows c = Diverge"
| "backward (Suc fuel) ops count return_rows c =
     (case cursor_len ops (cur_data c) of
        Inl e \<Rightarrow> Ret (Inl e)
      | Inr len \<Rightarrow>
          (case count of
             Some n \<Rightarrow>
               if n < 0 then forward fuel ops (Some (i64_neg n)) return_rows c
               else if n = 0 then refetch ops return_rows c
               else backward_positive ops len n return_rows c
           | None \<Rightarrow> backward_all ops len return_rows c))"

declare forward.simps [simp del] backward.simps [simp del]

definition seek :: "('b, 's, 'c) batch_ops \<Rightarrow> int \<Rightarrow> bool \<Rightarrow>
    ('b, 's, 'col) gateway_cursor \<Rightarrow> ('b, 's, 'col) cursor_result" where
  "seek ops target return_rows c =
     (case cursor_len ops (cur_data c) of
        Inl e \<Rightarrow> Ret (Inl e)
      | Inr len \<Rightarrow>
          if target < 0 then stay (empty_like (cur_data c)) 0 (c\<lparr>cur_position := -1\<rparr>)
          else if target \<ge> len then stay (empty_like (cur_data c)) 0 (c\<lparr>cur_position := len\<rparr>)
          else
            let rows = (if return_rows
                        then slice_step_rows ops (cur_data c) (nat target) (nat target + 1)
                        else empty_like (cur_data c))
            in stay rows 1 (c\<lparr>cur_position := target\<rparr>))"

definition absolute :: "('b, 's, 'c) batch_ops \<Rightarrow> int \<Rightarrow> bool \<Rightarrow>
    ('b, 's, 'col) gateway_cursor \<Rightarrow> ('b, 's, 'col) cursor_result" where
  "absolute ops target return_rows c =
     (case cursor_len ops (cur_data c) of
        Inl e \<Rightarrow> Ret (Inl e)
      | Inr len \<Rightarrow>
          if target = 0 then stay (empty_like (cur_data c)) 0 (c\<lparr>cur_position := -1\<rparr>)
          else seek ops (if target > 0 then target - 1 else i64_add len target) return_rows c)"

definition relative :: "('b, 's, 'c) batch_ops \<Rightarrow> int \<Rightarrow> bool \<Rightarrow>
    ('b, 's, 'col) gateway_cursor \<Rightarrow> ('b, 's, 'col) cursor_result" where
  "relative ops offset return_rows c =
     seek ops (i64_add (cur_position c) offset) return_rows c"

fun direction_requires_scroll :: "cursor_direction \<Rightarrow> bool" where
  "direction_requires_scroll Prior = True"
| "direction_requires_scroll First = True"
| "direction_requires_scroll Last = True"
| "direction_requires_scroll (Absolute _) = True"
| "direction_requires_scroll (Relative _) = True"
| "direction_requires_scroll (Backward _) = True"
| "direction_requires_scroll (Count count) = (count < 0)"
| "direction_requires_scroll _ = False"

definition apply_cursor :: "nat \<Rightarrow> ('b, 's, 'c) batch_ops \<Rightarrow> cursor_direction \<Rightarrow> bool \<Rightarrow>
    ('b, 's, 'col) gateway_cursor \<Rightarrow> ('b, 's, 'col) cursor_result" where
  "apply_cursor fuel ops direction return_rows c =
     (if \<not> cur_scroll c \<and> direction_requires_scroll direction
      then Ret (Inl (pg_error ''0A000'' ''cursor was declared NO SCROLL''))
      else
        (case direction of
           Next \<Rightarrow> forward fuel ops (Some 1) return_rows c
         | Prior \<Rightarrow> backward fuel ops (Some 1) return_rows c
         | First \<Rightarrow> absolute ops 1 return_rows c
         | Last \<Rightarrow> absolute ops (-1) return_rows c
         | Absolute target \<Rightarrow> absolute ops target return_rows c
         | Relative offset \<Rightarrow> relative ops offset return_rows c
         | Forward count \<Rightarrow> forward fuel ops count return_rows c
         | Backward count \<Rightarrow> backward fuel ops count return_rows c
         | AllRows \<Rightarrow> forward fuel ops None return_rows c
         | Count count \<Rightarrow>
             if count < 0 then backward fuel ops (Some (i64_neg count)) return_rows c
             else forward fuel ops (Some count) return_rows c))"

section \<open>What the code relies on of a record batch\<close>

definition batch_rows ::
  "('b, 's, 'c) batch_ops \<Rightarrow> ('c \<Rightarrow> nat \<Rightarrow> 'v) \<Rightarrow> 'b \<Rightarrow> 'v list list" where
  "batch_rows ops cell b =
     map (\<lambda>i. map (\<lambda>col. cell col i) (rb_columns ops b)) [0..<rb_num_rows ops b]"

lemma length_batch_rows [simp]: "length (batch_rows ops cell b) = rb_num_rows ops b"
  by (simp add: batch_rows_def)

lemma nth_batch_rows [simp]:
  "i < rb_num_rows ops b \<Longrightarrow>
     batch_rows ops cell b ! i = map (\<lambda>col. cell col i) (rb_columns ops b)"
  by (simp add: batch_rows_def)

lemma those_Some_iff: "those xs = Some ys \<longleftrightarrow> xs = map Some ys"
proof (induction xs arbitrary: ys)
  case Nil
  show ?case by auto
next
  case (Cons x xs)
  show ?case by (cases x; cases ys) (auto simp: Cons.IH)
qed

text \<open>
  A well-formed batch (\<open>wf\<close>) has a column, fewer than \<open>2 ^ 32\<close> rows and columns as long as
  the batch that agree with its schema (\<open>fits\<close>). \<open>cell\<close> reads one value of a column.
\<close>

locale record_batch =
  fixes ops :: "('b, 's, 'c) batch_ops"
    and wf :: "'b \<Rightarrow> bool"
    and cell :: "'c \<Rightarrow> nat \<Rightarrow> 'v"
    and arr_len :: "'c \<Rightarrow> nat"
    and fits :: "'s \<Rightarrow> 'c list \<Rightarrow> bool"
  assumes column_len: "wf b \<Longrightarrow> col \<in> set (rb_columns ops b) \<Longrightarrow> arr_len col = rb_num_rows ops b"
    and has_columns: "wf b \<Longrightarrow> rb_columns ops b \<noteq> []"
    and rows_bound: "wf b \<Longrightarrow> rb_num_rows ops b < 2 ^ 32"
    and schema_fits: "wf b \<Longrightarrow> fits (rb_schema ops b) (rb_columns ops b)"
    and slice_shape: "wf b \<Longrightarrow> off + n \<le> rb_num_rows ops b \<Longrightarrow>
          rb_num_rows ops (rb_slice ops b off n) = n \<and>
          length (rb_columns ops (rb_slice ops b off n)) = length (rb_columns ops b)"
    and slice_wf: "wf b \<Longrightarrow> off + n \<le> rb_num_rows ops b \<Longrightarrow> wf (rb_slice ops b off n)"
    and slice_cell: "wf b \<Longrightarrow> off + n \<le> rb_num_rows ops b \<Longrightarrow> i < n \<Longrightarrow>
          k < length (rb_columns ops b) \<Longrightarrow>
          cell (rb_columns ops (rb_slice ops b off n) ! k) i = cell (rb_columns ops b ! k) (off + i)"
    and take_defined: "(\<And>i. i \<in> set ix \<Longrightarrow> i < arr_len col) \<Longrightarrow> \<exists>col'. rb_take ops col ix = Some col'"
    and take_len: "rb_take ops col ix = Some col' \<Longrightarrow> arr_len col' = length ix"
    and take_cell: "rb_take ops col ix = Some col' \<Longrightarrow> j < length ix \<Longrightarrow>
          cell col' j = cell col (ix ! j)"
    and take_fits: "fits s cols \<Longrightarrow> map (\<lambda>col. rb_take ops col ix) cols = map Some cols' \<Longrightarrow>
          fits s cols'"
    and try_new_defined: "cols \<noteq> [] \<Longrightarrow> fits s cols \<Longrightarrow> n < 2 ^ 32 \<Longrightarrow>
          (\<And>col. col \<in> set cols \<Longrightarrow> arr_len col = n) \<Longrightarrow>
          \<exists>b. rb_try_new ops s cols = Some b \<and> wf b \<and> rb_columns ops b = cols \<and>
              rb_num_rows ops b = n"
begin

lemma slice_rows:
  assumes "wf b" and "off + n \<le> rb_num_rows ops b"
  shows "batch_rows ops cell (rb_slice ops b off n) = take n (drop off (batch_rows ops cell b))"
proof (rule nth_equalityI)
  show "length (batch_rows ops cell (rb_slice ops b off n))
      = length (take n (drop off (batch_rows ops cell b)))"
    using assms slice_shape by simp
next
  fix i
  assume "i < length (batch_rows ops cell (rb_slice ops b off n))"
  then have i: "i < n" using assms slice_shape by simp
  have "map (\<lambda>col. cell col i) (rb_columns ops (rb_slice ops b off n))
      = map (\<lambda>col. cell col (off + i)) (rb_columns ops b)"
    by (rule nth_equalityI) (use assms slice_shape slice_cell i in auto)
  then show "batch_rows ops cell (rb_slice ops b off n) ! i
      = take n (drop off (batch_rows ops cell b)) ! i"
    using assms i slice_shape by simp
qed

lemma slice_loop_rows:
  assumes "list_all wf bs" and "start < end"
  shows "concat (map (batch_rows ops cell) (slice_loop ops start end offset bs))
       = take (end - max start offset) (drop (start - offset) (concat (map (batch_rows ops cell) bs)))"
  using assms(1)
proof (induction bs arbitrary: offset)
  case Nil
  then show ?case by simp
next
  case (Cons b bs)
  let ?n = "rb_num_rows ops b"
  let ?R = "batch_rows ops cell b"
  let ?T = "concat (map (batch_rows ops cell) bs)"
  from Cons.prems have wf: "wf b" and IH: "\<And>off. concat (map (batch_rows ops cell) (slice_loop ops start end off bs))
       = take (end - max start off) (drop (start - off) ?T)"
    using Cons.IH by auto
  consider "?n = 0" | "?n \<noteq> 0" "offset + ?n \<le> start" | "?n \<noteq> 0" "start < offset + ?n" "end \<le> offset"
    | "?n \<noteq> 0" "start < offset + ?n" "offset < end"
    by linarith
  then show ?case
  proof cases
    case 1
    then have "?R = []" by (simp add: batch_rows_def)
    with 1 IH show ?thesis by (simp add: Let_def)
  next
    case 2
    then show ?thesis by (simp add: Let_def IH)
  next
    case 3
    then show ?thesis by (simp add: Let_def)
  next
    case 4
    let ?ls = "start - offset"
    let ?le = "min (end - offset) ?n"
    from 4 assms(2) have lt: "?ls < ?le" and le: "?ls + (?le - ?ls) \<le> ?n" by auto
    have tail: "take (end - max start (offset + ?n)) (drop (start - (offset + ?n)) ?T)
        = take (end - (offset + ?n)) ?T"
      using 4 by (simp add: max_def)
    have "concat (map (batch_rows ops cell) (slice_loop ops start end offset (b # bs)))
        = take (?le - ?ls) (drop ?ls ?R) @ take (end - (offset + ?n)) ?T"
      using 4 lt by (simp add: Let_def IH tail slice_rows [OF wf le])
    also have "\<dots> = take (end - max start offset) (drop ?ls (?R @ ?T))"
    proof (cases "end - offset \<le> ?n")
      case True
      then have "end - (offset + ?n) = 0" and "?le - ?ls = end - max start offset" by auto
      then show ?thesis using True 4 by (simp add: max_def)
    next
      case False
      then have "?le - ?ls = ?n - ?ls" and "end - (offset + ?n) = (end - max start offset) - (?n - ?ls)"
        using 4 by auto
      moreover have "?n - ?ls \<le> end - max start offset" using False 4 by auto
      ultimately show ?thesis using False 4 lt by (simp add: min_def)
    qed
    finally show ?thesis by simp
  qed
qed

lemma slice_batches_rows:
  assumes "list_all wf bs"
  shows "concat (map (batch_rows ops cell) (slice_batches ops bs start end))
       = take (end - start) (drop start (concat (map (batch_rows ops cell) bs)))"
  using assms by (simp add: slice_batches_def slice_loop_rows)

lemma slice_loop_wf: "list_all wf bs \<Longrightarrow> list_all wf (slice_loop ops start end offset bs)"
  by (induction bs arbitrary: offset) (auto simp: Let_def intro!: slice_wf)

lemma slice_batches_wf: "list_all wf bs \<Longrightarrow> list_all wf (slice_batches ops bs start end)"
  by (simp add: slice_batches_def slice_loop_wf)

lemma reverse_batch_rows:
  assumes wf: "wf b"
  shows "\<exists>b'. reverse_batch ops b = Ret b' \<and> wf b' \<and>
           batch_rows ops cell b' = rev (batch_rows ops cell b)"
proof (cases "rb_num_rows ops b \<le> 1")
  case True
  then have "rev (batch_rows ops cell b) = batch_rows ops cell b"
    by (cases "batch_rows ops cell b"; cases "tl (batch_rows ops cell b)")
       (auto simp flip: length_batch_rows [of ops cell])
  with True wf show ?thesis by (simp add: reverse_batch_def)
next
  case False
  let ?n = "rb_num_rows ops b"
  let ?ix = "rev [0..<?n]"
  have n: "?n mod 2 ^ 32 = ?n" using rows_bound [OF wf] by simp
  have "\<forall>col \<in> set (rb_columns ops b). \<exists>col'. rb_take ops col ?ix = Some col'"
    using column_len [OF wf] by (auto intro!: take_defined)
  then obtain f where f: "\<And>col. col \<in> set (rb_columns ops b) \<Longrightarrow> rb_take ops col ?ix = Some (f col)"
    by metis
  let ?cols = "map f (rb_columns ops b)"
  have tk: "map (\<lambda>col. rb_take ops col ?ix) (rb_columns ops b) = map Some ?cols"
    using f by simp
  have len: "col \<in> set ?cols \<Longrightarrow> arr_len col = ?n" for col
    using take_len [OF f] by auto
  obtain b' where b': "rb_try_new ops (rb_schema ops b) ?cols = Some b'" "wf b'"
      "rb_columns ops b' = ?cols" "rb_num_rows ops b' = ?n"
    using try_new_defined [OF _ take_fits [OF schema_fits [OF wf] tk] rows_bound [OF wf] len]
      has_columns [OF wf] by auto
  have "batch_rows ops cell b' = rev (batch_rows ops cell b)"
  proof (rule nth_equalityI)
    fix i assume "i < length (batch_rows ops cell b')"
    then have i: "i < ?n" using b' by simp
    have "cell (f col) i = cell col (?n - Suc i)" if "col \<in> set (rb_columns ops b)" for col
      using take_cell [OF f [OF that], of i] i by (simp add: rev_nth)
    then show "batch_rows ops cell b' ! i = rev (batch_rows ops cell b) ! i"
      using i b' by (simp add: rev_nth)
  qed (simp add: b')
  moreover have "reverse_batch ops b = Ret b'"
  proof -
    have "those (map (\<lambda>col. rb_take ops col (rev [0..<?n mod 2 ^ 32])) (rb_columns ops b)) = Some ?cols"
      unfolding n those_Some_iff by (rule tk)
    with False b'(1) show ?thesis unfolding reverse_batch_def Let_def by simp
  qed
  ultimately show ?thesis using b' by blast
qed

lemma reverse_each_rows:
  "list_all wf bs \<Longrightarrow> \<exists>bs'. reverse_each ops bs = Ret bs' \<and> list_all wf bs' \<and>
     map (batch_rows ops cell) bs' = map (\<lambda>b. rev (batch_rows ops cell b)) bs"
proof (induction bs)
  case Nil
  then show ?case by simp
next
  case (Cons b bs)
  then obtain bs' where "reverse_each ops bs = Ret bs'" "list_all wf bs'"
      "map (batch_rows ops cell) bs' = map (\<lambda>b. rev (batch_rows ops cell b)) bs"
    by auto
  moreover obtain b' where "reverse_batch ops b = Ret b'" "wf b'"
      "batch_rows ops cell b' = rev (batch_rows ops cell b)"
    using reverse_batch_rows Cons.prems by auto
  ultimately show ?case by simp
qed

lemma reverse_slice_batches_rows:
  assumes "list_all wf bs"
  shows "\<exists>bs'. reverse_slice_batches ops bs start end = Ret bs' \<and> list_all wf bs' \<and>
           concat (map (batch_rows ops cell) bs')
             = rev (take (end - start) (drop start (concat (map (batch_rows ops cell) bs))))"
proof -
  have "list_all wf (rev (slice_batches ops bs start end))"
    using slice_batches_wf [OF assms] by (simp add: list_all_iff)
  then obtain bs' where bs': "reverse_slice_batches ops bs start end = Ret bs'" "list_all wf bs'"
      "map (batch_rows ops cell) bs'
         = map (\<lambda>b. rev (batch_rows ops cell b)) (rev (slice_batches ops bs start end))"
    using reverse_each_rows unfolding reverse_slice_batches_def by blast
  moreover have "concat (map (\<lambda>b. rev (batch_rows ops cell b)) (rev xs))
      = rev (concat (map (batch_rows ops cell) xs))" for xs
    by (induction xs) auto
  ultimately show ?thesis using slice_batches_rows [OF assms] by simp
qed

end

section \<open>A columnar implementation of the batch interface\<close>

text \<open>
  Columns are lists of cells. Slicing cuts every column, \<open>take\<close> gathers indices (and fails on
  an index out of range), and a batch is built from a schema only when there is a column, all
  columns have one length and there are as many as the schema has fields.
\<close>

record 'v columnar =
  cb_fields :: "string list"
  cb_cols :: "'v list list"
  cb_rows :: nat

definition columnar_take :: "'v list \<Rightarrow> nat list \<Rightarrow> 'v list option" where
  "columnar_take col ix =
     (if list_all (\<lambda>i. i < length col) ix then Some (map (nth col) ix) else None)"

definition columnar_try_new :: "string list \<Rightarrow> 'v list list \<Rightarrow> 'v columnar option" where
  "columnar_try_new s cols =
     (case cols of [] \<Rightarrow> None
      | col # _ \<Rightarrow>
          if length s = length cols \<and> list_all (\<lambda>c. length c = length col) cols
          then Some \<lparr>cb_fields = s, cb_cols = cols, cb_rows = length col\<rparr> else None)"

definition columnar_ops :: "('v columnar, string list, 'v list) batch_ops" where
  "columnar_ops =
     \<lparr>rb_num_rows = cb_rows,
      rb_slice = (\<lambda>b off n. b\<lparr>cb_cols := map (\<lambda>c. take n (drop off c)) (cb_cols b), cb_rows := n\<rparr>),
      rb_schema = cb_fields,
      rb_columns = cb_cols,
      rb_take = columnar_take,
      rb_try_new = columnar_try_new,
      rb_empty_schema = []\<rparr>"

definition columnar_wf :: "'v columnar \<Rightarrow> bool" where
  "columnar_wf b \<longleftrightarrow> cb_cols b \<noteq> [] \<and> length (cb_fields b) = length (cb_cols b) \<and>
     list_all (\<lambda>c. length c = cb_rows b) (cb_cols b) \<and> cb_rows b < 2 ^ 32"

definition columnar_fits :: "string list \<Rightarrow> 'v list list \<Rightarrow> bool" where
  "columnar_fits s cols \<longleftrightarrow> length s = length cols"

lemmas columnar_defs =
  columnar_ops_def columnar_wf_def columnar_fits_def columnar_take_def columnar_try_new_def

interpretation cb: record_batch columnar_ops columnar_wf "nth :: 'v list \<Rightarrow> nat \<Rightarrow> 'v" length columnar_fits
proof unfold_locales
  fix s :: "string list" and cols cols' :: "'v list list" and ix
  assume "columnar_fits s cols"
    and "map (\<lambda>col. rb_take columnar_ops col ix) cols = map Some cols'"
  then show "columnar_fits s cols'"
    by (auto simp: columnar_fits_def dest!: arg_cong [where f = length])
next
  fix cols :: "'v list list" and s :: "string list" and n :: nat
  assume "cols \<noteq> []" "columnar_fits s cols" "n < 2 ^ 32"
    and "\<And>col. col \<in> set cols \<Longrightarrow> length col = n"
  then show "\<exists>b. rb_try_new columnar_ops s cols = Some b \<and> columnar_wf b \<and>
      rb_columns columnar_ops b = cols \<and> rb_num_rows columnar_ops b = n"
    by (cases cols) (auto simp: columnar_defs list_all_iff)
qed (auto simp: columnar_defs list_all_iff split: if_splits)

section \<open>The rows behind a cursor\<close>

fun data_rows :: "('b, 's, 'c) batch_ops \<Rightarrow> ('c \<Rightarrow> nat \<Rightarrow> string option) \<Rightarrow>
    ('b, 's, 'col) cursor_data \<Rightarrow> text_row list" where
  "data_rows ops cell (ArrowData _ bs) = concat (map (batch_rows ops cell) bs)"
| "data_rows ops cell (TypedData _ rows) = rows"

fun step_view :: "('b, 's, 'c) batch_ops \<Rightarrow> ('c \<Rightarrow> nat \<Rightarrow> string option) \<Rightarrow>
    'b cursor_step_rows \<Rightarrow> text_row list" where
  "step_view ops cell (ArrowStep bs) = concat (map (batch_rows ops cell) bs)"
| "step_view ops cell (TypedStep rows) = rows"

fun data_wf :: "('b \<Rightarrow> bool) \<Rightarrow> ('b, 's, 'col) cursor_data \<Rightarrow> bool" where
  "data_wf ok (ArrowData _ bs) = list_all ok bs"
| "data_wf ok (TypedData _ rows) = True"

text \<open>
  The invariant of a cursor: its batches are well formed, the row count fits in \<^verbatim>\<open>isize\<close> with
  room for the position after the last row, and the position is on a row or next to one.
\<close>

definition cursor_inv :: "('b, 's, 'c) batch_ops \<Rightarrow> ('b \<Rightarrow> bool) \<Rightarrow> ('c \<Rightarrow> nat \<Rightarrow> string option) \<Rightarrow>
    ('b, 's, 'col) gateway_cursor \<Rightarrow> bool" where
  "cursor_inv ops ok cell c \<longleftrightarrow> data_wf ok (cur_data c) \<and>
     int (length (data_rows ops cell (cur_data c))) < i64_max \<and>
     -1 \<le> cur_position c \<and> cur_position c \<le> int (length (data_rows ops cell (cur_data c)))"

lemma step_view_empty_like [simp]: "step_view ops cell (empty_like d) = []"
  by (cases d) simp_all

section \<open>Reference behaviour\<close>

text \<open>
  What the directions mean on a list of rows: the rows returned, in the order returned, and the
  position afterwards. \<open>spec_forward\<close> and \<open>spec_backward\<close> take a positive count.
\<close>

definition spec_forward :: "'r list \<Rightarrow> int \<Rightarrow> int \<Rightarrow> 'r list \<times> int" where
  "spec_forward xs n p =
     (let got = take (nat n) (drop (nat (p + 1)) xs)
      in (got, if int (length got) < n then int (length xs) else p + n))"

definition spec_backward :: "'r list \<Rightarrow> int \<Rightarrow> int \<Rightarrow> 'r list \<times> int" where
  "spec_backward xs n p =
     (let got = take (nat n) (rev (take (nat p) xs))
      in (got, if int (length got) < n then -1 else p - n))"

definition spec_seek :: "'r list \<Rightarrow> int \<Rightarrow> 'r list \<times> int" where
  "spec_seek xs t =
     (if t < 0 then ([], -1) else if t \<ge> int (length xs) then ([], int (length xs))
      else ([xs ! nat t], t))"

definition spec_refetch :: "'r list \<Rightarrow> int \<Rightarrow> 'r list \<times> int" where
  "spec_refetch xs p = (if 0 \<le> p \<and> p < int (length xs) then [xs ! nat p] else [], p)"

definition spec_move :: "'r list \<Rightarrow> int \<Rightarrow> int \<Rightarrow> 'r list \<times> int" where
  "spec_move xs n p =
     (if n = 0 then spec_refetch xs p
      else if n > 0 then spec_forward xs n p else spec_backward xs (- n) p)"

fun spec_apply :: "'r list \<Rightarrow> cursor_direction \<Rightarrow> int \<Rightarrow> 'r list \<times> int" where
  "spec_apply xs Next p = spec_move xs 1 p"
| "spec_apply xs Prior p = spec_move xs (-1) p"
| "spec_apply xs First p = spec_seek xs 0"
| "spec_apply xs Last p = spec_seek xs (int (length xs) - 1)"
| "spec_apply xs (Absolute t) p =
     (if t = 0 then ([], -1) else if t > 0 then spec_seek xs (t - 1)
      else spec_seek xs (int (length xs) + t))"
| "spec_apply xs (Relative k) p = spec_seek xs (p + k)"
| "spec_apply xs (Forward (Some n)) p = spec_move xs n p"
| "spec_apply xs (Forward None) p = (drop (nat (p + 1)) xs, int (length xs))"
| "spec_apply xs (Backward (Some n)) p = spec_move xs (- n) p"
| "spec_apply xs (Backward None) p = (rev (take (nat p) xs), -1)"
| "spec_apply xs AllRows p = (drop (nat (p + 1)) xs, int (length xs))"
| "spec_apply xs (Count n) p = spec_move xs n p"

text \<open>
  The arguments for which no 64-bit operation of the code overflows: every count is an
  \<^verbatim>\<open>i64\<close> other than the least one, and a relative target stays in range.
\<close>

fun no_overflow :: "cursor_direction \<Rightarrow> int \<Rightarrow> bool" where
  "no_overflow (Absolute t) p = in_i64 t"
| "no_overflow (Relative k) p = in_i64 (p + k)"
| "no_overflow (Forward (Some n)) p = (in_i64 n \<and> n \<noteq> i64_min)"
| "no_overflow (Backward (Some n)) p = (in_i64 n \<and> n \<noteq> i64_min)"
| "no_overflow (Count n) p = (in_i64 n \<and> n \<noteq> i64_min)"
| "no_overflow _ p = True"

text \<open>A direction that asks for the current row again; \<^verbatim>\<open>MOVE\<close> then reports 0.\<close>

fun is_refetch :: "cursor_direction \<Rightarrow> bool" where
  "is_refetch (Forward (Some n)) = (n = 0)"
| "is_refetch (Backward (Some n)) = (n = 0)"
| "is_refetch (Count n) = (n = 0)"
| "is_refetch _ = False"

section \<open>The code against the reference behaviour\<close>

text \<open>
  The relation between a result of the code and the reference: the rows seen by the client are
  the reference's rows, the count is their number, and only the position of the cursor changes.
  \<open>moved\<close> is the same for \<^verbatim>\<open>MOVE\<close>, which returns no row.
\<close>

definition fetched :: "('b, 's, 'c) batch_ops \<Rightarrow> ('c \<Rightarrow> nat \<Rightarrow> string option) \<Rightarrow>
    ('b, 's, 'col) gateway_cursor \<Rightarrow> text_row list \<times> int \<Rightarrow> ('b, 's, 'col) cursor_result \<Rightarrow> bool" where
  "fetched ops cell c spec res \<longleftrightarrow>
     (\<exists>step. res = Ret (Inr (step, c\<lparr>cur_position := snd spec\<rparr>)) \<and>
        step_view ops cell (step_rows step) = fst spec \<and>
        step_count step = int (length (fst spec)))"

definition moved :: "('b, 's, 'col) gateway_cursor \<Rightarrow> int \<Rightarrow> int \<Rightarrow> ('b, 's, 'col) cursor_result \<Rightarrow> bool"
where
  "moved c n p res \<longleftrightarrow>
     res = Ret (Inr (\<lparr>step_rows = empty_like (cur_data c), step_count = n\<rparr>, c\<lparr>cur_position := p\<rparr>))"

lemma fetched_stay:
  "step_view ops cell rows = fst spec \<Longrightarrow> n = int (length (fst spec)) \<Longrightarrow>
     c' = c\<lparr>cur_position := snd spec\<rparr> \<Longrightarrow> fetched ops cell c spec (stay rows n c')"
  by (simp add: fetched_def stay_def)

lemma take_Suc_drop: "i < length xs \<Longrightarrow> take (Suc 0) (drop i xs) = [xs ! i]"
  by (simp add: take_Suc_conv_app_nth flip: Cons_nth_drop_Suc)

lemma direction_cases [case_names Next Prior First Last Absolute Relative ForwardAll Forward
    BackwardAll Backward AllRows Count]:
  obtains "d = Next" | "d = Prior" | "d = First" | "d = Last" | t where "d = Absolute t"
    | k where "d = Relative k" | "d = Forward None" | n where "d = Forward (Some n)"
    | "d = Backward None" | n where "d = Backward (Some n)" | "d = AllRows" | n where "d = Count n"
  by (metis cursor_direction.exhaust option.exhaust)

context record_batch
begin

lemma length_concat_rows:
  "length (concat (map (batch_rows ops cell) bs)) = sum_list (map (rb_num_rows ops) bs)"
  by (simp add: length_concat comp_def)

end

locale text_batch = record_batch ops ok cell arr_len fits
  for ops :: "('b, 's, 'c) batch_ops" and ok :: "'b \<Rightarrow> bool"
    and cell :: "'c \<Rightarrow> nat \<Rightarrow> string option" and arr_len :: "'c \<Rightarrow> nat"
    and fits :: "'s \<Rightarrow> 'c list \<Rightarrow> bool"
begin

lemma row_count:
  "int (length (data_rows ops cell d)) < i64_max \<Longrightarrow>
     data_row_count ops d = length (data_rows ops cell d)"
  by (cases d) (simp_all add: total_rows_def length_concat_rows [symmetric] i64_max_def)

lemma len_eq:
  "int (length (data_rows ops cell d)) < i64_max \<Longrightarrow>
     cursor_len ops d = Inr (int (length (data_rows ops cell d)))"
  by (simp add: cursor_len_def row_count Let_def)

lemma slice_view:
  "data_wf ok d \<Longrightarrow>
     step_view ops cell (slice_step_rows ops d s e) = take (e - s) (drop s (data_rows ops cell d))"
  by (cases d) (auto simp: slice_batches_rows min_def)

lemma reverse_view:
  assumes "data_wf ok d"
  obtains r where "reverse_slice_step_rows ops d s e = Ret r"
    and "step_view ops cell r = rev (take (e - s) (drop s (data_rows ops cell d)))"
proof (cases d)
  case (ArrowData sch bs)
  then show ?thesis
    using reverse_slice_batches_rows [of bs s e] assms that by auto
next
  case (TypedData cols rows)
  then show ?thesis using that by (auto simp: min_def Let_def)
qed

lemma count_view:
  "length (step_view ops cell r) < 2 ^ 64 \<Longrightarrow>
     step_rows_count ops r = length (step_view ops cell r)"
  by (cases r) (simp_all add: total_rows_def length_concat_rows [symmetric])

lemma refetch_spec:
  assumes inv: "cursor_inv ops ok cell c"
  shows "fetched ops cell c (spec_refetch (data_rows ops cell (cur_data c)) (cur_position c))
           (refetch ops True c)"
    and "moved c 0 (cur_position c) (refetch ops False c)"
proof -
  let ?xs = "data_rows ops cell (cur_data c)"
  let ?p = "cur_position c"
  have cnt: "data_row_count ops (cur_data c) = length ?xs"
    using inv by (simp add: cursor_inv_def row_count)
  have view: "step_view ops cell (current_row_step_rows ops c) = fst (spec_refetch ?xs ?p)"
    using inv by (auto simp: current_row_step_rows_def cnt spec_refetch_def slice_view
        cursor_inv_def take_Suc_drop Let_def)
  have "length (fst (spec_refetch ?xs ?p)) < 2 ^ 64"
    by (simp add: spec_refetch_def)
  then have "step_rows_count ops (current_row_step_rows ops c) = length (fst (spec_refetch ?xs ?p))"
    using view count_view by metis
  then show "fetched ops cell c (spec_refetch ?xs ?p) (refetch ops True c)"
    using view by (simp add: refetch_def fetched_stay spec_refetch_def)
  show "moved c 0 ?p (refetch ops False c)"
    by (simp add: refetch_def moved_def stay_def)
qed

lemma forward_positive_spec:
  assumes inv: "cursor_inv ops ok cell c" and n: "0 < n"
    and xs: "xs = data_rows ops cell (cur_data c)"
  shows "fetched ops cell c (spec_forward xs n (cur_position c))
           (forward_positive ops (int (length xs)) n True c)"
    and "moved c (int (length (fst (spec_forward xs n (cur_position c)))))
           (snd (spec_forward xs n (cur_position c)))
           (forward_positive ops (int (length xs)) n False c)"
proof -
  let ?p = "cur_position c"
  have p: "-1 \<le> ?p" "?p \<le> int (length xs)" and wf: "data_wf ok (cur_data c)"
    and add: "i64_add ?p 1 = ?p + 1"
    using inv by (auto simp: cursor_inv_def xs in_i64_def i64_min_def i64_max_def)
  note defs = forward_positive_def add clamp_pos_def spec_forward_def Let_def
  show "fetched ops cell c (spec_forward xs n ?p) (forward_positive ops (int (length xs)) n True c)"
    unfolding defs using p n wf
    by (auto simp: slice_view xs [symmetric] min_def nat_diff_distrib' nat_add_distrib
        intro!: fetched_stay)
  show "moved c (int (length (fst (spec_forward xs n ?p)))) (snd (spec_forward xs n ?p))
          (forward_positive ops (int (length xs)) n False c)"
    unfolding defs moved_def stay_def using p n by auto
qed

lemma forward_all_spec:
  assumes inv: "cursor_inv ops ok cell c"
    and xs: "xs = data_rows ops cell (cur_data c)"
  shows "fetched ops cell c (drop (nat (cur_position c + 1)) xs, int (length xs))
           (forward_all ops (int (length xs)) True c)"
    and "moved c (int (length (drop (nat (cur_position c + 1)) xs))) (int (length xs))
           (forward_all ops (int (length xs)) False c)"
proof -
  let ?p = "cur_position c"
  have p: "-1 \<le> ?p" "?p \<le> int (length xs)" and wf: "data_wf ok (cur_data c)"
    and add: "i64_add ?p 1 = ?p + 1"
    using inv by (auto simp: cursor_inv_def xs in_i64_def i64_min_def i64_max_def)
  note defs = forward_all_def add clamp_pos_def Let_def
  show "fetched ops cell c (drop (nat (?p + 1)) xs, int (length xs))
          (forward_all ops (int (length xs)) True c)"
    unfolding defs using p wf by (auto simp: slice_view xs [symmetric] intro!: fetched_stay)
  show "moved c (int (length (drop (nat (?p + 1)) xs))) (int (length xs))
          (forward_all ops (int (length xs)) False c)"
    unfolding defs moved_def stay_def using p by auto
qed

lemma rev_take_suffix:
  "m \<le> k \<Longrightarrow> k \<le> length xs \<Longrightarrow> rev (take m (drop (k - m) xs)) = take m (rev (take k xs))"
  by (simp add: rev_take rev_drop drop_take)

lemma backward_spec:
  assumes inv: "cursor_inv ops ok cell c" and n: "0 < n"
    and xs: "xs = data_rows ops cell (cur_data c)"
  shows "fetched ops cell c (spec_backward xs n (cur_position c))
           (backward_positive ops (int (length xs)) n True c)"
    and "moved c (int (length (fst (spec_backward xs n (cur_position c)))))
           (snd (spec_backward xs n (cur_position c)))
           (backward_positive ops (int (length xs)) n False c)"
    and "fetched ops cell c (rev (take (nat (cur_position c)) xs), -1)
           (backward_all ops (int (length xs)) True c)"
    and "moved c (int (length (rev (take (nat (cur_position c)) xs)))) (-1)
           (backward_all ops (int (length xs)) False c)"
proof -
  let ?p = "cur_position c"
  have p: "-1 \<le> ?p" "?p \<le> int (length xs)" and wf: "data_wf ok (cur_data c)"
    using inv by (auto simp: cursor_inv_def xs)
  note defs = backward_positive_def backward_all_def backward_start_def spec_backward_def Let_def
  have view: "\<exists>r. reverse_slice_step_rows ops (cur_data c) (nat a) (nat b) = Ret r \<and>
      step_view ops cell r = take (nat (b - a)) (rev (take (nat b) xs))"
    if "0 \<le> a" "a \<le> b" "b \<le> int (length xs)" for a b
  proof -
    obtain r where "reverse_slice_step_rows ops (cur_data c) (nat a) (nat b) = Ret r"
        "step_view ops cell r = rev (take (nat b - nat a) (drop (nat a) xs))"
      using reverse_view [OF wf, of "nat a" "nat b"] xs by metis
    moreover have "nat b - nat a = nat (b - a)" "nat a = nat b - nat (b - a)"
        "nat (b - a) \<le> nat b" "nat b \<le> length xs"
      using that by auto
    ultimately show ?thesis
      using rev_take_suffix [of "nat (b - a)" "nat b" xs] by metis
  qed
  show "fetched ops cell c (spec_backward xs n ?p) (backward_positive ops (int (length xs)) n True c)"
  proof (cases "?p \<le> 0")
    case True
    then have "backward_start (int (length xs)) ?p < 0"
      using p by (cases xs) (auto simp: backward_start_def)
    then show ?thesis
      unfolding backward_positive_def spec_backward_def Let_def using True n
      by (auto intro!: fetched_stay)
  next
    case False
    define m where "m = min n ?p"
    have start: "backward_start (int (length xs)) ?p = ?p - 1"
      using p by (simp add: backward_start_def)
    obtain r where r: "reverse_slice_step_rows ops (cur_data c) (nat (?p - m)) (nat ?p) = Ret r"
        "step_view ops cell r = take (nat m) (rev (take (nat ?p) xs))"
      using view [of "?p - m" ?p] False p n by (auto simp: m_def)
    have "take (nat m) (rev (take (nat ?p) xs)) = take (nat n) (rev (take (nat ?p) xs))"
      using p by (auto simp: m_def min_def intro!: take_all [symmetric])
    with r p n False show ?thesis
      unfolding backward_positive_def start spec_backward_def Let_def
      by (auto simp: m_def min_def split: if_splits intro!: fetched_stay)
  qed
  show "moved c (int (length (fst (spec_backward xs n ?p)))) (snd (spec_backward xs n ?p))
          (backward_positive ops (int (length xs)) n False c)"
    unfolding defs moved_def stay_def using p n by auto
  show "fetched ops cell c (rev (take (nat ?p) xs), -1) (backward_all ops (int (length xs)) True c)"
    unfolding defs using p view [of 0 ?p] by (auto intro!: fetched_stay)
  show "moved c (int (length (rev (take (nat ?p) xs)))) (-1)
          (backward_all ops (int (length xs)) False c)"
    unfolding defs moved_def stay_def using p by auto
qed

lemma seek_spec:
  assumes inv: "cursor_inv ops ok cell c"
    and xs: "xs = data_rows ops cell (cur_data c)"
  shows "fetched ops cell c (spec_seek xs t) (seek ops t True c)"
    and "moved c (int (length (fst (spec_seek xs t)))) (snd (spec_seek xs t)) (seek ops t False c)"
proof -
  have len: "cursor_len ops (cur_data c) = Inr (int (length xs))" and wf: "data_wf ok (cur_data c)"
    using inv by (auto simp: cursor_inv_def xs len_eq)
  show "fetched ops cell c (spec_seek xs t) (seek ops t True c)"
    unfolding seek_def len spec_seek_def Let_def using wf
    by (auto simp: slice_view xs [symmetric] take_Suc_drop intro!: fetched_stay)
  show "moved c (int (length (fst (spec_seek xs t)))) (snd (spec_seek xs t)) (seek ops t False c)"
    unfolding seek_def len spec_seek_def Let_def moved_def stay_def by auto
qed

lemma forward_backward_step:
  assumes inv: "cursor_inv ops ok cell c" and n: "in_i64 n" "n \<noteq> i64_min"
    and xs: "xs = data_rows ops cell (cur_data c)"
  shows "forward (Suc (Suc fuel)) ops (Some n) rr c =
           (if n = 0 then refetch ops rr c
            else if n > 0 then forward_positive ops (int (length xs)) n rr c
            else backward_positive ops (int (length xs)) (- n) rr c)"
    and "backward (Suc (Suc fuel)) ops (Some n) rr c =
           (if n = 0 then refetch ops rr c
            else if n > 0 then backward_positive ops (int (length xs)) n rr c
            else forward_positive ops (int (length xs)) (- n) rr c)"
    and "forward (Suc fuel) ops None rr c = forward_all ops (int (length xs)) rr c"
    and "backward (Suc fuel) ops None rr c = backward_all ops (int (length xs)) rr c"
proof -
  have "cursor_len ops (cur_data c) = Inr (int (length xs))"
    using inv by (auto simp: cursor_inv_def xs len_eq)
  then show "forward (Suc (Suc fuel)) ops (Some n) rr c =
           (if n = 0 then refetch ops rr c
            else if n > 0 then forward_positive ops (int (length xs)) n rr c
            else backward_positive ops (int (length xs)) (- n) rr c)"
    and "backward (Suc (Suc fuel)) ops (Some n) rr c =
           (if n = 0 then refetch ops rr c
            else if n > 0 then backward_positive ops (int (length xs)) n rr c
            else forward_positive ops (int (length xs)) (- n) rr c)"
    and "forward (Suc fuel) ops None rr c = forward_all ops (int (length xs)) rr c"
    and "backward (Suc fuel) ops None rr c = backward_all ops (int (length xs)) rr c"
    using i64_neg_id [OF n] by (simp_all add: forward.simps backward.simps)
qed

lemma move_spec:
  assumes inv: "cursor_inv ops ok cell c" and n: "in_i64 n" "n \<noteq> i64_min"
    and xs: "xs = data_rows ops cell (cur_data c)"
  shows "fetched ops cell c (spec_move xs n (cur_position c)) (forward (Suc (Suc fuel)) ops (Some n) True c)"
    and "fetched ops cell c (spec_move xs (- n) (cur_position c)) (backward (Suc (Suc fuel)) ops (Some n) True c)"
    and "moved c (if n = 0 then 0 else int (length (fst (spec_move xs n (cur_position c)))))
           (snd (spec_move xs n (cur_position c))) (forward (Suc (Suc fuel)) ops (Some n) False c)"
    and "moved c (if n = 0 then 0 else int (length (fst (spec_move xs (- n) (cur_position c)))))
           (snd (spec_move xs (- n) (cur_position c))) (backward (Suc (Suc fuel)) ops (Some n) False c)"
proof -
  note step = forward_backward_step [OF inv n xs]
  note r = refetch_spec [OF inv, folded xs]
  have snd_r: "snd (spec_refetch xs p) = p" for p by (simp add: spec_refetch_def)
  show "fetched ops cell c (spec_move xs n (cur_position c)) (forward (Suc (Suc fuel)) ops (Some n) True c)"
    using r forward_positive_spec [OF inv _ xs, of n] backward_spec(1) [OF inv _ xs, of "- n"]
    by (auto simp: step spec_move_def)
  show "fetched ops cell c (spec_move xs (- n) (cur_position c)) (backward (Suc (Suc fuel)) ops (Some n) True c)"
    using r forward_positive_spec [OF inv _ xs, of "- n"] backward_spec(1) [OF inv _ xs, of n]
    by (auto simp: step spec_move_def)
  show "moved c (if n = 0 then 0 else int (length (fst (spec_move xs n (cur_position c)))))
           (snd (spec_move xs n (cur_position c))) (forward (Suc (Suc fuel)) ops (Some n) False c)"
    using r forward_positive_spec(2) [OF inv _ xs, of n] backward_spec(2) [OF inv _ xs, of "- n"]
    by (auto simp: step spec_move_def snd_r)
  show "moved c (if n = 0 then 0 else int (length (fst (spec_move xs (- n) (cur_position c)))))
           (snd (spec_move xs (- n) (cur_position c))) (backward (Suc (Suc fuel)) ops (Some n) False c)"
    using r forward_positive_spec(2) [OF inv _ xs, of "- n"] backward_spec(2) [OF inv _ xs, of n]
    by (auto simp: step spec_move_def snd_r)
qed

lemma absolute_spec:
  assumes inv: "cursor_inv ops ok cell c" and t: "in_i64 t"
    and xs: "xs = data_rows ops cell (cur_data c)"
  shows "fetched ops cell c (spec_apply xs (Absolute t) (cur_position c)) (absolute ops t True c)"
    and "moved c (int (length (fst (spec_apply xs (Absolute t) (cur_position c)))))
           (snd (spec_apply xs (Absolute t) (cur_position c))) (absolute ops t False c)"
proof -
  have len: "cursor_len ops (cur_data c) = Inr (int (length xs))"
    and l: "int (length xs) < i64_max"
    using inv by (auto simp: cursor_inv_def xs len_eq)
  have add: "i64_add (int (length xs)) t = int (length xs) + t" if "t \<le> 0"
    using l t that by (simp add: in_i64_def i64_max_def i64_min_def)
  show "fetched ops cell c (spec_apply xs (Absolute t) (cur_position c)) (absolute ops t True c)"
    using seek_spec(1) [OF inv xs]
    by (auto simp: absolute_def len add intro!: fetched_stay)
  show "moved c (int (length (fst (spec_apply xs (Absolute t) (cur_position c)))))
           (snd (spec_apply xs (Absolute t) (cur_position c))) (absolute ops t False c)"
    using seek_spec(2) [OF inv xs]
    by (auto simp: absolute_def len add moved_def stay_def)
qed

lemma apply_spec:
  assumes inv: "cursor_inv ops ok cell c" and ov: "no_overflow d (cur_position c)"
    and scroll: "cur_scroll c \<or> \<not> direction_requires_scroll d"
    and xs: "xs = data_rows ops cell (cur_data c)"
  shows "fetched ops cell c (spec_apply xs d (cur_position c))
           (apply_cursor (Suc (Suc fuel)) ops d True c)"
    and "moved c (if is_refetch d then 0 else int (length (fst (spec_apply xs d (cur_position c)))))
           (snd (spec_apply xs d (cur_position c)))
           (apply_cursor (Suc (Suc fuel)) ops d False c)"
proof -
  have one: "in_i64 1" "(1::int) \<noteq> i64_min" "in_i64 (-1)"
    by (simp_all add: in_i64_def i64_min_def i64_max_def)
  have neg: "in_i64 (- n)" "- n \<noteq> i64_min" "i64_neg n = - n"
    if "in_i64 n" "n \<noteq> i64_min" for n
    using that by (auto simp: in_i64_def i64_min_def i64_max_def i64_neg_id)
  note all = forward_all_spec [OF inv xs] backward_spec(3,4) [OF inv _ xs, of 1]
    forward_backward_step(3,4) [OF inv one(1,2) xs]
  note fb = move_spec [OF inv _ _ xs]
  have cnt: "fetched ops cell c (spec_move xs n (cur_position c))
        (backward (Suc (Suc fuel)) ops (Some (- n)) True c)"
      "moved c (if n = 0 then 0 else int (length (fst (spec_move xs n (cur_position c)))))
        (snd (spec_move xs n (cur_position c))) (backward (Suc (Suc fuel)) ops (Some (- n)) False c)"
    if "in_i64 n" "n \<noteq> i64_min" for n
    using fb(2,4) [OF neg(1,2) [OF that]] by auto
  have sc: "\<not> (\<not> cur_scroll c \<and> direction_requires_scroll d)" using scroll by blast
  note ap = apply_cursor_def if_not_P [OF sc]
  show "fetched ops cell c (spec_apply xs d (cur_position c))
           (apply_cursor (Suc (Suc fuel)) ops d True c)"
    unfolding ap using ov one fb(1,2) [OF one(1,2)] all
      absolute_spec(1) [OF inv one(1) xs, simplified] absolute_spec(1) [OF inv one(3) xs, simplified]
    by (cases d rule: direction_cases)
       (auto simp: relative_def neg simp del: spec_apply.simps(5)
          intro: fb(1,2) cnt(1) seek_spec(1) [OF inv xs] absolute_spec(1) [OF inv _ xs])
  show "moved c (if is_refetch d then 0 else int (length (fst (spec_apply xs d (cur_position c)))))
           (snd (spec_apply xs d (cur_position c)))
           (apply_cursor (Suc (Suc fuel)) ops d False c)"
    unfolding ap using ov one fb(3,4) [OF one(1,2), simplified] all
      absolute_spec(2) [OF inv one(1) xs, simplified] absolute_spec(2) [OF inv one(3) xs, simplified]
      seek_spec(2) [OF inv xs, of "cur_position c + k" for k]
    by (cases d rule: direction_cases)
       (auto simp: relative_def neg simp del: spec_apply.simps(5)
          dest: fb(3,4) cnt(2) intro: absolute_spec(2) [OF inv _ xs])
qed

end

interpretation ct: text_batch columnar_ops columnar_wf "nth :: string option list \<Rightarrow> nat \<Rightarrow> string option"
  length columnar_fits
  by unfold_locales

section \<open>Positions, without any assumption on the batches\<close>

text \<open>
  The position invariant needs nothing of Arrow: it holds for any \<open>batch_ops\<close> and for any
  argument, overflow included.
\<close>

definition pos_ok :: "('b, 's, 'c) batch_ops \<Rightarrow> ('b, 's, 'col) gateway_cursor \<Rightarrow> bool" where
  "pos_ok ops c \<longleftrightarrow> (\<exists>len. cursor_len ops (cur_data c) = Inr len \<and>
     -1 \<le> cur_position c \<and> cur_position c \<le> len)"

definition same_source :: "('b, 's, 'col) gateway_cursor \<Rightarrow> ('b, 's, 'col) gateway_cursor \<Rightarrow> bool" where
  "same_source c c' \<longleftrightarrow> cur_data c' = cur_data c \<and> cur_scroll c' = cur_scroll c \<and>
     cur_hold c' = cur_hold c"

lemma bind_exec_Ret: "bind_exec x f = Ret y \<longleftrightarrow> (\<exists>a. x = Ret a \<and> f a = Ret y)"
  by (cases x) auto

lemma cursor_len_nonneg: "cursor_len ops d = Inr len \<Longrightarrow> 0 \<le> len \<and> len \<le> i64_max"
  by (auto simp: cursor_len_def Let_def split: if_splits)

lemmas move_defs = forward_positive_def forward_all_def backward_positive_def backward_all_def
  refetch_def stay_def clamp_pos_def backward_start_def

lemma forward_positive_pos:
  assumes "cursor_len ops (cur_data c) = Inr len" "pos_ok ops c" "\<not> n < 0" "n \<noteq> 0"
    and "forward_positive ops len n rr c = Ret (Inr (step, c'))"
  shows "pos_ok ops c' \<and> same_source c c' \<and> (cur_position c < i64_max \<longrightarrow> cur_position c \<le> cur_position c')"
proof -
  let ?p = "cur_position c"
  have n: "0 < n" using assms by simp
  have len: "0 \<le> len" "len \<le> i64_max" "-1 \<le> ?p" "?p \<le> len"
    using assms(1,2) cursor_len_nonneg [OF assms(1)] by (auto simp: pos_ok_def)
  define q where "q = clamp_pos (i64_add ?p 1) len"
  have q: "0 \<le> q" "q \<le> len" using len by (auto simp: q_def clamp_pos_def)
  have mono: "?p \<le> q" if "?p < i64_max"
    using that len by (auto simp: q_def clamp_pos_def in_i64_def i64_min_def)
  define pos where "pos = (if q \<ge> len then len else if len - q < n then len else q + n - 1)"
  have c': "c' = c\<lparr>cur_position := pos\<rparr>"
    using assms(5) unfolding forward_positive_def stay_def Let_def q_def [symmetric]
    by (auto simp: pos_def min_def split: if_splits)
  have "-1 \<le> pos" "pos \<le> len" "q \<le> pos"
    using q n len by (auto simp: pos_def)
  with c' assms(1) mono show ?thesis
    by (auto simp: pos_ok_def same_source_def)
qed

lemma forward_all_pos:
  assumes "cursor_len ops (cur_data c) = Inr len" "pos_ok ops c"
    and "forward_all ops len rr c = Ret (Inr (step, c'))"
  shows "pos_ok ops c' \<and> same_source c c' \<and> cur_position c \<le> cur_position c'"
  using assms cursor_len_nonneg [OF assms(1)]
  by (auto simp: pos_ok_def same_source_def move_defs Let_def split: if_splits)

lemma backward_pos:
  assumes "cursor_len ops (cur_data c) = Inr len" "pos_ok ops c"
  shows "\<not> n < 0 \<Longrightarrow> n \<noteq> 0 \<Longrightarrow> backward_positive ops len n rr c = Ret (Inr (step, c')) \<Longrightarrow> pos_ok ops c' \<and> same_source c c'"
    and "backward_all ops len rr c = Ret (Inr (step, c')) \<Longrightarrow> pos_ok ops c' \<and> same_source c c'"
  using assms cursor_len_nonneg [OF assms(1)]
  by (auto simp: pos_ok_def same_source_def move_defs Let_def bind_exec_Ret split: if_splits)

lemma refetch_pos:
  "refetch ops rr c = Ret (Inr (step, c')) \<Longrightarrow> c' = c"
  by (auto simp: refetch_def stay_def Let_def)

lemma forward_backward_pos:
  assumes "pos_ok ops c"
  shows "forward fuel ops n rr c = Ret (Inr (step, c')) \<Longrightarrow> pos_ok ops c' \<and> same_source c c'"
    and "backward fuel ops n rr c = Ret (Inr (step, c')) \<Longrightarrow> pos_ok ops c' \<and> same_source c c'"
proof (induction fuel arbitrary: n)
  case 0
  { case 1 then show ?case by (simp add: forward.simps) }
  { case 2 then show ?case by (simp add: backward.simps) }
next
  case (Suc fuel)
  have refl: "pos_ok ops c \<and> same_source c c" using assms by (simp add: same_source_def)
  { case 1
    then show ?case
      using Suc.IH assms refl
      by (auto simp: forward.simps dest: refetch_pos forward_positive_pos [OF _ assms]
          forward_all_pos [OF _ assms] split: sum.splits option.splits if_splits) }
  { case 2
    then show ?case
      using Suc.IH assms refl
      by (auto simp: backward.simps dest: refetch_pos backward_pos [OF _ assms]
          split: sum.splits option.splits if_splits) }
qed

lemma seek_pos:
  "pos_ok ops c \<Longrightarrow> seek ops t rr c = Ret (Inr (step, c')) \<Longrightarrow> pos_ok ops c' \<and> same_source c c'"
  by (auto simp: seek_def pos_ok_def same_source_def stay_def Let_def dest: cursor_len_nonneg
      split: sum.splits if_splits)

lemma before_first_pos:
  "pos_ok ops c \<Longrightarrow> pos_ok ops (c\<lparr>cur_position := -1\<rparr>) \<and> same_source c (c\<lparr>cur_position := -1\<rparr>)"
  by (auto simp: pos_ok_def same_source_def dest: cursor_len_nonneg)

lemma absolute_pos:
  "pos_ok ops c \<Longrightarrow> absolute ops t rr c = Ret (Inr (step, c')) \<Longrightarrow> pos_ok ops c' \<and> same_source c c'"
  by (auto simp: absolute_def stay_def dest: before_first_pos seek_pos split: sum.splits if_splits)

lemma forward_monotone:
  assumes "pos_ok ops c" "cursor_len ops (cur_data c) = Inr len" "len < i64_max"
    and "\<And>k. n = Some k \<Longrightarrow> \<not> k < 0" and "forward fuel ops n rr c = Ret (Inr (step, c'))"
  shows "cur_position c \<le> cur_position c'"
proof -
  have lt: "cur_position c < i64_max" using assms by (auto simp: pos_ok_def)
  obtain f where f: "fuel = Suc f" using assms(5) by (cases fuel) (auto simp: forward.simps)
  show ?thesis
  proof (cases n)
    case None
    then show ?thesis
      using assms(5) f assms(2) forward_all_pos [OF assms(2,1)] by (auto simp: forward.simps)
  next
    case (Some k)
    then show ?thesis
      using assms(2,4,5) f lt forward_positive_pos [OF assms(2,1), of k]
      by (auto simp: forward.simps dest: refetch_pos split: if_splits)
  qed
qed

lemma apply_cursor_pos:
  assumes "pos_ok ops c" and "apply_cursor fuel ops d rr c = Ret (Inr (step, c'))"
  shows "pos_ok ops c' \<and> same_source c c'"
  using assms forward_backward_pos [OF assms(1)] absolute_pos [OF assms(1)] seek_pos [OF assms(1)]
  by (cases d) (auto simp: apply_cursor_def relative_def split: if_splits)

text \<open>A step returns rows of the kind the cursor holds.\<close>

fun step_fits :: "('b, 's, 'col) cursor_data \<Rightarrow> 'b cursor_step_rows \<Rightarrow> bool" where
  "step_fits (ArrowData _ _) (ArrowStep _) = True"
| "step_fits (TypedData _ _) (TypedStep _) = True"
| "step_fits _ _ = False"

lemma step_fits_rows [simp]: "step_fits d (empty_like d)" "step_fits d (slice_step_rows ops d i j)"
  by (cases d; simp)+

lemma step_fits_current [simp]: "step_fits (cur_data c) (current_row_step_rows ops c)"
  by (simp add: current_row_step_rows_def Let_def)

lemma step_fits_reverse: "reverse_slice_step_rows ops d i j = Ret rows \<Longrightarrow> step_fits d rows"
  by (cases d; cases "reverse_slice_batches ops (case d of ArrowData _ bs \<Rightarrow> bs | _ \<Rightarrow> []) i j") (auto simp: Let_def)

lemma move_fits:
  "forward_positive ops len n rr c = Ret (Inr (step, c')) \<Longrightarrow> step_fits (cur_data c) (step_rows step)"
  "forward_all ops len rr c = Ret (Inr (step, c')) \<Longrightarrow> step_fits (cur_data c) (step_rows step)"
  "backward_positive ops len n rr c = Ret (Inr (step, c')) \<Longrightarrow> step_fits (cur_data c) (step_rows step)"
  "backward_all ops len rr c = Ret (Inr (step, c')) \<Longrightarrow> step_fits (cur_data c) (step_rows step)"
  "refetch ops rr c = Ret (Inr (step, c')) \<Longrightarrow> step_fits (cur_data c) (step_rows step)"
  "seek ops i rr c = Ret (Inr (step, c')) \<Longrightarrow> step_fits (cur_data c) (step_rows step)"
  "absolute ops i rr c = Ret (Inr (step, c')) \<Longrightarrow> step_fits (cur_data c) (step_rows step)"
  by (auto simp: move_defs seek_def absolute_def Let_def bind_exec_Ret split: if_splits sum.splits dest: step_fits_reverse)

lemma forward_backward_fits:
  "forward fuel ops count rr c = Ret (Inr (step, c')) \<Longrightarrow> step_fits (cur_data c) (step_rows step)"
  "backward fuel ops count rr c = Ret (Inr (step, c')) \<Longrightarrow> step_fits (cur_data c) (step_rows step)"
proof (induction fuel arbitrary: count)
  case (Suc fuel)
  { case 1 then show ?case using Suc.IH move_fits by (auto simp: forward.simps split: sum.splits option.splits if_splits) }
  { case 2 then show ?case using Suc.IH move_fits by (auto simp: backward.simps split: sum.splits option.splits if_splits) }
qed (simp_all add: forward.simps backward.simps)

lemma apply_cursor_fits:
  "apply_cursor fuel ops d rr c = Ret (Inr (step, c')) \<Longrightarrow> step_fits (cur_data c) (step_rows step)"
  using forward_backward_fits move_fits
  by (cases d) (auto simp: apply_cursor_def relative_def split: if_splits)

section \<open>Properties of cursors\<close>

text \<open>A cursor over three rows held in two Arrow batches, for the witnesses.\<close>

definition demo_cursor :: "int \<Rightarrow> (string option columnar, string list, unit) gateway_cursor" where
  "demo_cursor p =
     \<lparr>cur_data = ArrowData [''ID'']
        [\<lparr>cb_fields = [''ID''], cb_cols = [[Some ''1'', Some ''2'']], cb_rows = 2\<rparr>,
         \<lparr>cb_fields = [''ID''], cb_cols = [[None]], cb_rows = 1\<rparr>],
      cur_position = p, cur_scroll = True, cur_hold = False\<rparr>"

lemma demo_rows: "data_rows columnar_ops nth (cur_data (demo_cursor p)) = [[Some ''1''], [Some ''2''], [None]]"
  by (simp add: demo_cursor_def batch_rows_def columnar_ops_def upt_rec numeral_2_eq_2)

lemma demo_inv: "-1 \<le> p \<Longrightarrow> p \<le> 3 \<Longrightarrow> cursor_inv columnar_ops columnar_wf nth (demo_cursor p)"
  unfolding cursor_inv_def demo_rows
  by (simp add: demo_cursor_def columnar_wf_def i64_max_def)

text \<open>
  C2. FETCH refines the list specification on both transports. For any Arrow implementation
  that meets the batch laws, any cursor that satisfies the invariant and any direction whose
  arithmetic does not overflow, \<^verbatim>\<open>apply\<close> returns (fuel 2 is enough, it neither panics nor runs
  forever): the rows the client sees are exactly those of \<open>spec_apply\<close>, in its order, the
  count is their number, and only the position changes, to the one \<open>spec_apply\<close> gives.
\<close>

theorem fetch_refines_spec:
  assumes "text_batch ops ok cell arr_len fits"
    and "cursor_inv ops ok cell c" and "no_overflow d (cur_position c)"
    and "cur_scroll c \<or> \<not> direction_requires_scroll d"
  shows "\<exists>step. apply_cursor (Suc (Suc fuel)) ops d True c =
           Ret (Inr (step, c\<lparr>cur_position := snd (spec_apply (data_rows ops cell (cur_data c)) d (cur_position c))\<rparr>)) \<and>
         step_view ops cell (step_rows step) = fst (spec_apply (data_rows ops cell (cur_data c)) d (cur_position c)) \<and>
         step_count step = int (length (fst (spec_apply (data_rows ops cell (cur_data c)) d (cur_position c))))"
  using text_batch.apply_spec(1) [OF assms refl] by (simp add: fetched_def)

theorem fetch_refines_spec_witness:
  "\<exists>step. apply_cursor 2 columnar_ops (Backward (Some 5)) True (demo_cursor 2) =
      Ret (Inr (step, demo_cursor (-1))) \<and>
    step_view columnar_ops nth (step_rows step) = [[Some ''2''], [Some ''1'']] \<and> step_count step = 2"
  using fetch_refines_spec [OF ct.text_batch_axioms demo_inv [of 2], of "Backward (Some 5)" 0]
  by (simp add: demo_rows)
     (simp add: demo_cursor_def spec_move_def spec_backward_def in_i64_def i64_min_def i64_max_def
       numeral_2_eq_2)



fun fetch_chunks :: "('b, 's, 'c) batch_ops \<Rightarrow> ('c \<Rightarrow> nat \<Rightarrow> string option) \<Rightarrow> int list \<Rightarrow>
    ('b, 's, 'col) gateway_cursor \<Rightarrow> text_row list option" where
  "fetch_chunks ops cell [] c = Some []"
| "fetch_chunks ops cell (n # ns) c =
     (case apply_cursor 2 ops (Forward (Some n)) True c of
        Ret (Inr (step, c')) \<Rightarrow>
          map_option (\<lambda>rows. step_view ops cell (step_rows step) @ rows) (fetch_chunks ops cell ns c')
      | _ \<Rightarrow> None)"

lemma fetch_chunks_from:
  assumes "text_batch ops ok cell arr_len fits" and "cursor_inv ops ok cell c"
    and "list_all (\<lambda>n. 0 < n \<and> n \<le> i64_max) ns"
    and "xs = data_rows ops cell (cur_data c)"
  shows "fetch_chunks ops cell ns c =
           Some (take (nat (sum_list ns)) (drop (nat (cur_position c + 1)) xs))"
  using assms(2-4)
proof (induction ns arbitrary: c)
  case Nil
  then show ?case by simp
next
  case (Cons n ns)
  let ?p = "cur_position c"
  let ?c = "c\<lparr>cur_position := snd (spec_forward xs n ?p)\<rparr>"
  from Cons.prems have n: "0 < n" "n \<le> i64_max" and ns: "list_all (\<lambda>n. 0 < n \<and> n \<le> i64_max) ns"
    and p: "-1 \<le> ?p" "?p \<le> int (length xs)" by (auto simp: cursor_inv_def)
  have "no_overflow (Forward (Some n)) ?p"
    using n by (simp add: in_i64_def i64_min_def i64_max_def)
  from text_batch.apply_spec(1) [OF assms(1) Cons.prems(1) this _ refl, of 0] n Cons.prems(3)
  obtain step where step: "apply_cursor 2 ops (Forward (Some n)) True c = Ret (Inr (step, ?c))"
      "step_view ops cell (step_rows step) = take (nat n) (drop (nat (?p + 1)) xs)"
    by (auto simp: fetched_def spec_move_def numeral_2_eq_2 spec_forward_def Let_def)
  have inv: "cursor_inv ops ok cell ?c"
    using Cons.prems p n by (auto simp: cursor_inv_def spec_forward_def Let_def)
  have pos: "0 \<le> sum_list ns" using ns by (induction ns) auto
  have "Suc (nat (n + ?p)) = nat n + nat (1 + ?p)" using p n by arith
  then have "take (nat n) (drop (nat (?p + 1)) xs) @
      take (nat (sum_list ns)) (drop (nat (snd (spec_forward xs n ?p) + 1)) xs)
      = take (nat (n + sum_list ns)) (drop (nat (?p + 1)) xs)"
    using p n pos by (auto simp: spec_forward_def Let_def nat_add_distrib take_add add.commute)
  then show ?case
    using step Cons.IH [OF inv ns] Cons.prems(3) by simp
qed

text \<open>
  C23. Fetching forward in chunks loses no row and returns none twice. From the position before
  the first row, any sequence of \<^verbatim>\<open>FETCH FORWARD n\<close> with positive counts returns, put together,
  the first \<open>n\<^sub>1 + n\<^sub>2 + \<dots>\<close> rows of the result in order (all of them once the counts add up).
\<close>

theorem chunked_fetch_complete:
  assumes "text_batch ops ok cell arr_len fits" and "cursor_inv ops ok cell c"
    and "cur_position c = -1" and "list_all (\<lambda>n. 0 < n \<and> n \<le> i64_max) ns"
  shows "fetch_chunks ops cell ns c = Some (take (nat (sum_list ns)) (data_rows ops cell (cur_data c)))"
  using fetch_chunks_from [OF assms(1,2,4) refl] assms(3) by simp

theorem chunked_fetch_complete_witness:
  "fetch_chunks columnar_ops nth [2, 1, 7] (demo_cursor (-1)) = Some [[Some ''1''], [Some ''2''], [None]]"
  using chunked_fetch_complete [OF ct.text_batch_axioms demo_inv [of "-1"], of "[2, 1, 7]"]
  unfolding demo_rows by (simp add: demo_cursor_def i64_max_def)



lemma min_count_diverges:
  assumes "cursor_len ops (cur_data c) = Inr len"
  shows "forward fuel ops (Some i64_min) rr c = Diverge"
    and "backward fuel ops (Some i64_min) rr c = Diverge"
proof (induction fuel)
  case 0
  { case 1 show ?case by (simp add: forward.simps) }
  { case 2 show ?case by (simp add: backward.simps) }
next
  case (Suc fuel)
  have "i64_min < 0" by (simp add: i64_min_def)
  with assms Suc show "forward (Suc fuel) ops (Some i64_min) rr c = Diverge"
    and "backward (Suc fuel) ops (Some i64_min) rr c = Diverge"
    by (simp_all add: forward.simps backward.simps)
qed

text \<open>
  C25. A count of \<open>-2^63\<close> never returns. On a cursor whose row count fits, \<^verbatim>\<open>FETCH -2^63\<close> (a
  scrollable cursor) and a parsed \<^verbatim>\<open>FETCH BACKWARD -2^63\<close>, which becomes \<open>Forward (Some i64_min)\<close>
  (any cursor), make \<^verbatim>\<open>forward\<close> and \<^verbatim>\<open>backward\<close> call each other without end: no fuel suffices.
\<close>

theorem min_count_never_returns:
  assumes "cursor_len ops (cur_data c) = Inr len"
  shows "apply_cursor fuel ops (Forward (Some i64_min)) rr c = Diverge \<and>
    apply_cursor fuel ops (Count i64_min) rr (c\<lparr>cur_scroll := True\<rparr>) = Diverge"
proof -
  have "i64_min < 0" by (simp add: i64_min_def)
  moreover have "cursor_len ops (cur_data (c\<lparr>cur_scroll := True\<rparr>)) = Inr len" using assms by simp
  ultimately show ?thesis
    using min_count_diverges [OF assms] min_count_diverges [of ops "c\<lparr>cur_scroll := True\<rparr>" len]
    by (auto simp: apply_cursor_def)
qed

theorem min_count_never_returns_witness:
  "apply_cursor 1000 columnar_ops (Count i64_min) True (demo_cursor 0) = Diverge"
  using min_count_never_returns [of columnar_ops "demo_cursor 0" 3 1000 True]
  by (simp add: demo_cursor_def cursor_len_def total_rows_def columnar_ops_def i64_max_def)

text \<open>
  C26. A relative move wraps around. From the second row on, \<^verbatim>\<open>FETCH RELATIVE 2^63-1\<close> overflows
  \<^verbatim>\<open>self.position as i64 + offset\<close>: the cursor lands before the first row, where the list
  specification puts it after the last one.
\<close>

theorem relative_wraps_around:
  assumes "cursor_len ops (cur_data c) = Inr len" and "cur_scroll c"
    and "0 < cur_position c" and "cur_position c \<le> len"
  shows "apply_cursor fuel ops (Relative i64_max) rr c =
      Ret (Inr (\<lparr>step_rows = empty_like (cur_data c), step_count = 0\<rparr>, c\<lparr>cur_position := -1\<rparr>))"
proof -
  have p: "cur_position c \<le> i64_max" using assms(1,4) cursor_len_nonneg by fastforce
  have "wrap64 (cur_position c + i64_max) = cur_position c + i64_max - 2 ^ 64"
  proof -
    have "(cur_position c + i64_max + 2 ^ 63) mod 2 ^ 64 = cur_position c + i64_max + 2 ^ 63 - 2 ^ 64"
      using p assms(3) by (intro mod_pos_sub) (simp_all add: i64_max_def)
    then show ?thesis by (simp add: wrap64_def)
  qed
  then have "i64_add (cur_position c) i64_max < 0"
    using p by (simp add: i64_add_def i64_max_def)
  with assms(1,2) show ?thesis
    by (simp add: apply_cursor_def relative_def seek_def stay_def)
qed

theorem relative_wraps_around_witness:
  "apply_cursor 0 columnar_ops (Relative i64_max) True (demo_cursor 1) =
     Ret (Inr (\<lparr>step_rows = ArrowStep [], step_count = 0\<rparr>, demo_cursor (-1)))"
  using relative_wraps_around [of columnar_ops "demo_cursor 1" 3 0 True]
  by (simp add: demo_cursor_def cursor_len_def total_rows_def columnar_ops_def i64_max_def)

end
