(* ===== verification/Regex_Engine.thy ===== *)
theory Regex_Engine
  imports Gateway_Prelude
begin

text \<open>
  The \<^verbatim>\<open>regex\<close> crate, the third-party library the gateway recognises SQL with. A search of the
  crate is a parameter of the model: \<open>E p prev s\<close> stands for the leftmost-first search of the
  pattern text \<open>p\<close> in the rest \<open>s\<close> of a haystack, where \<open>prev\<close> is the character before \<open>s\<close>
  (\<open>None\<close> at the start of the haystack).

  What the crate documents of such a search is the locale \<open>regex_engine\<close>: the pattern syntax
  (\<open>rx_parse\<close>, the part of it the gateway uses), the runs of a pattern in priority order
  (\<open>run\<close>: alternatives from the left, greedy repetitions longest first, lazy ones shortest
  first) and leftmost-first search (\<open>rx_search\<close>). \<open>bt_engine\<close>, a backtracking matcher with
  continuations, satisfies it. \<^verbatim>\<open>is_match\<close>, \<^verbatim>\<open>captures\<close>, \<^verbatim>\<open>captures_iter\<close> and \<^verbatim>\<open>replace_all\<close>
  are defined from the search as the crate documents them.
\<close>

section \<open>Patterns\<close>

datatype rx =
    Eps
  | Cls bool "(int \<times> int) list"
  | Seq rx rx
  | Alt rx rx
  | Star bool rx
  | Grp nat rx
  | Bol
  | Eol
  | WordB

definition cls_has :: "bool \<Rightarrow> (int \<times> int) list \<Rightarrow> char \<Rightarrow> bool" where
  "cls_has neg ranges c \<longleftrightarrow> list_ex (\<lambda>(a, b). a \<le> code_point c \<and> code_point c \<le> b) ranges \<noteq> neg"

text \<open>Word characters (\<^verbatim>\<open>\w\<close>) of the range U+0000 to U+00FF.\<close>

definition is_word :: "char \<Rightarrow> bool" where
  "is_word c \<longleftrightarrow> cls_has False [(48, 57), (65, 90), (95, 95), (97, 122), (170, 170), (181, 181),
     (186, 186), (192, 214), (216, 246), (248, 255)] c"

subsection \<open>Pattern syntax\<close>

record rx_flags =
  fl_i :: bool
  fl_s :: bool

definition fold_range :: "int \<times> int \<Rightarrow> (int \<times> int) list" where
  "fold_range = (\<lambda>(a, b).
     (let lo = max a 65; hi = min b 90 in if lo \<le> hi then [(lo + 32, hi + 32)] else []) @
     (let lo = max a 97; hi = min b 122 in if lo \<le> hi then [(lo - 32, hi - 32)] else []))"

definition mk_cls :: "rx_flags \<Rightarrow> bool \<Rightarrow> (int \<times> int) list \<Rightarrow> rx" where
  "mk_cls fl neg ranges =
     Cls neg (if fl_i fl then ranges @ concat (map fold_range ranges) else ranges)"

definition lit :: "rx_flags \<Rightarrow> char \<Rightarrow> rx" where
  "lit fl c = mk_cls fl False [(code_point c, code_point c)]"

definition space_ranges :: "(int \<times> int) list" where
  "space_ranges = [(9, 13), (32, 32), (133, 133), (160, 160)]"

definition escape_ranges :: "char \<Rightarrow> (int \<times> int) list" where
  "escape_ranges c =
     (if c = CHR ''s'' then space_ranges
      else if c = CHR ''d'' then [(48, 57)]
      else if c = CHR ''n'' then [(10, 10)]
      else if c = CHR ''r'' then [(13, 13)]
      else [(code_point c, code_point c)])"

definition p_escape :: "rx_flags \<Rightarrow> char \<Rightarrow> rx" where
  "p_escape fl c =
     (if c = CHR ''b'' then WordB
      else if c = CHR ''S'' then Cls True space_ranges
      else mk_cls fl False (escape_ranges c))"

definition p_item :: "char \<Rightarrow> string \<Rightarrow> (int \<times> int) list \<times> string" where
  "p_item c cs =
     (if c = backslash then (escape_ranges (hd cs), tl cs)
      else if prefix ''-'' cs \<and> \<not> prefix ''-]'' cs then
        ([(code_point c, code_point (hd (tl cs)))], tl (tl cs))
      else ([(code_point c, code_point c)], cs))"

text \<open>The items of a class up to the closing bracket; every item reads a character.\<close>

primrec p_items :: "nat \<Rightarrow> string \<Rightarrow> ((int \<times> int) list \<times> string) option" where
  "p_items 0 s = None"
| "p_items (Suc fuel) s =
     (case s of
        [] \<Rightarrow> None
      | c # cs \<Rightarrow>
          if c = CHR '']'' then Some ([], cs)
          else if cs = [] then None
          else
            (case p_item c cs of
               (rs, rest) \<Rightarrow> map_option (map_prod (\<lambda>rs'. rs @ rs') id) (p_items fuel rest)))"

definition p_class :: "rx_flags \<Rightarrow> string \<Rightarrow> (rx \<times> string) option" where
  "p_class fl s =
     (let (neg, s') = (case s of c # cs \<Rightarrow> if c = CHR ''^'' then (True, cs) else (False, s) | [] \<Rightarrow> (False, s))
      in map_option (\<lambda>(rs, rest). (mk_cls fl neg rs, rest)) (p_items (Suc (length s')) s'))"

text \<open>A quantifier after an atom: \<^verbatim>\<open>*\<close>, \<^verbatim>\<open>+\<close>, \<^verbatim>\<open>?\<close>, each lazy with a \<^verbatim>\<open>?\<close> after it.\<close>

definition lazy :: "string \<Rightarrow> bool \<times> string" where
  "lazy s = (case s of c # cs \<Rightarrow> if c = CHR ''?'' then (False, cs) else (True, s) | [] \<Rightarrow> (True, s))"

definition quant :: "rx \<Rightarrow> string \<Rightarrow> rx \<times> string" where
  "quant a s =
     (case s of
        [] \<Rightarrow> (a, s)
      | c # cs \<Rightarrow>
          if c = CHR ''*'' then (let (g, rest) = lazy cs in (Star g a, rest))
          else if c = CHR ''+'' then (let (g, rest) = lazy cs in (Seq a (Star g a), rest))
          else if c = CHR ''?'' then
            (let (g, rest) = lazy cs in (if g then Alt a Eps else Alt Eps a, rest))
          else (a, s))"

text \<open>
  The levels of the grammar: alternatives, a sequence, an atom, and the rest of a group. Each
  level is a definition over the parser \<open>rec\<close> for the levels it calls; \<open>p_rx\<close> ties the knot.
\<close>

datatype p_level = PAlt | PSeq | PAtom | PClose

type_synonym p_result = "(rx \<times> nat \<times> string) option"
type_synonym p_parser = "p_level \<Rightarrow> nat \<Rightarrow> string \<Rightarrow> p_result"

definition p_alt :: "p_parser \<Rightarrow> nat \<Rightarrow> string \<Rightarrow> p_result" where
  "p_alt rec n s =
     (case rec PSeq n s of
        None \<Rightarrow> None
      | Some (r, n1, s1) \<Rightarrow>
          (case s1 of
             [] \<Rightarrow> Some (r, n1, s1)
           | c # cs \<Rightarrow>
               if c = CHR ''|'' then
                 (case rec PAlt n1 cs of
                    None \<Rightarrow> None
                  | Some (r2, n2, s2) \<Rightarrow> Some (Alt r r2, n2, s2))
               else Some (r, n1, s1)))"

definition p_seq :: "p_parser \<Rightarrow> nat \<Rightarrow> string \<Rightarrow> p_result" where
  "p_seq rec n s =
     (case s of
        [] \<Rightarrow> Some (Eps, n, s)
      | c # cs \<Rightarrow>
          if c = CHR ''|'' \<or> c = CHR '')'' then Some (Eps, n, s)
          else
            (case rec PAtom n s of
               None \<Rightarrow> None
             | Some (a, n1, s1) \<Rightarrow>
                 (let (q, s2) = quant a s1 in
                  (case rec PSeq n1 s2 of
                     None \<Rightarrow> None
                   | Some (r, n2, s3) \<Rightarrow> Some (if r = Eps then q else Seq q r, n2, s3)))))"

definition p_atom :: "rx_flags \<Rightarrow> p_parser \<Rightarrow> nat \<Rightarrow> string \<Rightarrow> p_result" where
  "p_atom fl rec n s =
     (case s of
        [] \<Rightarrow> None
      | c # cs \<Rightarrow>
          if c = CHR ''('' then
            (if prefix ''?:'' cs then rec PClose n (drop 2 cs)
             else
               let body = (if prefix ''?P<'' cs then drop 1 (dropWhile (\<lambda>d. d \<noteq> CHR ''>'') cs) else cs) in
               (case rec PClose (Suc n) body of
                  None \<Rightarrow> None
                | Some (r, n1, rest) \<Rightarrow> Some (Grp n r, n1, rest)))
          else if c = CHR ''['' then map_option (\<lambda>(r, rest). (r, n, rest)) (p_class fl cs)
          else if c = backslash then
            (case cs of [] \<Rightarrow> None | d # ds \<Rightarrow> Some (p_escape fl d, n, ds))
          else if c = CHR ''.'' then Some (if fl_s fl then Cls True [] else Cls True [(10, 10)], n, cs)
          else if c = CHR ''^'' then Some (Bol, n, cs)
          else if c = CHR ''$'' then Some (Eol, n, cs)
          else Some (lit fl c, n, cs))"

definition p_close :: "p_parser \<Rightarrow> nat \<Rightarrow> string \<Rightarrow> p_result" where
  "p_close rec n s =
     (case rec PAlt n s of
        None \<Rightarrow> None
      | Some (r, n1, s1) \<Rightarrow>
          (case s1 of
             [] \<Rightarrow> None
           | c # rest \<Rightarrow> if c = CHR '')'' then Some (r, n1, rest) else None))"

primrec p_rx :: "nat \<Rightarrow> rx_flags \<Rightarrow> p_parser" where
  "p_rx 0 fl level n s = None"
| "p_rx (Suc fuel) fl level n s =
     (case level of
        PAlt \<Rightarrow> p_alt (p_rx fuel fl) n s
      | PSeq \<Rightarrow> p_seq (p_rx fuel fl) n s
      | PAtom \<Rightarrow> p_atom fl (p_rx fuel fl) n s
      | PClose \<Rightarrow> p_close (p_rx fuel fl) n s)"

definition p_flags :: "string \<Rightarrow> rx_flags \<times> string" where
  "p_flags s =
     (if prefix ''(?is)'' s then (\<lparr>fl_i = True, fl_s = True\<rparr>, drop 5 s)
      else if prefix ''(?i)'' s then (\<lparr>fl_i = True, fl_s = False\<rparr>, drop 4 s)
      else if prefix ''(?s)'' s then (\<lparr>fl_i = False, fl_s = True\<rparr>, drop 4 s)
      else (\<lparr>fl_i = False, fl_s = False\<rparr>, s))"

text \<open>Every level of the parser that recurses has read a character; a nested group costs four levels.\<close>

definition rx_parse :: "string \<Rightarrow> rx option" where
  "rx_parse p =
     (let (fl, body) = p_flags p in
      (case p_rx (4 * length body + 4) fl PAlt 1 body of
         None \<Rightarrow> None
       | Some (r, _, rest) \<Rightarrow> if rest = [] then Some r else None))"

section \<open>Runs and search\<close>

text \<open>A state of a run: the character before, the rest of the text, the groups captured so far.\<close>

type_synonym rx_groups = "(nat \<times> string) list"
type_synonym rx_state = "char option \<times> string \<times> rx_groups"

abbreviation st_rest :: "rx_state \<Rightarrow> string" where "st_rest st \<equiv> fst (snd st)"

definition word_edge :: "char option \<Rightarrow> string \<Rightarrow> bool" where
  "word_edge prev s \<longleftrightarrow>
     (case prev of None \<Rightarrow> False | Some c \<Rightarrow> is_word c) \<noteq> (case s of [] \<Rightarrow> False | c # _ \<Rightarrow> is_word c)"

definition set_group :: "nat \<Rightarrow> string \<Rightarrow> rx_state \<Rightarrow> rx_state" where
  "set_group n start st =
     (case st of (prev, s, gs) \<Rightarrow> (prev, s, (n, take (length start - length s) start) # gs))"

fun star_iter :: "nat \<Rightarrow> bool \<Rightarrow> (rx_state \<Rightarrow> rx_state list) \<Rightarrow> rx_state \<Rightarrow> rx_state list" where
  "star_iter 0 g f st = [st]"
| "star_iter (Suc n) g f st =
     (let more = concat (map (star_iter n g f)
                   (filter (\<lambda>st'. length (st_rest st') < length (st_rest st)) (f st)))
      in if g then more @ [st] else st # more)"

primrec run :: "rx \<Rightarrow> rx_state \<Rightarrow> rx_state list" where
  "run Eps st = [st]"
| "run (Cls neg ranges) st =
     (case st of (prev, s, gs) \<Rightarrow>
        (case s of [] \<Rightarrow> [] | c # cs \<Rightarrow> if cls_has neg ranges c then [(Some c, cs, gs)] else []))"
| "run (Seq a b) st = concat (map (run b) (run a st))"
| "run (Alt a b) st = run a st @ run b st"
| "run (Star g r) st = star_iter (length (st_rest st)) g (run r) st"
| "run (Grp n r) st = map (set_group n (st_rest st)) (run r st)"
| "run Bol st = (if fst st = None then [st] else [])"
| "run Eol st = (if st_rest st = [] then [st] else [])"
| "run WordB st = (if word_edge (fst st) (st_rest st) then [st] else [])"

record rmatch =
  m_before :: string
  m_whole :: string
  m_groups :: rx_groups
  m_after :: string

definition mk_match :: "string \<Rightarrow> string \<Rightarrow> rx_state \<Rightarrow> rmatch" where
  "mk_match skipped s st =
     \<lparr>m_before = skipped, m_whole = take (length s - length (st_rest st)) s,
      m_groups = snd (snd st), m_after = st_rest st\<rparr>"

text \<open>Leftmost-first: the first position with a run, there the run of highest priority.\<close>

fun rx_search_from :: "rx \<Rightarrow> string \<Rightarrow> char option \<Rightarrow> string \<Rightarrow> rmatch option" where
  "rx_search_from r skipped prev [] =
     (case run r (prev, [], []) of [] \<Rightarrow> None | st # _ \<Rightarrow> Some (mk_match (rev skipped) [] st))"
| "rx_search_from r skipped prev (c # cs) =
     (case run r (prev, c # cs, []) of
        [] \<Rightarrow> rx_search_from r (c # skipped) (Some c) cs
      | st # _ \<Rightarrow> Some (mk_match (rev skipped) (c # cs) st))"

definition rx_search :: "rx \<Rightarrow> char option \<Rightarrow> string \<Rightarrow> rmatch option" where
  "rx_search r prev s = rx_search_from r [] prev s"

section \<open>The operations of the crate\<close>

type_synonym regex_search = "string \<Rightarrow> char option \<Rightarrow> string \<Rightarrow> rmatch option"

definition is_match :: "regex_search \<Rightarrow> string \<Rightarrow> string \<Rightarrow> bool" where
  "is_match E p s \<longleftrightarrow> E p None s \<noteq> None"

definition captures :: "regex_search \<Rightarrow> string \<Rightarrow> string \<Rightarrow> rmatch option" where
  "captures E p s = E p None s"

definition group :: "rmatch \<Rightarrow> nat \<Rightarrow> string option" where
  "group m n = (if n = 0 then Some (m_whole m) else map_of (m_groups m) n)"

text \<open>
  Successive matches: the next search starts where the last match ended, one character further
  when the match was empty (no pattern of the gateway matches the empty text). Every step
  consumes a character, so \<open>Suc (length s)\<close> steps are enough.
\<close>

fun matches_from :: "regex_search \<Rightarrow> string \<Rightarrow> nat \<Rightarrow> char option \<Rightarrow> string \<Rightarrow> rmatch list" where
  "matches_from E p 0 prev s = []"
| "matches_from E p (Suc fuel) prev s =
     (case E p prev s of
        None \<Rightarrow> []
      | Some m \<Rightarrow>
          m # (if m_whole m = [] then
                 (case m_after m of [] \<Rightarrow> [] | c # cs \<Rightarrow> matches_from E p fuel (Some c) cs)
               else matches_from E p fuel (Some (last (m_whole m))) (m_after m)))"

definition captures_iter :: "regex_search \<Rightarrow> string \<Rightarrow> string \<Rightarrow> rmatch list" where
  "captures_iter E p s = matches_from E p (Suc (length s)) None s"

fun replace_from :: "regex_search \<Rightarrow> string \<Rightarrow> (rmatch \<Rightarrow> string) \<Rightarrow> nat \<Rightarrow> char option \<Rightarrow> string \<Rightarrow> string"
where
  "replace_from E p f 0 prev s = s"
| "replace_from E p f (Suc fuel) prev s =
     (case E p prev s of
        None \<Rightarrow> s
      | Some m \<Rightarrow>
          m_before m @ f m @
          (if m_whole m = [] then
             (case m_after m of [] \<Rightarrow> [] | c # cs \<Rightarrow> c # replace_from E p f fuel (Some c) cs)
           else replace_from E p f fuel (Some (last (m_whole m))) (m_after m)))"

definition replace_all_fn :: "regex_search \<Rightarrow> string \<Rightarrow> string \<Rightarrow> (rmatch \<Rightarrow> string) \<Rightarrow> string" where
  "replace_all_fn E p s f = replace_from E p f (Suc (length s)) None s"

text \<open>
  A replacement text: \<^verbatim>\<open>$name\<close>, with the longest name of letters, digits and underscores, is
  the group of that number (the gateway uses only numbers), the empty text when it did not
  take part.
\<close>

fun expand_template :: "nat \<Rightarrow> rmatch \<Rightarrow> string \<Rightarrow> string" where
  "expand_template 0 m t = t"
| "expand_template (Suc fuel) m [] = []"
| "expand_template (Suc fuel) m (c # cs) =
     (let name = takeWhile (\<lambda>d. is_ascii_alnum d \<or> d = CHR ''_'') cs in
      if c = CHR ''$'' \<and> name \<noteq> [] then
        (case parse_digits name of
           Some n \<Rightarrow> (case group m n of Some g \<Rightarrow> g | None \<Rightarrow> [])
         | None \<Rightarrow> []) @ expand_template fuel m (drop (length name) cs)
      else c # expand_template fuel m cs)"

definition replace_all :: "regex_search \<Rightarrow> string \<Rightarrow> string \<Rightarrow> string \<Rightarrow> string" where
  "replace_all E p s t = replace_all_fn E p s (\<lambda>m. expand_template (Suc (length t)) m t)"

text \<open>\<^verbatim>\<open>regex::escape\<close>.\<close>

definition regex_escape :: "string \<Rightarrow> string" where
  "regex_escape s = concat (map (\<lambda>c. if c \<in> set (backslash # ''.+*?()|[]{}^$#&-~'') then [backslash, c] else [c]) s)"

section \<open>What the crate documents\<close>

locale regex_engine =
  fixes E :: regex_search
  assumes leftmost_first: "rx_parse p = Some r \<Longrightarrow> E p prev s = rx_search r prev s"

section \<open>A backtracking engine\<close>

text \<open>
  The matcher takes a continuation and returns the first success, in priority order.
\<close>

fun star_bt :: "nat \<Rightarrow> bool \<Rightarrow> (rx_state \<Rightarrow> (rx_state \<Rightarrow> rx_state option) \<Rightarrow> rx_state option) \<Rightarrow>
    rx_state \<Rightarrow> (rx_state \<Rightarrow> rx_state option) \<Rightarrow> rx_state option" where
  "star_bt 0 g f st k = k st"
| "star_bt (Suc n) g f st k =
     (if g then
        (case f st (\<lambda>st'. if length (st_rest st') < length (st_rest st) then star_bt n g f st' k else None) of
           Some x \<Rightarrow> Some x | None \<Rightarrow> k st)
      else
        (case k st of
           Some x \<Rightarrow> Some x
         | None \<Rightarrow> f st (\<lambda>st'. if length (st_rest st') < length (st_rest st) then star_bt n g f st' k else None)))"

primrec bt :: "rx \<Rightarrow> rx_state \<Rightarrow> (rx_state \<Rightarrow> rx_state option) \<Rightarrow> rx_state option" where
  "bt Eps st k = k st"
| "bt (Cls neg ranges) st k =
     (case st of (prev, s, gs) \<Rightarrow>
        (case s of [] \<Rightarrow> None | c # cs \<Rightarrow> if cls_has neg ranges c then k (Some c, cs, gs) else None))"
| "bt (Seq a b) st k = bt a st (\<lambda>st'. bt b st' k)"
| "bt (Alt a b) st k = (case bt a st k of Some x \<Rightarrow> Some x | None \<Rightarrow> bt b st k)"
| "bt (Star g r) st k = star_bt (length (st_rest st)) g (bt r) st k"
| "bt (Grp n r) st k = bt r st (\<lambda>st'. k (set_group n (st_rest st) st'))"
| "bt Bol st k = (if fst st = None then k st else None)"
| "bt Eol st k = (if st_rest st = [] then k st else None)"
| "bt WordB st k = (if word_edge (fst st) (st_rest st) then k st else None)"

fun bt_search_from :: "rx \<Rightarrow> string \<Rightarrow> char option \<Rightarrow> string \<Rightarrow> rmatch option" where
  "bt_search_from r skipped prev [] =
     map_option (mk_match (rev skipped) []) (bt r (prev, [], []) Some)"
| "bt_search_from r skipped prev (c # cs) =
     (case bt r (prev, c # cs, []) Some of
        Some st \<Rightarrow> Some (mk_match (rev skipped) (c # cs) st)
      | None \<Rightarrow> bt_search_from r (c # skipped) (Some c) cs)"

definition bt_engine :: regex_search where
  "bt_engine p prev s = (case rx_parse p of Some r \<Rightarrow> bt_search_from r [] prev s | None \<Rightarrow> None)"

text \<open>The first success of a continuation along a list of states.\<close>

fun first_some :: "('a \<Rightarrow> 'b option) \<Rightarrow> 'a list \<Rightarrow> 'b option" where
  "first_some k [] = None"
| "first_some k (x # xs) = (case k x of Some y \<Rightarrow> Some y | None \<Rightarrow> first_some k xs)"

lemma first_some_append:
  "first_some k (xs @ ys) = (case first_some k xs of Some y \<Rightarrow> Some y | None \<Rightarrow> first_some k ys)"
  by (induction xs) (auto split: option.splits)

lemma first_some_concat: "first_some k (concat xss) = first_some (first_some k) xss"
  by (induction xss) (auto simp: first_some_append split: option.splits)

lemma first_some_map: "first_some k (map f xs) = first_some (\<lambda>x. k (f x)) xs"
  by (induction xs) (auto split: option.splits)

lemma first_some_filter:
  "first_some k (filter P xs) = first_some (\<lambda>x. if P x then k x else None) xs"
  by (induction xs) (auto split: option.splits)

lemma star_bt_first:
  assumes f: "\<And>st k. f' st k = first_some k (f st)"
  shows "star_bt n g f' st k = first_some k (star_iter n g f st)"
proof (induction n arbitrary: st)
  case 0
  then show ?case by (auto split: option.splits)
next
  case (Suc n)
  have "first_some k (concat (map (star_iter n g f)
          (filter (\<lambda>st'. length (st_rest st') < length (st_rest st)) (f st))))
      = f' st (\<lambda>st'. if length (st_rest st') < length (st_rest st) then star_bt n g f' st' k else None)"
    by (simp add: f first_some_concat first_some_map first_some_filter Suc.IH cong: if_cong)
  then show ?case
    by (auto simp: first_some_append Let_def split: option.splits)
qed

lemma bt_first: "bt r st k = first_some k (run r st)"
proof (induction r arbitrary: st k)
  case (Cls neg ranges)
  then show ?case by (auto split: list.splits option.splits prod.splits)
next
  case (Seq a b)
  then show ?case by (simp add: first_some_concat first_some_map)
next
  case (Star g r)
  then show ?case by (simp add: star_bt_first)
next
  case (Grp n r)
  then show ?case by (simp add: first_some_map)
qed (auto simp: first_some_append split: option.splits)

lemma first_some_Some: "first_some Some xs = (case xs of [] \<Rightarrow> None | x # _ \<Rightarrow> Some x)"
  by (cases xs) auto

lemma bt_search_from_eq: "bt_search_from r skipped prev s = rx_search_from r skipped prev s"
  by (induction r skipped prev s rule: rx_search_from.induct)
     (auto simp: bt_first first_some_Some split: list.splits)

interpretation bt: regex_engine bt_engine
  by unfold_locales (simp add: bt_engine_def rx_search_def bt_search_from_eq)

section \<open>Independence of the engine\<close>

text \<open>
  On a pattern of the known syntax every engine that meets the documentation finds what the
  backtracking engine finds, so what the gateway computes with it is determined.
\<close>

lemma engine_bt:
  assumes "regex_engine E" and "rx_parse p \<noteq> None"
  shows "E p = bt_engine p"
  using regex_engine.leftmost_first [OF assms(1)] bt.leftmost_first assms(2)
  by (intro ext) fastforce

lemma matches_from_cong: "E p = E' p \<Longrightarrow> matches_from E p n prev s = matches_from E' p n prev s"
  by (induction n arbitrary: prev s) (auto split: option.splits list.splits)

lemma replace_from_cong: "E p = E' p \<Longrightarrow> replace_from E p f n prev s = replace_from E' p f n prev s"
  by (induction n arbitrary: prev s) (auto split: option.splits list.splits)

lemma engine_ops:
  assumes "regex_engine E" and "rx_parse p \<noteq> None"
  shows "is_match E p s = is_match bt_engine p s"
    and "captures E p s = captures bt_engine p s"
    and "captures_iter E p s = captures_iter bt_engine p s"
    and "replace_all_fn E p s f = replace_all_fn bt_engine p s f"
    and "replace_all E p s t = replace_all bt_engine p s t"
  using engine_bt [OF assms]
  by (simp_all only: is_match_def captures_def captures_iter_def replace_all_def replace_all_fn_def
      matches_from_cong [of E p bt_engine] replace_from_cong [of E p bt_engine])

section \<open>Searches that fail\<close>

lemma bol_search_from: "rx_search_from (Seq Bol r) skipped (Some c) s = None"
  by (induction s arbitrary: c skipped) auto

lemma bol_search: "run r (None, s, []) = [] \<Longrightarrow> rx_search (Seq Bol r) None s = None"
  by (cases s) (auto simp: rx_search_def bol_search_from)

lemma bol_cls_search:
  "s = [] \<or> \<not> cls_has neg ranges (hd s) \<Longrightarrow> rx_search (Seq Bol (Seq (Cls neg ranges) r)) None s = None"
  by (rule bol_search) (auto split: list.splits)

lemma replace_all_none: "E p None s = None \<Longrightarrow> replace_all E p s t = s"
  by (simp add: replace_all_def replace_all_fn_def)

section \<open>Evaluation of the backtracking matcher\<close>

abbreviation ws_rx :: rx where "ws_rx \<equiv> Cls False [(9, 13), (32, 32), (133, 133), (160, 160)]"
abbreviation dot_rx :: rx where "dot_rx \<equiv> Cls True [(10, 10)]"
abbreviation two_rx :: "int \<Rightarrow> int \<Rightarrow> rx" where "two_rx a b \<equiv> Cls False [(a, a), (b, b)]"

lemma code_point_Char:
  "code_point (Char b0 b1 b2 b3 b4 b5 b6 b7) = of_char (Char b0 b1 b2 b3 b4 b5 b6 b7)"
  by (simp add: code_point_def)

lemma cls_char: "cls_has False [(n, n)] c \<longleftrightarrow> code_point c = n"
  by (auto simp: cls_has_def)

text \<open>
  Evaluation of the backtracking matcher on single characters and on greedy repetitions of a
  class: a repetition that cannot start is skipped, one that can take the whole rest takes it
  when the continuation accepts.
\<close>

lemma bt_cls:
  "cls_has neg ranges c \<Longrightarrow> bt (Cls neg ranges) (prev, c # s, gs) k = k (Some c, s, gs)"
  "\<not> cls_has neg ranges c \<Longrightarrow> bt (Cls neg ranges) (prev, c # s, gs) k = None"
  "bt (Cls neg ranges) (prev, [], gs) k = None"
  by simp_all

lemma star_cls_stop:
  "s = [] \<or> \<not> cls_has neg ranges (hd s) \<Longrightarrow> bt (Star True (Cls neg ranges)) (prev, s, gs) k = k (prev, s, gs)"
  by (cases s) auto

lemma star_cls_one:
  assumes "cls_has neg ranges c" and "s = [] \<or> \<not> cls_has neg ranges (hd s)"
  shows "bt (Star True (Cls neg ranges)) (prev, c # s, gs) k =
    (case k (Some c, s, gs) of Some x \<Rightarrow> Some x | None \<Rightarrow> k (prev, c # s, gs))"
  using assms by (cases s) auto

lemma star_cls_all:
  assumes "list_all (cls_has neg ranges) s"
    and "k (case s of [] \<Rightarrow> prev | _ \<Rightarrow> Some (last s), [], gs) = Some x"
  shows "bt (Star True (Cls neg ranges)) (prev, s, gs) k = Some x"
  using assms
proof (induction s arbitrary: prev)
  case (Cons a s)
  have "bt (Star True (Cls neg ranges)) (Some a, s, gs) k = Some x"
    using Cons.prems by (intro Cons.IH) (auto split: list.splits)
  then show ?case using Cons.prems(1) by simp
qed simp

lemmas bt_eval = bt.simps(1,3,4,6-9) bt_cls star_cls_stop star_cls_one

lemma ws_rx_has: "cls_has False [(9, 13), (32, 32), (133, 133), (160, 160)] c \<longleftrightarrow> is_ws c"
proof -
  have "is_ws c \<longleftrightarrow> code_point c \<in> {9, 10, 11, 12, 13, 32, 133, 160}"
    unfolding is_ws_def code_point_inj [symmetric] by (auto simp: code_point_def)
  also have "\<dots> \<longleftrightarrow> cls_has False [(9, 13), (32, 32), (133, 133), (160, 160)] c"
    by (simp add: cls_has_def) presburger
  finally show ?thesis by simp
qed

lemma dot_rx_has: "cls_has True [(10, 10)] c \<longleftrightarrow> c \<noteq> CHR 0x0A"
  using code_point_inj [of c "CHR 0x0A"] by (auto simp: cls_has_def) (auto simp: code_point_def)

lemma two_rx_has: "cls_has False [(a, a), (b, b)] c \<longleftrightarrow> code_point c = a \<or> code_point c = b"
  by (auto simp: cls_has_def)

text \<open>A greedy repetition takes the longest stretch of the class when the rest is accepted after it.\<close>

lemma star_cls_span:
  assumes "list_all (cls_has neg ranges) ds" and "s = [] \<or> \<not> cls_has neg ranges (hd s)"
    and "k (case ds of [] \<Rightarrow> prev | _ \<Rightarrow> Some (last ds), s, gs) = Some x"
  shows "bt (Star True (Cls neg ranges)) (prev, ds @ s, gs) k = Some x"
  using assms
proof (induction ds arbitrary: prev)
  case Nil
  then show ?case using star_cls_stop [of s neg ranges prev gs k] by simp
next
  case (Cons a ds)
  have "bt (Star True (Cls neg ranges)) (Some a, ds @ s, gs) k = Some x"
    using Cons.prems by (intro Cons.IH) (auto split: list.splits)
  then show ?case using Cons.prems(1) by simp
qed

section \<open>Literal beginnings\<close>

text \<open>The classes a pattern starts with; a text it matches at the start begins with them.\<close>

fun lits :: "rx \<Rightarrow> (int \<times> int) list list" where
  "lits (Seq (Cls False ranges) r) = ranges # lits r"
| "lits _ = []"

lemma run_lits: "run r (prev, s, gs) \<noteq> [] \<Longrightarrow> list_all2 (cls_has False) (lits r) (take (length (lits r)) s)"
proof (induction r arbitrary: prev s gs rule: lits.induct)
  case (1 ranges r)
  then show ?case by (auto split: list.splits if_splits)
qed auto

lemma anchored_lits:
  assumes "rx_search (Seq Bol r) None s \<noteq> None"
  shows "list_all2 (cls_has False) (lits r) (take (length (lits r)) s)"
proof (rule run_lits)
  show "run r (None, s, []) \<noteq> []" using bol_search [of r s] assms by auto
qed

end
