(* ===== verification/Policy.thy ===== *)
theory Policy
  imports Regex_Engine Cursor
begin

text \<open>
  The statement policy (\<^verbatim>\<open>src/src/policy.rs\<close>): \<open>classify_statement\<close> decides, from the text of
  one PostgreSQL statement alone, whether the gateway answers it itself, runs it on Exasol, or
  rejects it. The regex crate is the argument \<open>E\<close> (theory \<^verbatim>\<open>Regex_Engine\<close>).
\<close>

section \<open>Plans\<close>

datatype row_count_policy = Include | Omit

datatype cursor_close = CloseOne string | CloseAll

record cursor_declare =
  decl_name :: string
  decl_query :: string
  decl_scroll :: bool
  decl_hold :: bool

record position_plan =
  pos_name :: string
  pos_direction :: cursor_direction

datatype cursor_plan =
    Declare cursor_declare
  | Fetch position_plan
  | Move position_plan
  | Close cursor_close

datatype statement_plan =
    Execute string row_count_policy
  | ClientSet
  | SetSearchPath string
  | ShowSearchPath
  | ClientTransactionStart
  | ClientTransactionEnd string
  | ClientShow string string
  | ClientSelect "string list" "string option list list"
  | BackendPid string
  | CursorStatement cursor_plan
  | EmptyStatement
  | Reject string string

fun is_cursor_unsafe_query :: "statement_plan \<Rightarrow> bool" where
  "is_cursor_unsafe_query (Execute command _) = (command \<noteq> ''SELECT'')"
| "is_cursor_unsafe_query _ = True"

section \<open>Patterns\<close>

definition COMMENT_RE :: string where
  "COMMENT_RE = src_text ''(?s)/%*.*?%*/|--[^%n%r]*''"

definition SET_ASSIGN_RE :: string where
  "SET_ASSIGN_RE = src_text ''(?i)^SET%s+(SESSION%s+)?[A-Za-z_][A-Za-z0-9_.]*%s*(=|TO)%s*%S''"

definition RESET_RE :: string where
  "RESET_RE = src_text ''(?i)^RESET%s+(ALL|[A-Za-z_][A-Za-z0-9_.]*)$''"

definition SHOW_RE :: string where
  "SHOW_RE = src_text ''(?i)^SHOW%s+([A-Za-z_][A-Za-z0-9_ .-]*)$''"

definition SET_SEARCH_PATH_RE :: string where
  "SET_SEARCH_PATH_RE = src_text ''(?i)^SET%s+(?:SESSION%s+)?search_path%s*(?:=|TO%b)%s*(.+)$''"

text \<open>The groups of \<open>DECLARE_CURSOR_RE\<close>: 1 \<open>name\<close>, 2 \<open>options\<close>, 3 \<open>hold\<close>, 4 \<open>query\<close>.\<close>

definition DECLARE_CURSOR_RE :: string where
  \<open>DECLARE_CURSOR_RE = src_text (''(?is)^DECLARE%s+(?P<name>"[^"]+"|[A-Za-z_][A-Za-z0-9_]*)%s+'' @
     ''(?P<options>(?:(?:BINARY|INSENSITIVE|ASENSITIVE|NO%s+SCROLL|SCROLL)%s+)*)CURSOR%s*'' @
     ''(?P<hold>WITH%s+HOLD|WITHOUT%s+HOLD)?%s+FOR%s+(?P<query>.+)$'')\<close>

definition POSITIONED_WRITE_RE :: string where
  "POSITIONED_WRITE_RE =
     src_text (''(?i)%bFOR%s+(UPDATE|SHARE|NO%s+KEY%s+UPDATE|KEY%s+SHARE)%b|'' @
       ''%bWHERE%s+CURRENT%s+OF%b'')"

definition SET_CHARACTERISTICS_RE :: string where
  "SET_CHARACTERISTICS_RE = src_text ''(?i)^SET%s+SESSION%s+CHARACTERISTICS%s+AS%s+TRANSACTION%b''"

definition SET_TRANSACTION_RE :: string where
  "SET_TRANSACTION_RE = src_text ''(?i)^SET%s+(SESSION%s+)?TRANSACTION%b''"

definition AS_RE :: string where
  \<open>AS_RE = src_text ''(?i)^(.*?)%s+AS%s+"?([A-Za-z_][A-Za-z0-9_]*)"?$''\<close>

section \<open>Small helpers\<close>

definition execute_plan :: "string \<Rightarrow> row_count_policy \<Rightarrow> statement_plan" where
  "execute_plan command row_count = Execute command row_count"

definition unsupported_policy :: "string \<Rightarrow> statement_plan" where
  "unsupported_policy message = Reject ''0A000'' (''unsupported by gateway policy: '' @ message)"

definition unsupported_no_equivalent :: "string \<Rightarrow> statement_plan" where
  "unsupported_no_equivalent message =
     Reject ''0A000'' (''unsupported because no Exasol equivalent is available: '' @ message)"

definition normalize_sql :: "regex_search \<Rightarrow> string \<Rightarrow> string" where
  "normalize_sql E sql =
     trim (trim_end_by (\<lambda>c. c = CHR '';'') (trim (replace_all E COMMENT_RE sql '' '')))"

definition first_keyword :: "string \<Rightarrow> string" where
  "first_keyword sql =
     to_ascii_uppercase (trim_start_by (\<lambda>c. c = CHR ''('')
       (case split_whitespace sql of [] \<Rightarrow> [] | w # _ \<Rightarrow> w))"

definition keyword_token :: "string \<Rightarrow> string" where
  "keyword_token w = to_ascii_uppercase (trim_by (\<lambda>c. \<not> is_ascii_alnum c \<and> c \<noteq> CHR ''_'') w)"

definition second_keyword :: "string \<Rightarrow> string" where
  "second_keyword sql =
     (case map keyword_token (drop 1 (split_whitespace sql)) of
        [] \<Rightarrow> []
      | first # rest \<Rightarrow>
          if first = ''OR'' \<and> (case rest of [] \<Rightarrow> False | second # _ \<Rightarrow> second = ''REPLACE'')
          then (case drop 1 rest of [] \<Rightarrow> [] | third # _ \<Rightarrow> third)
          else first)"

definition unquote_identifier :: "string \<Rightarrow> string" where
  "unquote_identifier identifier =
     replace_text [dquote, dquote] [dquote]
       (trim_by (\<lambda>c. c = dquote) (trim_end_by (\<lambda>c. c = CHR '';'') (trim identifier)))"

section \<open>\<open>SET search_path\<close>\<close>

datatype search_path_target = SinglePath string | DefaultPath | InvalidPath

fun comma_scan :: "bool \<Rightarrow> bool \<Rightarrow> nat \<Rightarrow> string \<Rightarrow> nat option" where
  "comma_scan in_double in_single idx [] = None"
| "comma_scan in_double in_single idx (ch # rest) =
     (if ch = dquote \<and> \<not> in_single then
        (if in_double \<and> rest \<noteq> [] \<and> hd rest = dquote
         then comma_scan in_double in_single (idx + 2) (drop 1 rest)
         else comma_scan (\<not> in_double) in_single (idx + 1) rest)
      else if ch = squote \<and> \<not> in_double then
        (if in_single \<and> rest \<noteq> [] \<and> hd rest = squote
         then comma_scan in_double in_single (idx + 2) (drop 1 rest)
         else comma_scan in_double (\<not> in_single) (idx + 1) rest)
      else if ch = CHR '','' \<and> \<not> in_double \<and> \<not> in_single then Some idx
      else comma_scan in_double in_single (idx + 1) rest)"

definition top_level_comma_index :: "string \<Rightarrow> nat option" where
  "top_level_comma_index v = comma_scan False False 0 v"

definition strip_enclosing :: "string \<Rightarrow> char \<Rightarrow> char \<Rightarrow> string option" where
  "strip_enclosing v opening closing =
     (if length v < 2 then None
      else if hd v \<noteq> opening \<or> last v \<noteq> closing then None
      else Some (butlast (tl v)))"

lemma comma_scan_bound: "comma_scan d s idx v = Some i \<Longrightarrow> idx \<le> i \<and> i < idx + length v"
proof (induction d s idx v rule: comma_scan.induct)
  case (2 in_double in_single idx ch rest)
  then show ?case by (cases rest) (auto split: if_splits)
qed simp

lemma trim_by_length: "length (trim_by p s) \<le> length s"
  unfolding trim_by_def trim_start_by_def trim_end_by_def
  by (metis length_dropWhile_le length_rev order.trans)

function parse_search_path_value :: "string \<Rightarrow> search_path_target" where
  "parse_search_path_value rhs =
     (let trimmed = trim rhs in
      if trimmed = [] then InvalidPath
      else
        (case top_level_comma_index trimmed of
           Some idx \<Rightarrow> parse_search_path_value (take idx trimmed)
         | None \<Rightarrow>
             if eq_ignore_ascii_case trimmed ''DEFAULT'' then DefaultPath
             else
               (case strip_enclosing trimmed dquote dquote of
                  Some inner \<Rightarrow>
                    (let unescaped = replace_text [dquote, dquote] [dquote] inner in
                     if unescaped = [] then InvalidPath else SinglePath unescaped)
                | None \<Rightarrow>
                    (case strip_enclosing trimmed squote squote of
                       Some inner \<Rightarrow> if inner = [] then InvalidPath else SinglePath inner
                     | None \<Rightarrow> SinglePath trimmed))))"
  by pat_completeness auto
termination
proof (relation "measure length", goal_cases)
  case (2 rhs trimmed idx)
  then have "idx < length trimmed"
    using comma_scan_bound [of False False 0 trimmed idx] by (simp add: top_level_comma_index_def)
  then show ?case using trim_by_length [of is_ws rhs] 2(1) by simp
qed simp

declare parse_search_path_value.simps [simp del]

section \<open>Cursor statements\<close>

definition contains_positioned_cursor_write :: "regex_search \<Rightarrow> string \<Rightarrow> bool" where
  "contains_positioned_cursor_write E query = is_match E POSITIONED_WRITE_RE query"

definition group_or_empty :: "rmatch \<Rightarrow> nat \<Rightarrow> string" where
  "group_or_empty m n = (case group m n of Some g \<Rightarrow> g | None \<Rightarrow> [])"

definition classify_declare_cursor :: "regex_search \<Rightarrow> string \<Rightarrow> statement_plan" where
  "classify_declare_cursor E sql =
     (case captures E DECLARE_CURSOR_RE sql of
        None \<Rightarrow> Reject ''42601'' ''unsupported DECLARE syntax; only SQL cursor declarations are supported''
      | Some cap \<Rightarrow>
          let name = unquote_identifier (group_or_empty cap 1);
              options = to_ascii_uppercase (group_or_empty cap 2);
              hold = (case group cap 3 of Some m \<Rightarrow> eq_ignore_ascii_case m ''WITH HOLD'' | None \<Rightarrow> False);
              query = trim (group_or_empty cap 4)
          in
          if list_ex (\<lambda>token. token = ''BINARY'') (split_whitespace options)
          then unsupported_policy ''binary SQL cursors are not implemented''
          else if contains options ''INSENSITIVE'' \<or> contains options ''ASENSITIVE''
          then unsupported_policy ''cursor sensitivity options are not implemented''
          else if contains_positioned_cursor_write E query
          then unsupported_policy
            ''updatable cursors, FOR UPDATE, FOR SHARE, and positioned writes are not implemented''
          else CursorStatement (Declare
            \<lparr>decl_name = name, decl_query = query,
             decl_scroll = contains options ''SCROLL'' \<and> \<not> contains options ''NO SCROLL'',
             decl_hold = hold\<rparr>))"

definition parse_cursor_direction :: "string list \<Rightarrow> cursor_direction option" where
  "parse_cursor_direction tokens =
     (case tokens of
        [] \<Rightarrow> Some Next
      | [one] \<Rightarrow>
          if eq_ignore_ascii_case one ''NEXT'' then Some Next
          else if eq_ignore_ascii_case one ''PRIOR'' then Some Prior
          else if eq_ignore_ascii_case one ''FIRST'' then Some First
          else if eq_ignore_ascii_case one ''LAST'' then Some Last
          else if eq_ignore_ascii_case one ''ALL'' then Some AllRows
          else if eq_ignore_ascii_case one ''FORWARD'' then Some (Forward (Some 1))
          else if eq_ignore_ascii_case one ''BACKWARD'' then Some (Backward (Some 1))
          else map_option Count (parse_i64 one)
      | [keyword, v] \<Rightarrow>
          if eq_ignore_ascii_case keyword ''ABSOLUTE'' then map_option Absolute (parse_i64 v)
          else if eq_ignore_ascii_case keyword ''RELATIVE'' then map_option Relative (parse_i64 v)
          else if eq_ignore_ascii_case keyword ''FORWARD'' then
            (if eq_ignore_ascii_case v ''ALL'' then Some (Forward None)
             else map_option (\<lambda>count. if count < 0 then Backward (Some (i64_neg count))
                                       else Forward (Some count)) (parse_i64 v))
          else if eq_ignore_ascii_case keyword ''BACKWARD'' then
            (if eq_ignore_ascii_case v ''ALL'' then Some (Backward None)
             else map_option (\<lambda>count. if count < 0 then Forward (Some (i64_neg count))
                                       else Backward (Some count)) (parse_i64 v))
          else None
      | _ \<Rightarrow> None)"

definition parse_cursor_position :: "string \<Rightarrow> string \<Rightarrow> position_plan option" where
  "parse_cursor_position command sql =
     (let tokens = split_whitespace sql; n = length tokens in
      if tokens = [] \<or> to_ascii_uppercase (hd tokens) \<noteq> command \<or> n < 2 then None
      else
        let name = tokens ! (n - 1);
            direction_tokens =
              (if n \<ge> 3 \<and> to_ascii_uppercase (tokens ! (n - 2)) \<in> {''FROM'', ''IN''}
               then take (n - 3) (drop 1 tokens)
               else if n = 2 then []
               else take (n - 2) (drop 1 tokens))
        in map_option (\<lambda>d. \<lparr>pos_name = unquote_identifier name, pos_direction = d\<rparr>)
             (parse_cursor_direction direction_tokens))"

text \<open>
  The callers pass \<open>FETCH\<close> or \<open>MOVE\<close> only, so the third arm of the source, \<^verbatim>\<open>unreachable!\<close>, has
  no counterpart.
\<close>

definition classify_cursor_position :: "string \<Rightarrow> string \<Rightarrow> statement_plan" where
  "classify_cursor_position command sql =
     (case parse_cursor_position command sql of
        None \<Rightarrow> Reject ''42601'' (''unsupported '' @ command @ '' cursor syntax'')
      | Some position \<Rightarrow>
          CursorStatement (if command = ''FETCH'' then Fetch position else Move position))"

definition classify_close_cursor :: "string \<Rightarrow> statement_plan" where
  "classify_close_cursor sql =
     (let tokens = split_whitespace sql in
      if length tokens \<noteq> 2 then Reject ''42601'' ''unsupported CLOSE cursor syntax''
      else if eq_ignore_ascii_case (tokens ! 1) ''ALL'' then CursorStatement (Close CloseAll)
      else CursorStatement (Close (CloseOne (unquote_identifier (tokens ! 1)))))"

section \<open>Keywords\<close>

definition role_or_user :: "string \<Rightarrow> bool" where
  "role_or_user k \<longleftrightarrow> k \<in> set [''ROLE'', ''USER'']"

definition create_unsupported :: "string list" where
  "create_unsupported =
     [''INDEX'', ''EXTENSION'', ''PUBLICATION'', ''SUBSCRIPTION'', ''POLICY'', ''RULE'', ''EVENT'',
      ''TRIGGER'', ''TABLESPACE'', ''SERVER'', ''FOREIGN'', ''ACCESS'', ''TEXT'', ''OPERATOR'',
      ''LANGUAGE'', ''CAST'', ''COLLATION'', ''CONVERSION'', ''DOMAIN'', ''TYPE'', ''STATISTICS'',
      ''TRANSFORM'']"

definition classify_create :: "string \<Rightarrow> statement_plan" where
  "classify_create sql =
     (let k = second_keyword sql in
      if k = ''TABLE'' then execute_plan ''CREATE TABLE'' Omit
      else if k = ''VIEW'' then execute_plan ''CREATE VIEW'' Omit
      else if k = ''SCHEMA'' then execute_plan ''CREATE SCHEMA'' Omit
      else if role_or_user k then unsupported_policy
        ''role and user creation require explicit PostgreSQL-to-Exasol privilege mapping before they can be exposed''
      else if k \<in> set [''FUNCTION'', ''PROCEDURE'', ''SCRIPT''] then unsupported_policy
        ''routine creation requires explicit PostgreSQL-to-Exasol routine mapping before it can be exposed''
      else if k \<in> set create_unsupported then unsupported_no_equivalent
        (''PostgreSQL CREATE '' @ k @ '' has no supported Exasol equivalent in this gateway'')
      else Reject ''0A000'' (''unsupported PostgreSQL CREATE target: '' @ k))"

definition alter_unsupported :: "string list" where
  "alter_unsupported =
     [''FUNCTION'', ''PROCEDURE'', ''ROUTINE'', ''EXTENSION'', ''PUBLICATION'', ''SUBSCRIPTION'',
      ''POLICY'', ''RULE'', ''EVENT'', ''TRIGGER'', ''TABLESPACE'', ''SERVER'', ''FOREIGN'',
      ''ACCESS'', ''TEXT'', ''OPERATOR'', ''LANGUAGE'', ''COLLATION'', ''CONVERSION'', ''DOMAIN'',
      ''TYPE'', ''STATISTICS'']"

definition classify_alter :: "string \<Rightarrow> statement_plan" where
  "classify_alter sql =
     (let k = second_keyword sql in
      if k = ''TABLE'' then execute_plan ''ALTER TABLE'' Omit
      else if k = ''VIEW'' then execute_plan ''ALTER VIEW'' Omit
      else if k = ''SCHEMA'' then execute_plan ''ALTER SCHEMA'' Omit
      else if role_or_user k then unsupported_policy
        ''role and user alteration require explicit PostgreSQL-to-Exasol privilege mapping before they can be exposed''
      else if k = ''SYSTEM'' then unsupported_policy
        ''ALTER SYSTEM is not exposed through the PostgreSQL gateway policy''
      else if k \<in> set alter_unsupported then unsupported_no_equivalent
        (''PostgreSQL ALTER '' @ k @ '' has no supported Exasol equivalent in this gateway'')
      else Reject ''0A000'' (''unsupported PostgreSQL ALTER target: '' @ k))"

definition classify_drop :: "string \<Rightarrow> statement_plan" where
  "classify_drop sql =
     (let k = second_keyword sql in
      if k = ''TABLE'' then execute_plan ''DROP TABLE'' Omit
      else if k = ''VIEW'' then execute_plan ''DROP VIEW'' Omit
      else if k = ''SCHEMA'' then execute_plan ''DROP SCHEMA'' Omit
      else if role_or_user k then unsupported_policy
        ''role and user dropping require explicit PostgreSQL-to-Exasol privilege mapping before they can be exposed''
      else if k \<in> set [''FUNCTION'', ''PROCEDURE'', ''SCRIPT''] then unsupported_policy
        ''routine dropping requires explicit PostgreSQL-to-Exasol routine mapping before it can be exposed''
      else if k \<in> set create_unsupported \<or> k = ''OWNED'' then unsupported_no_equivalent
        (''PostgreSQL DROP '' @ k @ '' has no supported Exasol equivalent in this gateway'')
      else Reject ''0A000'' (''unsupported PostgreSQL DROP target: '' @ k))"

section \<open>Session settings\<close>

definition is_safe_set :: "regex_search \<Rightarrow> string \<Rightarrow> bool" where
  "is_safe_set E sql =
     (if is_match E SET_CHARACTERISTICS_RE sql then True
      else if is_match E SET_TRANSACTION_RE sql then False
      else is_match E SET_ASSIGN_RE sql)"

definition show_value :: "string \<Rightarrow> string option" where
  "show_value key =
     (if key = ''datestyle'' then Some ''ISO, YMD''
      else if key \<in> set [''timezone'', ''time_zone''] then Some ''Etc/UTC''
      else if key \<in> set [''transaction_isolation'', ''transaction_isolation_level'']
      then Some ''read committed''
      else if key = ''transaction_read_only'' then Some ''off''
      else if key = ''standard_conforming_strings'' then Some ''on''
      else if key = ''client_encoding'' then Some ''UTF8''
      else if key = ''server_version'' then Some ''16.6-exasol-gateway''
      else if key = ''application_name'' then Some []
      else None)"

definition show_key :: "string \<Rightarrow> string" where
  "show_key raw_name =
     to_ascii_lowercase (map (\<lambda>c. if c = CHR '' '' \<or> c = CHR ''-'' then CHR ''_'' else c) raw_name)"

definition local_show :: "regex_search \<Rightarrow> string \<Rightarrow> statement_plan option" where
  "local_show E sql =
     (case captures E SHOW_RE sql of
        None \<Rightarrow> None
      | Some cap \<Rightarrow>
          (case group cap 1 of
             None \<Rightarrow> None
           | Some g \<Rightarrow>
               let raw_name = trim g; key = show_key raw_name in
               if key = ''search_path'' then Some ShowSearchPath
               else map_option (ClientShow raw_name) (show_value key)))"

section \<open>Selects answered locally\<close>

definition single_value :: "string \<Rightarrow> string \<Rightarrow> statement_plan" where
  "single_value name v = ClientSelect [name] [[Some v]]"

record catalog_projection_item =
  source_name :: string
  output_name :: string

definition select_list :: "string \<Rightarrow> string option" where
  "select_list sql =
     (let lower = to_ascii_lowercase sql in
      (case find_text ''select'' lower of
         None \<Rightarrow> None
       | Some i \<Rightarrow>
           let select_start = i + 6 in
           (case find_text '' from '' (drop select_start lower) of
              None \<Rightarrow> None
            | Some j \<Rightarrow>
                let list = trim (take j (drop select_start sql)) in
                Some (if starts_with (to_ascii_lowercase list) ''distinct '' then trim (drop 8 list)
                      else list))))"

text \<open>\<open>start\<close> of the source is represented by \<open>cur\<close>, the reversed text since \<open>start\<close>.\<close>

fun split_items :: "string \<Rightarrow> int \<Rightarrow> bool \<Rightarrow> string \<Rightarrow> string list" where
  "split_items cur depth in_quote [] =
     (let tail = trim (rev cur) in if tail = [] then [] else [tail])"
| "split_items cur depth in_quote (ch # rest) =
     (if ch = squote then split_items (ch # cur) depth (\<not> in_quote) rest
      else if ch = CHR ''('' \<and> \<not> in_quote then split_items (ch # cur) (wrap32 (depth + 1)) in_quote rest
      else if ch = CHR '')'' \<and> \<not> in_quote then split_items (ch # cur) (wrap32 (depth - 1)) in_quote rest
      else if ch = CHR '','' \<and> \<not> in_quote \<and> depth = 0
      then trim (rev cur) # split_items [] depth in_quote rest
      else split_items (ch # cur) depth in_quote rest)"

definition split_select_items :: "string \<Rightarrow> string list" where
  "split_select_items l = split_items [] 0 False l"

definition split_alias :: "regex_search \<Rightarrow> string \<Rightarrow> string \<times> string option" where
  "split_alias E item =
     (case captures E AS_RE item of
        Some cap \<Rightarrow> (trim (case group cap 1 of Some g \<Rightarrow> g | None \<Rightarrow> item), group cap 2)
      | None \<Rightarrow> (item, None))"

definition source_column_name :: "string \<Rightarrow> string" where
  "source_column_name e =
     (let e' = trim_by (\<lambda>c. c = dquote) (trim e);
          last_part = to_ascii_lowercase (trim_by (\<lambda>c. c = dquote) (trim (last (split_char (CHR ''.'') e'))))
      in
      if contains last_part ''datname'' then ''datname''
      else if contains last_part ''nspname'' then ''nspname''
      else if contains last_part ''rolname'' then ''rolname''
      else if contains last_part ''current_database'' \<or> contains last_part ''current_catalog''
      then ''datname''
      else last_part)"

definition projection_from_item :: "regex_search \<Rightarrow> string \<Rightarrow> catalog_projection_item" where
  "projection_from_item E item =
     (let (e, alias) = split_alias E item; source = source_column_name e in
      \<lparr>source_name = source, output_name = (case alias of Some a \<Rightarrow> a | None \<Rightarrow> source)\<rparr>)"

definition select_alias :: "regex_search \<Rightarrow> string \<Rightarrow> string option" where
  "select_alias E sql =
     (case select_list sql of
        None \<Rightarrow> None
      | Some l \<Rightarrow>
          (case split_select_items l of
             [] \<Rightarrow> None
           | item # _ \<Rightarrow> Some (output_name (projection_from_item E item))))"

definition default_projection :: "(string \<times> string) list \<Rightarrow> catalog_projection_item list" where
  "default_projection row = map (\<lambda>(name, _). \<lparr>source_name = name, output_name = name\<rparr>) row"

definition catalog_projection ::
  "regex_search \<Rightarrow> string \<Rightarrow> (string \<times> string) list \<Rightarrow> catalog_projection_item list" where
  "catalog_projection E sql default_row =
     (case select_list sql of
        None \<Rightarrow> default_projection default_row
      | Some l \<Rightarrow>
          if trim l = ''*'' \<or> ends_with (trim l) ''.*'' then default_projection default_row
          else map (projection_from_item E) (split_select_items l))"

definition catalog_response_many ::
  "regex_search \<Rightarrow> string \<Rightarrow> (string \<times> string) list list \<Rightarrow> statement_plan" where
  "catalog_response_many E sql source_rows =
     (if contains (to_ascii_lowercase sql) ''count('' then
        ClientSelect [case select_alias E sql of Some a \<Rightarrow> a | None \<Rightarrow> ''count'']
          [[Some (show_nat (length source_rows))]]
      else
        let projections = catalog_projection E sql (case source_rows of [] \<Rightarrow> [] | r # _ \<Rightarrow> r) in
        ClientSelect (map output_name projections)
          (map (\<lambda>row. map (\<lambda>p. map_option snd (find (\<lambda>(key, _). eq_ignore_ascii_case key (source_name p)) row))
                        projections) source_rows))"

definition pg_settings_rows :: "(string \<times> string) list list" where
  "pg_settings_rows =
     [[(''name'', ''server_version''), (''setting'', ''16.6-exasol-gateway'')],
      [(''name'', ''client_encoding''), (''setting'', ''UTF8'')],
      [(''name'', ''standard_conforming_strings''), (''setting'', ''on'')],
      [(''name'', ''TimeZone''), (''setting'', ''Etc/UTC'')]]"

definition catalog_pg_settings :: "regex_search \<Rightarrow> string \<Rightarrow> statement_plan" where
  "catalog_pg_settings E sql = catalog_response_many E sql pg_settings_rows"

definition backend_pid_column :: "string \<Rightarrow> string" where
  "backend_pid_column sql =
     (case find_text '' as '' (to_ascii_lowercase sql) of
        None \<Rightarrow> ''pg_backend_pid''
      | Some idx \<Rightarrow>
          let name = unquote_identifier (drop (idx + 4) sql) in
          if name = [] then ''pg_backend_pid'' else name)"

definition local_select :: "regex_search \<Rightarrow> string \<Rightarrow> statement_plan option" where
  "local_select E sql =
     (let lower = to_ascii_lowercase sql in
      if contains lower ''pg_catalog.pg_settings'' \<or> contains lower '' pg_settings''
      then Some (catalog_pg_settings E sql)
      else if lower = ''select version()''
      then Some (single_value ''version'' ''PostgreSQL 16.6 compatible Exasol gateway'')
      else if lower = ''select current_database()'' then Some (single_value ''current_database'' ''exasol'')
      else if lower = ''select current_catalog'' \<or> lower = ''select current_catalog()''
      then Some (single_value ''current_catalog'' ''exasol'')
      else if lower = ''select current_user'' \<or> lower = ''select user''
      then Some (single_value ''current_user'' ''sys'')
      else if lower = ''select pg_backend_pid()'' \<or> starts_with lower ''select pg_backend_pid() as ''
      then Some (BackendPid (backend_pid_column sql))
      else None)"

section \<open>Classification\<close>

definition classify_keyword :: "regex_search \<Rightarrow> string \<Rightarrow> string \<Rightarrow> statement_plan" where
  "classify_keyword E keyword cleaned =
     (if keyword \<in> set [''SELECT'', ''WITH'', ''VALUES''] then execute_plan ''SELECT'' Omit
      else if keyword = ''INSERT'' then execute_plan ''INSERT'' Include
      else if keyword = ''UPDATE'' then execute_plan ''UPDATE'' Include
      else if keyword = ''DELETE'' then execute_plan ''DELETE'' Include
      else if keyword = ''MERGE'' then execute_plan ''MERGE'' Include
      else if keyword = ''TRUNCATE'' then execute_plan ''TRUNCATE TABLE'' Omit
      else if keyword = ''CREATE'' then classify_create cleaned
      else if keyword = ''ALTER'' then classify_alter cleaned
      else if keyword = ''DROP'' then classify_drop cleaned
      else if keyword = ''COMMENT'' then execute_plan ''COMMENT'' Omit
      else if keyword = ''GRANT'' then execute_plan ''GRANT'' Omit
      else if keyword = ''REVOKE'' then execute_plan ''REVOKE'' Omit
      else if keyword = ''COPY'' then unsupported_policy
        ''COPY requires a separate bulk data movement design before it can be exposed''
      else if keyword \<in> set [''IMPORT'', ''EXPORT''] then unsupported_policy
        ''Exasol IMPORT/EXPORT are not PostgreSQL commands and are not exposed through the gateway policy''
      else if keyword = ''DECLARE'' then classify_declare_cursor E cleaned
      else if keyword = ''FETCH'' then classify_cursor_position ''FETCH'' cleaned
      else if keyword = ''MOVE'' then classify_cursor_position ''MOVE'' cleaned
      else if keyword = ''CLOSE'' then classify_close_cursor cleaned
      else if keyword \<in> set [''PREPARE'', ''EXECUTE'', ''DEALLOCATE''] then unsupported_policy
        ''SQL prepared statement commands are not implemented; use PostgreSQL extended query protocol''
      else if keyword \<in> set [''BEGIN'', ''START''] then ClientTransactionStart
      else if keyword = ''COMMIT'' \<and> second_keyword cleaned = ''PREPARED'' then unsupported_no_equivalent
        ''PostgreSQL two-phase commit is not supported because no safe Exasol equivalent is configured''
      else if keyword = ''COMMIT'' then ClientTransactionEnd ''COMMIT''
      else if keyword = ''ROLLBACK'' \<and> second_keyword cleaned \<in> set [''TO'', ''PREPARED'']
      then unsupported_no_equivalent
        ''PostgreSQL savepoints and two-phase commit are not supported because no safe Exasol equivalent is configured''
      else if keyword = ''ROLLBACK'' then ClientTransactionEnd ''ROLLBACK''
      else if keyword \<in> set [''SAVEPOINT'', ''RELEASE''] then unsupported_no_equivalent
        ''PostgreSQL savepoints are not supported because no safe Exasol equivalent is configured''
      else if keyword = ''ABORT'' then ClientTransactionEnd ''ROLLBACK''
      else if keyword = ''END'' then ClientTransactionEnd ''COMMIT''
      else if keyword \<in> set [''SET'', ''RESET'', ''SHOW'']
      then Reject ''0A000'' ''unsupported PostgreSQL session command''
      else if keyword \<in> set [''LISTEN'', ''NOTIFY'', ''UNLISTEN''] then unsupported_no_equivalent
        ''PostgreSQL asynchronous notification commands have no Exasol equivalent''
      else if keyword \<in> set [''VACUUM'', ''REINDEX'', ''CLUSTER'', ''CHECKPOINT'', ''ANALYZE'']
      then unsupported_no_equivalent
        ''PostgreSQL maintenance commands have no safe Exasol equivalent in this gateway''
      else Reject ''0A000'' (''unsupported SQL statement class: '' @ keyword))"

definition plan_of_search_path :: "string \<Rightarrow> statement_plan" where
  "plan_of_search_path rhs =
     (case parse_search_path_value rhs of
        SinglePath schema \<Rightarrow> SetSearchPath schema
      | DefaultPath \<Rightarrow> ClientSet
      | InvalidPath \<Rightarrow> Reject ''42601'' ''invalid search_path value'')"

definition classify_cleaned :: "regex_search \<Rightarrow> string \<Rightarrow> statement_plan" where
  "classify_cleaned E cleaned =
     (if cleaned = [] then EmptyStatement
      else
        (case captures E SET_SEARCH_PATH_RE cleaned of
           Some cap \<Rightarrow> plan_of_search_path (trim (group_or_empty cap 1))
         | None \<Rightarrow>
             if is_safe_set E cleaned \<or> is_match E RESET_RE cleaned then ClientSet
             else
               (case local_show E cleaned of
                  Some plan \<Rightarrow> plan
                | None \<Rightarrow>
                    (case local_select E cleaned of
                       Some plan \<Rightarrow> plan
                     | None \<Rightarrow> classify_keyword E (first_keyword cleaned) cleaned))))"

definition classify_statement :: "regex_search \<Rightarrow> string \<Rightarrow> statement_plan" where
  "classify_statement E sql = classify_cleaned E (normalize_sql E sql)"

section \<open>Independence of the regex engine\<close>

lemma policy_patterns_parse:
  "rx_parse COMMENT_RE \<noteq> None" "rx_parse SET_ASSIGN_RE \<noteq> None" "rx_parse RESET_RE \<noteq> None"
  "rx_parse SHOW_RE \<noteq> None" "rx_parse SET_SEARCH_PATH_RE \<noteq> None" "rx_parse DECLARE_CURSOR_RE \<noteq> None"
  "rx_parse POSITIONED_WRITE_RE \<noteq> None" "rx_parse SET_CHARACTERISTICS_RE \<noteq> None"
  "rx_parse SET_TRANSACTION_RE \<noteq> None" "rx_parse AS_RE \<noteq> None"
  by code_simp+

lemma classify_statement_engine:
  assumes "regex_engine E"
  shows "classify_statement E sql = classify_statement bt_engine sql"
proof -
  note ops = policy_patterns_parse [THEN engine_ops(1) [OF assms]]
    policy_patterns_parse [THEN engine_ops(2) [OF assms]]
    policy_patterns_parse [THEN engine_ops(5) [OF assms]]
  have proj: "projection_from_item E = projection_from_item bt_engine"
    unfolding projection_from_item_def split_alias_def ops by (rule refl)
  have sel: "local_select E s = local_select bt_engine s" for s
    unfolding local_select_def catalog_pg_settings_def catalog_response_many_def select_alias_def
      catalog_projection_def proj by (rule refl)
  have decl: "classify_declare_cursor E s = classify_declare_cursor bt_engine s" for s
    unfolding classify_declare_cursor_def contains_positioned_cursor_write_def ops by (rule refl)
  show ?thesis
    unfolding classify_statement_def classify_cleaned_def normalize_sql_def is_safe_set_def
      local_show_def classify_keyword_def sel decl ops by (rule refl)
qed

section \<open>Properties of the policy\<close>

text \<open>The statements that may reach Exasol, by their first two keywords, with their tag.\<close>

definition executed_as :: "string \<Rightarrow> string \<Rightarrow> (string \<times> row_count_policy) option" where
  "executed_as k1 k2 =
     (if k1 \<in> set [''SELECT'', ''WITH'', ''VALUES''] then Some (''SELECT'', Omit)
      else if k1 \<in> set [''INSERT'', ''UPDATE'', ''DELETE'', ''MERGE''] then Some (k1, Include)
      else if k1 = ''TRUNCATE'' then Some (''TRUNCATE TABLE'', Omit)
      else if k1 \<in> set [''COMMENT'', ''GRANT'', ''REVOKE''] then Some (k1, Omit)
      else if k1 \<in> set [''CREATE'', ''ALTER'', ''DROP''] \<and> k2 \<in> set [''TABLE'', ''VIEW'', ''SCHEMA'']
      then Some (k1 @ '' '' @ k2, Omit)
      else None)"

lemmas ddl_defs = classify_create_def classify_alter_def classify_drop_def unsupported_policy_def
  unsupported_no_equivalent_def execute_plan_def

lemma ddl_executes:
  "classify_create sql = Execute c rc \<Longrightarrow> executed_as ''CREATE'' (second_keyword sql) = Some (c, rc)"
  "classify_alter sql = Execute c rc \<Longrightarrow> executed_as ''ALTER'' (second_keyword sql) = Some (c, rc)"
  "classify_drop sql = Execute c rc \<Longrightarrow> executed_as ''DROP'' (second_keyword sql) = Some (c, rc)"
  by (auto simp: ddl_defs executed_as_def Let_def split: if_splits)

lemma cursor_statements_not_executed:
  "classify_declare_cursor E sql \<noteq> Execute c rc" "classify_cursor_position cmd sql \<noteq> Execute c rc"
  "classify_close_cursor sql \<noteq> Execute c rc"
  by (auto simp: classify_declare_cursor_def classify_cursor_position_def classify_close_cursor_def
      unsupported_policy_def Let_def split: option.splits)

lemma classify_keyword_executes:
  assumes "classify_keyword E k sql = Execute c rc"
  shows "executed_as k (second_keyword sql) = Some (c, rc)"
  using assms cursor_statements_not_executed ddl_executes
  unfolding classify_keyword_def
  by (simp split: if_splits) (auto simp: executed_as_def execute_plan_def unsupported_policy_def unsupported_no_equivalent_def)

lemma local_plans_not_executed:
  "local_show E sql = Some plan \<Longrightarrow> plan \<noteq> Execute c rc"
  "local_select E sql = Some plan \<Longrightarrow> plan \<noteq> Execute c rc"
  "plan_of_search_path rhs \<noteq> Execute c rc"
  by (auto simp: local_show_def local_select_def plan_of_search_path_def Let_def single_value_def
      catalog_pg_settings_def catalog_response_many_def
      split: option.splits if_splits search_path_target.splits)

text \<open>
  C1. Only allowlisted statements reach Exasol. Whatever the regex engine does, a statement that
  is classified for execution is one of the read, DML and DDL statements of \<open>executed_as\<close>, by
  the first keyword of its cleaned text (for CREATE, ALTER and DROP also the second), and it
  carries the command tag and row count policy of that statement.
\<close>

theorem executes_only_allowlisted:
  assumes "classify_statement E sql = Execute command row_count"
  shows "executed_as (first_keyword (normalize_sql E sql)) (second_keyword (normalize_sql E sql))
           = Some (command, row_count)"
  using assms
  by (auto simp: classify_statement_def classify_cleaned_def local_plans_not_executed(3)
      dest: local_plans_not_executed(1,2) classify_keyword_executes split: if_splits option.splits)

theorem executes_only_allowlisted_witness:
  "executed_as (first_keyword (normalize_sql bt_engine ''create or replace view v as select 1;''))
     (second_keyword (normalize_sql bt_engine ''create or replace view v as select 1;''))
     = Some (''CREATE VIEW'', Omit)"
  by (rule executes_only_allowlisted) code_simp

section \<open>Round trip of FETCH and MOVE\<close>

fun direction_words :: "cursor_direction \<Rightarrow> string list" where
  "direction_words Next = [''NEXT'']"
| "direction_words Prior = [''PRIOR'']"
| "direction_words First = [''FIRST'']"
| "direction_words Last = [''LAST'']"
| "direction_words (Absolute n) = [''ABSOLUTE'', show_int n]"
| "direction_words (Relative n) = [''RELATIVE'', show_int n]"
| "direction_words (Forward None) = [''FORWARD'', ''ALL'']"
| "direction_words (Forward (Some n)) = [''FORWARD'', show_int n]"
| "direction_words (Backward None) = [''BACKWARD'', ''ALL'']"
| "direction_words (Backward (Some n)) = [''BACKWARD'', show_int n]"
| "direction_words AllRows = [''ALL'']"
| "direction_words (Count n) = [show_int n]"

fun canonical :: "cursor_direction \<Rightarrow> bool" where
  "canonical (Absolute n) = in_i64 n"
| "canonical (Relative n) = in_i64 n"
| "canonical (Count n) = in_i64 n"
| "canonical (Forward (Some n)) = (0 \<le> n \<and> n \<le> i64_max)"
| "canonical (Backward (Some n)) = (0 \<le> n \<and> n \<le> i64_max)"
| "canonical _ = True"

lemma keyword_eqs [simp]:
  "to_ascii_lowercase ''NEXT'' = ''next''" "to_ascii_lowercase ''PRIOR'' = ''prior''"
  "to_ascii_lowercase ''FIRST'' = ''first''" "to_ascii_lowercase ''LAST'' = ''last''"
  "to_ascii_lowercase ''ALL'' = ''all''" "to_ascii_lowercase ''FORWARD'' = ''forward''"
  "to_ascii_lowercase ''BACKWARD'' = ''backward''" "to_ascii_lowercase ''ABSOLUTE'' = ''absolute''"
  "to_ascii_lowercase ''RELATIVE'' = ''relative''"
  by code_simp+

lemma number_not_keyword [simp]:
  "\<not> eq_ignore_ascii_case (show_int n) ''NEXT''" "\<not> eq_ignore_ascii_case (show_int n) ''PRIOR''"
  "\<not> eq_ignore_ascii_case (show_int n) ''FIRST''" "\<not> eq_ignore_ascii_case (show_int n) ''LAST''"
  "\<not> eq_ignore_ascii_case (show_int n) ''ALL''" "\<not> eq_ignore_ascii_case (show_int n) ''FORWARD''"
  "\<not> eq_ignore_ascii_case (show_int n) ''BACKWARD''"
  by (rule show_int_not_word, code_simp)+

lemma parse_direction_words:
  assumes "canonical d"
  shows "parse_cursor_direction (direction_words d) = Some d"
proof -
  have *: "0 \<le> n \<Longrightarrow> n \<le> i64_max \<Longrightarrow> in_i64 n" for n by (simp add: in_i64_def i64_min_def)
  show ?thesis
    using assms
    by (cases d rule: direction_words.cases)
       (simp_all add: parse_cursor_direction_def eq_ignore_ascii_case_def [of "''NEXT''"]
         eq_ignore_ascii_case_def [of "''PRIOR''"] eq_ignore_ascii_case_def [of "''FIRST''"]
         eq_ignore_ascii_case_def [of "''LAST''"] eq_ignore_ascii_case_def [of "''ALL''"]
         eq_ignore_ascii_case_def [of "''FORWARD''"] eq_ignore_ascii_case_def [of "''BACKWARD''"]
         eq_ignore_ascii_case_def [of "''ABSOLUTE''"] eq_ignore_ascii_case_def [of "''RELATIVE''"]
         parse_i64_show *)
qed

lemma direction_words_clean:
  "list_all (\<lambda>w. w \<noteq> [] \<and> list_all (\<lambda>c. \<not> is_ws c) w) (direction_words d)"
  by (cases d rule: direction_words.cases; simp add: show_int_clean; simp add: is_ws_def)

text \<open>A cursor name as a client quotes it: no white space, no quote at either end.\<close>

definition cursor_name_ok :: "string \<Rightarrow> bool" where
  "cursor_name_ok s \<longleftrightarrow> s \<noteq> [] \<and> list_all (\<lambda>c. \<not> is_ws c) s \<and> hd s \<noteq> dquote \<and> last s \<noteq> dquote"

lemma trim_quotes:
  "s = [] \<or> hd s \<noteq> q \<and> last s \<noteq> q \<Longrightarrow> trim_by (\<lambda>c. c = q) (q # s @ [q]) = s"
proof -
  assume s: "s = [] \<or> hd s \<noteq> q \<and> last s \<noteq> q"
  have "dropWhile (\<lambda>c. c = q) (q # s @ [q]) = (if s = [] then [] else s @ [q])"
    using s by (cases s) auto
  moreover have "dropWhile (\<lambda>c. c = q) (rev s) = rev s"
    using s by (intro dropWhile_hd_id) (auto simp: hd_rev)
  ultimately show ?thesis
    by (simp add: trim_by_def trim_start_by_def trim_end_by_def)
qed

lemma unquote_quoted:
  assumes "cursor_name_ok s"
  shows "unquote_identifier (quote_ident s) = s"
proof -
  have "trim (quote_ident s) = quote_ident s"
    by (rule trim_by_id) (simp add: quote_ident_def is_ws_def)
  moreover have "trim_end_by (\<lambda>c. c = CHR '';'') (quote_ident s) = quote_ident s"
    by (simp add: quote_ident_def trim_end_by_def)
  moreover have "trim_by (\<lambda>c. c = dquote) (quote_ident s) = double_quote dquote s"
    using assms double_quote_ends [of s dquote]
    by (auto simp: quote_ident_def cursor_name_ok_def intro!: trim_quotes)
  ultimately show ?thesis by (simp add: unquote_identifier_def replace_undoubles)
qed

definition position_text :: "string \<Rightarrow> position_plan \<Rightarrow> string" where
  "position_text command p =
     join_with '' '' (command # direction_words (pos_direction p) @ [''FROM'', quote_ident (pos_name p)])"

lemma parse_position_text:
  assumes "canonical (pos_direction p)" and "cursor_name_ok (pos_name p)"
    and "command \<in> {''FETCH'', ''MOVE''}"
  shows "parse_cursor_position command (position_text command p) = Some p"
proof -
  let ?ds = "direction_words (pos_direction p)"
  let ?ws = "command # ?ds @ [''FROM'', quote_ident (pos_name p)]"
  have name: "list_all (\<lambda>c. \<not> is_ws c) (quote_ident (pos_name p))"
    using assms(2) double_quote_set [of "\<lambda>c. \<not> is_ws c" "pos_name p" dquote]
    by (simp add: quote_ident_def cursor_name_ok_def is_ws_def)
  have "command \<noteq> [] \<and> list_all (\<lambda>c. \<not> is_ws c) command" using assms(3) by (auto simp: is_ws_def)
  moreover have "list_all (\<lambda>c. \<not> is_ws c) ''FROM''" by (simp add: is_ws_def)
  moreover have "quote_ident (pos_name p) \<noteq> []" by (simp add: quote_ident_def)
  ultimately have split: "split_whitespace (position_text command p) = ?ws"
    unfolding position_text_def using name direction_words_clean
    by (intro split_whitespace_join) simp
  have up: "to_ascii_uppercase command = command" "to_ascii_uppercase ''FROM'' = ''FROM''"
    using assms(3) by (auto, code_simp+)
  have nth: "?ws ! (length ?ds + 1) = ''FROM''" "?ws ! (length ?ds + 2) = quote_ident (pos_name p)"
    by (simp_all add: nth_append)
  show ?thesis
    unfolding parse_cursor_position_def split Let_def
    using up nth parse_direction_words [OF assms(1)] unquote_quoted [OF assms(2)]
    by simp
qed

lemma position_text_ends:
  assumes "command \<noteq> []"
  shows "position_text command p \<noteq> [] \<and> hd (position_text command p) = hd command \<and>
    last (position_text command p) = dquote"
  using assms by (simp add: position_text_def join_with_def quote_ident_def)

section \<open>Statements without comments\<close>

definition comment_rx :: rx where
  "comment_rx = the (rx_parse COMMENT_RE)"

lemma comment_rx_eq:
  "comment_rx =
     Alt (Seq (Cls False [(47, 47)]) (Seq (Cls False [(42, 42)])
           (Seq (Star False (Cls True [])) (Seq (Cls False [(42, 42)]) (Cls False [(47, 47)])))))
         (Seq (Cls False [(45, 45)]) (Seq (Cls False [(45, 45)]) (Star True (Cls True [(10, 10), (13, 13)]))))"
  by code_simp

lemma lower_char_s: "lower_char c = CHR ''s'' \<Longrightarrow> c = CHR ''S'' \<or> c = CHR ''s''"
  using code_point_lower [of c] code_point_inj [of c "CHR ''S''"] code_point_inj [of c "CHR ''s''"]
  by (auto simp: code_point_def split: if_splits)

lemma cls_marks [simp]:
  "cls_has False [(47, 47)] c \<longleftrightarrow> c = CHR ''/''" "cls_has False [(42, 42)] c \<longleftrightarrow> c = CHR ''*''"
  "cls_has False [(45, 45)] c \<longleftrightarrow> c = CHR ''-''"
  using code_point_inj [of c "CHR ''/''"] code_point_inj [of c "CHR ''*''"] code_point_inj [of c "CHR ''-''"]
  by (simp_all add: cls_char) (simp_all add: code_point_def)

lemma comment_run_none:
  assumes "\<not> prefix ''--'' s" "\<not> prefix ''/*'' s"
  shows "run comment_rx (prev, s, []) = []"
  using assms unfolding comment_rx_eq by (auto split: list.splits simp del: run.simps(5))

lemma comment_search_none:
  assumes "\<not> sublist ''--'' s" "\<not> sublist ''/*'' s"
  shows "rx_search_from comment_rx skipped prev s = None"
  using assms
proof (induction s arbitrary: skipped prev)
  case Nil
  then show ?case using comment_run_none [of "[]" prev] by simp
next
  case (Cons c s)
  then show ?case
    using comment_run_none [of "c # s" prev] by (auto simp: sublist_Cons_right)
qed

lemma normalize_plain:
  assumes "regex_engine E" and "\<not> sublist ''--'' s" "\<not> sublist ''/*'' s"
    and "s \<noteq> []" "\<not> is_ws (hd s)" "\<not> is_ws (last s)" "last s \<noteq> CHR '';''"
  shows "normalize_sql E s = s"
proof -
  have "rx_parse COMMENT_RE = Some comment_rx"
    using policy_patterns_parse(1) by (simp add: comment_rx_def)
  then have "E COMMENT_RE None s = None"
    using regex_engine.leftmost_first [OF assms(1)] comment_search_none [OF assms(2,3)]
    by (simp add: rx_search_def)
  then have "replace_all E COMMENT_RE s '' '' = s" by (rule replace_all_none)
  moreover have "trim s = s" using assms by (intro trim_by_id) simp
  moreover have "trim_end_by (\<lambda>c. c = CHR '';'') s = s"
    using assms by (simp add: trim_end_by_def dropWhile_hd_id hd_rev)
  ultimately show ?thesis by (simp add: normalize_sql_def)
qed

text \<open>
  The patterns for SET, RESET and SHOW start with \<^verbatim>\<open>^\<close> and a letter: they fail on a text that
  starts with another one.
\<close>

lemma anchored_none:
  assumes "regex_engine E" and "rx_parse p = Some (Seq Bol (Seq (Cls neg ranges) r))"
    and "s = [] \<or> \<not> cls_has neg ranges (hd s)"
  shows "\<not> is_match E p s" and "captures E p s = None"
  using regex_engine.leftmost_first [OF assms(1,2)] bol_cls_search [OF assms(3)]
  by (simp_all add: is_match_def captures_def)

definition anchor_of :: "rx \<Rightarrow> (int \<times> int) list option" where
  "anchor_of r = (case r of Seq Bol (Seq (Cls False ranges) _) \<Rightarrow> Some ranges | _ \<Rightarrow> None)"

lemma anchor_of_Some: "anchor_of r = Some ranges \<Longrightarrow> \<exists>r'. r = Seq Bol (Seq (Cls False ranges) r')"
  by (auto simp: anchor_of_def split: rx.splits bool.splits)

lemma session_patterns_anchored:
  "Option.bind (rx_parse SET_SEARCH_PATH_RE) anchor_of = Some [(83, 83), (115, 115)]"
  "Option.bind (rx_parse SET_CHARACTERISTICS_RE) anchor_of = Some [(83, 83), (115, 115)]"
  "Option.bind (rx_parse SET_TRANSACTION_RE) anchor_of = Some [(83, 83), (115, 115)]"
  "Option.bind (rx_parse SET_ASSIGN_RE) anchor_of = Some [(83, 83), (115, 115)]"
  "Option.bind (rx_parse SHOW_RE) anchor_of = Some [(83, 83), (115, 115)]"
  "Option.bind (rx_parse RESET_RE) anchor_of = Some [(82, 82), (114, 114)]"
  by code_simp+

lemma anchored_fails:
  assumes "regex_engine E" and "Option.bind (rx_parse p) anchor_of = Some ranges"
    and "s = [] \<or> \<not> cls_has False ranges (hd s)"
  shows "\<not> is_match E p s" and "captures E p s = None"
proof -
  obtain r where "rx_parse p = Some (Seq Bol (Seq (Cls False ranges) r))"
    using assms(2) by (auto simp: bind_eq_Some_conv dest: anchor_of_Some)
  from anchored_none [OF assms(1) this assms(3)]
  show "\<not> is_match E p s" and "captures E p s = None" .
qed

text \<open>A cleaned statement that starts with neither S nor R and names no \<open>pg_settings\<close>.\<close>

lemma classify_by_keyword:
  assumes E: "regex_engine E" and ne: "s \<noteq> []"
    and hd: "hd s \<notin> set ''SsRr''"
    and "\<not> contains (to_ascii_lowercase s) ''pg_settings''"
  shows "classify_cleaned E s = classify_keyword E (first_keyword s) s"
proof -
  have c: "\<not> cls_has False [(83, 83), (115, 115)] (hd s)" "\<not> cls_has False [(82, 82), (114, 114)] (hd s)"
    using hd code_point_inj [of "hd s" "CHR ''S''"] code_point_inj [of "hd s" "CHR ''s''"]
      code_point_inj [of "hd s" "CHR ''R''"] code_point_inj [of "hd s" "CHR ''r''"]
    by (auto simp: cls_has_def) (auto simp: code_point_def)
  note fails = session_patterns_anchored [THEN anchored_fails(1) [OF E]]
    session_patterns_anchored [THEN anchored_fails(2) [OF E]]
  have sub: "\<not> contains (to_ascii_lowercase s) ''pg_catalog.pg_settings''"
    "\<not> contains (to_ascii_lowercase s) '' pg_settings''"
  proof -
    have "sublist ''pg_settings'' ''pg_catalog.pg_settings''" "sublist ''pg_settings'' '' pg_settings''"
      by (simp_all add: sublist_Cons_right)
    then show "\<not> contains (to_ascii_lowercase s) ''pg_catalog.pg_settings''"
      "\<not> contains (to_ascii_lowercase s) '' pg_settings''"
      using assms(4) sublist_order.order.trans by (auto simp: contains_iff)
  qed
  have sel: "to_ascii_lowercase s \<noteq> CHR ''s'' # t" for t
    using hd ne by (cases s) (auto simp: to_ascii_lowercase_def dest: lower_char_s)
  have "local_select E s = None"
    using sub sel by (auto simp: local_select_def starts_with_def prefix_def)
  moreover have "local_show E s = None" using fails c by (simp add: local_show_def)
  moreover have "\<not> is_safe_set E s" using fails c by (simp add: is_safe_set_def)
  ultimately show ?thesis
    using fails c ne by (simp add: classify_cleaned_def)
qed

lemma position_first_keyword:
  assumes "command \<in> {''FETCH'', ''MOVE''}"
  shows "first_keyword (position_text command p) = command"
proof -
  have clean: "command \<noteq> [] \<and> list_all (\<lambda>c. \<not> is_ws c) command" using assms by (auto simp: is_ws_def)
  obtain rest where "position_text command p = command @ CHR '' '' # rest"
    by (cases "direction_words (pos_direction p)") (auto simp: position_text_def join_with_def)
  then have "split_whitespace (position_text command p) = command # split_whitespace rest"
    using clean by (simp add: split_whitespace_word is_ws_def [of "CHR '' ''"])
  then have fk: "first_keyword (position_text command p) =
      to_ascii_uppercase (trim_start_by (\<lambda>c. c = CHR ''('') command)"
    by (simp add: first_keyword_def)
  have "to_ascii_uppercase (trim_start_by (\<lambda>c. c = CHR ''('') ''FETCH'') = ''FETCH''"
    "to_ascii_uppercase (trim_start_by (\<lambda>c. c = CHR ''('') ''MOVE'') = ''MOVE''"
    by code_simp+
  with assms fk show ?thesis by (auto simp del: keyword_eqs)
qed

lemma classify_position_keyword:
  "command \<in> {''FETCH'', ''MOVE''} \<Longrightarrow> classify_keyword E command s = classify_cursor_position command s"
  by (elim insertE) (simp_all add: classify_keyword_def)



section \<open>The search path\<close>

lemma comma_scan_quoted:
  assumes "c \<noteq> dquote"
  shows "comma_scan True False i (double_quote dquote s @ dquote # c # rest)
       = comma_scan False False (i + length (double_quote dquote s) + 1) (c # rest)"
    and "comma_scan True False i (double_quote dquote s @ [dquote]) = None"
  using assms
  by (induction s arbitrary: i) auto

lemma strip_quoted: "strip_enclosing (quote_ident s) dquote dquote = Some (double_quote dquote s)"
  by (simp add: strip_enclosing_def quote_ident_def)

lemma quoted_not_default: "\<not> eq_ignore_ascii_case (quote_ident s) ''DEFAULT''"
proof -
  have "to_ascii_lowercase ''DEFAULT'' = ''default''" by code_simp
  moreover have "to_ascii_lowercase (quote_ident s) \<noteq> CHR ''d'' # t" for t
    by (simp add: quote_ident_def to_ascii_lowercase_def lower_char_def is_ascii_upper_def code_point_def)
  ultimately show ?thesis by (simp add: eq_ignore_ascii_case_def)
qed

lemma trim_quoted: "trim (quote_ident s) = quote_ident s"
  by (rule trim_by_id) (simp add: quote_ident_def is_ws_def)

lemma parse_quoted_path:
  assumes "s \<noteq> []"
  shows "parse_search_path_value (quote_ident s) = SinglePath s"
proof -
  have "top_level_comma_index (quote_ident s) = None"
    by (simp add: top_level_comma_index_def quote_ident_def comma_scan_quoted(2) [of "CHR ''a''"])
  moreover have "quote_ident s \<noteq> []" by (simp add: quote_ident_def)
  ultimately show ?thesis
    using assms quoted_not_default [of s]
    by (simp add: parse_search_path_value.simps [of "quote_ident s"] trim_quoted strip_quoted
        replace_undoubles Let_def)
qed

lemma parse_path_list:
  assumes "names \<noteq> []" and "list_all (\<lambda>s. s \<noteq> []) names"
  shows "parse_search_path_value (join_with '', '' (map quote_ident names)) = SinglePath (hd names)"
proof (cases names)
  case Nil
  with assms show ?thesis by simp
next
  case (Cons s rest)
  show ?thesis
  proof (cases rest)
    case Nil
    then show ?thesis using Cons assms parse_quoted_path by simp
  next
    case (Cons s' rest')
    let ?v = "join_with '', '' (map quote_ident names)"
    obtain tail where v: "?v = quote_ident s @ CHR '','' # tail @ [dquote]"
    proof -
      have "join_with '', '' (map quote_ident (t # ts)) \<noteq> [] \<and>
          last (join_with '', '' (map quote_ident (t # ts))) = dquote" for t ts
        by (induction ts arbitrary: t) (simp_all add: join_with_Cons quote_ident_def)
      then obtain w where "join_with '', '' (map quote_ident (s' # rest')) = w @ [dquote]"
        by (metis append_butlast_last_id)
      then show thesis
        using Cons \<open>names = s # rest\<close> by (intro that [of "CHR '' '' # w"]) (simp add: join_with_Cons)
    qed
    have trim: "trim ?v = ?v"
      unfolding v by (rule trim_by_id) (simp add: quote_ident_def is_ws_def)
    have "top_level_comma_index ?v = Some (length (quote_ident s))"
      unfolding v by (simp add: top_level_comma_index_def quote_ident_def comma_scan_quoted(1))
    moreover have "?v \<noteq> []" unfolding v by simp
    ultimately have "parse_search_path_value ?v = parse_search_path_value (take (length (quote_ident s)) ?v)"
      using trim by (simp add: parse_search_path_value.simps [of ?v] Let_def)
    then show ?thesis
      using \<open>names = s # rest\<close> assms(2) parse_quoted_path [of s] unfolding v by simp
  qed
qed

text \<open>The pattern of \<open>SET search_path\<close>, parsed.\<close>

definition path_value_rx :: rx where
  "path_value_rx = Seq (Grp 1 (Seq dot_rx (Star True dot_rx))) Eol"

definition path_tail_rx :: rx where
  "path_tail_rx =
     Seq (Star True ws_rx)
      (Seq (Alt (Cls False [(61, 61)]) (Seq (two_rx 84 116) (Seq (two_rx 79 111) WordB)))
        (Seq (Star True ws_rx) path_value_rx))"

definition path_name_rx :: rx where
  "path_name_rx = foldr Seq
     [two_rx 115 83, two_rx 101 69, two_rx 97 65, two_rx 114 82, two_rx 99 67, two_rx 104 72,
      Cls False [(95, 95)], two_rx 112 80, two_rx 97 65, two_rx 116 84, two_rx 104 72] path_tail_rx"

definition path_rx :: rx where
  "path_rx = foldr Seq
     [Bol, two_rx 83 115, two_rx 69 101, two_rx 84 116, Seq ws_rx (Star True ws_rx),
      Alt (foldr Seq [two_rx 83 115, two_rx 69 101, two_rx 83 115, two_rx 83 115, two_rx 73 105,
             two_rx 79 111, two_rx 78 110] (Seq ws_rx (Star True ws_rx))) Eps] path_name_rx"

lemma path_rx_parse: "rx_parse SET_SEARCH_PATH_RE = Some path_rx"
  by code_simp

lemma is_ws_lits: "is_ws (CHR '' '')" "\<not> is_ws (CHR ''T'')" "\<not> is_ws (CHR ''s'')"
  by (simp_all add: is_ws_def)

lemma is_word_lits: "is_word (CHR ''O'')" "\<not> is_word (CHR '' '')"
  by code_simp+

lemma path_value_run:
  assumes "list_all (\<lambda>c. c \<noteq> CHR 0x0A) (c # s)"
  shows "bt path_value_rx (prev, c # s, []) Some = Some (Some (last (c # s)), [], [(1, c # s)])"
proof -
  have all: "list_all (cls_has True [(10, 10)]) s" and c: "cls_has True [(10, 10)] c"
    using assms(1) by (simp_all add: dot_rx_has list_all_iff)
  have "bt (Star True dot_rx) (Some c, s, [])
      (\<lambda>st'. bt Eol (set_group 1 (st_rest (prev, c # s, [])) st') Some) =
      Some (Some (last (c # s)), [], [(1, c # s)])"
    using all by (rule star_cls_all) (auto simp: set_group_def split: list.splits)
  then show ?thesis
    unfolding path_value_rx_def bt.simps(3,6) bt_cls(1) [OF c] .
qed

lemma path_tail_run:
  assumes "list_all (\<lambda>c. c \<noteq> CHR 0x0A) (c # s)" and "\<not> is_ws c"
  shows "bt path_tail_rx (Some (CHR ''h''), '' TO '' @ c # s, []) Some =
     Some (Some (last (c # s)), [], [(1, c # s)])"
  using path_value_run [OF assms(1)] assms(2)
  by (simp add: path_tail_rx_def bt_eval ws_rx_has two_rx_has cls_char is_ws_lits code_point_Char
        word_edge_def is_word_lits del: bt.simps(2,5))

lemma path_run:
  assumes "list_all (\<lambda>c. c \<noteq> CHR 0x0A) (c # s)" and "\<not> is_ws c"
  shows "bt path_rx (None, ''SET search_path TO '' @ c # s, []) Some =
     Some (Some (last (c # s)), [], [(1, c # s)])"
proof -
  have "bt path_name_rx (Some (CHR '' ''), ''search_path TO '' @ c # s, []) Some =
      Some (Some (last (c # s)), [], [(1, c # s)])"
    using path_tail_run [OF assms]
    by (simp add: path_name_rx_def bt_eval two_rx_has cls_char code_point_Char del: bt.simps(2,5))
  then show ?thesis
    by (simp add: path_rx_def bt_eval ws_rx_has two_rx_has cls_char code_point_Char is_ws_lits
        del: bt.simps(2,5))
qed

lemma path_search:
  assumes "list_all (\<lambda>c. c \<noteq> CHR 0x0A) v" and "v \<noteq> []" and "\<not> is_ws (hd v)"
  shows "bt_engine SET_SEARCH_PATH_RE None (''SET search_path TO '' @ v) =
     Some \<lparr>m_before = [], m_whole = ''SET search_path TO '' @ v, m_groups = [(1, v)], m_after = []\<rparr>"
proof -
  obtain c s where v: "v = c # s" using assms(2) by (cases v) auto
  have "bt path_rx (None, ''SET search_path TO '' @ v, []) Some = Some (Some (last v), [], [(1, v)])"
    using path_run [of c s] assms v by simp
  then show ?thesis
    by (simp add: bt_engine_def path_rx_parse mk_match_def)
qed

definition path_text :: "string list \<Rightarrow> string" where
  "path_text names = ''SET search_path TO '' @ join_with '', '' (map quote_ident names)"

lemma join_quoted_ends:
  assumes "names \<noteq> []"
  shows "join_with '', '' (map quote_ident names) \<noteq> [] \<and>
    hd (join_with '', '' (map quote_ident names)) = dquote \<and>
    last (join_with '', '' (map quote_ident names)) = dquote"
  using assms
proof (induction names)
  case (Cons s names)
  then show ?case by (cases names) (simp_all add: join_with_Cons quote_ident_def)
qed simp

lemma join_quoted_no_newline:
  assumes "list_all (list_all (\<lambda>c. c \<noteq> CHR 0x0A)) names"
  shows "list_all (\<lambda>c. c \<noteq> CHR 0x0A) (join_with '', '' (map quote_ident names))"
  using assms
proof (induction names)
  case (Cons s names)
  then show ?case
    using double_quote_set [of "\<lambda>c. c \<noteq> CHR 0x0A" s dquote]
    by (cases names) (simp_all add: join_with_Cons quote_ident_def)
qed simp



text \<open>
  Any statement that mentions \<^verbatim>\<open>pg_settings\<close> is answered from the built-in settings. With
  every engine that meets the documentation, a DELETE on that view is not rejected and not
  executed: the client gets the rows of a SELECT.
\<close>

lemma pg_settings_shadows_delete:
  assumes "regex_engine E"
  shows "classify_statement E ''DELETE FROM pg_settings'' =
    ClientSelect [''name'', ''setting'']
      [[Some ''server_version'', Some ''16.6-exasol-gateway''], [Some ''client_encoding'', Some ''UTF8''],
       [Some ''standard_conforming_strings'', Some ''on''], [Some ''TimeZone'', Some ''Etc/UTC'']]"
  unfolding classify_statement_engine [OF assms] by code_simp

text \<open>
  The cursor options are compared with single blanks. The pattern of DECLARE accepts any
  white space between the words of \<^verbatim>\<open>WITH HOLD\<close> and \<^verbatim>\<open>NO SCROLL\<close>, but with two blanks the first
  declares a cursor that is not kept after the transaction and the second a scrollable one.
\<close>

lemma declare_options_need_single_blanks:
  assumes "regex_engine E"
  shows "classify_statement E ''DECLARE c CURSOR WITH  HOLD FOR SELECT 1'' =
      CursorStatement (Declare \<lparr>decl_name = ''c'', decl_query = ''SELECT 1'', decl_scroll = False, decl_hold = False\<rparr>) \<and>
    classify_statement E ''DECLARE c NO  SCROLL CURSOR FOR SELECT 1'' =
      CursorStatement (Declare \<lparr>decl_name = ''c'', decl_query = ''SELECT 1'', decl_scroll = True, decl_hold = False\<rparr>)"
  unfolding classify_statement_engine [OF assms] by (rule conjI; code_simp)

end
