(* ===== verification/Metadata.thy ===== *)
theory Metadata
  imports Regex_Engine
begin

text \<open>
  Recognition of driver metadata queries and the mapping of Exasol column types to PostgreSQL
  type descriptors (\<^verbatim>\<open>src/src/metadata.rs\<close>). \<open>detect\<close> looks at the text of a statement only; the
  answers are built in theory \<^verbatim>\<open>Session\<close>.
\<close>

unbundle bit_operations_syntax

section \<open>Plans\<close>

datatype metadata_plan =
    PgNamespace
  | JdbcSchemas
  | JdbcTables string string
  | JdbcColumns string string string
  | PgTables "string option" "string option"
  | InfoSchemaTableNames string string
  | InfoSchemaColumnNames string string string
  | PgUser
  | PgGroup
  | PgStatActivity
  | PgLocks

section \<open>Patterns\<close>

definition JDBC_SCHEMAS_RE :: string where
  \<open>JDBC_SCHEMAS_RE = src_text ''(?is)^select%s+nspname%s+as%s+"TABLE_SCHEM".*from%s+pg_catalog%.pg_namespace''\<close>

definition JDBC_TABLES_RE :: string where
  \<open>JDBC_TABLES_RE = src_text (''(?is)^select%s+current_database%(%)%s+as%s+"TABLE_CAT".*from%s+'' @
     ''pg_catalog%.pg_namespace%s+n,%s+pg_catalog%.pg_class%s+c'')\<close>

definition JDBC_COLUMNS_RE :: string where
  "JDBC_COLUMNS_RE = src_text (''(?is)^select%s+%*%s+from%s+%(select%s+current_database%(%)%s+as%s+'' @
     ''current_database.*join%s+pg_catalog%.pg_attribute%s+a'')"

definition PG_NAMESPACE_RE :: string where
  "PG_NAMESPACE_RE = src_text ''(?is)^select%s+%*%s+from%s+pg_catalog%.pg_namespace%b''"

definition PG_TABLES_RE :: string where
  "PG_TABLES_RE = src_text ''(?is)^select%s+%*%s+from%s+pg_tables%b''"

definition INFO_SCHEMA_TABLES_RE :: string where
  "INFO_SCHEMA_TABLES_RE = src_text ''(?is)^select%s+table_name%s+from%s+information_schema%.tables%b''"

definition INFO_SCHEMA_COLUMNS_RE :: string where
  "INFO_SCHEMA_COLUMNS_RE = src_text ''(?is)^select%s+column_name%s+from%s+information_schema%.columns%b''"

definition PG_USER_RE :: string where
  "PG_USER_RE = src_text ''(?is)^select%s+%*%s+from%s+pg_user%b''"

definition PG_GROUP_RE :: string where
  "PG_GROUP_RE = src_text ''(?is)^select%s+%*%s+from%s+pg_group%b''"

definition PG_STAT_ACTIVITY_RE :: string where
  "PG_STAT_ACTIVITY_RE = src_text ''(?is)^select%s+%*%s+from%s+pg_stat_activity%b''"

definition PG_LOCKS_RE :: string where
  "PG_LOCKS_RE = src_text ''(?is)^select%s+%*%s+from%s+pg_locks%b''"

definition NAMESPACE_LIKE_RE :: string where
  "NAMESPACE_LIKE_RE = src_text ''(?i)%bn(?:%.nspname)?%s+like%s+`((?:[^`]|``)*)`''"

definition RELNAME_LIKE_RE :: string where
  "RELNAME_LIKE_RE = src_text ''(?i)%bc(?:%.relname)?%s+like%s+`((?:[^`]|``)*)`''"

definition ATTNAME_LIKE_RE :: string where
  "ATTNAME_LIKE_RE = src_text ''(?i)%battname%s+like%s+`((?:[^`]|``)*)`''"

definition SCHEMANAME_NE_RE :: string where
  "SCHEMANAME_NE_RE = src_text ''(?i)%bschemaname%s*!=%s*`((?:[^`]|``)*)`''"

definition TABLENAME_EQ_RE :: string where
  "TABLENAME_EQ_RE = src_text ''(?i)%btablename%s*=%s*`((?:[^`]|``)*)`''"

definition TABLE_CATALOG_EQ_RE :: string where
  "TABLE_CATALOG_EQ_RE = src_text ''(?i)%btable_catalog%s*=%s*`((?:[^`]|``)*)`''"

definition TABLE_SCHEMA_EQ_RE :: string where
  "TABLE_SCHEMA_EQ_RE = src_text ''(?i)%btable_schema%s*=%s*`((?:[^`]|``)*)`''"

definition TABLE_NAME_EQ_RE :: string where
  "TABLE_NAME_EQ_RE = src_text ''(?i)%btable_name%s*=%s*`((?:[^`]|``)*)`''"

section \<open>Detection\<close>

definition capture_literal :: "regex_search \<Rightarrow> string \<Rightarrow> string \<Rightarrow> string option" where
  "capture_literal E regex sql =
     (case captures E regex sql of
        None \<Rightarrow> None
      | Some cap \<Rightarrow> map_option (\<lambda>m. replace_text [squote, squote] [squote] m) (group cap 1))"

definition unwrap_or :: "'a option \<Rightarrow> 'a \<Rightarrow> 'a" where
  "unwrap_or x d = (case x of Some a \<Rightarrow> a | None \<Rightarrow> d)"

definition detect :: "regex_search \<Rightarrow> string \<Rightarrow> metadata_plan option" where
  "detect E sql =
     (let trimmed = trim sql in
      if is_match E JDBC_COLUMNS_RE trimmed then
        Some (JdbcColumns (unwrap_or (capture_literal E NAMESPACE_LIKE_RE trimmed) ''%'')
          (unwrap_or (capture_literal E RELNAME_LIKE_RE trimmed) ''%'')
          (unwrap_or (capture_literal E ATTNAME_LIKE_RE trimmed) ''%''))
      else if is_match E JDBC_TABLES_RE trimmed then
        Some (JdbcTables (unwrap_or (capture_literal E NAMESPACE_LIKE_RE trimmed) ''%'')
          (unwrap_or (capture_literal E RELNAME_LIKE_RE trimmed) ''%''))
      else if is_match E JDBC_SCHEMAS_RE trimmed then Some JdbcSchemas
      else if is_match E PG_NAMESPACE_RE trimmed then Some PgNamespace
      else if is_match E PG_TABLES_RE trimmed then
        Some (PgTables (capture_literal E SCHEMANAME_NE_RE trimmed) (capture_literal E TABLENAME_EQ_RE trimmed))
      else if is_match E INFO_SCHEMA_TABLES_RE trimmed then
        Some (InfoSchemaTableNames (unwrap_or (capture_literal E TABLE_CATALOG_EQ_RE trimmed) ''exasol'')
          (unwrap_or (capture_literal E TABLE_SCHEMA_EQ_RE trimmed) []))
      else if is_match E INFO_SCHEMA_COLUMNS_RE trimmed then
        Some (InfoSchemaColumnNames (unwrap_or (capture_literal E TABLE_CATALOG_EQ_RE trimmed) ''exasol'')
          (unwrap_or (capture_literal E TABLE_SCHEMA_EQ_RE trimmed) [])
          (unwrap_or (capture_literal E TABLE_NAME_EQ_RE trimmed) []))
      else if is_match E PG_USER_RE trimmed then Some PgUser
      else if is_match E PG_GROUP_RE trimmed then Some PgGroup
      else if is_match E PG_STAT_ACTIVITY_RE trimmed then Some PgStatActivity
      else if is_match E PG_LOCKS_RE trimmed then Some PgLocks
      else None)"

section \<open>Column types\<close>

record pg_type_info =
  ti_oid :: int
  ti_typmod :: int
  ti_typlen :: int
  ti_typtype :: string
  ti_typbasetype :: int

definition DECIMAL_RE :: string where
  "DECIMAL_RE = src_text ''(?i)^DECIMAL%((%d+),%s*(%d+)%)$''"

definition VARCHAR_RE :: string where
  "VARCHAR_RE = src_text ''(?i)^VARCHAR%((%d+)%)''"

definition CHAR_RE :: string where
  "CHAR_RE = src_text ''(?i)^CHAR%((%d+)%)''"

definition TIMESTAMP_RE :: string where
  "TIMESTAMP_RE = src_text ''(?i)^TIMESTAMP(?:%((%d+)%))?''"

definition group_i32 :: "rmatch \<Rightarrow> nat \<Rightarrow> int \<Rightarrow> int" where
  "group_i32 cap n d = unwrap_or (Option.bind (group cap n) parse_i32) d"

definition type_info :: "int \<Rightarrow> int \<Rightarrow> int \<Rightarrow> pg_type_info" where
  "type_info oid typmod typlen =
     \<lparr>ti_oid = oid, ti_typmod = typmod, ti_typlen = typlen, ti_typtype = ''b'', ti_typbasetype = 0\<rparr>"

text \<open>\<^verbatim>\<open>((precision << 16) | scale) + 4\<close> on \<^verbatim>\<open>i32\<close>.\<close>

definition decimal_typmod :: "int \<Rightarrow> int \<Rightarrow> int" where
  "decimal_typmod precision scale = wrap32 ((wrap32 (precision * 2 ^ 16) OR scale) + 4)"

definition map_plain_type :: "string \<Rightarrow> pg_type_info" where
  "map_plain_type upper =
     (if upper = ''BOOLEAN'' then type_info 16 (-1) 1
      else if upper = ''DATE'' then type_info 1082 (-1) 4
      else if upper \<in> set [''DOUBLE'', ''DOUBLE PRECISION''] then type_info 701 (-1) 8
      else if upper = ''REAL'' then type_info 700 (-1) 4
      else if upper \<in> set [''INTERVAL DAY TO SECOND'', ''INTERVAL YEAR TO MONTH'', ''INTERVAL'']
      then type_info 1186 (-1) 16
      else type_info 25 (-1) (-1))"

definition map_exasol_column_type :: "regex_search \<Rightarrow> string \<Rightarrow> pg_type_info" where
  "map_exasol_column_type E exasol_type =
     (let upper = to_ascii_uppercase (trim exasol_type) in
      (case captures E DECIMAL_RE upper of
         Some cap \<Rightarrow> type_info 1700 (decimal_typmod (group_i32 cap 1 36) (group_i32 cap 2 0)) (-1)
       | None \<Rightarrow>
      (case captures E VARCHAR_RE upper of
         Some cap \<Rightarrow> type_info 1043 (wrap32 (group_i32 cap 1 2000 + 4)) (-1)
       | None \<Rightarrow>
      (case captures E CHAR_RE upper of
         Some cap \<Rightarrow> type_info 1042 (wrap32 (group_i32 cap 1 1 + 4)) (-1)
       | None \<Rightarrow>
      (case captures E TIMESTAMP_RE upper of
         Some cap \<Rightarrow>
           type_info (if contains upper ''WITH LOCAL TIME ZONE'' \<or> contains upper ''WITH TIME ZONE''
                      then 1184 else 1114)
             (wrap32 (group_i32 cap 1 6 + 4)) 8
       | None \<Rightarrow> map_plain_type upper)))))"

section \<open>Only queries are recognised\<close>

definition select_lits :: "(int \<times> int) list list" where
  "select_lits = [[(115, 115), (83, 83)], [(101, 101), (69, 69)], [(108, 108), (76, 76)],
     [(101, 101), (69, 69)], [(99, 99), (67, 67)], [(116, 116), (84, 84)]]"

definition starts_like :: "(int \<times> int) list list \<Rightarrow> rx \<Rightarrow> bool" where
  "starts_like ls r = (case r of Seq Bol r' \<Rightarrow> take (length ls) (lits r') = ls | _ \<Rightarrow> False)"

definition detect_patterns :: "string list" where
  "detect_patterns = [JDBC_COLUMNS_RE, JDBC_TABLES_RE, JDBC_SCHEMAS_RE, PG_NAMESPACE_RE, PG_TABLES_RE,
     INFO_SCHEMA_TABLES_RE, INFO_SCHEMA_COLUMNS_RE, PG_USER_RE, PG_GROUP_RE, PG_STAT_ACTIVITY_RE, PG_LOCKS_RE]"

lemma detect_patterns_select:
  "list_all (\<lambda>p. case rx_parse p of Some r \<Rightarrow> starts_like select_lits r | None \<Rightarrow> False) detect_patterns"
  by code_simp

lemma two_case_char:
  assumes "cls_has False [(code_point c, code_point c), (code_point c - 32, code_point c - 32)] d" and "is_ascii_lower c"
  shows "lower_char d = c"
proof -
  have "code_point (lower_char d) = code_point c"
    using assms by (auto simp: two_rx_has code_point_lower is_ascii_upper_def is_ascii_lower_def)
  then show ?thesis by (simp add: code_point_inj)
qed

lemma select_match:
  assumes "regex_engine E" and "p \<in> set detect_patterns" and "is_match E p s"
  shows "to_ascii_lowercase (take 6 s) = ''select''"
proof -
  obtain r where r: "rx_parse p = Some r" "starts_like select_lits r"
    using detect_patterns_select assms(2) by (force simp: list_all_iff split: option.splits)
  have l6: "length select_lits = 6" by (simp add: select_lits_def)
  then obtain r' where r': "r = Seq Bol r'" "take 6 (lits r') = select_lits"
    using r(2) by (auto simp: starts_like_def split: rx.splits)
  have "rx_search r None s \<noteq> None"
    using assms(3) regex_engine.leftmost_first [OF assms(1) r(1)] by (simp add: is_match_def)
  then have all: "list_all2 (cls_has False) (lits r') (take (length (lits r')) s)"
    unfolding r'(1) by (rule anchored_lits)
  have len: "6 \<le> length (lits r')"
    using arg_cong [OF r'(2), of length] l6 by simp
  have "list_all2 (cls_has False) select_lits (take 6 s)"
    using list_all2_takeI [OF all, of 6] len r'(2) by (simp add: min_absorb1)
  then obtain a b c d e f where s: "take 6 s = [a, b, c, d, e, f]" and
    "lower_char a = CHR ''s''" "lower_char b = CHR ''e''" "lower_char c = CHR ''l''"
    "lower_char d = CHR ''e''" "lower_char e = CHR ''c''" "lower_char f = CHR ''t''"
    using two_case_char [of "CHR ''s''"] two_case_char [of "CHR ''e''"] two_case_char [of "CHR ''l''"]
      two_case_char [of "CHR ''c''"] two_case_char [of "CHR ''t''"]
    by (auto simp: select_lits_def list_all2_Cons1 code_point_Char is_ascii_lower_def)
  then show ?thesis by (simp add: to_ascii_lowercase_def)
qed

lemma detect_select:
  assumes "regex_engine E"
  shows "detect E sql = None \<or> to_ascii_lowercase (take 6 (trim sql)) = ''select''"
proof (cases "detect E sql")
  case (Some plan)
  then obtain p where "p \<in> set detect_patterns" "is_match E p (trim sql)"
    by (auto simp: detect_def Let_def detect_patterns_def split: if_splits)
  then show ?thesis using select_match [OF assms] by blast
qed simp

text \<open>
  So metadata interception is limited to queries: with every engine that meets the regex
  documentation, no DML, DDL or session command is intercepted.
\<close>

section \<open>Type modifiers\<close>

lemma digit_cls: "cls_has False [(48, 57)] c \<longleftrightarrow> is_digit c"
  by (simp add: cls_has_def is_digit_def)

lemma show_nat_upper: "to_ascii_uppercase (show_nat n) = show_nat n"
proof -
  have "list_all is_digit (show_nat n)" using show_nat_parse by blast
  then have "map upper_char (show_nat n) = show_nat n"
    by (intro map_idI) (simp add: list_all_iff is_digit_props)
  then show ?thesis by (simp add: to_ascii_uppercase_def)
qed

definition decimal_args_rx :: rx where
  "decimal_args_rx =
     Seq (Grp 1 (Seq (Cls False [(48, 57)]) (Star True (Cls False [(48, 57)]))))
      (Seq (Cls False [(44, 44)])
       (Seq (Star True ws_rx)
        (Seq (Grp 2 (Seq (Cls False [(48, 57)]) (Star True (Cls False [(48, 57)]))))
         (Seq (Cls False [(41, 41)]) Eol))))"

definition decimal_rx :: rx where
  "decimal_rx = foldr Seq [Bol, two_rx 68 100, two_rx 69 101, two_rx 67 99, two_rx 73 105,
     two_rx 77 109, two_rx 65 97, two_rx 76 108, Cls False [(40, 40)]] decimal_args_rx"

lemma decimal_rx_parse: "rx_parse DECIMAL_RE = Some decimal_rx"
  by code_simp

abbreviation digit_rx :: rx where "digit_rx \<equiv> Cls False [(48, 57)]"

lemma number_group:
  assumes "ds \<noteq> []" and "list_all is_digit ds" and "s = [] \<or> \<not> is_digit (hd s)"
    and "bt r (Some (last ds), s, (n, ds) # gs) k = Some x"
  shows "bt (Seq (Grp n (Seq digit_rx (Star True digit_rx))) r) (prev, ds @ s, gs) k = Some x"
proof -
  obtain d ds' where ds: "ds = d # ds'" using assms(1) by (cases ds) auto
  have d: "cls_has False [(48, 57)] d" and all: "list_all (cls_has False [(48, 57)]) ds'"
    using assms(2) ds by (simp_all add: digit_cls list_all_iff)
  have "bt (Star True digit_rx) (Some d, ds' @ s, gs)
      (\<lambda>st'. bt r (set_group n (st_rest (prev, (d # ds') @ s, gs)) st') k) = Some x"
    using all assms(3,4) ds by (intro star_cls_span) (auto simp: digit_cls set_group_def split: list.splits)
  then show ?thesis
    unfolding ds append_Cons bt.simps(3,6) bt_cls(1) [OF d] by simp
qed

lemma decimal_run:
  assumes "ds \<noteq> []" "list_all is_digit ds" "es \<noteq> []" "list_all is_digit es"
  shows "bt decimal_rx (None, ''DECIMAL('' @ ds @ '','' @ es @ '')'', []) Some =
    Some (Some (CHR '')''), [], [(2, es), (1, ds)])"
proof -
  have marks: "\<not> is_digit (CHR '','')" "\<not> is_digit (CHR '')'')" "\<not> is_ws (hd es)"
    using assms(3,4) is_digit_props by (cases es; simp add: is_digit_def code_point_Char)+
  have "bt (Seq (Grp 2 (Seq digit_rx (Star True digit_rx))) (Seq (Cls False [(41, 41)]) Eol))
      (Some (CHR '',''), es @ '')'', [(1, ds)]) Some = Some (Some (CHR '')''), [], [(2, es), (1, ds)])"
    using assms marks
    by (intro number_group) (simp_all add: bt_eval cls_char code_point_Char del: bt.simps(2,5))
  then have args: "bt decimal_args_rx (Some (CHR ''(''), ds @ '','' @ es @ '')'', []) Some =
      Some (Some (CHR '')''), [], [(2, es), (1, ds)])"
    unfolding decimal_args_rx_def using assms marks
    by (intro number_group)
       (simp_all add: bt_eval ws_rx_has cls_char code_point_Char del: bt.simps(2,5,6))
  then show ?thesis
    by (simp add: decimal_rx_def bt_eval two_rx_has cls_char code_point_Char del: bt.simps(2,5))
qed

lemma decimal_captures:
  assumes "regex_engine E"
  shows "captures E DECIMAL_RE (''DECIMAL('' @ show_nat p @ '','' @ show_nat sc @ '')'') =
    Some \<lparr>m_before = [], m_whole = ''DECIMAL('' @ show_nat p @ '','' @ show_nat sc @ '')'',
      m_groups = [(2, show_nat sc), (1, show_nat p)], m_after = []\<rparr>"
proof -
  have "captures E DECIMAL_RE s = captures bt_engine DECIMAL_RE s" for s
    using engine_ops(2) [OF assms, of DECIMAL_RE s] decimal_rx_parse by simp
  moreover have "bt decimal_rx (None, ''DECIMAL('' @ show_nat p @ '','' @ show_nat sc @ '')'', []) Some =
      Some (Some (CHR '')''), [], [(2, show_nat sc), (1, show_nat p)])"
    using show_nat_parse by (intro decimal_run) blast+
  ultimately show ?thesis
    by (simp add: captures_def bt_engine_def decimal_rx_parse mk_match_def)
qed

lemma decimal_text_fixed:
  "to_ascii_uppercase (trim (''DECIMAL('' @ show_nat p @ '','' @ show_nat sc @ '')''))
     = ''DECIMAL('' @ show_nat p @ '','' @ show_nat sc @ '')''"
proof -
  have "trim (''DECIMAL('' @ show_nat p @ '','' @ show_nat sc @ '')'') = ''DECIMAL('' @ show_nat p @ '','' @ show_nat sc @ '')''"
    by (rule trim_by_id) (simp add: is_ws_def)
  moreover have "to_ascii_uppercase (''DECIMAL('' @ x @ '','' @ y @ '')'') =
      ''DECIMAL('' @ to_ascii_uppercase x @ '','' @ to_ascii_uppercase y @ '')''" for x y
    by (simp add: to_ascii_uppercase_def upper_char_def is_ascii_lower_def code_point_Char)
  ultimately show ?thesis by (simp add: show_nat_upper)
qed

lemma typmod_decode:
  fixes p s :: int
  assumes "0 \<le> p" "p < 2 ^ 15" "0 \<le> s" "s < 2 ^ 16 - 4"
  shows "decimal_typmod p s = p * 2 ^ 16 + s + 4"
proof -
  have "(p * 2 ^ 16) OR s = p * 2 ^ 16 + s"
  proof -
    have "take_bit 16 s = s" using assms(3,4) by (simp add: take_bit_int_eq_self)
    then have "bit s n \<Longrightarrow> n < 16" for n by (metis bit_take_bit_iff)
    then have "push_bit 16 p AND s = 0"
      by (intro bit_eqI) (auto simp: bit_simps dest: leD)
    then show ?thesis using disjunctive_add_eq_or [of "push_bit 16 p" s] by (simp add: push_bit_eq_mult)
  qed
  moreover have "in_i32 (p * 2 ^ 16)" "in_i32 (p * 2 ^ 16 + s + 4)"
    using assms by (auto simp: in_i32_def)
  ultimately show ?thesis by (simp add: decimal_typmod_def)
qed

text \<open>
  C29. DECIMAL precision and scale survive the type modifier. For every engine that meets the
  regex documentation, a column type \<^verbatim>\<open>DECIMAL(p,s)\<close> is reported as \<^verbatim>\<open>numeric\<close> (oid 1700), and
  PostgreSQL's decoding of the modifier (subtract 4, split at bit 16) gives back \<open>p\<close> and \<open>s\<close>.
\<close>

theorem decimal_typmod_roundtrip:
  assumes "regex_engine E" and "p < 2 ^ 15" and "sc < 2 ^ 16 - 4"
  shows "ti_oid (map_exasol_column_type E (''DECIMAL('' @ show_nat p @ '','' @ show_nat sc @ '')'')) = 1700 \<and>
    (ti_typmod (map_exasol_column_type E (''DECIMAL('' @ show_nat p @ '','' @ show_nat sc @ '')'')) - 4) div 2 ^ 16 = int p \<and>
    (ti_typmod (map_exasol_column_type E (''DECIMAL('' @ show_nat p @ '','' @ show_nat sc @ '')'')) - 4) mod 2 ^ 16 = int sc"
proof -
  have bounds: "int p < 2 ^ 15" "int sc < 2 ^ 16 - 4"
    using assms(2,3) by simp_all
  have parse: "parse_i32 (show_nat p) = Some (int p)" "parse_i32 (show_nat sc) = Some (int sc)"
    using parse_int_show [of "int p"] parse_int_show [of "int sc"] bounds
    by (simp_all add: show_int_def parse_i32_def in_i32_def)
  have "map_exasol_column_type E (''DECIMAL('' @ show_nat p @ '','' @ show_nat sc @ '')'') =
      type_info 1700 (decimal_typmod (int p) (int sc)) (-1)"
    unfolding map_exasol_column_type_def Let_def decimal_text_fixed decimal_captures [OF assms(1)]
    using parse by (simp add: group_i32_def group_def unwrap_or_def)
  moreover have "decimal_typmod (int p) (int sc) = int p * 2 ^ 16 + int sc + 4"
    using bounds by (intro typmod_decode) simp_all
  ultimately show ?thesis using bounds by (simp add: type_info_def)
qed

theorem decimal_typmod_roundtrip_witness:
  "ti_oid (map_exasol_column_type bt_engine (''DECIMAL('' @ show_nat 36 @ '','' @ show_nat 4 @ '')'')) = 1700 \<and>
    (ti_typmod (map_exasol_column_type bt_engine (''DECIMAL('' @ show_nat 36 @ '','' @ show_nat 4 @ '')'')) - 4) div 2 ^ 16 = 36 \<and>
    (ti_typmod (map_exasol_column_type bt_engine (''DECIMAL('' @ show_nat 36 @ '','' @ show_nat 4 @ '')'')) - 4) mod 2 ^ 16 = 4"
  using decimal_typmod_roundtrip [OF bt.regex_engine_axioms, of 36 4] by simp

section \<open>Literals in metadata queries\<close>

abbreviation quote_rx :: rx where "quote_rx \<equiv> Cls False [(39, 39)]"
abbreviation not_quote_rx :: rx where "not_quote_rx \<equiv> Cls True [(39, 39)]"

definition literal_body_rx :: rx where
  "literal_body_rx = Alt not_quote_rx (Seq quote_rx quote_rx)"

definition literal_rx :: rx where
  "literal_rx = Seq quote_rx (Seq (Grp 1 (Star True literal_body_rx)) quote_rx)"

lemma quote_cls: "cls_has False [(39, 39)] c \<longleftrightarrow> c = squote" "cls_has True [(39, 39)] c \<longleftrightarrow> c \<noteq> squote"
  using code_point_inj [of c squote] by (auto simp: cls_has_def code_point_Char)

lemma literal_body_step:
  "c \<noteq> squote \<Longrightarrow> bt literal_body_rx (prev, c # s, gs) k = k (Some c, s, gs)"
  "bt literal_body_rx (prev, squote # squote # s, gs) k = k (Some squote, s, gs)"
  "s = [] \<or> hd s \<noteq> squote \<Longrightarrow> bt literal_body_rx (prev, squote # s, gs) k = None"
  by (auto simp: literal_body_rx_def quote_cls split: option.splits list.splits)

lemma literal_star:
  assumes "post = [] \<or> hd post \<noteq> squote" and "\<And>prev. k (prev, squote # post, gs) = Some x"
    and "length (double_quote squote v @ squote # post) \<le> n"
  shows "star_bt n True (bt literal_body_rx) (prev, double_quote squote v @ squote # post, gs) k = Some x"
  using assms(3)
proof (induction v arbitrary: n prev)
  case Nil
  then show ?case
    using assms(1,2) by (cases n) (simp_all add: literal_body_step(3))
next
  case (Cons c v)
  show ?case
  proof (cases "c = squote")
    case False
    then obtain m where "n = Suc m" using Cons.prems by (cases n) auto
    then show ?thesis using Cons False by (simp add: literal_body_step(1))
  next
    case True
    then obtain m where "n = Suc m" using Cons.prems by (cases n) auto
    then show ?thesis using Cons True by (simp add: literal_body_step(2))
  qed
qed

lemma literal_run:
  assumes "post = [] \<or> hd post \<noteq> squote"
  shows "bt literal_rx (prev, sql_string_literal v @ post, gs) Some =
    Some (Some squote, post, (1, double_quote squote v) # gs)"
proof -
  have "star_bt (length (double_quote squote v @ squote # post)) True (bt literal_body_rx)
      (Some squote, double_quote squote v @ squote # post, gs)
      (\<lambda>st. bt quote_rx (set_group 1 (double_quote squote v @ squote # post) st) Some)
      = Some (Some squote, post, (1, double_quote squote v) # gs)"
    using assms by (intro literal_star) (simp_all add: set_group_def quote_cls)
  then show ?thesis
    by (simp add: literal_rx_def sql_string_literal_eq quote_cls)
qed

definition table_schema_rx :: rx where
  "table_schema_rx = foldr Seq
     [WordB, two_rx 116 84, two_rx 97 65, two_rx 98 66, two_rx 108 76, two_rx 101 69, Cls False [(95, 95)],
      two_rx 115 83, two_rx 99 67, two_rx 104 72, two_rx 101 69, two_rx 109 77, two_rx 97 65,
      Star True ws_rx, Cls False [(61, 61)], Star True ws_rx] literal_rx"

lemma table_schema_rx_parse: "rx_parse TABLE_SCHEMA_EQ_RE = Some table_schema_rx"
  by code_simp



end
