(* ===== verification/Portal.thy ===== *)
theory Portal
  imports Regex_Engine "HOL-Library.Word"
begin

text \<open>
  Statements of the extended query protocol (\<^verbatim>\<open>src/src/pg_server.rs\<close>): splitting a query text
  into statements, the inference of parameter types at Parse, and the rendering of a bound
  portal as one SQL text, in which every parameter is written as a literal.
\<close>

section \<open>PostgreSQL types\<close>

datatype pg_type =
    BOOL | INT2 | INT4 | INT8 | TEXT | VARCHAR | BPCHAR | NAME | UNKNOWN
  | NUMERIC | FLOAT8 | DATE | TIMESTAMP | TIMESTAMPTZ
  | OtherType string

fun pg_type_name :: "pg_type \<Rightarrow> string" where
  "pg_type_name BOOL = ''bool''"
| "pg_type_name INT2 = ''int2''"
| "pg_type_name INT4 = ''int4''"
| "pg_type_name INT8 = ''int8''"
| "pg_type_name TEXT = ''text''"
| "pg_type_name VARCHAR = ''varchar''"
| "pg_type_name BPCHAR = ''bpchar''"
| "pg_type_name NAME = ''name''"
| "pg_type_name UNKNOWN = ''unknown''"
| "pg_type_name NUMERIC = ''numeric''"
| "pg_type_name FLOAT8 = ''float8''"
| "pg_type_name DATE = ''date''"
| "pg_type_name TIMESTAMP = ''timestamp''"
| "pg_type_name TIMESTAMPTZ = ''timestamptz''"
| "pg_type_name (OtherType n) = n"

section \<open>UTF-8\<close>

text \<open>
  \<^verbatim>\<open>str::from_utf8\<close>: the scalar values, or the offset of the first bad sequence and its length
  (\<open>None\<close> when the input ends inside a sequence).
\<close>

type_synonym byte = "8 word"

definition cont_byte :: "nat \<Rightarrow> bool" where
  "cont_byte c \<longleftrightarrow> 128 \<le> c \<and> c < 192"

definition second_ok :: "nat \<Rightarrow> nat \<Rightarrow> bool" where
  "second_ok b c =
     (if b = 224 then 160 \<le> c \<and> c < 192
      else if b = 237 then 128 \<le> c \<and> c < 160
      else if b = 240 then 144 \<le> c \<and> c < 192
      else if b = 244 then 128 \<le> c \<and> c < 144
      else cont_byte c)"

datatype utf8_step = Scalar nat nat | BadSequence "nat option"

definition utf8_step :: "nat list \<Rightarrow> utf8_step" where
  "utf8_step bs =
     (case bs of
        [] \<Rightarrow> BadSequence None
      | b # cs \<Rightarrow>
          if b < 128 then Scalar b 1
          else if 194 \<le> b \<and> b < 224 then
            (case cs of
               [] \<Rightarrow> BadSequence None
             | c # _ \<Rightarrow> if cont_byte c then Scalar ((b - 192) * 64 + (c - 128)) 2 else BadSequence (Some 1))
          else if 224 \<le> b \<and> b < 240 then
            (case cs of
               [] \<Rightarrow> BadSequence None
             | c # ds \<Rightarrow>
                 if \<not> second_ok b c then BadSequence (Some 1)
                 else
                   (case ds of
                      [] \<Rightarrow> BadSequence None
                    | d # _ \<Rightarrow>
                        if cont_byte d
                        then Scalar ((b - 224) * 4096 + (c - 128) * 64 + (d - 128)) 3
                        else BadSequence (Some 2)))
          else if 240 \<le> b \<and> b < 245 then
            (case cs of
               [] \<Rightarrow> BadSequence None
             | c # ds \<Rightarrow>
                 if \<not> second_ok b c then BadSequence (Some 1)
                 else
                   (case ds of
                      [] \<Rightarrow> BadSequence None
                    | d # es \<Rightarrow>
                        if \<not> cont_byte d then BadSequence (Some 2)
                        else
                          (case es of
                             [] \<Rightarrow> BadSequence None
                           | e # _ \<Rightarrow>
                               if cont_byte e
                               then Scalar ((b - 240) * 262144 + (c - 128) * 4096 + (d - 128) * 64 + (e - 128)) 4
                               else BadSequence (Some 3))))
          else BadSequence (Some 1))"

fun utf8_points :: "nat \<Rightarrow> nat \<Rightarrow> nat list \<Rightarrow> (nat \<times> nat option, nat list) result" where
  "utf8_points 0 off bs = Inr []"
| "utf8_points (Suc fuel) off bs =
     (if bs = [] then Inr []
      else
        (case utf8_step bs of
           BadSequence len \<Rightarrow> Inl (off, len)
         | Scalar p n \<Rightarrow>
             (case utf8_points fuel (off + n) (drop n bs) of
                Inl e \<Rightarrow> Inl e
              | Inr ps \<Rightarrow> Inr (p # ps))))"

text \<open>
  A text of the model holds scalar values up to U+00FF; a valid text with a larger one has no
  representation and is reported as \<open>BeyondModel\<close>.
\<close>

datatype utf8_result = Decoded string | InvalidUtf8 nat "nat option" | BeyondModel

definition from_utf8 :: "byte list \<Rightarrow> utf8_result" where
  "from_utf8 bytes =
     (case utf8_points (length bytes) 0 (map unat bytes) of
        Inl (off, len) \<Rightarrow> InvalidUtf8 off len
      | Inr ps \<Rightarrow> if list_all (\<lambda>p. p < 256) ps then Decoded (map char_of ps) else BeyondModel)"

definition utf8_error_text :: "nat \<Rightarrow> nat option \<Rightarrow> string" where
  "utf8_error_text off len =
     (case len of
        Some n \<Rightarrow> ''invalid utf-8 sequence of '' @ show_nat n @ '' bytes from index '' @ show_nat off
      | None \<Rightarrow> ''incomplete utf-8 byte sequence from index '' @ show_nat off)"

section \<open>Splitting a query\<close>

text \<open>
  \<open>start\<close> of the source is represented by \<open>cur\<close>, the reversed text since the last separator.
\<close>

definition push_statement :: "string \<Rightarrow> string list \<Rightarrow> string list" where
  "push_statement cur rest = (let statement = trim (rev cur) in if statement = [] then rest else statement # rest)"

fun split_scan :: "string \<Rightarrow> bool \<Rightarrow> bool \<Rightarrow> string \<Rightarrow> string list" where
  "split_scan cur in_single in_double [] = push_statement cur []"
| "split_scan cur in_single in_double (ch # rest) =
     (if ch = squote \<and> \<not> in_double then
        (if in_single \<and> rest \<noteq> [] \<and> hd rest = squote
         then split_scan (squote # squote # cur) in_single in_double (drop 1 rest)
         else split_scan (ch # cur) (\<not> in_single) in_double rest)
      else if ch = dquote \<and> \<not> in_single then split_scan (ch # cur) in_single (\<not> in_double) rest
      else if ch = CHR '';'' \<and> \<not> in_single \<and> \<not> in_double
      then push_statement cur (split_scan [] in_single in_double rest)
      else split_scan (ch # cur) in_single in_double rest)"

definition split_simple_query :: "string \<Rightarrow> string list" where
  "split_simple_query query = split_scan [] False False query"

section \<open>Parse\<close>

definition PARAM_RE :: string where
  "PARAM_RE = src_text ''%$(%d+)''"

fun max_option :: "nat list \<Rightarrow> nat option" where
  "max_option [] = None"
| "max_option (n # ns) = Some (foldl max n ns)"

definition max_parameter_index :: "regex_search \<Rightarrow> string \<Rightarrow> nat option" where
  "max_parameter_index E sql =
     max_option (List.map_filter (\<lambda>cap. Option.bind (group cap 1) (parse_unsigned 64))
       (captures_iter E PARAM_RE sql))"

definition id_column :: string where
  "id_column = ''(?:oid|objid|classoid|objoid|attnum|attrelid|atttypid|adrelid|adnum|relnamespace|reltype)''"

definition numeric_patterns :: "nat \<Rightarrow> string list" where
  "numeric_patterns idx =
     (let placeholder = regex_escape (CHR ''$'' # show_nat idx) in
      [src_text ''(?i)%bLIMIT%s+'' @ placeholder @ src_text ''%b'',
       src_text ''(?i)%bOFFSET%s+'' @ placeholder @ src_text ''%b'',
       src_text ''(?i)%b'' @ id_column @ src_text ''%b%s*(?:=|<>|!=|<|>|<=|>=)%s*'' @ placeholder @ src_text ''%b'',
       ''(?i)'' @ placeholder @ src_text ''%s*(?:=|<>|!=|<|>|<=|>=)%s*%b'' @ id_column @ src_text ''%b''])"

definition parameter_appears_in_numeric_context :: "regex_search \<Rightarrow> string \<Rightarrow> nat \<Rightarrow> bool" where
  "parameter_appears_in_numeric_context E sql idx = list_ex (\<lambda>p. is_match E p sql) (numeric_patterns idx)"

text \<open>
  \<^verbatim>\<open>vec![Type::TEXT; max_idx]\<close> panics with a capacity overflow when the vector would be larger
  than \<^verbatim>\<open>isize::MAX\<close> bytes; a type takes at least one byte.
\<close>

definition infer_parameter_types :: "regex_search \<Rightarrow> string \<Rightarrow> pg_type list exec" where
  "infer_parameter_types E sql =
     (case max_parameter_index E sql of
        None \<Rightarrow> Ret []
      | Some max_idx \<Rightarrow>
          if int max_idx > i64_max then Panic
          else Ret (map (\<lambda>idx. if parameter_appears_in_numeric_context E sql idx then INT4 else TEXT)
                 [1..<Suc max_idx]))"

definition parse_sql :: "string \<Rightarrow> (pg_wire_error, string) result" where
  "parse_sql sql =
     (if length (split_simple_query sql) > 1
      then Inl (pg_error ''42601'' ''extended query protocol accepts one statement per Parse message'')
      else Inr sql)"

section \<open>Portals\<close>

text \<open>
  The parts of pgwire's \<^verbatim>\<open>Portal\<close> the gateway reads; \<open>p_is_binary\<close> is \<^verbatim>\<open>parameter_format.is_binary\<close>.
\<close>

record portal =
  p_name :: string
  p_statement :: string
  p_types :: "pg_type option list"
  p_is_binary :: "nat \<Rightarrow> bool"
  p_parameters :: "byte list option list"

definition invalid_binary_parameter :: "nat \<Rightarrow> string \<Rightarrow> pg_wire_error" where
  "invalid_binary_parameter idx type_name =
     pg_error ''08P01'' (''invalid binary prepared statement parameter '' @ show_nat (idx + 1) @
       '' for PostgreSQL type '' @ type_name)"

definition be_unsigned :: "byte list \<Rightarrow> int" where
  "be_unsigned bytes = foldl (\<lambda>a b. a * 256 + uint b) 0 bytes"

definition be_signed :: "nat \<Rightarrow> byte list \<Rightarrow> int" where
  "be_signed w bytes = (let n = be_unsigned bytes in if n < 2 ^ (w - 1) then n else n - 2 ^ w)"

definition render_binary_text :: "byte list \<Rightarrow> pg_type \<Rightarrow> nat \<Rightarrow> (pg_wire_error, string) result" where
  "render_binary_text bytes pg_type idx =
     (case from_utf8 bytes of
        Decoded text \<Rightarrow> Inr (sql_string_literal text)
      | InvalidUtf8 _ _ \<Rightarrow> Inl (invalid_binary_parameter idx (pg_type_name pg_type))
      | BeyondModel \<Rightarrow> Inl (OtherWireError ''text beyond U+00FF''))"

definition render_binary_int :: "nat \<Rightarrow> byte list \<Rightarrow> pg_type \<Rightarrow> nat \<Rightarrow> (pg_wire_error, string) result" where
  "render_binary_int width bytes pg_type idx =
     (if length bytes \<noteq> width then Inl (invalid_binary_parameter idx (pg_type_name pg_type))
      else Inr (show_int (be_signed (8 * width) bytes)))"

definition render_binary_parameter :: "byte list \<Rightarrow> pg_type \<Rightarrow> nat \<Rightarrow> (pg_wire_error, string) result" where
  "render_binary_parameter bytes pg_type idx =
     (case pg_type of
        BOOL \<Rightarrow>
          if length bytes \<noteq> 1 then Inl (invalid_binary_parameter idx ''bool'')
          else Inr (if hd bytes = 0 then ''FALSE'' else ''TRUE'')
      | INT2 \<Rightarrow> render_binary_int 2 bytes INT2 idx
      | INT4 \<Rightarrow> render_binary_int 4 bytes INT4 idx
      | INT8 \<Rightarrow> render_binary_int 8 bytes INT8 idx
      | _ \<Rightarrow> render_binary_text bytes pg_type idx)"

definition nth_opt :: "'a list \<Rightarrow> nat \<Rightarrow> 'a option" where
  "nth_opt xs i = (if i < length xs then Some (xs ! i) else None)"

definition parameter_type :: "regex_search \<Rightarrow> portal \<Rightarrow> nat \<Rightarrow> pg_type exec" where
  "parameter_type E portal idx =
     (case Option.bind (nth_opt (p_types portal) idx) id of
        Some t \<Rightarrow> Ret t
      | None \<Rightarrow>
          bind_exec (infer_parameter_types E (p_statement portal))
            (\<lambda>ts. Ret (case nth_opt ts idx of Some t \<Rightarrow> t | None \<Rightarrow> TEXT)))"

definition render_portal_parameter ::
  "regex_search \<Rightarrow> portal \<Rightarrow> nat \<Rightarrow> (pg_wire_error, string) result exec" where
  "render_portal_parameter E portal idx =
     (case nth_opt (p_parameters portal) idx of
        None \<Rightarrow> Ret (Inl (pg_error ''08P01'' (''missing portal parameter '' @ show_nat (idx + 1))))
      | Some None \<Rightarrow> Ret (Inr ''NULL'')
      | Some (Some bytes) \<Rightarrow>
          if p_is_binary portal idx then
            bind_exec (parameter_type E portal idx) (\<lambda>t. Ret (render_binary_parameter bytes t idx))
          else
            Ret (case from_utf8 bytes of
                   Decoded text \<Rightarrow> Inr (sql_string_literal text)
                 | InvalidUtf8 off len \<Rightarrow>
                     Inl (pg_error ''08P01'' (''invalid UTF-8 parameter: '' @ utf8_error_text off len))
                 | BeyondModel \<Rightarrow> Inl (OtherWireError ''text beyond U+00FF'')))"

definition placeholder :: "nat \<Rightarrow> string" where
  "placeholder n = CHR ''$'' # show_nat n"

text \<open>The loop over the parameters, the last one first; \<open>n\<close> is the number still to do.\<close>

fun render_loop :: "regex_search \<Rightarrow> portal \<Rightarrow> nat \<Rightarrow> string \<Rightarrow> (pg_wire_error, string) result exec" where
  "render_loop E portal 0 sql = Ret (Inr sql)"
| "render_loop E portal (Suc idx) sql =
     bind_exec (render_portal_parameter E portal idx)
       (\<lambda>r. case r of
          Inl e \<Rightarrow> Ret (Inl e)
        | Inr v \<Rightarrow> render_loop E portal idx (replace_text (placeholder (idx + 1)) v sql))"

definition render_portal_sql :: "regex_search \<Rightarrow> portal \<Rightarrow> (pg_wire_error, string) result exec" where
  "render_portal_sql E portal = render_loop E portal (length (p_parameters portal)) (p_statement portal)"

text \<open>\<^verbatim>\<open>error_info\<close>: \<open>wire_error_text\<close> is the \<^verbatim>\<open>Display\<close> text of a pgwire error.\<close>

definition error_info :: "(pg_wire_error \<Rightarrow> string) \<Rightarrow> pg_wire_error \<Rightarrow> string \<times> string \<times> string" where
  "error_info wire_error_text e =
     (case e of
        UserError severity code message \<Rightarrow> (severity, code, message)
      | other \<Rightarrow> (''ERROR'', ''XX000'', wire_error_text other))"

section \<open>Literals\<close>

text \<open>How a SQL lexer reads a string literal: two quotes are one, a single one ends it.\<close>

fun read_body :: "string \<Rightarrow> (string \<times> string) option" where
  "read_body [] = None"
| "read_body (c # s) =
     (if c \<noteq> squote then map_option (map_prod (Cons c) id) (read_body s)
      else
        (case s of
           [] \<Rightarrow> Some ([], s)
         | d # s' \<Rightarrow> if d = squote then map_option (map_prod (Cons c) id) (read_body s') else Some ([], s)))"

definition read_literal :: "string \<Rightarrow> (string \<times> string) option" where
  "read_literal s = (case s of [] \<Rightarrow> None | c # s' \<Rightarrow> if c = squote then read_body s' else None)"

lemma read_body_double:
  "post = [] \<or> hd post \<noteq> squote \<Longrightarrow> read_body (double_quote squote v @ squote # post) = Some (v, post)"
  by (induction v) (auto split: list.splits)

lemma read_literal_sql:
  "post = [] \<or> hd post \<noteq> squote \<Longrightarrow> read_literal (sql_string_literal v @ post) = Some (v, post)"
  by (simp add: read_literal_def sql_string_literal_eq read_body_double)

section \<open>Encodings\<close>

definition utf8_char :: "char \<Rightarrow> nat list" where
  "utf8_char c = (let n = of_char c in if n < 128 then [n] else [192 + n div 64, 128 + n mod 64])"

definition utf8_encode :: "string \<Rightarrow> byte list" where
  "utf8_encode s = map of_nat (concat (map utf8_char s))"

lemma utf8_char_bytes: "list_all (\<lambda>b. b < 256) (utf8_char c)"
proof -
  have "(of_char c :: nat) div 64 < 4" by (rule less_mult_imp_div_less) simp
  then show ?thesis by (auto simp: utf8_char_def Let_def)
qed

lemma unat_encode: "map unat (utf8_encode s) = concat (map utf8_char s)"
proof -
  have "unat (of_nat b :: 8 word) = b" if "b \<in> set (concat (map utf8_char s))" for b
    using that utf8_char_bytes by (auto simp: list_all_iff unat_of_nat)
  then show ?thesis unfolding utf8_encode_def map_map comp_def by (intro map_idI)
qed

lemma utf8_step_char: "utf8_step (utf8_char c @ rest) = Scalar (of_char c) (length (utf8_char c))"
proof -
  define n :: nat where "n = of_char c"
  have n: "n < 256" by (simp add: n_def)
  show ?thesis
  proof (cases "n < 128")
    case True
    then show ?thesis by (simp add: utf8_char_def utf8_step_def n_def)
  next
    case False
    with n have "2 \<le> n div 64" "n div 64 < 4" "n div 64 * 64 + n mod 64 = n" by auto
    with False show ?thesis
      unfolding utf8_char_def n_def [symmetric] by (simp add: utf8_step_def cont_byte_def)
  qed
qed

lemma utf8_points_encode:
  assumes "length (concat (map utf8_char s)) \<le> fuel"
  shows "utf8_points fuel off (concat (map utf8_char s)) = Inr (map of_char s)"
  using assms
proof (induction s arbitrary: fuel off)
  case Nil
  then show ?case by (cases fuel) auto
next
  case (Cons c s)
  have len: "0 < length (utf8_char c)" by (auto simp: utf8_char_def Let_def)
  with Cons.prems obtain m where m: "fuel = Suc m" "length (concat (map utf8_char s)) \<le> m"
    by (cases fuel) (auto simp: neq_Nil_conv)
  have "utf8_points m (off + length (utf8_char c)) (concat (map utf8_char s)) = Inr (map of_char s)"
    using m(2) by (rule Cons.IH)
  then show ?case
    using m(1) len utf8_step_char [of c "concat (map utf8_char s)"] by auto
qed

lemma from_utf8_encode: "from_utf8 (utf8_encode s) = Decoded s"
proof -
  have "utf8_points (length (utf8_encode s)) 0 (map unat (utf8_encode s)) = Inr (map of_char s)"
    unfolding unat_encode by (rule utf8_points_encode) (simp add: utf8_encode_def)
  then show ?thesis by (simp add: from_utf8_def list_all_iff)
qed

text \<open>
  C9. A text parameter is sent as the literal of its text. For every text (of the model's
  range) the UTF-8 bytes of a parameter in text format are rendered as a literal, and a SQL
  lexer reads exactly the text back from it, whatever quotes it holds, and stops at its end.
\<close>

theorem text_parameter_literal:
  assumes "nth_opt (p_parameters portal) idx = Some (Some (utf8_encode text))"
    and "\<not> p_is_binary portal idx" and "post = [] \<or> hd post \<noteq> squote"
  shows "\<exists>lit. render_portal_parameter E portal idx = Ret (Inr lit) \<and> read_literal (lit @ post) = Some (text, post)"
  using assms by (simp add: render_portal_parameter_def from_utf8_encode read_literal_sql)

definition demo_portal :: "byte list option list \<Rightarrow> portal" where
  "demo_portal ps = \<lparr>p_name = [], p_statement = ''SELECT $1, $2'', p_types = [], p_is_binary = (\<lambda>_. False),
     p_parameters = ps\<rparr>"

theorem text_parameter_literal_witness:
  "\<exists>lit. render_portal_parameter bt_engine (demo_portal [Some (utf8_encode (src_text ''it`s''))]) 0 = Ret (Inr lit) \<and>
     read_literal (lit @ '', 2'') = Some (src_text ''it`s'', '', 2'')"
  by (rule text_parameter_literal) (simp_all add: demo_portal_def nth_opt_def)

section \<open>Binary integers\<close>

definition be_bytes :: "nat \<Rightarrow> int \<Rightarrow> byte list" where
  "be_bytes k n = map (\<lambda>i. word_of_int (n div 256 ^ (k - 1 - i))) [0..<k]"

lemma be_bytes_Suc: "be_bytes (Suc k) n = be_bytes k (n div 256) @ [word_of_int n]"
proof -
  have "n div 256 ^ (Suc k - 1 - i) = n div 256 div 256 ^ (k - 1 - i)" if "i < k" for i
  proof -
    have "(256::int) ^ (Suc k - 1 - i) = 256 * 256 ^ (k - 1 - i)"
      using that by (simp add: power_Suc [symmetric] Suc_diff_Suc del: power_Suc)
    then show ?thesis by (simp add: zdiv_zmult2_eq)
  qed
  then show ?thesis by (simp add: be_bytes_def)
qed

lemma be_unsigned_bytes: "be_unsigned (be_bytes k n) = n mod 256 ^ k"
proof (induction k arbitrary: n)
  case 0
  then show ?case by (simp add: be_bytes_def be_unsigned_def)
next
  case (Suc k)
  have "be_unsigned (be_bytes (Suc k) n) = (n div 256 mod 256 ^ k) * 256 + n mod 256"
    using Suc.IH [of "n div 256"] by (simp add: be_bytes_Suc be_unsigned_def uint_word_of_int)
  moreover have "n mod 256 ^ Suc k = 256 * (n div 256 mod 256 ^ k) + n mod 256"
    using zmod_zmult2_eq [of "256 ^ k" n 256] by simp
  ultimately show ?case by simp
qed

lemma be_signed_bytes:
  assumes "0 < k" and "- (2 ^ (8 * k - 1)) \<le> n" and "n < 2 ^ (8 * k - 1)"
  shows "be_signed (8 * k) (be_bytes k n) = n"
proof -
  have p: "(256::int) ^ k = 2 * 2 ^ (8 * k - 1)" "(2::int) ^ (8 * k) = 2 * 2 ^ (8 * k - 1)"
    using assms(1) by (simp_all add: power_mult [symmetric] power_Suc [symmetric] del: power_Suc)
       (simp_all add: power_mult)
  show ?thesis
  proof (cases "0 \<le> n")
    case True
    then have "n mod 256 ^ k = n" using assms(3) p by (intro mod_pos_pos_trivial) auto
    then show ?thesis using assms(3) by (simp add: be_signed_def be_unsigned_bytes)
  next
    case False
    then have "n mod 256 ^ k = n + 256 ^ k"
      using assms(2) p by (subst mod_add_self2 [symmetric]) (intro mod_pos_pos_trivial, auto)
    then show ?thesis using assms(2) p False by (simp add: be_signed_def be_unsigned_bytes)
  qed
qed



section \<open>Substitution\<close>

text \<open>
  The reference: one pass over the statement, in which the first placeholder of the list that
  fits at a position is replaced by its value. Values are not looked at again.
\<close>

function substitute :: "(string \<times> string) list \<Rightarrow> string \<Rightarrow> string" where
  "substitute ps [] = []"
| "substitute ps (c # s) =
     (case find (\<lambda>(p, v). prefix p (c # s)) ps of
        Some (p, v) \<Rightarrow> v @ substitute ps (drop (length p - 1) s)
      | None \<Rightarrow> c # substitute ps s)"
  by pat_completeness auto
termination
  by (relation "measure (\<lambda>(ps, s). length s)") auto

definition is_placeholder :: "string \<Rightarrow> bool" where
  "is_placeholder p \<longleftrightarrow> (\<exists>ds. p = CHR ''$'' # ds \<and> ds \<noteq> [] \<and> list_all is_digit ds)"

text \<open>A rendered value that later substitutions cannot touch.\<close>

definition inert :: "string \<Rightarrow> bool" where
  "inert v \<longleftrightarrow> v \<noteq> [] \<and> \<not> is_digit (hd v) \<and> CHR ''$'' \<notin> set v"

lemma placeholder_is: "is_placeholder (placeholder n)"
  using show_nat_parse [of n] by (auto simp: is_placeholder_def placeholder_def)

lemma substitute_inert:
  assumes "list_all (\<lambda>(p, v). is_placeholder p) ps" and "CHR ''$'' \<notin> set v"
  shows "substitute ps (v @ s) = v @ substitute ps s"
  using assms(2)
proof (induction v)
  case (Cons c v)
  have "find (\<lambda>(p, w). prefix p (c # v @ s)) ps = None"
    using assms(1) Cons.prems by (auto simp: find_None_iff list_all_iff is_placeholder_def)
  then show ?case using Cons by simp
qed simp

text \<open>Digits that start a text are not changed by a replacement of a placeholder.\<close>

lemma replace_digits:
  assumes p: "is_placeholder p" and v: "inert v" and ds: "list_all is_digit ds"
  shows "prefix ds (replace_text p v s) \<longleftrightarrow> prefix ds s"
    and "prefix ds s \<Longrightarrow> drop (length ds) (replace_text p v s) = replace_text p v (drop (length ds) s)"
proof -
  have nd: "\<not> is_digit (CHR ''$'')" by (simp add: is_digit_def code_point_def)
  have step: "\<not> prefix p (c # s)" if "is_digit c" for c s
    using p that nd by (auto simp: is_placeholder_def)
  have hd: "replace_text p v (c # s) = v @ replace_text p v (drop (length p) (c # s)) \<or>
      replace_text p v (c # s) = c # replace_text p v s" for c s by simp
  show "prefix ds (replace_text p v s) \<longleftrightarrow> prefix ds s"
    using ds
  proof (induction ds arbitrary: s)
    case (Cons d ds)
    show ?case
    proof (cases s)
      case (Cons c s')
      show ?thesis
      proof (cases "is_digit c")
        case True
        then show ?thesis using Cons Cons.IH [of s'] Cons.prems step [OF True] by auto
      next
        case False
        then have "c \<noteq> d" using Cons.prems by auto
        then show ?thesis using hd [of c s'] Cons Cons.prems v False
          by (auto simp: inert_def prefix_Cons neq_Nil_conv)
      qed
    qed simp
  qed simp
  show "prefix ds s \<Longrightarrow> drop (length ds) (replace_text p v s) = replace_text p v (drop (length ds) s)"
    using ds
  proof (induction ds arbitrary: s)
    case (Cons d ds)
    then obtain s' where "s = d # s'" "prefix ds s'" by (cases s) auto
    then show ?case using Cons step [of d s'] by auto
  qed simp
qed

lemma substitute_step:
  assumes ps: "list_all (\<lambda>(q, w). is_placeholder q) ps" and p: "is_placeholder p" and v: "inert v"
  shows "substitute ps (replace_text p v s) = substitute ((p, v) # ps) s"
proof (induction s rule: length_induct)
  case (1 s)
  show ?case
  proof (cases s)
    case (Cons c cs)
    have p0: "p \<noteq> []" using p by (auto simp: is_placeholder_def)
    show ?thesis
    proof (cases "prefix p s")
      case True
      have "length (drop (length p) s) < length s" using p0 Cons by simp
      then have "substitute ps (replace_text p v (drop (length p) s)) = substitute ((p, v) # ps) (drop (length p) s)"
        using 1 by blast
      then show ?thesis
        using True Cons p0 substitute_inert [OF ps, of v] v
        by (cases "length p") (auto simp: inert_def)
    next
      case False
      have same: "prefix q (c # replace_text p v cs) \<longleftrightarrow> prefix q (c # cs)" if "(q, w) \<in> set ps" for q w
      proof -
        have "is_placeholder q" using ps that by (auto simp: list_all_iff)
        then obtain ds where "q = CHR ''$'' # ds" "list_all is_digit ds"
          by (auto simp: is_placeholder_def)
        then show ?thesis using replace_digits(1) [OF p v, of ds cs] by simp
      qed
      have find: "find (\<lambda>(q, w). prefix q (c # replace_text p v cs)) ps = find (\<lambda>(q, w). prefix q (c # cs)) ps"
        using same by (intro find_cong) auto
      show ?thesis
      proof (cases "find (\<lambda>(q, w). prefix q (c # cs)) ps")
        case None
        have "substitute ps (replace_text p v cs) = substitute ((p, v) # ps) cs" using 1 Cons by simp
        then show ?thesis using Cons False find None by simp
      next
        case (Some qw)
        obtain q w where qw: "qw = (q, w)" by (cases qw)
        with Some have q: "(q, w) \<in> set ps" "prefix q (c # cs)"
          by (auto simp: find_Some_iff in_set_conv_nth)
        have "is_placeholder q" using ps q(1) by (auto simp: list_all_iff)
        then obtain ds where ds: "q = CHR ''$'' # ds" "list_all is_digit ds" "prefix ds cs"
          using q(2) by (auto simp: is_placeholder_def)
        have "length (drop (length ds) cs) < length s" using Cons by simp
        then have "substitute ps (replace_text p v (drop (length ds) cs)) =
            substitute ((p, v) # ps) (drop (length ds) cs)"
          using 1 by blast
        then show ?thesis
          using Cons False find Some qw ds replace_digits(2) [OF p v ds(2,3)] by simp
      qed
    qed
  qed simp
qed

text \<open>The placeholders \<open>$n, \<dots>, $1\<close> with the values of the parameters.\<close>

fun bindings :: "nat \<Rightarrow> string list \<Rightarrow> (string \<times> string) list" where
  "bindings 0 vs = []"
| "bindings (Suc i) vs = (placeholder (i + 1), vs ! i) # bindings i vs"

lemma bindings_placeholders: "list_all (\<lambda>(q, w). is_placeholder q) (bindings n vs)"
  by (induction n) (simp_all add: placeholder_is)

lemma substitute_Nil: "substitute [] s = s"
  by (induction s) auto

lemma render_loop_substitute:
  assumes "\<forall>i<n. render_portal_parameter E portal i = Ret (Inr (vs ! i)) \<and> inert (vs ! i)"
  shows "render_loop E portal n s = Ret (Inr (substitute (bindings n vs) s))"
  using assms
proof (induction n arbitrary: s)
  case (Suc n)
  then show ?case
    using substitute_step [OF bindings_placeholders placeholder_is] by simp
qed (simp add: substitute_Nil)

text \<open>
  C10. Rendering substitutes every placeholder once. When the rendered parameters hold no dollar
  sign and do not start with a digit (every quoted literal without a dollar sign, NULL, TRUE and
  FALSE), the SQL text is the statement with each placeholder replaced by its value in one pass:
  the order of the replacements and the text of the values do not matter.
\<close>

theorem render_substitutes_once:
  assumes "\<forall>i<length (p_parameters portal).
      render_portal_parameter E portal i = Ret (Inr (vs ! i)) \<and> inert (vs ! i)"
  shows "render_portal_sql E portal =
    Ret (Inr (substitute (bindings (length (p_parameters portal)) vs) (p_statement portal)))"
  unfolding render_portal_sql_def using assms by (rule render_loop_substitute)

theorem render_substitutes_once_witness:
  "render_portal_sql bt_engine (demo_portal [None, Some (utf8_encode ''x'')]) =
     Ret (Inr (substitute (bindings 2 [''NULL'', sql_string_literal ''x'']) ''SELECT $1, $2''))"
proof -
  let ?p = "demo_portal [None, Some (utf8_encode ''x'')]" and ?vs = "[''NULL'', sql_string_literal ''x'']"
  have 0: "render_portal_parameter bt_engine ?p 0 = Ret (Inr (?vs ! 0))" "inert (?vs ! 0)"
    by (simp add: render_portal_parameter_def demo_portal_def nth_opt_def, code_simp)
  have 1: "render_portal_parameter bt_engine ?p 1 = Ret (Inr (?vs ! 1))" "inert (?vs ! 1)"
    by (simp add: render_portal_parameter_def demo_portal_def nth_opt_def from_utf8_encode, code_simp)
  have p: "length (p_parameters ?p) = 2" "p_statement ?p = ''SELECT $1, $2''"
    by (simp_all add: demo_portal_def)
  have "\<forall>i<2. render_portal_parameter bt_engine ?p i = Ret (Inr (?vs ! i)) \<and> inert (?vs ! i)"
  proof (intro allI impI)
    fix i :: nat assume "i < 2"
    then consider "i = 0" | "i = 1" by linarith
    then show "render_portal_parameter bt_engine ?p i = Ret (Inr (?vs ! i)) \<and> inert (?vs ! i)"
    proof cases
      case 1
      show ?thesis unfolding 1 using 0 by (rule conjI)
    next
      case 2
      show ?thesis unfolding 2 using \<open>render_portal_parameter bt_engine ?p 1 = Ret (Inr (?vs ! 1))\<close> \<open>inert (?vs ! 1)\<close>
        by (rule conjI)
    qed
  qed
  from render_substitutes_once [of ?p bt_engine ?vs, unfolded p, OF this] show ?thesis .
qed

text \<open>
  C32. A parameter can break out of its literal. The statement has the placeholders 1 and 2; the
  second parameter is the two characters \<^verbatim>\<open>$1\<close>, the first any text without a dollar sign or
  quote. The replacement of placeholder 1 then also hits the literal of the second parameter: a
  lexer reads an empty literal there, and the first parameter follows as bare SQL.
\<close>

theorem parameter_escapes_literal:
  assumes "CHR ''$'' \<notin> set v" and "squote \<notin> set v" and "v \<noteq> []"
  shows "\<exists>sql rest. render_portal_sql E (demo_portal [Some (utf8_encode v), Some (utf8_encode ''$1'')]) = Ret (Inr sql) \<and>
    sql = ''SELECT '' @ sql_string_literal v @ '', '' @ rest \<and>
    read_literal rest = Some ([], v @ [squote, squote])"
proof -
  let ?p = "demo_portal [Some (utf8_encode v), Some (utf8_encode ''$1'')]"
  have dq: "squote \<notin> set w \<Longrightarrow> double_quote squote w = w" for w by (induction w) auto
  have ph: "placeholder 1 = ''$1''" "placeholder 2 = ''$2''"
    by code_simp+
  have lit: "sql_string_literal ''$1'' = [squote, CHR ''$'', CHR ''1'', squote]"
    by (simp add: sql_string_literal_eq)
  have "render_portal_sql E ?p = Ret (Inr (''SELECT '' @ sql_string_literal v @ '', '' @ squote # sql_string_literal v @ [squote]))"
    using ph lit
    by (simp add: render_portal_sql_def demo_portal_def numeral_2_eq_2 render_portal_parameter_def nth_opt_def
        from_utf8_encode)
  moreover have "read_literal (squote # sql_string_literal v @ [squote]) = Some ([], v @ [squote, squote])"
    using assms by (cases v) (auto simp: read_literal_def sql_string_literal_eq dq)
  ultimately show ?thesis by blast
qed

theorem parameter_escapes_literal_witness:
  "\<exists>sql rest. render_portal_sql bt_engine
       (demo_portal [Some (utf8_encode ''; DROP TABLE t; --''), Some (utf8_encode ''$1'')]) = Ret (Inr sql) \<and>
    sql = ''SELECT '' @ sql_string_literal ''; DROP TABLE t; --'' @ '', '' @ rest \<and>
    read_literal rest = Some ([], ''; DROP TABLE t; --'' @ [squote, squote])"
  by (rule parameter_escapes_literal) simp_all

section \<open>Statements of a simple query\<close>

text \<open>A statement whose quotes are closed and that has no semicolon outside of quotes.\<close>

fun closed_scan :: "bool \<Rightarrow> bool \<Rightarrow> string \<Rightarrow> bool" where
  "closed_scan in_single in_double [] = (\<not> in_single \<and> \<not> in_double)"
| "closed_scan in_single in_double (ch # rest) =
     (if ch = squote \<and> \<not> in_double then
        (if in_single \<and> rest \<noteq> [] \<and> hd rest = squote then closed_scan in_single in_double (drop 1 rest)
         else closed_scan (\<not> in_single) in_double rest)
      else if ch = dquote \<and> \<not> in_single then closed_scan in_single (\<not> in_double) rest
      else if ch = CHR '';'' \<and> \<not> in_single \<and> \<not> in_double then False
      else closed_scan in_single in_double rest)"

definition statement_ok :: "string \<Rightarrow> bool" where
  "statement_ok t \<longleftrightarrow> t \<noteq> [] \<and> trim t = t \<and> closed_scan False False t"

lemma split_scan_closed:
  assumes "closed_scan in_single in_double t" and "suf = [] \<or> hd suf = CHR '';''"
  shows "split_scan cur in_single in_double (t @ suf) =
      push_statement (rev t @ cur) (case suf of [] \<Rightarrow> [] | _ # rest \<Rightarrow> split_scan [] False False rest)"
  using assms(1)
proof (induction in_single in_double t arbitrary: cur rule: closed_scan.induct)
  case (1 in_single in_double)
  then show ?case using assms(2) by (cases suf) auto
next
  case (2 in_single in_double ch t)
  consider (dbl) t' where "ch = squote" "\<not> in_double" "in_single" "t = squote # t'"
    | (quote) "ch = squote" "\<not> in_double" "\<not> (in_single \<and> t \<noteq> [] \<and> hd t = squote)"
    | (dq) "ch = dquote" "\<not> in_single" "\<not> (ch = squote \<and> \<not> in_double)"
    | (other) "\<not> (ch = squote \<and> \<not> in_double)" "\<not> (ch = dquote \<and> \<not> in_single)"
    by (cases t) auto
  then show ?case
  proof cases
    case dbl
    then have "closed_scan in_single in_double t'" using "2.prems" by simp
    with dbl 2(1) show ?thesis by simp
  next
    case quote
    have "\<not> (in_single \<and> t @ suf \<noteq> [] \<and> hd (t @ suf) = squote)"
      using quote assms(2) by (cases t) auto
    with quote 2(2) "2.prems" show ?thesis by auto
  next
    case dq
    with 2(3) "2.prems" show ?thesis by simp
  next
    case other
    with 2(4) "2.prems" show ?thesis by (auto split: if_splits)
  qed
qed

text \<open>
  C33. A simple query is split at exactly the semicolons between its statements. Statements
  with closed quotes and no bare semicolon, put together with semicolons, are found again, in
  order and unchanged; semicolons and quotes inside of literals and quoted names do not count.
\<close>

theorem split_simple_query_roundtrip:
  assumes "list_all statement_ok ss"
  shows "split_simple_query (join_with '';'' ss) = ss"
  unfolding split_simple_query_def using assms
proof (induction ss)
  case Nil
  then show ?case by (simp add: push_statement_def trim_by_def trim_start_by_def trim_end_by_def)
next
  case (Cons t ss)
  then have t: "closed_scan False False t" "push_statement (rev t) xs = t # xs" for xs
    by (auto simp: statement_ok_def push_statement_def)
  show ?case
    using t Cons split_scan_closed [OF t(1), of "[]" "[]"]
      split_scan_closed [OF t(1), of "CHR '';'' # join_with '';'' ss" "[]"]
    by (cases ss) (simp_all add: join_with_Cons)
qed

theorem split_simple_query_roundtrip_witness:
  "split_simple_query (join_with '';'' [''BEGIN'', src_text ''SELECT `a;``b`'', ''COMMIT'']) =
     [''BEGIN'', src_text ''SELECT `a;``b`'', ''COMMIT'']"
  by (rule split_simple_query_roundtrip) code_simp

text \<open>
  A parameter number can crash the Parse handler. With every engine that meets the regex
  documentation, inferring the parameter types of a statement with the placeholder \<open>$2^63\<close>
  asks for a vector beyond the address space: the handler panics instead of reporting an error.
\<close>

lemma parse_panics_on_huge_parameter:
  assumes "regex_engine E"
  shows "infer_parameter_types E ''SELECT $9223372036854775808'' = Panic"
proof -
  have "rx_parse PARAM_RE \<noteq> None" by code_simp
  then have "max_parameter_index E ''SELECT $9223372036854775808'' =
      max_parameter_index bt_engine ''SELECT $9223372036854775808''"
    unfolding max_parameter_index_def by (simp add: engine_ops(3) [OF assms])
  moreover have "captures_iter bt_engine PARAM_RE ''SELECT $9223372036854775808'' =
      [\<lparr>m_before = ''SELECT '', m_whole = ''$9223372036854775808'', m_groups = [(1, ''9223372036854775808'')], m_after = []\<rparr>]"
    by code_simp
  moreover have "parse_unsigned 64 ''9223372036854775808'' = Some 9223372036854775808"
    by (simp add: parse_unsigned_def parse_digits_def is_digit_def code_point_def digits_value_def digit_value_def)
  ultimately show ?thesis
    by (simp add: infer_parameter_types_def max_parameter_index_def group_def map_filter_simps i64_max_def)
qed

end
