(* ===== verification/Endpoint.thy ===== *)
theory Endpoint
  imports Gateway_Prelude
begin

text \<open>
  Configuration and connection endpoint (\<^verbatim>\<open>src/src/config.rs\<close>, \<^verbatim>\<open>src/src/exasol/mod.rs\<close> and the
  connection set-up of \<^verbatim>\<open>src/src/exasol/arrow_transport.rs\<close>). The TOML parser, the file system and
  exarrow's \<^verbatim>\<open>ConnectionBuilder::build\<close> and \<^verbatim>\<open>Connection::from_params\<close> are arguments.
\<close>

section \<open>Configuration\<close>

datatype transport = WebSocket | Arrow

record server_config =
  listen_host :: string
  listen_port :: nat
  log_level :: string
  tls_cert_path :: string
  tls_key_path :: string

record exasol_config =
  dsn :: string
  encryption :: bool
  certificate_fingerprint :: string
  validate_certificate :: bool
  pass_client_credentials :: bool
  schema :: string
  transport_name :: string

record translation_config =
  enabled :: bool
  sql_preprocessor_script :: string
  session_init_sql :: "string list"

record app_config =
  server :: server_config
  exasol :: exasol_config
  translation :: translation_config

definition DEFAULT_TRANSPORT :: string where
  "DEFAULT_TRANSPORT = ''arrow''"

definition default_listen_host :: string where
  "default_listen_host = ''127.0.0.1''"

definition default_listen_port :: nat where
  "default_listen_port = 15432"

definition default_log_level :: string where
  "default_log_level = ''info''"

definition default_server_config :: server_config where
  "default_server_config =
     \<lparr>listen_host = default_listen_host, listen_port = default_listen_port, log_level = default_log_level,
      tls_cert_path = [], tls_key_path = []\<rparr>"

definition default_translation_config :: translation_config where
  "default_translation_config = \<lparr>enabled = True, sql_preprocessor_script = [], session_init_sql = []\<rparr>"

definition transport_from_config :: "exasol_config \<Rightarrow> (string, transport) result" where
  "transport_from_config config =
     (if transport_name config = ''websocket'' then Inr WebSocket
      else if transport_name config = ''arrow'' then Inr Arrow
      else Inl (sql_text ''unknown transport `'' @ transport_name config @
        sql_text ''`: accepted values are `websocket` and `arrow`''))"

definition validate_config :: "app_config \<Rightarrow> (string, app_config) result" where
  "validate_config config =
     (if trim (dsn (exasol config)) = [] then Inl ''exasol.dsn is required''
      else if (trim (tls_cert_path (server config)) = []) \<noteq> (trim (tls_key_path (server config)) = [])
      then Inl ''server.tls_cert_path and server.tls_key_path must be set together''
      else
        (case transport_from_config (exasol config) of
           Inl e \<Rightarrow> Inl e
         | Inr _ \<Rightarrow> Inr config))"

text \<open>\<open>read_file\<close> is \<^verbatim>\<open>fs::read_to_string\<close>, \<open>toml\<close> is \<^verbatim>\<open>toml::from_str\<close>; \<open>Inl\<close> carries the error text.\<close>

definition config_from_file ::
  "('p \<Rightarrow> (string, string) result) \<Rightarrow> (string \<Rightarrow> (string, app_config) result) \<Rightarrow> 'p \<Rightarrow> (string, app_config) result"
where
  "config_from_file read_file toml path =
     (case read_file path of
        Inl e \<Rightarrow> Inl e
      | Inr content \<Rightarrow>
          (case toml content of
             Inl e \<Rightarrow> Inl e
           | Inr config \<Rightarrow> validate_config config))"

definition log_filter :: "app_config \<Rightarrow> string" where
  "log_filter config = ''exa_postgres_interface='' @ log_level (server config) @ '',pgwire=info''"

section \<open>Errors\<close>

datatype exasol_error =
    InvalidDsn string
  | ConnectionFailed string
  | AuthenticationFailed string
  | RequestFailed string
  | ExecutionFailed string

fun exasol_error_text :: "exasol_error \<Rightarrow> string" where
  "exasol_error_text (InvalidDsn m) = ''invalid Exasol DSN: '' @ m"
| "exasol_error_text (ConnectionFailed m) = ''Exasol connection failed: '' @ m"
| "exasol_error_text (AuthenticationFailed m) = ''Exasol authentication failed: '' @ m"
| "exasol_error_text (RequestFailed m) = ''Exasol request failed: '' @ m"
| "exasol_error_text (ExecutionFailed m) = ''Exasol execution failed: '' @ m"

text \<open>exarrow's \<^verbatim>\<open>ConnectionError\<close>: an authentication failure, or another error with its text.\<close>

datatype connection_error = DriverAuthenticationFailed string | OtherConnectionError string

fun map_connection_error :: "connection_error \<Rightarrow> exasol_error" where
  "map_connection_error (DriverAuthenticationFailed msg) = AuthenticationFailed msg"
| "map_connection_error (OtherConnectionError text) = ConnectionFailed text"

section \<open>Endpoints\<close>

record endpoint_connection =
  ep_host :: string
  ep_port :: nat
  ep_fingerprint :: "string option"

text \<open>\<^verbatim>\<open>str::split_once\<close> at the first and \<^verbatim>\<open>str::rsplit_once\<close> at the last occurrence of a character.\<close>

definition split_once :: "char \<Rightarrow> string \<Rightarrow> (string \<times> string) option" where
  "split_once c s =
     (case dropWhile (\<lambda>d. d \<noteq> c) s of
        [] \<Rightarrow> None
      | _ # rest \<Rightarrow> Some (takeWhile (\<lambda>d. d \<noteq> c) s, rest))"

definition rsplit_once :: "char \<Rightarrow> string \<Rightarrow> (string \<times> string) option" where
  "rsplit_once c s = map_option (\<lambda>(a, b). (rev b, rev a)) (split_once c (rev s))"

definition endpoint_fingerprint :: "exasol_config \<Rightarrow> string option \<Rightarrow> string option" where
  "endpoint_fingerprint config dsn_fingerprint =
     (if trim (certificate_fingerprint config) \<noteq> []
      then Some (to_ascii_uppercase (trim (certificate_fingerprint config)))
      else
        (case dsn_fingerprint of
           Some fp \<Rightarrow> Some (to_ascii_uppercase fp)
         | None \<Rightarrow> if \<not> validate_certificate config then Some ''NOCERTCHECK'' else None))"

definition endpoint_parse :: "string \<Rightarrow> exasol_config \<Rightarrow> (exasol_error, endpoint_connection) result" where
  "endpoint_parse d config =
     (let first = trim (takeWhile (\<lambda>c. c \<noteq> CHR '','') d) in
      (case rsplit_once (CHR '':'') first of
         None \<Rightarrow> Inl (InvalidDsn d)
       | Some (host_and_fingerprint, port) \<Rightarrow>
           let (host, dsn_fingerprint) =
                 (case split_once (CHR ''/'') host_and_fingerprint of
                    Some (h, fp) \<Rightarrow> (h, Some fp)
                  | None \<Rightarrow> (host_and_fingerprint, None));
               fingerprint = endpoint_fingerprint config dsn_fingerprint
           in
           (case parse_unsigned 16 port of
              None \<Rightarrow> Inl (InvalidDsn d)
            | Some p \<Rightarrow> Inr \<lparr>ep_host = host, ep_port = p, ep_fingerprint = fingerprint\<rparr>)))"

text \<open>The settings given to exarrow's \<^verbatim>\<open>ConnectionBuilder\<close>.\<close>

record connection_settings =
  cs_host :: string
  cs_port :: nat
  cs_username :: string
  cs_password :: string
  cs_use_tls :: bool
  cs_validate :: bool
  cs_fingerprint :: "string option"
  cs_schema :: "string option"

definition certificate_settings :: "exasol_config \<Rightarrow> endpoint_connection \<Rightarrow> bool \<times> string option" where
  "certificate_settings config ep =
     (case ep_fingerprint ep of
        Some fp \<Rightarrow> if fp = ''NOCERTCHECK'' then (False, None) else (validate_certificate config, Some fp)
      | None \<Rightarrow> (validate_certificate config, None))"

definition to_connection_params ::
  "(connection_settings \<Rightarrow> (string, 'params) result) \<Rightarrow> endpoint_connection \<Rightarrow> exasol_config \<Rightarrow> string \<Rightarrow> string \<Rightarrow>
     (exasol_error, 'params) result" where
  "to_connection_params build ep config username password =
     (let (validate_cert, pin) = certificate_settings config ep in
      (case build \<lparr>cs_host = ep_host ep, cs_port = ep_port ep, cs_username = username,
                   cs_password = password, cs_use_tls = encryption config, cs_validate = validate_cert,
                   cs_fingerprint = pin,
                   cs_schema = (if schema config = [] then None else Some (schema config))\<rparr> of
         Inl e \<Rightarrow> Inl (ConnectionFailed e)
       | Inr params \<Rightarrow> Inr params))"

definition arrow_connect ::
  "(connection_settings \<Rightarrow> (string, 'params) result) \<Rightarrow> ('params \<Rightarrow> (connection_error, 'conn) result) \<Rightarrow>
     exasol_config \<Rightarrow> endpoint_connection \<Rightarrow> string \<Rightarrow> string \<Rightarrow> (exasol_error, 'conn) result" where
  "arrow_connect build from_params config ep username password =
     (case to_connection_params build ep config username password of
        Inl e \<Rightarrow> Inl e
      | Inr params \<Rightarrow>
          (case from_params params of
             Inl e \<Rightarrow> Inl (map_connection_error e)
           | Inr conn \<Rightarrow> Inr conn))"

text \<open>\<^verbatim>\<open>ExasolSession::connect\<close>: the two transports' \<^verbatim>\<open>connect\<close> are given as functions.\<close>

definition session_connect ::
  "(exasol_config \<Rightarrow> endpoint_connection \<Rightarrow> (exasol_error, 'conn) result) \<Rightarrow>
   (exasol_config \<Rightarrow> endpoint_connection \<Rightarrow> (exasol_error, 'conn) result) \<Rightarrow>
     exasol_config \<Rightarrow> (exasol_error, 'conn) result" where
  "session_connect connect_arrow connect_websocket config =
     (case endpoint_parse (dsn config) config of
        Inl e \<Rightarrow> Inl e
      | Inr ep \<Rightarrow>
          (case transport_from_config config of
             Inl e \<Rightarrow> Inl (ConnectionFailed e)
           | Inr Arrow \<Rightarrow> connect_arrow config ep
           | Inr WebSocket \<Rightarrow> connect_websocket config ep))"

text \<open>
  \<^verbatim>\<open>ExasolSession::initialize\<close>: run every template with \<^verbatim>\<open>{script}\<close> replaced, stop at the first error.
\<close>

fun session_initialize ::
  "('x \<Rightarrow> string \<Rightarrow> (exasol_error, unit) result \<times> 'x) \<Rightarrow> string list \<Rightarrow> string \<Rightarrow> 'x \<Rightarrow>
     (exasol_error, unit) result \<times> 'x" where
  "session_initialize execute_update [] script x = (Inr (), x)"
| "session_initialize execute_update (template # rest) script x =
     (case execute_update x (replace_text ''{script}'' script template) of
        (Inl e, x') \<Rightarrow> (Inl e, x')
      | (Inr _, x') \<Rightarrow> session_initialize execute_update rest script x')"

section \<open>Properties\<close>

lemma takeWhile_absent: "c \<notin> set s \<Longrightarrow> takeWhile (\<lambda>d. d \<noteq> c) s = s"
  by (simp add: takeWhile_eq_all_conv) blast

lemma split_once_append: "c \<notin> set a \<Longrightarrow> split_once c (a @ c # b) = Some (a, b)"
proof -
  assume "c \<notin> set a"
  then have "dropWhile (\<lambda>d. d \<noteq> c) (a @ c # b) = c # b" "takeWhile (\<lambda>d. d \<noteq> c) (a @ c # b) = a"
    by (induction a) auto
  then show ?thesis by (simp add: split_once_def)
qed

lemma rsplit_once_append: "c \<notin> set b \<Longrightarrow> rsplit_once c (a @ c # b) = Some (a, b)"
  using split_once_append [of c "rev b" "rev a"] by (simp add: rsplit_once_def)

lemma show_nat_char: "is_digit c \<or> c \<notin> set (show_nat n)"
  using show_nat_parse [of n] by (auto simp: list_all_iff)

lemma endpoint_parse_print:
  assumes "p < 2 ^ 16" and "h \<noteq> []" and "\<not> is_ws (hd h)"
    and "CHR '','' \<notin> set (h @ fp)" and "CHR ''/'' \<notin> set h"
    and "others = [] \<or> hd others = CHR '',''"
  shows "endpoint_parse (h @ CHR ''/'' # fp @ CHR '':'' # show_nat p @ others) config =
    Inr \<lparr>ep_host = h, ep_port = p,
         ep_fingerprint = Some (if trim (certificate_fingerprint config) \<noteq> []
           then to_ascii_uppercase (trim (certificate_fingerprint config)) else to_ascii_uppercase fp)\<rparr>"
proof -
  let ?entry = "h @ CHR ''/'' # fp @ CHR '':'' # show_nat p"
  have marks: "\<not> is_digit (CHR '':'')" "\<not> is_digit (CHR '','')"
    by (simp_all add: is_digit_def code_point_def)
  have port: "CHR '','' \<notin> set (show_nat p)" "CHR '':'' \<notin> set (show_nat p)"
    using marks show_nat_char by blast+
  then have "takeWhile (\<lambda>c. c \<noteq> CHR '','') (?entry @ others) = ?entry"
    using assms(4,6) by (cases others) (auto simp: takeWhile_append takeWhile_absent split: if_splits)
  moreover have "trim ?entry = ?entry"
  proof (rule trim_by_id)
    have "\<not> is_ws (last (show_nat p))"
      using show_nat_parse [of p] is_digit_props last_in_set by (metis list_all_iff)
    then show "?entry = [] \<or> \<not> is_ws (hd ?entry) \<and> \<not> is_ws (last ?entry)"
      using assms(2,3) show_nat_parse [of p] by simp
  qed
  moreover have "rsplit_once (CHR '':'') ?entry = Some (h @ CHR ''/'' # fp, show_nat p)"
    using rsplit_once_append [of "CHR '':''" "show_nat p" "h @ CHR ''/'' # fp"] port by simp
  ultimately show ?thesis
    using split_once_append [OF assms(5), of fp] parse_unsigned_show [OF assms(1)]
    by (simp add: endpoint_parse_def endpoint_fingerprint_def)
qed

text \<open>
  C34. A DSN with host, fingerprint and port is understood, with the documented precedence. The
  endpoint has the host and the port of the first entry of the DSN, whatever entries follow; the
  fingerprint is the configured one when it is set, else the one of the DSN, in upper case.
\<close>

theorem endpoint_parse_roundtrip:
  assumes "p < 2 ^ 16" and "h \<noteq> []" and "\<not> is_ws (hd h)"
    and "CHR '','' \<notin> set (h @ fp)" and "CHR ''/'' \<notin> set h"
    and "others = [] \<or> hd others = CHR '',''"
  shows "endpoint_parse (h @ CHR ''/'' # fp @ CHR '':'' # show_nat p @ others) config =
    Inr \<lparr>ep_host = h, ep_port = p,
         ep_fingerprint = Some (if trim (certificate_fingerprint config) \<noteq> []
           then to_ascii_uppercase (trim (certificate_fingerprint config)) else to_ascii_uppercase fp)\<rparr>"
  using assms by (rule endpoint_parse_print)

definition demo_config :: exasol_config where
  "demo_config = \<lparr>dsn = ''exa/abc:8563,exa2:8563'', encryption = True, certificate_fingerprint = [],
     validate_certificate = True, pass_client_credentials = True, schema = [], transport_name = ''arrow''\<rparr>"

theorem endpoint_parse_roundtrip_witness:
  "endpoint_parse (''exa'' @ CHR ''/'' # ''abc'' @ CHR '':'' # show_nat 8563 @ '',exa2:8563'') demo_config =
    Inr \<lparr>ep_host = ''exa'', ep_port = 8563,
         ep_fingerprint = Some (if trim (certificate_fingerprint demo_config) \<noteq> []
           then to_ascii_uppercase (trim (certificate_fingerprint demo_config)) else to_ascii_uppercase ''abc'')\<rparr>"
  by (rule endpoint_parse_roundtrip) (simp_all add: is_ws_def)

text \<open>
  A configuration that loads is usable. Whatever the file and the TOML parser give, an
  accepted configuration has a DSN, has both or none of the TLS files, and names a transport, so
  that connecting never fails for an unknown transport.
\<close>

lemma loaded_config_valid:
  assumes "config_from_file read_file toml path = Inr config"
  shows "trim (dsn (exasol config)) \<noteq> [] \<and>
    (trim (tls_cert_path (server config)) = [] \<longleftrightarrow> trim (tls_key_path (server config)) = []) \<and>
    (\<exists>t. transport_from_config (exasol config) = Inr t)"
  using assms
  by (auto simp: config_from_file_def validate_config_def split: sum.splits if_splits)

end
