(* ===== verification/Json_Value.thy ===== *)
theory Json_Value
  imports Gateway_Prelude
begin

text \<open>
  JSON values. \<^verbatim>\<open>serde_json\<close> is a third-party crate: its \<^verbatim>\<open>Value\<close> is a type variable and the
  methods the gateway calls are the fields of \<open>json_ops\<close>. The locale \<open>json_lib\<close> states what the
  crate documents of them; \<open>json_data\<close> is an implementation on a datatype.
\<close>

text \<open>The variants of \<^verbatim>\<open>Value\<close> the gateway matches on; a number and an object stay opaque.\<close>

datatype 'j json_view = VNull | VBool bool | VNumber | VString string | VArray "'j list" | VObject

record 'j json_ops =
  jv_view :: "'j \<Rightarrow> 'j json_view"
  jv_get :: "'j \<Rightarrow> string \<Rightarrow> 'j option"
  jv_pointer :: "'j \<Rightarrow> string \<Rightarrow> 'j option"
  jv_as_i64 :: "'j \<Rightarrow> int option"
  jv_as_u64 :: "'j \<Rightarrow> nat option"
  jv_text :: "'j \<Rightarrow> string"
  jv_parse :: "string \<Rightarrow> (string, 'j) result"
  jv_null :: 'j
  jv_string :: "string \<Rightarrow> 'j"
  jv_uint :: "nat \<Rightarrow> 'j"
  jv_bool :: "bool \<Rightarrow> 'j"
  jv_object :: "(string \<times> 'j) list \<Rightarrow> 'j"

definition jv_as_str :: "'j json_ops \<Rightarrow> 'j \<Rightarrow> string option" where
  "jv_as_str J v = (case jv_view J v of VString s \<Rightarrow> Some s | _ \<Rightarrow> None)"

definition jv_as_array :: "'j json_ops \<Rightarrow> 'j \<Rightarrow> 'j list option" where
  "jv_as_array J v = (case jv_view J v of VArray vs \<Rightarrow> Some vs | _ \<Rightarrow> None)"

locale json_lib =
  fixes J :: "'j json_ops"
  assumes view_string: "jv_view J (jv_string J s) = VString s"
    and view_null: "jv_view J (jv_null J) = VNull"
    and as_u64_uint: "n < 2 ^ 64 \<Longrightarrow> jv_as_u64 J (jv_uint J n) = Some n"
    and as_i64_uint: "int n \<le> i64_max \<Longrightarrow> jv_as_i64 J (jv_uint J n) = Some (int n)"
    and get_object: "distinct (map fst kvs) \<Longrightarrow> jv_get J (jv_object J kvs) k = map_of kvs k"
    and view_object: "jv_view J (jv_object J kvs) = VObject"
begin

lemma as_str_string [simp]: "jv_as_str J (jv_string J s) = Some s"
  by (simp add: jv_as_str_def view_string)

lemma as_str_object [simp]: "jv_as_str J (jv_object J kvs) = None"
  by (simp add: jv_as_str_def view_object)

end

section \<open>An implementation\<close>

datatype json =
    JNull
  | JBool bool
  | JInt int
  | JString string
  | JArray "json list"
  | JObject "(string \<times> json) list"

fun json_view_of :: "json \<Rightarrow> json json_view" where
  "json_view_of JNull = VNull"
| "json_view_of (JBool b) = VBool b"
| "json_view_of (JInt n) = VNumber"
| "json_view_of (JString s) = VString s"
| "json_view_of (JArray vs) = VArray vs"
| "json_view_of (JObject kvs) = VObject"

fun json_get :: "json \<Rightarrow> string \<Rightarrow> json option" where
  "json_get (JObject kvs) k = map_of kvs k"
| "json_get _ k = None"

text \<open>One step of a JSON pointer: a member of an object or an element of an array.\<close>

fun json_step :: "json \<Rightarrow> string \<Rightarrow> json option" where
  "json_step (JObject kvs) k = map_of kvs k"
| "json_step (JArray vs) k =
     (case parse_digits k of Some i \<Rightarrow> if i < length vs then Some (vs ! i) else None | None \<Rightarrow> None)"
| "json_step _ k = None"

fun json_steps :: "json \<Rightarrow> string list \<Rightarrow> json option" where
  "json_steps v [] = Some v"
| "json_steps v (k # ks) = (case json_step v k of Some w \<Rightarrow> json_steps w ks | None \<Rightarrow> None)"

definition json_pointer :: "json \<Rightarrow> string \<Rightarrow> json option" where
  "json_pointer v p = (if p = [] then Some v else json_steps v (tl (split_char (CHR ''/'') p)))"

fun json_text :: "json \<Rightarrow> string" where
  "json_text JNull = ''null''"
| "json_text (JBool b) = (if b then ''true'' else ''false'')"
| "json_text (JInt n) = show_int n"
| "json_text (JString s) = [dquote] @ s @ [dquote]"
| "json_text (JArray vs) = ''['' @ join_with '','' (map json_text vs) @ '']''"
| "json_text (JObject kvs) =
     ''{'' @ join_with '','' (map (\<lambda>(k, v). [dquote] @ k @ [dquote] @ '':'' @ json_text v) kvs) @ ''}''"

text \<open>
  A reader for the printed form (no white space, no escapes). \<open>JItems\<close> and \<open>JMembers\<close> read what
  follows an opening bracket or a comma.
\<close>

datatype json_mode = JValue | JItems | JMembers

primrec json_read :: "nat \<Rightarrow> json_mode \<Rightarrow> string \<Rightarrow> (json \<times> string) option" where
  "json_read 0 mode s = None"
| "json_read (Suc fuel) mode s =
     (case mode of
        JValue \<Rightarrow>
          if prefix ''null'' s then Some (JNull, drop 4 s)
          else if prefix ''true'' s then Some (JBool True, drop 4 s)
          else if prefix ''false'' s then Some (JBool False, drop 5 s)
          else if prefix [dquote] s then
            Some (JString (takeWhile (\<lambda>c. c \<noteq> dquote) (tl s)), drop 1 (dropWhile (\<lambda>c. c \<noteq> dquote) (tl s)))
          else if prefix ''[]'' s then Some (JArray [], drop 2 s)
          else if prefix ''{}'' s then Some (JObject [], drop 2 s)
          else if prefix ''['' s then json_read fuel JItems (tl s)
          else if prefix ''{'' s then json_read fuel JMembers (tl s)
          else
            map_option (\<lambda>n. (JInt n, dropWhile (\<lambda>c. is_digit c \<or> c = CHR ''-'') s))
              (parse_int (takeWhile (\<lambda>c. is_digit c \<or> c = CHR ''-'') s))
      | JItems \<Rightarrow>
          (case json_read fuel JValue s of
             None \<Rightarrow> None
           | Some (v, rest) \<Rightarrow>
               if prefix '']'' rest then Some (JArray [v], tl rest)
               else if prefix '','' rest then
                 (case json_read fuel JItems (tl rest) of
                    Some (JArray vs, rest') \<Rightarrow> Some (JArray (v # vs), rest')
                  | _ \<Rightarrow> None)
               else None)
      | JMembers \<Rightarrow>
          (case json_read fuel JValue s of
             Some (JString k, rest) \<Rightarrow>
               if \<not> prefix '':'' rest then None
               else
                 (case json_read fuel JValue (tl rest) of
                    None \<Rightarrow> None
                  | Some (v, rest') \<Rightarrow>
                      if prefix ''}'' rest' then Some (JObject [(k, v)], tl rest')
                      else if prefix '','' rest' then
                        (case json_read fuel JMembers (tl rest') of
                           Some (JObject kvs, rest'') \<Rightarrow> Some (JObject ((k, v) # kvs), rest'')
                         | _ \<Rightarrow> None)
                      else None)
           | _ \<Rightarrow> None))"

definition json_from_str :: "string \<Rightarrow> (string, json) result" where
  "json_from_str s =
     (case json_read (2 * length s + 2) JValue s of
        Some (v, rest) \<Rightarrow> if rest = [] then Inr v else Inl ''trailing characters''
      | None \<Rightarrow> Inl ''expected value'')"

definition json_data :: "json json_ops" where
  "json_data =
     \<lparr>jv_view = json_view_of, jv_get = json_get, jv_pointer = json_pointer,
      jv_as_i64 = (\<lambda>v. case v of JInt n \<Rightarrow> if in_i64 n then Some n else None | _ \<Rightarrow> None),
      jv_as_u64 = (\<lambda>v. case v of JInt n \<Rightarrow> if 0 \<le> n \<and> n < 2 ^ 64 then Some (nat n) else None | _ \<Rightarrow> None),
      jv_text = json_text, jv_parse = json_from_str,
      jv_null = JNull, jv_string = JString, jv_uint = (\<lambda>n. JInt (int n)), jv_bool = JBool, jv_object = JObject\<rparr>"

interpretation jd: json_lib json_data
proof
  fix n :: nat
  assume "n < 2 ^ 64"
  then have "int n < 2 ^ 64" by (metis of_nat_less_iff of_nat_numeral of_nat_power)
  then show "jv_as_u64 json_data (jv_uint json_data n) = Some n" by (simp add: json_data_def)
qed (simp_all add: json_data_def in_i64_def i64_min_def)

end
