(* ===== verification/Response.thy ===== *)
theory Response
  imports Metadata Portal Policy Json_Value Endpoint
begin

text \<open>
  Results on their way to the client (\<^verbatim>\<open>src/src/pg_server.rs\<close>, \<^verbatim>\<open>src/src/exasol/mod.rs\<close>): the outcome
  of an Exasol statement, the gateway's response, and the pgwire response with its row
  description and data rows. Arrow schemas, column formatters and pgwire's field encoder are
  arguments.
\<close>

section \<open>Data\<close>

record 'j exasol_column =
  col_name :: string
  col_data_type :: 'j

datatype ('b, 'j) exasol_outcome =
    ArrowRows "'b list"
  | TypedRows "'j exasol_column list" "text_row list"
  | RowCount int

datatype ('b, 's, 'j) gateway_response =
    RespEmpty
  | RespQuery "string list" "text_row list"
  | RespArrow 's "'b list" "string option" bool
  | RespTyped "'j exasol_column list" "text_row list" "string option" bool
  | RespExecution string "int option"
  | RespTransactionStart string
  | RespTransactionEnd string
  | RespError string string

text \<open>pgwire: a field of a row description, a command tag, a query response, a response.\<close>

record field_info =
  field_name :: string
  field_type :: pg_type

record tag =
  tag_command :: string
  tag_oid :: "int option"
  tag_rows :: "int option"

record query_response =
  qr_fields :: "field_info list"
  qr_rows :: "(pg_wire_error, text_row) result list"
  qr_tag :: "string option"

datatype response =
    EmptyQuery
  | QueryResponse query_response
  | ExecutionResponse tag
  | TransactionStart tag
  | TransactionEnd tag
  | ErrorResponse string string string
  | CopyResponse

text \<open>Arrow data types, as far as the mapping distinguishes them; a time stamp may have a zone.\<close>

datatype arrow_type =
    ABoolean
  | AInt8 | AInt16 | AInt32 | AUInt8 | AUInt16 | AUInt32
  | AInt64 | AUInt64
  | AFloat32 | AFloat64
  | ADecimal128 int int | ADecimal256 int int
  | ADate32 | ADate64
  | ATimestamp "string option"
  | AUtf8 | ALargeUtf8
  | AOther

record arrow_field =
  af_name :: string
  af_type :: arrow_type
  af_metadata :: "(string \<times> string) list"

text \<open>Arrow's \<^verbatim>\<open>ArrayFormatter\<close> and null test.\<close>

record ('c, 'f) format_ops =
  fmt_new :: "'c \<Rightarrow> (string, 'f) result"
  fmt_value :: "'f \<Rightarrow> nat \<Rightarrow> (string, string) result"
  fmt_is_null :: "'c \<Rightarrow> nat \<Rightarrow> bool"

section \<open>Types\<close>

definition decimal_pg_type :: "int \<Rightarrow> int \<Rightarrow> pg_type" where
  "decimal_pg_type precision scale = (if scale = 0 \<and> precision \<le> 9 then INT4 else NUMERIC)"

fun pg_type_for_arrow_data_type :: "arrow_type \<Rightarrow> pg_type" where
  "pg_type_for_arrow_data_type ABoolean = BOOL"
| "pg_type_for_arrow_data_type AInt8 = INT4"
| "pg_type_for_arrow_data_type AInt16 = INT4"
| "pg_type_for_arrow_data_type AInt32 = INT4"
| "pg_type_for_arrow_data_type AUInt8 = INT4"
| "pg_type_for_arrow_data_type AUInt16 = INT4"
| "pg_type_for_arrow_data_type AUInt32 = INT4"
| "pg_type_for_arrow_data_type AInt64 = NUMERIC"
| "pg_type_for_arrow_data_type AUInt64 = NUMERIC"
| "pg_type_for_arrow_data_type AFloat32 = FLOAT8"
| "pg_type_for_arrow_data_type AFloat64 = FLOAT8"
| "pg_type_for_arrow_data_type (ADecimal128 precision scale) = decimal_pg_type precision scale"
| "pg_type_for_arrow_data_type (ADecimal256 precision scale) = decimal_pg_type precision scale"
| "pg_type_for_arrow_data_type ADate32 = DATE"
| "pg_type_for_arrow_data_type ADate64 = DATE"
| "pg_type_for_arrow_data_type (ATimestamp None) = TIMESTAMP"
| "pg_type_for_arrow_data_type (ATimestamp (Some _)) = TIMESTAMPTZ"
| "pg_type_for_arrow_data_type AUtf8 = VARCHAR"
| "pg_type_for_arrow_data_type ALargeUtf8 = VARCHAR"
| "pg_type_for_arrow_data_type AOther = TEXT"

definition metadata_i64 :: "arrow_field \<Rightarrow> string \<Rightarrow> int \<Rightarrow> int" where
  "metadata_i64 field key d = unwrap_or (Option.bind (map_of (af_metadata field) key) parse_i64) d"

definition pg_type_from_exasol_metadata :: "'j json_ops \<Rightarrow> string \<Rightarrow> arrow_field \<Rightarrow> pg_type option" where
  "pg_type_from_exasol_metadata J exasol_type_json field =
     (case jv_parse J exasol_type_json of
        Inl _ \<Rightarrow> None
      | Inr v \<Rightarrow>
          (case Option.bind (jv_get J v ''type'') (jv_as_str J) of
             None \<Rightarrow> None
           | Some name \<Rightarrow>
               let type_name = to_ascii_uppercase name in
               if type_name = ''BOOLEAN'' then Some BOOL
               else if type_name = ''DECIMAL'' then
                 Some (decimal_pg_type (metadata_i64 field ''exasol:precision'' 36)
                         (metadata_i64 field ''exasol:scale'' 0))
               else if type_name = ''DOUBLE'' then Some FLOAT8
               else if type_name = ''DATE'' then Some DATE
               else if type_name = ''TIMESTAMP'' then
                 Some (case af_type field of ATimestamp (Some _) \<Rightarrow> TIMESTAMPTZ | _ \<Rightarrow> TIMESTAMP)
               else if type_name \<in> set [''CHAR'', ''VARCHAR'', ''HASHTYPE''] then Some VARCHAR
               else None))"

definition pg_type_for_arrow_field :: "'j json_ops \<Rightarrow> arrow_field \<Rightarrow> pg_type" where
  "pg_type_for_arrow_field J field =
     (case Option.bind (map_of (af_metadata field) ''exasol:type'')
             (\<lambda>t. pg_type_from_exasol_metadata J t field) of
        Some t \<Rightarrow> t
      | None \<Rightarrow> pg_type_for_arrow_data_type (af_type field))"

definition pg_type_of_oid :: "int \<Rightarrow> pg_type" where
  "pg_type_of_oid oid =
     (if oid = 16 then BOOL
      else if oid = 1082 then DATE
      else if oid = 1114 then TIMESTAMP
      else if oid = 1184 then TIMESTAMPTZ
      else if oid = 1700 then NUMERIC
      else if oid \<in> {700, 701} then FLOAT8
      else if oid \<in> {1042, 1043} then VARCHAR
      else TEXT)"

definition exasol_type_name :: "'j json_ops \<Rightarrow> 'j \<Rightarrow> string" where
  "exasol_type_name J t =
     (case jv_as_str J t of
        Some name \<Rightarrow> name
      | None \<Rightarrow>
          (case Option.bind (jv_get J t ''type'') (jv_as_str J) of
             Some name \<Rightarrow> name
           | None \<Rightarrow> unwrap_or (Option.bind (jv_get J t ''name'') (jv_as_str J)) ''VARCHAR''))"

definition pg_type_for_exasol_data_type :: "regex_search \<Rightarrow> 'j json_ops \<Rightarrow> 'j \<Rightarrow> pg_type" where
  "pg_type_for_exasol_data_type E J t =
     (let upper = to_ascii_uppercase (exasol_type_name J t) in
      if upper \<in> set [''BOOLEAN'', ''BOOL''] then BOOL
      else if upper \<in> set [''DECIMAL'', ''NUMERIC''] then
        (let scale = unwrap_or (Option.bind (jv_get J t ''scale'') (jv_as_i64 J)) 0;
             precision = unwrap_or (Option.bind (jv_get J t ''precision'') (jv_as_i64 J)) 36
         in if scale = 0 \<and> precision \<le> 9 then INT4 else NUMERIC)
      else if upper \<in> set [''DOUBLE'', ''DOUBLE PRECISION''] then FLOAT8
      else if upper = ''DATE'' then DATE
      else if upper = ''TIMESTAMP'' then TIMESTAMP
      else if upper \<in> set [''TIMESTAMP WITH LOCAL TIME ZONE'', ''TIMESTAMP WITH TIME ZONE''] then TIMESTAMPTZ
      else if upper \<in> set [''CHAR'', ''VARCHAR'', ''HASHTYPE''] then VARCHAR
      else
        let rendered = (case jv_as_str J t of Some s \<Rightarrow> s | None \<Rightarrow> jv_text J t) in
        pg_type_of_oid (ti_oid (map_exasol_column_type E rendered)))"

section \<open>Labels and row descriptions\<close>

definition fold_exasol_column_name :: "string \<Rightarrow> string" where
  "fold_exasol_column_name name = (if list_ex is_ascii_lower name then name else to_ascii_lowercase name)"

definition maybe_fold_label :: "string \<Rightarrow> bool \<Rightarrow> string" where
  "maybe_fold_label name fold_labels = (if fold_labels then fold_exasol_column_name name else name)"

definition map_exasol_columns ::
  "'j json_ops \<Rightarrow> ('s \<Rightarrow> arrow_field list) \<Rightarrow> 's \<Rightarrow> bool \<Rightarrow> field_info list" where
  "map_exasol_columns J schema_fields s fold_labels =
     map (\<lambda>f. \<lparr>field_name = maybe_fold_label (af_name f) fold_labels, field_type = pg_type_for_arrow_field J f\<rparr>)
       (schema_fields s)"

definition typed_fields :: "regex_search \<Rightarrow> 'j json_ops \<Rightarrow> 'j exasol_column list \<Rightarrow> bool \<Rightarrow> field_info list" where
  "typed_fields E J cols fold_labels =
     map (\<lambda>c. \<lparr>field_name = maybe_fold_label (col_name c) fold_labels,
                field_type = pg_type_for_exasol_data_type E J (col_data_type c)\<rparr>) cols"

definition text_fields :: "string list \<Rightarrow> field_info list" where
  "text_fields names = map (\<lambda>n. \<lparr>field_name = n, field_type = TEXT\<rparr>) names"

fun response_fields ::
  "regex_search \<Rightarrow> 'j json_ops \<Rightarrow> ('s \<Rightarrow> arrow_field list) \<Rightarrow> ('b, 's, 'j) gateway_response \<Rightarrow> field_info list" where
  "response_fields E J schema_fields (RespQuery cols rows) = text_fields cols"
| "response_fields E J schema_fields (RespArrow s batches tag fold_labels) =
     map_exasol_columns J schema_fields s fold_labels"
| "response_fields E J schema_fields (RespTyped cols rows tag fold_labels) = typed_fields E J cols fold_labels"
| "response_fields E J schema_fields _ = []"

section \<open>Data rows\<close>

text \<open>
  pgwire's \<^verbatim>\<open>DataRowEncoder\<close> collects the fields of a row until \<^verbatim>\<open>take_row\<close>: its operations are
  the fields of \<open>encoder_ops\<close>. One encoder serves all rows of a response, so a row that fails
  half-way leaves its state to the next one.
\<close>

record 'e encoder_ops =
  enc_new :: "field_info list \<Rightarrow> 'e"
  enc_field :: "'e \<Rightarrow> string option \<Rightarrow> (pg_wire_error, unit) result \<times> 'e"
  enc_take_row :: "'e \<Rightarrow> text_row \<times> 'e"

fun encode_values :: "'e encoder_ops \<Rightarrow> text_row \<Rightarrow> 'e \<Rightarrow> (pg_wire_error, unit) result \<times> 'e" where
  "encode_values K [] e = (Inr (), e)"
| "encode_values K (v # vs) e =
     (case enc_field K e v of
        (Inl err, e') \<Rightarrow> (Inl err, e')
      | (Inr _, e') \<Rightarrow> encode_values K vs e')"

definition finish_row :: "'e encoder_ops \<Rightarrow> (pg_wire_error, unit) result \<times> 'e \<Rightarrow>
    (pg_wire_error, text_row) result \<times> 'e" where
  "finish_row K = (\<lambda>(r, e). case r of
     Inl err \<Rightarrow> (Inl err, e)
   | Inr _ \<Rightarrow> (let (row, e') = enc_take_row K e in (Inr row, e')))"

text \<open>A text row is cut or padded with nulls to the number of columns.\<close>

definition row_values :: "nat \<Rightarrow> text_row \<Rightarrow> text_row" where
  "row_values column_count row = map (\<lambda>idx. unwrap_or (nth_opt row idx) None) [0..<column_count]"

fun encode_rows :: "'e encoder_ops \<Rightarrow> nat \<Rightarrow> text_row list \<Rightarrow> 'e \<Rightarrow> (pg_wire_error, text_row) result list" where
  "encode_rows K column_count [] e = []"
| "encode_rows K column_count (row # rows) e =
     (let (r, e') = finish_row K (encode_values K (row_values column_count row) e)
      in r # encode_rows K column_count rows e')"

definition query_response_text :: "'e encoder_ops \<Rightarrow> string list \<Rightarrow> text_row list \<Rightarrow> query_response" where
  "query_response_text K cols rows =
     (let fields = text_fields cols in
      \<lparr>qr_fields = fields, qr_rows = encode_rows K (length fields) rows (enc_new K fields), qr_tag = None\<rparr>)"

definition query_response_typed :: "regex_search \<Rightarrow> 'j json_ops \<Rightarrow> 'e encoder_ops \<Rightarrow> 'j exasol_column list \<Rightarrow>
    text_row list \<Rightarrow> string option \<Rightarrow> bool \<Rightarrow> query_response" where
  "query_response_typed E J K cols rows command_tag fold_labels =
     (let fields = typed_fields E J cols fold_labels in
      \<lparr>qr_fields = fields, qr_rows = encode_rows K (length fields) rows (enc_new K fields),
       qr_tag = command_tag\<rparr>)"

text \<open>One row of a batch: a null cell is encoded as such, another one is formatted first.\<close>

fun encode_one_row :: "('c, 'f) format_ops \<Rightarrow> 'e encoder_ops \<Rightarrow> ('c \<times> 'f) list \<Rightarrow> nat \<Rightarrow> 'e \<Rightarrow>
    (pg_wire_error, unit) result \<times> 'e" where
  "encode_one_row F K [] row_idx e = (Inr (), e)"
| "encode_one_row F K ((col, formatter) # cols) row_idx e =
     (if fmt_is_null F col row_idx then
        (case enc_field K e None of
           (Inl err, e') \<Rightarrow> (Inl err, e')
         | (Inr _, e') \<Rightarrow> encode_one_row F K cols row_idx e')
      else
        (case fmt_value F formatter row_idx of
           Inl err \<Rightarrow> (Inl (pg_error ''XX000'' (''failed to render Arrow result row: '' @ err)), e)
         | Inr v \<Rightarrow>
             (case enc_field K e (Some v) of
                (Inl err, e') \<Rightarrow> (Inl err, e')
              | (Inr _, e') \<Rightarrow> encode_one_row F K cols row_idx e')))"

fun encode_row_range :: "('c, 'f) format_ops \<Rightarrow> 'e encoder_ops \<Rightarrow> ('c \<times> 'f) list \<Rightarrow> nat list \<Rightarrow>
    'e \<Rightarrow> (pg_wire_error, text_row) result list \<times> 'e" where
  "encode_row_range F K cols [] e = ([], e)"
| "encode_row_range F K cols (i # is) e =
     (let (r, e') = finish_row K (encode_one_row F K cols i e);
          (rs, e'') = encode_row_range F K cols is e'
      in (r # rs, e''))"

fun collect_results :: "('e, 'a) result list \<Rightarrow> ('e, 'a list) result" where
  "collect_results [] = Inr []"
| "collect_results (Inl e # rs) = Inl e"
| "collect_results (Inr a # rs) = (case collect_results rs of Inl e \<Rightarrow> Inl e | Inr as \<Rightarrow> Inr (a # as))"

definition encode_batch_rows :: "('b, 's, 'c) batch_ops \<Rightarrow> ('c, 'f) format_ops \<Rightarrow> 'e encoder_ops \<Rightarrow>
    'b \<Rightarrow> 'e \<Rightarrow> (pg_wire_error, text_row) result list \<times> 'e" where
  "encode_batch_rows ops F K batch e =
     (let n = rb_num_rows ops batch in
      if n = 0 then ([], e)
      else
        (case collect_results (map (fmt_new F) (rb_columns ops batch)) of
           Inl err \<Rightarrow> ([Inl (pg_error ''XX000'' (''failed to build Arrow formatters: '' @ err))], e)
         | Inr formatters \<Rightarrow>
             encode_row_range F K (zip (rb_columns ops batch) formatters) [0..<n] e))"

fun encode_batches :: "('b, 's, 'c) batch_ops \<Rightarrow> ('c, 'f) format_ops \<Rightarrow> 'e encoder_ops \<Rightarrow>
    'b list \<Rightarrow> 'e \<Rightarrow> (pg_wire_error, text_row) result list" where
  "encode_batches ops F K [] e = []"
| "encode_batches ops F K (b # bs) e =
     (let (rs, e') = encode_batch_rows ops F K b e in rs @ encode_batches ops F K bs e')"

definition query_response_arrow :: "'j json_ops \<Rightarrow> ('s \<Rightarrow> arrow_field list) \<Rightarrow> ('b, 's, 'c) batch_ops \<Rightarrow>
    ('c, 'f) format_ops \<Rightarrow> 'e encoder_ops \<Rightarrow> 's \<Rightarrow> 'b list \<Rightarrow> string option \<Rightarrow> bool \<Rightarrow> query_response" where
  "query_response_arrow J schema_fields ops F K s batches command_tag fold_labels =
     (let fields = map_exasol_columns J schema_fields s fold_labels in
      \<lparr>qr_fields = fields, qr_rows = encode_batches ops F K batches (enc_new K fields), qr_tag = command_tag\<rparr>)"

section \<open>Rendering for metadata queries\<close>

definition render_cell :: "('c, 'f) format_ops \<Rightarrow> nat \<Rightarrow> 'c \<times> 'f \<Rightarrow> (string, string option) result" where
  "render_cell F row_idx = (\<lambda>(col, formatter).
     if fmt_is_null F col row_idx then Inr None
     else (case fmt_value F formatter row_idx of Inl e \<Rightarrow> Inl e | Inr v \<Rightarrow> Inr (Some v)))"

definition render_batch :: "('b, 's, 'c) batch_ops \<Rightarrow> ('c, 'f) format_ops \<Rightarrow> 'b \<Rightarrow> (string, text_row list) result" where
  "render_batch ops F batch =
     (if rb_num_rows ops batch = 0 then Inr []
      else
        (case collect_results (map (fmt_new F) (rb_columns ops batch)) of
           Inl e \<Rightarrow> Inl e
         | Inr formatters \<Rightarrow>
             collect_results (map (\<lambda>i. collect_results (map (render_cell F i)
               (zip (rb_columns ops batch) formatters))) [0..<rb_num_rows ops batch])))"

definition render_arrow_batches_as_strings ::
  "('b, 's, 'c) batch_ops \<Rightarrow> ('c, 'f) format_ops \<Rightarrow> 'b list \<Rightarrow> (string, text_row list) result" where
  "render_arrow_batches_as_strings ops F batches =
     (case collect_results (map (render_batch ops F) batches) of
        Inl e \<Rightarrow> Inl e
      | Inr rss \<Rightarrow> Inr (concat rss))"

definition arrow_batches_to_text_rows ::
  "('b, 's, 'c) batch_ops \<Rightarrow> ('c, 'f) format_ops \<Rightarrow> 'b list \<Rightarrow> text_row list" where
  "arrow_batches_to_text_rows ops F batches =
     (case render_arrow_batches_as_strings ops F batches of Inl _ \<Rightarrow> [] | Inr rows \<Rightarrow> rows)"

section \<open>Responses\<close>

definition execution_tag :: "string \<Rightarrow> int option \<Rightarrow> tag" where
  "execution_tag command rows =
     (case rows of
        Some n \<Rightarrow>
          if command = ''INSERT'' then \<lparr>tag_command = command, tag_oid = Some 0, tag_rows = Some n\<rparr>
          else \<lparr>tag_command = command, tag_oid = None, tag_rows = Some n\<rparr>
      | None \<Rightarrow> \<lparr>tag_command = command, tag_oid = None, tag_rows = None\<rparr>)"

definition plain_tag :: "string \<Rightarrow> tag" where
  "plain_tag command = \<lparr>tag_command = command, tag_oid = None, tag_rows = None\<rparr>"

fun try_from_response :: "regex_search \<Rightarrow> 'j json_ops \<Rightarrow> ('s \<Rightarrow> arrow_field list) \<Rightarrow> ('b, 's, 'c) batch_ops \<Rightarrow>
    ('c, 'f) format_ops \<Rightarrow> 'e encoder_ops \<Rightarrow> ('b, 's, 'j) gateway_response \<Rightarrow> response" where
  "try_from_response E J sf ops F K RespEmpty = EmptyQuery"
| "try_from_response E J sf ops F K (RespQuery cols rows) = QueryResponse (query_response_text K cols rows)"
| "try_from_response E J sf ops F K (RespArrow s batches t fold_labels) =
     QueryResponse (query_response_arrow J sf ops F K s batches t fold_labels)"
| "try_from_response E J sf ops F K (RespTyped cols rows t fold_labels) =
     QueryResponse (query_response_typed E J K cols rows t fold_labels)"
| "try_from_response E J sf ops F K (RespExecution command rows) = ExecutionResponse (execution_tag command rows)"
| "try_from_response E J sf ops F K (RespTransactionStart command) = TransactionStart (plain_tag command)"
| "try_from_response E J sf ops F K (RespTransactionEnd command) = TransactionEnd (plain_tag command)"
| "try_from_response E J sf ops F K (RespError sqlstate message) = ErrorResponse ''ERROR'' sqlstate message"

definition map_exasol_result :: "('b, 's, 'c) batch_ops \<Rightarrow> ('b, 'j) exasol_outcome \<Rightarrow> string \<Rightarrow> row_count_policy \<Rightarrow>
    bool \<Rightarrow> ('b, 's, 'j) gateway_response list" where
  "map_exasol_result ops outcome command policy fold_labels =
     (case outcome of
        ArrowRows batches \<Rightarrow> [RespArrow (cursor_schema_for ops batches) batches None fold_labels]
      | TypedRows cols rows \<Rightarrow> [RespTyped cols rows None fold_labels]
      | RowCount n \<Rightarrow>
          [RespExecution command (case policy of Include \<Rightarrow> Some (max n 0) | Omit \<Rightarrow> None)])"

definition map_exasol_connection_error :: "exasol_error \<Rightarrow> pg_wire_error" where
  "map_exasol_connection_error e =
     pg_error ''28000'' (''Exasol authentication or connection failed: '' @ exasol_error_text e)"

definition map_exasol_execution_error :: "exasol_error \<Rightarrow> pg_wire_error" where
  "map_exasol_execution_error e = pg_error ''XX000'' (exasol_error_text e)"

definition empty_query :: "string list \<Rightarrow> ('b, 's, 'j) gateway_response" where
  "empty_query cols = RespQuery cols []"

lemma collect_results_map_Inr [simp]: "collect_results (map Inr ys) = Inr ys"
  by (induction ys) simp_all

lemma collect_results_Inr: "collect_results xs = Inr ys \<longleftrightarrow> xs = map Inr ys"
proof
  show "collect_results xs = Inr ys \<Longrightarrow> xs = map Inr ys"
    by (induction xs arbitrary: ys rule: collect_results.induct) (auto split: sum.splits)
qed simp

lemma encode_row_range_length: "encode_row_range F K cols is e = (rs, e') \<Longrightarrow> length rs = length is"
  by (induction "is" arbitrary: e rs e') (auto split: prod.splits simp: Let_def)

section \<open>Laws of the row encoder\<close>

text \<open>
  What the gateway relies on: a new encoder is empty, an accepted field is added at the end, and
  \<^verbatim>\<open>take_row\<close> hands out the collected fields and leaves an empty encoder.
\<close>

locale row_encoder =
  fixes K :: "'e encoder_ops"
    and cells :: "'e \<Rightarrow> text_row"
  assumes cells_new: "cells (enc_new K fs) = []"
    and cells_field: "enc_field K e v = (Inr u, e') \<Longrightarrow> cells e' = cells e @ [v]"
    and cells_take: "enc_take_row K e = (row, e') \<Longrightarrow> row = cells e \<and> cells e' = []"
begin

lemma encode_values_cells: "encode_values K vs e = (Inr u, e') \<Longrightarrow> cells e' = cells e @ vs"
  by (induction vs arbitrary: e) (auto split: prod.splits sum.splits dest!: cells_field)

lemma finish_row_cells:
  "finish_row K p = (Inr row, e') \<Longrightarrow> \<exists>u. fst p = Inr u \<and> row = cells (snd p) \<and> cells e' = []"
  by (auto simp: finish_row_def split: prod.splits sum.splits dest!: cells_take)

text \<open>The rows sent before the first failure are the first rows, cut or padded to the width.\<close>

lemma encode_rows_prefix:
  "encode_rows K n rows e = map Inr ok @ rest \<Longrightarrow> cells e = [] \<Longrightarrow>
     ok = map (row_values n) (take (length ok) rows)"
proof (induction rows arbitrary: e ok)
  case (Cons row rows)
  obtain r e1 where r: "finish_row K (encode_values K (row_values n row) e) = (r, e1)" by fastforce
  show ?case
  proof (cases ok)
    case (Cons a ok')
    have 1: "r = Inr a" "encode_rows K n rows e1 = map Inr ok' @ rest"
      using Cons.prems(1) Cons r by auto
    obtain u where u: "fst (encode_values K (row_values n row) e) = Inr u"
      and a: "a = cells (snd (encode_values K (row_values n row) e))" and e1: "cells e1 = []"
      using finish_row_cells r 1 by metis
    have "a = row_values n row"
      using encode_values_cells [of "row_values n row" e u "snd (encode_values K (row_values n row) e)"]
        u a Cons.prems(2) by (metis append_Nil prod.collapse)
    then show ?thesis using Cons.IH [OF 1(2) e1] Cons by simp
  qed simp
qed simp

lemma encode_one_row_cells:
  "encode_one_row F K cols i e = (Inr u, e') \<Longrightarrow>
     \<exists>vs. collect_results (map (render_cell F i) cols) = Inr vs \<and> cells e' = cells e @ vs"
proof (induction cols arbitrary: e)
  case (Cons cf cols)
  obtain col f where cf: "cf = (col, f)" by fastforce
  show ?case
    using Cons.prems Cons.IH unfolding cf
    by (fastforce simp: render_cell_def split: if_splits prod.splits sum.splits dest!: cells_field)
qed simp

lemma encode_row_range_prefix:
  "encode_row_range F K cols is e = (rs, e') \<Longrightarrow> cells e = [] \<Longrightarrow> rs = map Inr ok @ rest \<Longrightarrow>
   map (\<lambda>i. collect_results (map (render_cell F i) cols)) is = map Inr rows \<Longrightarrow>
     ok = take (length ok) rows \<and> (rest = [] \<longrightarrow> cells e' = [])"
proof (induction "is" arbitrary: e rs ok rows)
  case (Cons i "is")
  obtain r e1 where r: "finish_row K (encode_one_row F K cols i e) = (r, e1)" by fastforce
  obtain rs' e2 where rs': "encode_row_range F K cols is e1 = (rs', e2)" by fastforce
  have rs: "rs = r # rs'" "e' = e2" using Cons.prems(1) r rs' by auto
  show ?case
  proof (cases ok)
    case Nil
    then show ?thesis using rs Cons.prems(3) by auto
  next
    case (Cons a ok')
    then have a: "r = Inr a" "rs' = map Inr ok' @ rest" using Cons.prems(3) rs by auto
    obtain row rows' where row: "collect_results (map (render_cell F i) cols) = Inr row"
      "map (\<lambda>i. collect_results (map (render_cell F i) cols)) is = map Inr rows'" "rows = row # rows'"
      using Cons.prems(4) by auto
    obtain u where u: "fst (encode_one_row F K cols i e) = Inr u"
      and a1: "a = cells (snd (encode_one_row F K cols i e))" and e1: "cells e1 = []"
      using finish_row_cells r a(1) by metis
    have "a = row"
      using encode_one_row_cells [of F cols i e u "snd (encode_one_row F K cols i e)"] u a1 row(1)
        Cons.prems(2) by (metis append_Nil prod.collapse sum.inject(2))
    then show ?thesis using Cons.IH [OF rs' [folded rs(2)] e1 a(2) row(2)] rs Cons row(3) by auto
  qed
qed simp

lemma encode_batch_rows_prefix:
  assumes "encode_batch_rows ops F K b e = (rs, e')" "cells e = []" "rs = map Inr ok @ rest"
    and "render_batch ops F b = Inr rows"
  shows "ok = take (length ok) rows \<and> length rs = length rows \<and> (rest = [] \<longrightarrow> cells e' = [])"
proof (cases "rb_num_rows ops b = 0")
  case False
  obtain fs where fs: "collect_results (map (fmt_new F) (rb_columns ops b)) = Inr fs"
    and rows: "map (\<lambda>i. collect_results (map (render_cell F i) (zip (rb_columns ops b) fs)))
      [0..<rb_num_rows ops b] = map Inr rows"
    using assms(4) False by (auto simp: render_batch_def collect_results_Inr split: sum.splits)
  have r: "encode_row_range F K (zip (rb_columns ops b) fs) [0..<rb_num_rows ops b] e = (rs, e')"
    using assms(1) False fs by (simp add: encode_batch_rows_def Let_def)
  have "length rs = length rows"
    using encode_row_range_length [OF r] arg_cong [OF rows, of length] by simp
  then show ?thesis using encode_row_range_prefix [OF r assms(2,3) rows] by simp
qed (use assms in \<open>auto simp: encode_batch_rows_def render_batch_def\<close>)

lemma encode_batches_prefix:
  "encode_batches ops F K bs e = map Inr ok @ rest \<Longrightarrow> cells e = [] \<Longrightarrow>
   map (render_batch ops F) bs = map Inr rss \<Longrightarrow> ok = take (length ok) (concat rss)"
proof (induction bs arbitrary: e ok rss)
  case (Cons b bs)
  obtain rs e1 where rs: "encode_batch_rows ops F K b e = (rs, e1)" by fastforce
  obtain rows rss' where rows: "render_batch ops F b = Inr rows" "map (render_batch ops F) bs = map Inr rss'"
    "rss = rows # rss'" using Cons.prems(3) by auto
  have all: "rs @ encode_batches ops F K bs e1 = map Inr ok @ rest" using Cons.prems(1) rs by simp
  show ?case
  proof (cases "length rs \<le> length ok")
    case True
    have split: "rs = map Inr (take (length rs) ok) @ []"
      "encode_batches ops F K bs e1 = map Inr (drop (length rs) ok) @ rest"
      using all True by (auto simp: append_eq_append_conv_if take_map drop_map)
    note b = encode_batch_rows_prefix [OF rs Cons.prems(2) split(1) rows(1)]
    have "drop (length rs) ok = take (length ok - length rs) (concat rss')"
      using Cons.IH [OF split(2) _ rows(2)] b by simp
    moreover have "length (take (length rs) ok) = length rs" using True by simp
    then have "take (length rs) ok = rows" using b by (metis order_refl take_all)
    ultimately show ?thesis using rows(3) b True by (metis append_take_drop_id concat.simps(2) take_append take_all)
  next
    case False
    have split: "rs = map Inr ok @ take (length rs - length ok) rest"
      using all False append_take_drop_id [of "length ok" rs] by (auto simp: append_eq_append_conv_if not_le)
    note b = encode_batch_rows_prefix [OF rs Cons.prems(2) split rows(1)]
    then show ?thesis using rows(3) False by auto
  qed
qed simp

end

text \<open>An encoder that keeps the row description and the collected cells.\<close>

definition text_encoder :: "(field_info list \<times> text_row) encoder_ops" where
  "text_encoder =
     \<lparr>enc_new = (\<lambda>fs. (fs, [])),
      enc_field = (\<lambda>(fs, vs) v.
        if length vs < length fs then (Inr (), (fs, vs @ [v]))
        else (Inl (pg_error ''XX000'' ''too many fields''), (fs, vs))),
      enc_take_row = (\<lambda>(fs, vs). (vs, (fs, [])))\<rparr>"

interpretation te: row_encoder text_encoder snd
  by unfold_locales (auto simp: text_encoder_def split: if_splits)

text \<open>A formatter and batches for the examples: cells are texts already.\<close>

definition column_format :: "(string option list, string option list) format_ops" where
  "column_format = \<lparr>fmt_new = Inr, fmt_value = (\<lambda>c i. Inr (unwrap_or (c ! i) [])), fmt_is_null = (\<lambda>c i. c ! i = None)\<rparr>"

definition demo_batch :: "string option list \<Rightarrow> string option columnar" where
  "demo_batch vs = \<lparr>cb_fields = [''A''], cb_cols = [vs], cb_rows = length vs\<rparr>"

definition demo_schema :: "string list \<Rightarrow> arrow_field list" where
  "demo_schema = map (\<lambda>n. \<lparr>af_name = n, af_type = AUtf8, af_metadata = []\<rparr>)"

section \<open>Properties\<close>

text \<open>
  C17. Row shape: whatever the width of the rows that Exasol (or the gateway itself) delivers, each
  data row sent for a text or typed result has exactly as many cells as the row description,
  and the rows sent up to the first encoding failure are the delivered rows in order, each
  cut or padded with nulls to that width. The encoder is any one that collects accepted fields.
\<close>

theorem text_rows_fit_description:
  assumes "row_encoder K cells"
    and "r \<in> {RespQuery names rows, RespTyped cols rows t fold_labels}"
    and "try_from_response E J sf ops F K r = QueryResponse q"
    and "qr_rows q = map Inr sent @ rest"
  shows "sent = map (row_values (length (qr_fields q))) (take (length sent) rows) \<and>
         list_all (\<lambda>row. length row = length (qr_fields q)) sent"
proof -
  have q: "qr_rows q = encode_rows K (length (qr_fields q)) rows (enc_new K (qr_fields q))"
    using assms(2,3) by (auto simp: query_response_text_def query_response_typed_def Let_def)
  have sent: "sent = map (row_values (length (qr_fields q))) (take (length sent) rows)"
    using row_encoder.encode_rows_prefix [OF assms(1) _ row_encoder.cells_new [OF assms(1)]] q assms(4)
    by metis
  have "list_all (\<lambda>row. length row = length (qr_fields q))
          (map (row_values (length (qr_fields q))) (take (length sent) rows))"
    by (simp add: list_all_iff row_values_def)
  then show ?thesis using sent by (metis (no_types, lifting))
qed

theorem text_rows_fit_description_witness:
  "row_values 2 [Some ''a''] = [Some ''a'', None] \<and>
   qr_rows (query_response_text text_encoder [''x'', ''y''] [[Some ''a''], [None, Some ''b'', Some ''c'']])
     = map Inr [[Some ''a'', None], [None, Some ''b'']]"
proof -
  let ?r = "RespQuery [''x'', ''y''] [[Some ''a''], [None, Some ''b'', Some ''c'']]"
  let ?q = "query_response_text text_encoder [''x'', ''y''] [[Some ''a''], [None, Some ''b'', Some ''c'']]"
  have rows: "qr_rows ?q = map Inr [[Some ''a'', None], [None, Some ''b'']] @ []" by code_simp
  have "[[Some ''a'', None], [None, Some ''b'']] = map (row_values (length (qr_fields ?q)))
      (take (length [[Some ''a'', None], [None, Some ''b'']]) [[Some ''a''], [None, Some ''b'', Some ''c'']])"
    using text_rows_fit_description [OF te.row_encoder_axioms, where r = ?r and q = ?q and names = "[''x'', ''y'']" and
        rows = "[[Some ''a''], [None, Some ''b'', Some ''c'']]" and cols = "[] :: json exasol_column list" and
        t = None and fold_labels = False and E = bt_engine and J = json_data and sf = "\<lambda>_. []" and
        ops = "columnar_ops :: (string option columnar, string list, string option list) batch_ops" and
        F = column_format and
        sent = "[[Some ''a'', None], [None, Some ''b'']]" and rest = "[]"] rows
    by (simp only: try_from_response.simps insert_iff simp_thms)
  then show ?thesis using rows by (simp add: row_values_def nth_opt_def unwrap_or_def upt_rec)
qed




definition demo_decimal_field :: arrow_field where
  "demo_decimal_field = \<lparr>af_name = ''N'', af_type = ADecimal128 18 0, af_metadata =
     [(''exasol:type'', json_text (JObject [(''type'', JString ''decimal''), (''precision'', JInt 9), (''scale'', JInt 0)])),
      (''exasol:precision'', ''9''), (''exasol:scale'', ''0'')]\<rparr>"


end
