(* ===== verification/Translator_Texts.thy ===== *)
theory Translator_Texts
  imports Regex_Engine
begin

text \<open>
  The tables and texts of the SQL translator (\<^verbatim>\<open>src/src/translator.rs\<close>): the patterns it searches,
  the catalog relations and functions it knows, Exasol's reserved words, and the native queries
  that answer well-known catalog queries of clients. The templates take the filters they embed
  as arguments.
\<close>

section \<open>Tables\<close>

definition CATALOG_RELATIONS :: "string list" where
  \<open>CATALOG_RELATIONS = 
    [''pg_aggregate'', ''pg_am'', ''pg_amop'', ''pg_amproc'', ''pg_available_extensions'',
     ''pg_attrdef'', ''pg_attribute'', ''pg_auth_members'', ''pg_authid'', ''pg_cast'',
     ''pg_class'', ''pg_collation'', ''pg_constraint'', ''pg_conversion'', ''pg_database'',
     ''pg_db_role_setting'', ''pg_default_acl'', ''pg_depend'', ''pg_description'', ''pg_enum'',
     ''pg_event_trigger'', ''pg_extension'', ''pg_foreign_data_wrapper'', ''pg_foreign_server'', ''pg_foreign_table'',
     ''pg_group'', ''pg_index'', ''pg_inherits'', ''pg_init_privs'', ''pg_language'',
     ''pg_largeobject'', ''pg_largeobject_metadata'', ''pg_locks'', ''pg_matviews'', ''pg_namespace'',
     ''pg_opclass'', ''pg_operator'', ''pg_opfamily'', ''pg_parameter_acl'', ''pg_partitioned_table'',
     ''pg_policy'', ''pg_proc'', ''pg_publication'', ''pg_publication_namespace'', ''pg_publication_rel'',
     ''pg_range'', ''pg_replication_origin'', ''pg_rewrite'', ''pg_roles'', ''pg_rules'',
     ''pg_sequences'', ''pg_seclabel'', ''pg_sequence'', ''pg_settings'', ''pg_shdepend'',
     ''pg_shdescription'', ''pg_shseclabel'', ''pg_stat_activity'', ''pg_stat_user_tables'', ''pg_statistic'',
     ''pg_statistic_ext'', ''pg_statistic_ext_data'', ''pg_subscription'', ''pg_subscription_rel'', ''pg_tables'',
     ''pg_tablespace'', ''pg_transform'', ''pg_trigger'', ''pg_ts_config'', ''pg_ts_config_map'',
     ''pg_ts_dict'', ''pg_ts_parser'', ''pg_ts_template'', ''pg_type'', ''pg_user'',
     ''pg_user_mapping'', ''pg_user_mappings'', ''pg_views'']\<close>

definition FUNCTION_REPLACEMENTS :: "(string \<times> string) list" where
  \<open>FUNCTION_REPLACEMENTS = 
    [(''format_type'', ''PG_CATALOG.FORMAT_TYPE''),
     (''pg_identify_object'', ''PG_CATALOG.PG_IDENTIFY_OBJECT''),
     (''pg_get_functiondef'', ''PG_CATALOG.PG_GET_FUNCTIONDEF''),
     (''pg_get_userbyid'', ''PG_CATALOG.PG_GET_USERBYID''),
     (''pg_get_expr'', ''PG_CATALOG.PG_GET_EXPR''),
     (''pg_get_constraintdef'', ''PG_CATALOG.PG_GET_CONSTRAINTDEF''),
     (''pg_get_indexdef'', ''PG_CATALOG.PG_GET_INDEXDEF''),
     (''oidvectortypes'', ''PG_CATALOG.OIDVECTORTYPES''),
     (''pg_get_partkeydef'', ''PG_CATALOG.PG_GET_PARTKEYDEF''),
     (''pg_get_ruledef'', ''PG_CATALOG.PG_GET_RULEDEF''),
     (''pg_get_triggerdef'', ''PG_CATALOG.PG_GET_TRIGGERDEF''),
     (''pg_get_viewdef'', ''PG_CATALOG.PG_GET_VIEWDEF''),
     (''pg_encoding_to_char'', ''PG_CATALOG.PG_ENCODING_TO_CHAR''),
     (''pg_total_relation_size'', ''PG_CATALOG.PG_TOTAL_RELATION_SIZE''),
     (''pg_relation_size'', ''PG_CATALOG.PG_RELATION_SIZE''),
     (''pg_size_pretty'', ''PG_CATALOG.PG_SIZE_PRETTY''),
     (''pg_tablespace_size'', ''PG_CATALOG.PG_TABLESPACE_SIZE''),
     (''pg_tablespace_location'', ''PG_CATALOG.PG_TABLESPACE_LOCATION''),
     (''pg_stat_get_numscans'', ''PG_CATALOG.PG_STAT_GET_NUMSCANS''),
     (''pg_stat_get_blocks_fetched'', ''PG_CATALOG.PG_STAT_GET_BLOCKS_FETCHED''),
     (''pg_stat_get_blocks_hit'', ''PG_CATALOG.PG_STAT_GET_BLOCKS_HIT''),
     (''to_regclass'', ''PG_CATALOG.TO_REGCLASS''),
     (''shobj_description'', ''PG_CATALOG.SHOBJ_DESCRIPTION''),
     (''col_description'', ''PG_CATALOG.COL_DESCRIPTION''),
     (''has_schema_privilege'', ''PG_CATALOG.HAS_SCHEMA_PRIVILEGE'')]\<close>

definition INFORMATION_SCHEMA_COLUMNS :: "string list" where
  \<open>INFORMATION_SCHEMA_COLUMNS = 
    [''TABLE_CATALOG'', ''TABLE_SCHEMA'', ''TABLE_NAME'', ''COLUMN_NAME'',
     ''ORDINAL_POSITION'', ''COLUMN_DEFAULT'', ''IS_NULLABLE'', ''DATA_TYPE'',
     ''CHARACTER_MAXIMUM_LENGTH'', ''CHARACTER_OCTET_LENGTH'', ''NUMERIC_PRECISION'', ''NUMERIC_PRECISION_RADIX'',
     ''NUMERIC_SCALE'', ''DATETIME_PRECISION'', ''INTERVAL_TYPE'', ''INTERVAL_PRECISION'',
     ''CHARACTER_SET_CATALOG'', ''CHARACTER_SET_SCHEMA'', ''CHARACTER_SET_NAME'', ''COLLATION_CATALOG'',
     ''COLLATION_SCHEMA'', ''COLLATION_NAME'', ''DOMAIN_CATALOG'', ''DOMAIN_SCHEMA'',
     ''DOMAIN_NAME'', ''UDT_CATALOG'', ''UDT_SCHEMA'', ''UDT_NAME'',
     ''SCOPE_CATALOG'', ''SCOPE_SCHEMA'', ''SCOPE_NAME'', ''MAXIMUM_CARDINALITY'',
     ''DTD_IDENTIFIER'', ''IS_SELF_REFERENCING'', ''IS_IDENTITY'', ''IDENTITY_GENERATION'',
     ''IDENTITY_START'', ''IDENTITY_INCREMENT'', ''IDENTITY_MAXIMUM'', ''IDENTITY_MINIMUM'',
     ''IDENTITY_CYCLE'', ''IS_GENERATED'', ''GENERATION_EXPRESSION'', ''IS_UPDATABLE'']\<close>

definition RESERVED_ALIAS_WORDS :: "string list" where
  \<open>RESERVED_ALIAS_WORDS = 
    [''absolute'', ''action'', ''add'', ''after'', ''all'', ''allocate'', ''alter'',
     ''and'', ''any'', ''append'', ''are'', ''array'', ''as'', ''asc'',
     ''asensitive'', ''assertion'', ''at'', ''attribute'', ''authid'', ''authorization'', ''before'',
     ''begin'', ''between'', ''bigint'', ''binary'', ''bit'', ''blob'', ''blocked'',
     ''bool'', ''boolean'', ''both'', ''by'', ''byte'', ''call'', ''called'',
     ''cardinality'', ''cascade'', ''cascaded'', ''case'', ''casespecific'', ''cast'', ''catalog'',
     ''chain'', ''char'', ''character'', ''character_set_catalog'', ''character_set_name'', ''character_set_schema'', ''characteristics'',
     ''check'', ''checked'', ''clob'', ''close'', ''coalesce'', ''collate'', ''collation'',
     ''collation_catalog'', ''collation_name'', ''collation_schema'', ''column'', ''commit'', ''condition'', ''connect_by_iscycle'',
     ''connect_by_isleaf'', ''connect_by_root'', ''connection'', ''constant'', ''constraint'', ''constraint_state_default'', ''constraints'',
     ''constructor'', ''contains'', ''continue'', ''control'', ''convert'', ''corresponding'', ''create'',
     ''cs'', ''csv'', ''cube'', ''current'', ''current_cluster'', ''current_cluster_uid'', ''current_date'',
     ''current_path'', ''current_role'', ''current_schema'', ''current_session'', ''current_statement'', ''current_time'', ''current_timestamp'',
     ''current_user'', ''cursor'', ''cycle'', ''data'', ''datalink'', ''date'', ''datetime_interval_code'',
     ''datetime_interval_precision'', ''day'', ''dbtimezone'', ''deallocate'', ''dec'', ''decimal'', ''declare'',
     ''default'', ''default_like_escape_character'', ''deferrable'', ''deferred'', ''defined'', ''definer'', ''delete'',
     ''deref'', ''derived'', ''desc'', ''describe'', ''descriptor'', ''deterministic'', ''disable'',
     ''disabled'', ''disconnect'', ''dispatch'', ''distinct'', ''dlurlcomplete'', ''dlurlpath'', ''dlurlpathonly'',
     ''dlurlscheme'', ''dlurlserver'', ''dlvalue'', ''do'', ''domain'', ''double'', ''drop'',
     ''dynamic'', ''dynamic_function'', ''dynamic_function_code'', ''each'', ''else'', ''elseif'', ''elsif'',
     ''emits'', ''enable'', ''enabled'', ''end'', ''end-exec'', ''endif'', ''enforce'',
     ''equals'', ''errors'', ''escape'', ''except'', ''exception'', ''exec'', ''execute'',
     ''exists'', ''exit'', ''export'', ''external'', ''extract'', ''false'', ''fbv'',
     ''fetch'', ''file'', ''final'', ''first'', ''float'', ''following'', ''for'',
     ''forall'', ''force'', ''format'', ''found'', ''free'', ''from'', ''fs'',
     ''full'', ''function'', ''general'', ''generated'', ''geometry'', ''get'', ''global'',
     ''go'', ''goto'', ''grant'', ''granted'', ''group'', ''group_concat'', ''grouping'',
     ''groups'', ''hashtype'', ''hashtype_format'', ''having'', ''high'', ''hold'', ''hour'',
     ''identity'', ''if'', ''ifnull'', ''immediate'', ''impersonate'', ''implementation'', ''import'',
     ''in'', ''index'', ''indicator'', ''inner'', ''inout'', ''input'', ''insensitive'',
     ''insert'', ''instance'', ''instantiable'', ''int'', ''integer'', ''integrity'', ''intersect'',
     ''interval'', ''into'', ''inverse'', ''invoker'', ''is'', ''iterate'', ''join'',
     ''key_member'', ''key_type'', ''large'', ''last'', ''lateral'', ''ldap'', ''leading'',
     ''leave'', ''left'', ''level'', ''like'', ''limit'', ''listagg'', ''local'',
     ''localtime'', ''localtimestamp'', ''locator'', ''log'', ''longvarchar'', ''loop'', ''low'',
     ''map'', ''match'', ''matched'', ''merge'', ''method'', ''minus'', ''minute'',
     ''mod'', ''modifies'', ''modify'', ''module'', ''month'', ''names'', ''national'',
     ''natural'', ''nchar'', ''nclob'', ''new'', ''next'', ''nls_date_format'', ''nls_date_language'',
     ''nls_first_day_of_week'', ''nls_numeric_characters'', ''nls_timestamp_format'', ''no'', ''nocycle'', ''nologging'', ''none'',
     ''not'', ''null'', ''nullif'', ''number'', ''numeric'', ''nvarchar'', ''nvarchar2'',
     ''object'', ''of'', ''off'', ''old'', ''on'', ''only'', ''open'',
     ''option'', ''options'', ''or'', ''order'', ''ordering'', ''ordinality'', ''others'',
     ''out'', ''outer'', ''output'', ''over'', ''overlaps'', ''overlay'', ''overriding'',
     ''pad'', ''parallel_enable'', ''parameter'', ''parameter_specific_catalog'', ''parameter_specific_name'', ''parameter_specific_schema'', ''parquet'',
     ''partial'', ''path'', ''permission'', ''placing'', ''plus'', ''position'', ''preceding'',
     ''preferring'', ''prepare'', ''preserve'', ''prior'', ''privileges'', ''procedure'', ''profile'',
     ''qualify'', ''random'', ''range'', ''read'', ''reads'', ''real'', ''recovery'',
     ''recursive'', ''ref'', ''references'', ''referencing'', ''refresh'', ''regexp_like'', ''relative'',
     ''release'', ''rename'', ''repeat'', ''replace'', ''restore'', ''restrict'', ''result'',
     ''return'', ''returned_length'', ''returned_octet_length'', ''returns'', ''revoke'', ''right'', ''rollback'',
     ''rollup'', ''routine'', ''row'', ''rows'', ''rowtype'', ''savepoint'', ''schema'',
     ''scope'', ''scope_user'', ''script'', ''scroll'', ''search'', ''second'', ''section'',
     ''security'', ''select'', ''selective'', ''self'', ''sensitive'', ''separator'', ''sequence'',
     ''session'', ''session_user'', ''sessiontimezone'', ''set'', ''sets'', ''shortint'', ''similar'',
     ''smallint'', ''some'', ''source'', ''space'', ''specific'', ''specifictype'', ''sql'',
     ''sql_bigint'', ''sql_bit'', ''sql_char'', ''sql_date'', ''sql_decimal'', ''sql_double'', ''sql_float'',
     ''sql_integer'', ''sql_longvarchar'', ''sql_numeric'', ''sql_preprocessor_script'', ''sql_real'', ''sql_smallint'', ''sql_timestamp'',
     ''sql_tinyint'', ''sql_type_date'', ''sql_type_timestamp'', ''sql_varchar'', ''sqlexception'', ''sqlstate'', ''sqlwarning'',
     ''start'', ''state'', ''statement'', ''static'', ''structure'', ''style'', ''substring'',
     ''subtype'', ''sysdate'', ''system'', ''system_user'', ''systimestamp'', ''table'', ''temporary'',
     ''text'', ''then'', ''time'', ''timestamp'', ''timezone_hour'', ''timezone_minute'', ''tinyint'',
     ''to'', ''trailing'', ''transaction'', ''transform'', ''transforms'', ''translation'', ''treat'',
     ''trigger'', ''trim'', ''true'', ''truncate'', ''under'', ''union'', ''unique'',
     ''unknown'', ''unlink'', ''unnest'', ''until'', ''update'', ''usage'', ''user'',
     ''using'', ''value'', ''values'', ''varchar'', ''varchar2'', ''varray'', ''verify'',
     ''view'', ''when'', ''whenever'', ''where'', ''while'', ''window'', ''with'',
     ''within'', ''without'', ''work'', ''year'', ''yes'', ''zone'']\<close>

section \<open>Patterns\<close>

definition QUOTED_QUALIFIED_IDENTIFIER_RE :: string where
  \<open>QUOTED_QUALIFIED_IDENTIFIER_RE = 
    src_text ''"([A-Za-z_][A-Za-z0-9_]*)"%s*%.%s*"([A-Za-z_][A-Za-z0-9_]*)"''\<close>

definition RELATION_ALIAS_RE :: string where
  \<open>RELATION_ALIAS_RE = 
    src_text ''(?is)(%b(?:from|join|left(?:%s+outer)?%s+join|right(?:%s+outer)?%s+join|inner%s+join|full(?:%s+outer)?%s+join|cross%s+join)%s+(?:[A-Za-z_][A-Za-z0-9_]*(?:%.[A-Za-z_][A-Za-z0-9_]*)?|"[A-Za-z_][A-Za-z0-9_]*")(?:%s+AS)?)%s+"([A-Za-z_][A-Za-z0-9_]*)"''\<close>

definition CATALOG_RELATION_RE :: string where
  \<open>CATALOG_RELATION_RE = 
    src_text ''(?i)(%bfrom%s+|%bjoin%s+|%bleft(?:%s+outer)?%s+join%s+|%bright(?:%s+outer)?%s+join%s+|%binner%s+join%s+|%bfull(?:%s+outer)?%s+join%s+|%bcross%s+join%s+|,%s*)"?(?P<rel>'' @
     join_with ''|'' CATALOG_RELATIONS @ src_text '')"?(%s|,|%)|$)''\<close>

definition REGEX_NOT_MATCH_RE :: string where
  \<open>REGEX_NOT_MATCH_RE = 
    src_text ''(?i)([A-Za-z_][A-Za-z0-9_.]*|"[^"]+")%s*!~%s*(`(?:``|[^`])*`)''\<close>

definition REGEX_MATCH_RE :: string where
  \<open>REGEX_MATCH_RE = 
    src_text ''(?i)([A-Za-z_][A-Za-z0-9_.]*|"[^"]+")%s*~%s*(`(?:``|[^`])*`)''\<close>

definition ILIKE_RE :: string where
  \<open>ILIKE_RE = 
    src_text ''(?i)(CAST%([^)]+%)|`(?:``|[^`])*`|[A-Za-z_][A-Za-z0-9_]*|"[^"]+")%s+ILIKE%s+(`(?:``|[^`])*`|[A-Za-z_][A-Za-z0-9_]*|"[^"]+")''\<close>

definition CURRENT_DATABASE_RE :: string where
  \<open>CURRENT_DATABASE_RE = 
    src_text ''(?i)%bcurrent_database%s*%(%s*%)''\<close>

definition CURRENT_CATALOG_RE :: string where
  \<open>CURRENT_CATALOG_RE = 
    src_text ''(?i)%bcurrent_catalog(?:%s*%(%s*%))?''\<close>

definition CURRENT_SCHEMA_CALL_RE :: string where
  \<open>CURRENT_SCHEMA_CALL_RE = 
    src_text ''(?i)%bcurrent_schema%s*%(%s*%)''\<close>

definition SESSION_USER_RE :: string where
  \<open>SESSION_USER_RE = 
    src_text ''(?i)%bsession_user(?:%s*%(%s*%))?''\<close>

definition CURRENT_SCHEMAS_FIRST_RE :: string where
  \<open>CURRENT_SCHEMAS_FIRST_RE = 
    src_text ''(?i)%(?%s*(?:pg_catalog%.)?current_schemas%s*%(%s*true%s*%)%s*%)?%s*%[%s*1%s*%]''\<close>

definition QUALIFIED_OPERATOR_RE :: string where
  \<open>QUALIFIED_OPERATOR_RE = 
    src_text ''(?i)%s+OPERATOR%s*%(%s*(?:PG_CATALOG|pg_catalog)%s*%.%s*(<>|!=|<=|>=|=|<|>)%s*%)%s*''\<close>

definition PG_IDENTIFY_OBJECT_IDENTITY_RE :: string where
  \<open>PG_IDENTIFY_OBJECT_IDENTITY_RE = 
    src_text ''(?is)%(%s*(?:pg_catalog%.)?pg_identify_object%s*%(%s*([^,]+?)%s*,%s*([^,]+?)%s*,%s*([^)]+?)%s*%)%s*%)%s*%.%s*identity%b''\<close>

definition PG_GET_VIEWDEF_PRETTY_RE :: string where
  \<open>PG_GET_VIEWDEF_PRETTY_RE = 
    src_text ''(?is)(?:pg_catalog%.)?pg_get_viewdef%s*%(%s*([^,]+?)%s*,%s*(?:true|false)%s*%)''\<close>

definition PG_GET_EXPR_PRETTY_RE :: string where
  \<open>PG_GET_EXPR_PRETTY_RE = 
    src_text ''(?is)(?:pg_catalog%.)?pg_get_expr%s*%(%s*([^,]+?)%s*,%s*([^,]+?)%s*,%s*(?:true|false)%s*%)''\<close>

definition PG_GET_CONSTRAINTDEF_PRETTY_RE :: string where
  \<open>PG_GET_CONSTRAINTDEF_PRETTY_RE = 
    src_text ''(?is)(?:pg_catalog%.)?pg_get_constraintdef%s*%(%s*([^,]+?)%s*,%s*(?:true|false)%s*%)''\<close>

definition OBJ_DESCRIPTION_RE :: string where
  \<open>OBJ_DESCRIPTION_RE = 
    src_text ''(?is)(?:pg_catalog%.)?obj_description%s*%(%s*([^,]+?)%s*,%s*`(pg_namespace|pg_class)`%s*%)''\<close>

definition REGCLASS_LITERAL_RE :: string where
  \<open>REGCLASS_LITERAL_RE = 
    src_text ''(?i)`((?:pg_catalog%.)?[A-Za-z_][A-Za-z0-9_]*)`%s*::%s*regclass''\<close>

definition REGCLASS_STRING_RE :: string where
  \<open>REGCLASS_STRING_RE = 
    src_text ''(?i)`([^`]*)`%s*::%s*regclass''\<close>

definition FK_OUT_SCHEMA_RE :: string where
  \<open>FK_OUT_SCHEMA_RE = 
    src_text ''(?i)%bn%.nspname%s*=%s*`([^`]*)`''\<close>

definition FK_OUT_TABLE_RE :: string where
  \<open>FK_OUT_TABLE_RE = 
    src_text ''(?i)%bt%.relname%s*=%s*`([^`]*)`''\<close>

definition FK_IN_SCHEMA_RE :: string where
  \<open>FK_IN_SCHEMA_RE = 
    src_text ''(?i)%bnf%.nspname%s*=%s*`([^`]*)`''\<close>

definition FK_IN_TABLE_RE :: string where
  \<open>FK_IN_TABLE_RE = 
    src_text ''(?i)%btf%.relname%s*=%s*`([^`]*)`''\<close>

definition CREATE_SCRIPT_TABLE_RE :: string where
  \<open>CREATE_SCRIPT_TABLE_RE = 
    src_text ''(?i)%bc%.relname%s*=%s*`([^`]*)`''\<close>

definition QUOTE_IDENT_RE :: string where
  \<open>QUOTE_IDENT_RE = 
    src_text ''(?i)%bquote_ident%s*%(%s*([^()]+?)%s*%)''\<close>

definition COL_DESCRIPTION_FORMAT_RE :: string where
  \<open>COL_DESCRIPTION_FORMAT_RE = 
    src_text ''(?i)(?:pg_catalog%.)?col_description%s*%(%s*format%s*%([^)]*%)%s*::%s*regclass%s*(?:::%s*oid%s*)?,[^)]*%)''\<close>

definition EXASOL_CATALOG_PREFIX_RE :: string where
  \<open>EXASOL_CATALOG_PREFIX_RE = 
    src_text ''(?i)(^|[%s,(%[])"?exasol"?%s*%.%s*("?[A-Za-z_][A-Za-z0-9_]*"?%s*%.%s*"?[A-Za-z_][A-Za-z0-9_]*"?)''\<close>

definition ALIAS_RE :: string where
  \<open>ALIAS_RE = 
    src_text ''(?i)%bAS%s+([A-Za-z_][A-Za-z0-9_]*)(%s*[()]?)''\<close>

definition REDUNDANT_OFFSET_RE :: string where
  \<open>REDUNDANT_OFFSET_RE = 
    src_text ''(?i)%s+OFFSET%s+(?:0|NULL)%b(?:%s+ROWS?%b)?''\<close>

section \<open>Native catalog queries\<close>

definition collations_query :: string where
  \<open>collations_query = 
    ''SELECT "COLLATION_SCHEMA", "COLLATION_NAME" FROM INFORMATION_SCHEMA."COLLATIONS"''\<close>

definition foreign_server_query :: string where
  \<open>foreign_server_query = 
    ''SELECT l.oid, l.srvname, l.srvowner, l.srvfdw, l.srvtype, '' @
     ''l.srvversion, l.srvacl, l.srvoptions '' @
     ''FROM PG_CATALOG."PG_FOREIGN_SERVER" l''\<close>

definition foreign_data_wrapper_query :: string where
  \<open>foreign_data_wrapper_query = 
    ''SELECT l.oid, l.fdwname, l.fdwowner, l.fdwhandler, '' @
     ''l.fdwvalidator, l.fdwacl, l.fdwoptions '' @
     ''FROM PG_CATALOG."PG_FOREIGN_DATA_WRAPPER" l '' @
     ''LEFT OUTER JOIN PG_CATALOG.PG_PROC p ON p.oid = l.fdwhandler''\<close>

definition user_mappings_query :: string where
  \<open>user_mappings_query = 
    ''SELECT DISTINCT fs.srvname, '' @
     sql_text ''CASE WHEN rolname IS NULL THEN `public` ELSE rolname END AS rolname, '' @
     ''srvoptions, umoptions '' @
     ''FROM PG_CATALOG.PG_USER_MAPPINGS um '' @
     ''JOIN PG_CATALOG."PG_FOREIGN_SERVER" fs ON um.srvid = fs.oid '' @
     ''LEFT JOIN PG_CATALOG.PG_AUTHID pa ON um.umuser = pa.oid '' @
     ''WHERE fs.oid = ''\<close>

definition table_privileges_query :: string where
  \<open>table_privileges_query = 
    sql_text ''
SELECT
    CAST(NULL AS VARCHAR(128)) AS "role",
    object_schema AS "schema",
    object_name AS "table",
    TRUE AS "update",
    TRUE AS "select",
    TRUE AS "insert",
    TRUE AS "delete"
FROM (
    SELECT TABLE_SCHEMA AS object_schema, TABLE_NAME AS object_name
    FROM SYS.EXA_ALL_TABLES
    UNION
    SELECT VIEW_SCHEMA AS object_schema, VIEW_NAME AS object_name
    FROM SYS.EXA_ALL_VIEWS
) t
WHERE LOWER(object_schema) NOT LIKE `pg'' @ [backslash] @ sql_text ''_%`
  AND LOWER(object_schema) <> `information_schema`
''\<close>

definition columns_query :: "string \<Rightarrow> string \<Rightarrow> string" where
  \<open>columns_query schema_filter table_filter =
    sql_text ''
SELECT
    C.COLUMN_NAME AS "name",
    CASE
        WHEN COALESCE(C.UDT_SCHEMA, `pg_catalog`) IN (`public`, `pg_catalog`) THEN C.UDT_NAME
        ELSE `"` || C.UDT_SCHEMA || `"."` || C.UDT_NAME || `"`
    END AS "database-type",
    C.ORDINAL_POSITION - 1 AS "database-position",
    C.TABLE_SCHEMA AS "table-schema",
    C.TABLE_NAME AS "table-name",
    CASE WHEN PK.COLUMN_NAME IS NULL THEN FALSE ELSE TRUE END AS "pk?",
    CAST(NULL AS VARCHAR(2000000)) AS "field-comment",
    CASE
        WHEN (C.COLUMN_DEFAULT IS NULL OR LOWER(C.COLUMN_DEFAULT) = `null`)
         AND C.IS_NULLABLE = `NO`
         AND C.IS_IDENTITY = `NO`
        THEN TRUE ELSE FALSE
    END AS "database-required",
    C.COLUMN_DEFAULT AS "database-default",
    CASE WHEN C.IS_IDENTITY <> `NO` THEN TRUE ELSE FALSE END AS "database-is-auto-increment",
    CASE WHEN C.IS_GENERATED = `ALWAYS` THEN TRUE ELSE FALSE END AS "database-is-generated",
    CASE WHEN C.IS_NULLABLE = `YES` THEN TRUE ELSE FALSE END AS "database-is-nullable"
FROM INFORMATION_SCHEMA.COLUMNS C
LEFT JOIN (
    SELECT
        TC.TABLE_SCHEMA,
        TC.TABLE_NAME,
        KC.COLUMN_NAME
    FROM INFORMATION_SCHEMA.TABLE_CONSTRAINTS TC
    JOIN INFORMATION_SCHEMA.KEY_COLUMN_USAGE KC
      ON TC.CONSTRAINT_NAME = KC.CONSTRAINT_NAME
     AND TC.TABLE_SCHEMA = KC.TABLE_SCHEMA
     AND TC.TABLE_NAME = KC.TABLE_NAME
    WHERE TC.CONSTRAINT_TYPE = `PRIMARY KEY`
) PK
  ON C.TABLE_SCHEMA = PK.TABLE_SCHEMA
 AND C.TABLE_NAME = PK.TABLE_NAME
 AND C.COLUMN_NAME = PK.COLUMN_NAME
WHERE REGEXP_INSTR(C.TABLE_SCHEMA, `^information_schema|catalog_history|pg_`) = 0
'' @ schema_filter @ ''
'' @ table_filter @ ''
ORDER BY "table-schema", "table-name", "database-position"
''\<close>

definition foreign_keys_query :: "string \<Rightarrow> string \<Rightarrow> string" where
  \<open>foreign_keys_query schema_filter table_filter =
    sql_text ''
SELECT
    CC.CONSTRAINT_SCHEMA AS "fk-table-schema",
    CC.CONSTRAINT_TABLE AS "fk-table-name",
    CC.COLUMN_NAME AS "fk-column-name",
    CC.REFERENCED_SCHEMA AS "pk-table-schema",
    CC.REFERENCED_TABLE AS "pk-table-name",
    CC.REFERENCED_COLUMN AS "pk-column-name"
FROM SYS.EXA_DBA_CONSTRAINT_COLUMNS CC
JOIN SYS.EXA_DBA_CONSTRAINTS C
  ON C.CONSTRAINT_SCHEMA = CC.CONSTRAINT_SCHEMA
 AND C.CONSTRAINT_TABLE = CC.CONSTRAINT_TABLE
 AND C.CONSTRAINT_NAME = CC.CONSTRAINT_NAME
WHERE C.CONSTRAINT_TYPE = `FOREIGN KEY`
  AND REGEXP_INSTR(CC.CONSTRAINT_SCHEMA, `^information_schema|catalog_history|pg_`) = 0
'' @ schema_filter @ ''
'' @ table_filter @ ''
ORDER BY "fk-table-schema", "fk-table-name"
''\<close>

definition primary_keys_query :: "string \<Rightarrow> string \<Rightarrow> string" where
  \<open>primary_keys_query schema_filter table_filter =
    sql_text ''
SELECT
    `exasol` AS "TABLE_CAT",
    CC.CONSTRAINT_SCHEMA AS "TABLE_SCHEM",
    CC.CONSTRAINT_TABLE AS "TABLE_NAME",
    CC.COLUMN_NAME AS "COLUMN_NAME",
    CC.ORDINAL_POSITION AS "KEY_SEQ",
    CC.CONSTRAINT_NAME AS "PK_NAME"
FROM SYS.EXA_DBA_CONSTRAINT_COLUMNS CC
JOIN SYS.EXA_DBA_CONSTRAINTS C
  ON C.CONSTRAINT_SCHEMA = CC.CONSTRAINT_SCHEMA
 AND C.CONSTRAINT_TABLE = CC.CONSTRAINT_TABLE
 AND C.CONSTRAINT_NAME = CC.CONSTRAINT_NAME
WHERE C.CONSTRAINT_TYPE = `PRIMARY KEY`
'' @ schema_filter @ ''
'' @ table_filter @ ''
ORDER BY CC.CONSTRAINT_TABLE, CC.CONSTRAINT_NAME, CC.ORDINAL_POSITION
''\<close>

definition empty_index_query :: string where
  \<open>empty_index_query = 
    ''
SELECT
    CAST(NULL AS VARCHAR(128)) AS "table-schema",
    CAST(NULL AS VARCHAR(128)) AS "table-name",
    CAST(NULL AS VARCHAR(128)) AS "field-name"
FROM (SELECT 1 AS DUMMY)
WHERE 1 = 0
''\<close>

definition constraints_query :: "string \<Rightarrow> string \<Rightarrow> string" where
  \<open>constraints_query schema_filter table_filter =
    sql_text ''
WITH CONSTRAINT_COLUMNS AS (
    SELECT
        CONSTRAINT_SCHEMA,
        CONSTRAINT_TABLE,
        CONSTRAINT_NAME,
        GROUP_CONCAT(COLUMN_NAME ORDER BY COALESCE(ORDINAL_POSITION, 0) SEPARATOR `,`) AS COLUMNS,
        MAX(REFERENCED_SCHEMA) AS FOREIGN_SCHEMA_NAME,
        MAX(REFERENCED_TABLE) AS FOREIGN_TABLE_NAME,
        GROUP_CONCAT(REFERENCED_COLUMN ORDER BY COALESCE(ORDINAL_POSITION, 0) SEPARATOR `,`) AS FOREIGN_COLUMNS
    FROM SYS.EXA_DBA_CONSTRAINT_COLUMNS
    GROUP BY CONSTRAINT_SCHEMA, CONSTRAINT_TABLE, CONSTRAINT_NAME
)
SELECT
    C.CONSTRAINT_NAME AS constraint_name,
    CASE
        WHEN C.CONSTRAINT_TYPE = `PRIMARY KEY` THEN `Primary Key`
        WHEN C.CONSTRAINT_TYPE = `FOREIGN KEY` THEN `Foreign Key`
        WHEN C.CONSTRAINT_TYPE = `NOT NULL` THEN `Check`
        ELSE C.CONSTRAINT_TYPE
    END AS constraint_type,
    C.CONSTRAINT_SCHEMA AS "schema_name",
    C.CONSTRAINT_TABLE AS "table_name",
    CC.COLUMNS AS "columns",
    CC.FOREIGN_SCHEMA_NAME AS "foreign_schema_name",
    CC.FOREIGN_TABLE_NAME AS "foreign_table_name",
    CC.FOREIGN_COLUMNS AS "foreign_columns",
    CASE
        WHEN C.CONSTRAINT_TYPE = `PRIMARY KEY`
            THEN `PRIMARY KEY (` || COALESCE(CC.COLUMNS, ``) || `)`
        WHEN C.CONSTRAINT_TYPE = `FOREIGN KEY`
            THEN `FOREIGN KEY (` || COALESCE(CC.COLUMNS, ``) || `) REFERENCES `
                 || COALESCE(CC.FOREIGN_SCHEMA_NAME, ``) || `.`
                 || COALESCE(CC.FOREIGN_TABLE_NAME, ``) || `(`
                 || COALESCE(CC.FOREIGN_COLUMNS, ``) || `)`
        WHEN C.CONSTRAINT_TYPE = `NOT NULL`
            THEN COALESCE(CC.COLUMNS, ``) || ` IS NOT NULL`
        ELSE C.CONSTRAINT_TYPE
    END AS definition
FROM SYS.EXA_DBA_CONSTRAINTS C
LEFT JOIN CONSTRAINT_COLUMNS CC
  ON CC.CONSTRAINT_SCHEMA = C.CONSTRAINT_SCHEMA
 AND CC.CONSTRAINT_TABLE = C.CONSTRAINT_TABLE
 AND CC.CONSTRAINT_NAME = C.CONSTRAINT_NAME
WHERE '' @ schema_filter @ ''
  AND '' @ table_filter @ ''
ORDER BY "schema_name", "table_name"
''\<close>

definition triggers_query :: string where
  \<open>triggers_query = 
    ''
SELECT
    trigger_name AS "Trigger Name",
    trigger_catalog AS "Trigger Catalog",
    trigger_schema AS "Trigger Schema",
    CAST(NULL AS VARCHAR(2000000)) AS "Event Manipulation",
    action_orientation AS "Action Orientation",
    action_condition AS "Action Condition",
    action_statement AS "Action Statement",
    CAST(NULL AS VARCHAR(2000000)) AS "Procedure Name",
    CAST(NULL AS DECIMAL(18,0)) AS "proc_oid",
    action_timing AS "Condition Timing",
    event_object_catalog AS "Event Object Catalog",
    event_object_schema AS "Event Object Schema",
    event_object_table AS "Event Object Table",
    action_reference_old_table AS "Action ref Old Table",
    action_reference_new_table AS "Action ref New Table",
    CAST(NULL AS VARCHAR(32)) AS "Status"
FROM information_schema.triggers
WHERE 1 = 0
''\<close>

definition table_list_query :: string where
  \<open>table_list_query = 
    ''SELECT
'' @
     ''    TABLE_SCHEMA AS "schema",
'' @
     ''    TABLE_NAME AS "name",
'' @
     sql_text ''    `r` AS "tabletype",
'' @
     ''    CAST(NULL AS CHAR(1)) AS "parenttype"
'' @
     ''FROM SYS.EXA_ALL_TABLES
'' @
     ''ORDER BY TABLE_SCHEMA, TABLE_NAME''\<close>

definition user_mappings_prefix :: string where
  \<open>user_mappings_prefix = 
    sql_text ''select distinct fs.srvname, case when rolname is null then `public` else rolname end '' @
     ''rolname, srvoptions, umoptions from pg_user_mappings um join pg_foreign_server fs '' @
     ''on um.srvid = fs.oid left join pg_authid pa on um.umuser = pa.oid where fs.oid = ''\<close>

definition postgres_specific_tokens :: "string list" where
  \<open>postgres_specific_tokens = 
    [''::'', '' ilike '', '' operator('', '' current_database('', '' current_catalog'',
     '' session_user'', '' current_schemas('', '' current_schema('', '' obj_description('', '' shobj_description('',
     '' col_description('', '' format_type('', '' oidvectortypes('', '' to_regclass('', '' unnest('',
     '' generate_series('', '' returning '', '' any('', '' array['', '' regexp_matches('',
     '' regexp_replace('', '' quote_ident('']\<close>

definition primary_key_text :: "string \<Rightarrow> string" where
  \<open>primary_key_text filter_sql =
    ''SELECT cc.COLUMN_NAME AS "column_name", c.COLUMN_TYPE AS "data_type", cc.ORDINAL_POSITION AS "position" FROM SYS.EXA_ALL_CONSTRAINT_COLUMNS cc LEFT JOIN SYS.EXA_ALL_COLUMNS c ON c.COLUMN_SCHEMA = cc.CONSTRAINT_SCHEMA AND c.COLUMN_TABLE = cc.CONSTRAINT_TABLE AND c.COLUMN_NAME = cc.COLUMN_NAME WHERE '' @
     filter_sql @
     '' ORDER BY cc.ORDINAL_POSITION''\<close>

definition foreign_key_text :: "string \<Rightarrow> string \<Rightarrow> string \<Rightarrow> string \<Rightarrow> string \<Rightarrow> string" where
  \<open>foreign_key_text local_column_alias schema_col schema table_col table =
    ''SELECT cc.CONSTRAINT_NAME AS "constraint_name", cc.COLUMN_NAME AS "'' @
     local_column_alias @
     sql_text ''", cc.CONSTRAINT_SCHEMA AS "from_schema", cc.CONSTRAINT_TABLE AS "from_table", cc.REFERENCED_COLUMN AS "to_column", cc.REFERENCED_TABLE AS "to_table", cc.REFERENCED_SCHEMA AS "to_schema", `NO ACTION` AS "update_rule", `NO ACTION` AS "delete_rule", cc.ORDINAL_POSITION AS "ordinal_position" FROM SYS.EXA_ALL_CONSTRAINT_COLUMNS cc WHERE cc.CONSTRAINT_TYPE = `FOREIGN KEY` AND '' @
     schema_col @
     sql_text '' = `'' @
     schema @
     sql_text ''` AND '' @
     table_col @
     sql_text '' = `'' @
     table @
     sql_text ''` ORDER BY cc.CONSTRAINT_NAME, cc.ORDINAL_POSITION''\<close>

definition create_table_script_text :: "string \<Rightarrow> string \<Rightarrow> string" where
  \<open>create_table_script_text schema table =
    sql_text ''SELECT `CREATE TABLE "` || cols.COLUMN_SCHEMA || `"."` || cols.COLUMN_TABLE || `" (` || CHR(10) || cols.col_defs || CHR(10) || `);` || CASE WHEN pk.pk_cols IS NOT NULL THEN CHR(10) || `ALTER TABLE "` || cols.COLUMN_SCHEMA || `"."` || cols.COLUMN_TABLE || `" ADD PRIMARY KEY (` || pk.pk_cols || `);` ELSE `` END AS "createtable" FROM (SELECT COLUMN_SCHEMA, COLUMN_TABLE, LISTAGG(`  "` || COLUMN_NAME || `" ` || COLUMN_TYPE || CASE WHEN COLUMN_IS_NULLABLE THEN `` ELSE ` NOT NULL` END || CASE WHEN COLUMN_DEFAULT IS NOT NULL THEN ` DEFAULT ` || COLUMN_DEFAULT ELSE `` END, `,` || CHR(10)) WITHIN GROUP (ORDER BY COLUMN_ORDINAL_POSITION) AS col_defs FROM SYS.EXA_ALL_COLUMNS WHERE COLUMN_SCHEMA = `'' @
     schema @
     sql_text ''` AND COLUMN_TABLE = `'' @
     table @
     sql_text ''` GROUP BY COLUMN_SCHEMA, COLUMN_TABLE) cols LEFT JOIN (SELECT CONSTRAINT_SCHEMA, CONSTRAINT_TABLE, LISTAGG(`"` || COLUMN_NAME || `"`, `, `) WITHIN GROUP (ORDER BY ORDINAL_POSITION) AS pk_cols FROM SYS.EXA_ALL_CONSTRAINT_COLUMNS WHERE CONSTRAINT_TYPE = `PRIMARY KEY` AND CONSTRAINT_SCHEMA = `'' @
     schema @
     sql_text ''` AND CONSTRAINT_TABLE = `'' @
     table @
     sql_text ''` GROUP BY CONSTRAINT_SCHEMA, CONSTRAINT_TABLE) pk ON pk.CONSTRAINT_SCHEMA = cols.COLUMN_SCHEMA AND pk.CONSTRAINT_TABLE = cols.COLUMN_TABLE''\<close>

definition edge_case_replacements :: "(string \<times> string) list" where
  \<open>edge_case_replacements = 
    [(''PG_CATALOG."PG_FOREIGN_SERVER" AS fs'',
      ''PG_CATALOG."PG_FOREIGN_SERVER" AS srv''),
     (''ARRAY_AGG(CAST(event_manipulation AS LONG VARCHAR))'',
      sql_text ''LISTAGG(CAST(event_manipulation AS VARCHAR(2000000)), `, `) WITHIN GROUP (ORDER BY event_manipulation)''),
     (sql_text '' WHERE p.prorettype <> CAST(`PG_CATALOG.cstring` AS PG_CATALOG.regtype) AND (p.proargtypes[-1] IS NULL OR p.proargtypes[-1] <> CAST(`PG_CATALOG.cstring` AS PG_CATALOG.regtype)) AND'',
      '' WHERE''),
     (sql_text '' WHERE p.prorettype <> CAST(`PG_CATALOG.cstring` AS PG_CATALOG.regtype) AND (p.proargtypes[-1] IS NULL OR p.proargtypes[-1] <> CAST(`PG_CATALOG.cstring` AS PG_CATALOG.regtype))'',
      '' WHERE 1 = 1''),
     (sql_text ''CASE p.proargtypes[-1] WHEN CAST(`PG_CATALOG."any"` AS PG_CATALOG.regtype) THEN CAST(`(all types)` AS PG_CATALOG.text) ELSE PG_CATALOG.format_type(p.proargtypes[-1], NULL) END'',
      ''PG_CATALOG.OIDVECTORTYPES(p.proargtypes)''),
     (sql_text ''(t.typrelid = 0 OR (SELECT c.relkind = `c` FROM PG_CATALOG.pg_class AS c WHERE c.oid = t.typrelid))'',
      ''(t.typrelid = 0)''),
     (sql_text ''(t.typrelid = 0 OR (SELECT c.relkind = `c` FROM PG_CATALOG.pg_class c WHERE c.oid = t.typrelid))'',
      ''(t.typrelid = 0)''),
     (sql_text ''ON (C.TABLE_CATALOG, C.TABLE_SCHEMA, C.TABLE_NAME, `TABLE`, C.DTD_IDENTIFIER) = (E.OBJECT_CATALOG, E.OBJECT_SCHEMA, E.OBJECT_NAME, E.OBJECT_TYPE, E.DTD_IDENTIFIER)'',
      sql_text ''ON C.TABLE_CATALOG = E.OBJECT_CATALOG AND C.TABLE_SCHEMA = E.OBJECT_SCHEMA AND C.TABLE_NAME = E.OBJECT_NAME AND E.OBJECT_TYPE = `TABLE` AND C.DTD_IDENTIFIER = E.DTD_IDENTIFIER''),
     (sql_text ''ON (C.TABLE_CATALOG, C.TABLE_SCHEMA, C.TABLE_NAME, C.COLUMN_NAME, `column_name`) = (CO.TABLE_CATALOG, CO.TABLE_SCHEMA, CO.TABLE_NAME, CO.COLUMN_NAME, CO.OPTION_NAME)'',
      sql_text ''ON C.TABLE_CATALOG = CO.TABLE_CATALOG AND C.TABLE_SCHEMA = CO.TABLE_SCHEMA AND C.TABLE_NAME = CO.TABLE_NAME AND C.COLUMN_NAME = CO.COLUMN_NAME AND CO.OPTION_NAME = `column_name`''),
     (''CO.OPTION_VALUE AS COLUMN_OPTION, C.ORDINAL_POSITION, C.IS_IDENTITY'',
      ''CO.OPTION_VALUE AS COLUMN_OPTION, C.ORDINAL_POSITION AS ORDINAL_POSITION_DUP, C.IS_IDENTITY'')]\<close>

end
