(* ===== verification/Translator.thy ===== *)
theory Translator
  imports Translator_Texts Metadata Portal
begin

text \<open>
  The SQL translator (\<^verbatim>\<open>src/src/translator.rs\<close>): a statement in Exasol's own dialect passes
  through (reserved aliases quoted, a redundant OFFSET dropped), a well-known catalog query is
  replaced by a native one, and everything else is rewritten, transpiled and repaired. The
  transpiler (\<^verbatim>\<open>polyglot_sql\<close>) is the argument \<open>transpile\<close>, the regex crate the argument \<open>E\<close>.
\<close>

section \<open>Text helpers\<close>

definition normalize_for_match :: "string \<Rightarrow> string" where
  "normalize_for_match sql = to_ascii_lowercase (join_with '' '' (split_whitespace sql))"

definition is_ident_char :: "char \<Rightarrow> bool" where
  "is_ident_char ch \<longleftrightarrow> is_ascii_alnum ch \<or> ch = CHR ''_''"

definition ident_end :: "char option \<Rightarrow> bool" where
  "ident_end ch = (case ch of None \<Rightarrow> False | Some c \<Rightarrow> is_ident_char c)"

definition last_char :: "char option \<Rightarrow> string \<Rightarrow> char option" where
  "last_char prev s = (if s = [] then prev else Some (last s))"

definition first_char :: "string \<Rightarrow> char option" where
  "first_char s = (case s of [] \<Rightarrow> None | c # _ \<Rightarrow> Some c)"

text \<open>
  The loop of \<^verbatim>\<open>contains_word\<close>: \<open>prev\<close> is the character before the rest \<open>s\<close> of the haystack.
  Every round consumes the needle, so \<open>Suc (length s)\<close> rounds are enough.
\<close>

fun word_loop :: "nat \<Rightarrow> string \<Rightarrow> char option \<Rightarrow> string \<Rightarrow> bool" where
  "word_loop 0 needle prev s = False"
| "word_loop (Suc fuel) needle prev s =
     (case find_text needle s of
        None \<Rightarrow> False
      | Some i \<Rightarrow>
          let prior = last_char prev (take i s);
              rest = drop (i + length needle) s
          in if \<not> ident_end prior \<and> \<not> ident_end (first_char rest) then True
             else word_loop fuel needle (last_char prior needle) rest)"

definition contains_word :: "string \<Rightarrow> string \<Rightarrow> bool" where
  "contains_word haystack needle = word_loop (Suc (length haystack)) needle None haystack"

function trim_start_matches :: "string \<Rightarrow> string \<Rightarrow> string" where
  "trim_start_matches p s = (if p \<noteq> [] \<and> prefix p s then trim_start_matches p (drop (length p) s) else s)"
  by pat_completeness auto
termination
  by (relation "measure (\<lambda>(p, s). length s)") (auto simp: prefix_def)

declare trim_start_matches.simps [simp del]

definition trim_end_matches :: "string \<Rightarrow> string \<Rightarrow> string" where
  "trim_end_matches p s = rev (trim_start_matches (rev p) (rev s))"

text \<open>A group of a match that always takes part.\<close>

definition grp :: "rmatch \<Rightarrow> nat \<Rightarrow> string" where
  "grp m n = unwrap_or (group m n) []"

section \<open>Comments\<close>

text \<open>
  The scanner of \<^verbatim>\<open>strip_sql_comments_for_detection\<close>. A line comment becomes a space and its
  newline, a block comment a space and the newlines in it.
\<close>

datatype strip_mode = InText | InSingle | InDouble | InLine | InBlock char

fun strip_scan :: "strip_mode \<Rightarrow> string \<Rightarrow> string" where
  "strip_scan mode [] = []"
| "strip_scan InSingle (ch # cs) =
     (if ch = squote then
        (case cs of
           d # ds \<Rightarrow> if d = squote then ch # d # strip_scan InSingle ds else ch # strip_scan InText cs
         | [] \<Rightarrow> [ch])
      else ch # strip_scan InSingle cs)"
| "strip_scan InDouble (ch # cs) =
     (if ch = dquote then
        (case cs of
           d # ds \<Rightarrow> if d = dquote then ch # d # strip_scan InDouble ds else ch # strip_scan InText cs
         | [] \<Rightarrow> [ch])
      else ch # strip_scan InDouble cs)"
| "strip_scan InLine (ch # cs) =
     (if ch = CHR 0x0A then ch # strip_scan InText cs else strip_scan InLine cs)"
| "strip_scan (InBlock previous) (ch # cs) =
     (if ch = CHR 0x0A then [ch] else []) @
     (if previous = CHR ''*'' \<and> ch = CHR ''/'' then strip_scan InText cs else strip_scan (InBlock ch) cs)"
| "strip_scan InText (ch # cs) =
     (if ch = squote then ch # strip_scan InSingle cs
      else if ch = dquote then ch # strip_scan InDouble cs
      else
        (case cs of
           [] \<Rightarrow> [ch]
         | d # ds \<Rightarrow>
             if ch = CHR ''-'' \<and> d = CHR ''-'' then CHR '' '' # strip_scan InLine ds
             else if ch = CHR ''/'' \<and> d = CHR ''*'' then CHR '' '' # strip_scan (InBlock (CHR 0x00)) ds
             else ch # strip_scan InText cs))"

definition strip_sql_comments_for_detection :: "string \<Rightarrow> string" where
  "strip_sql_comments_for_detection sql = strip_scan InText sql"

section \<open>Pass-through\<close>

definition is_exasol_passthrough_sql :: "regex_search \<Rightarrow> string \<Rightarrow> bool" where
  "is_exasol_passthrough_sql E sql =
     (let normalized = normalize_for_match (strip_sql_comments_for_detection sql) in
      if starts_with normalized ''with '' then False
      else
        let padded = '' '' @ normalized @ '' '' in
        if list_ex (contains padded) postgres_specific_tokens then False
        else if contains padded ''pg_catalog.'' \<or> contains padded ''information_schema.'' \<or>
                list_ex (contains_word padded) CATALOG_RELATIONS then False
        else if is_match E REGEX_MATCH_RE sql \<or> is_match E REGEX_NOT_MATCH_RE sql then False
        else True)"

definition strip_exasol_catalog_prefix :: "regex_search \<Rightarrow> string \<Rightarrow> string" where
  "strip_exasol_catalog_prefix E sql =
     replace_all_fn E EXASOL_CATALOG_PREFIX_RE sql (\<lambda>cap. grp cap 1 @ grp cap 2)"

definition is_passthrough_query :: "regex_search \<Rightarrow> string \<Rightarrow> bool" where
  "is_passthrough_query E sql = is_exasol_passthrough_sql E (strip_exasol_catalog_prefix E sql)"

definition quote_reserved_alias :: "rmatch \<Rightarrow> string" where
  "quote_reserved_alias cap =
     (let whole = grp cap 0; ident = grp cap 1; trailing = grp cap 2 in
      if contains trailing '')'' \<or> contains trailing ''('' then whole
      else if to_ascii_lowercase ident \<in> set RESERVED_ALIAS_WORDS
      then ''AS '' @ [dquote] @ ident @ [dquote] @ trailing
      else whole)"

definition quote_reserved_aliases :: "regex_search \<Rightarrow> string \<Rightarrow> string" where
  "quote_reserved_aliases E sql = replace_all_fn E ALIAS_RE sql quote_reserved_alias"

definition rewrite_ilike :: "regex_search \<Rightarrow> string \<Rightarrow> string" where
  "rewrite_ilike E sql = replace_all E ILIKE_RE sql ''UPPER($1) LIKE UPPER($2)''"

definition strip_redundant_offset :: "regex_search \<Rightarrow> string \<Rightarrow> string" where
  "strip_redundant_offset E sql = replace_all E REDUNDANT_OFFSET_RE sql []"

section \<open>Well-known catalog queries\<close>

definition column_pattern :: "string \<Rightarrow> string \<Rightarrow> string" where
  "column_pattern source_column tail_pattern = src_text ''(?is)%b'' @ regex_escape source_column @ tail_pattern"

definition extract_in_filter :: "regex_search \<Rightarrow> string \<Rightarrow> string \<Rightarrow> string \<Rightarrow> string" where
  "extract_in_filter E sql source_column target_column =
     (case captures E (column_pattern source_column (src_text ''%s+IN%s*%(([^)]*)%)'')) sql of
        Some cap \<Rightarrow> '' AND '' @ target_column @ '' IN ('' @ trim (grp cap 1) @ '')''
      | None \<Rightarrow> [])"

definition extract_eq_filter :: "regex_search \<Rightarrow> string \<Rightarrow> string \<Rightarrow> string \<Rightarrow> string" where
  "extract_eq_filter E sql source_column target_column =
     (case captures E (column_pattern source_column
        (src_text ''%s*=%s*(`(?:``|[^`])*`|[A-Za-z_][A-Za-z0-9_.]*)'')) sql of
        Some cap \<Rightarrow> '' AND '' @ target_column @ '' = '' @ trim (grp cap 1)
      | None \<Rightarrow> [])"

definition extract_in_or_eq_filter :: "regex_search \<Rightarrow> string \<Rightarrow> string \<Rightarrow> string \<Rightarrow> string" where
  "extract_in_or_eq_filter E sql source_column target_column =
     (let filter_sql = extract_in_filter E sql source_column target_column in
      if filter_sql = [] then extract_eq_filter E sql source_column target_column else filter_sql)"

definition extract_like_filter :: "regex_search \<Rightarrow> string \<Rightarrow> string \<Rightarrow> string \<Rightarrow> string option" where
  "extract_like_filter E sql source_column target_column =
     (case captures E (column_pattern source_column (src_text ''%s+LIKE%s+(`(?:``|[^`])*`)'')) sql of
        Some cap \<Rightarrow> Some (target_column @ '' LIKE '' @ trim (grp cap 1))
      | None \<Rightarrow> None)"

definition nonempty :: "string option \<Rightarrow> string option" where
  "nonempty x = (case x of Some s \<Rightarrow> if s = [] then None else Some s | None \<Rightarrow> None)"

definition regclass_schema_table :: "regex_search \<Rightarrow> string \<Rightarrow> (string option \<times> string) option" where
  "regclass_schema_table E sql =
     (case Option.bind (captures E REGCLASS_STRING_RE sql) (\<lambda>cap. group cap 1) of
        None \<Rightarrow> None
      | Some raw \<Rightarrow>
          let parts = rev (split_char (CHR ''.'') (replace_text [dquote] [] raw)) in
          (case nonempty (nth_opt parts 0) of
             None \<Rightarrow> None
           | Some table \<Rightarrow> Some (nonempty (nth_opt parts 1), table)))"

definition esc :: "string \<Rightarrow> string" where
  "esc s = replace_text [squote] [squote, squote] s"

definition primary_key_query :: "string option \<Rightarrow> string \<Rightarrow> string" where
  "primary_key_query schema table =
     primary_key_text
       (sql_text ''cc.CONSTRAINT_TYPE = `PRIMARY KEY` AND cc.CONSTRAINT_TABLE = `'' @ esc table @ sql_text ''`'' @
        (case schema of
           Some s \<Rightarrow> sql_text '' AND cc.CONSTRAINT_SCHEMA = `'' @ esc s @ sql_text ''`''
         | None \<Rightarrow> []))"

definition foreign_key_query :: "string \<Rightarrow> string \<Rightarrow> bool \<Rightarrow> string" where
  "foreign_key_query schema table incoming =
     (let (schema_col, table_col) =
        (if incoming then (''cc.REFERENCED_SCHEMA'', ''cc.REFERENCED_TABLE'')
         else (''cc.CONSTRAINT_SCHEMA'', ''cc.CONSTRAINT_TABLE''));
          local_column_alias = (if incoming then ''from_column'' else ''column_name'')
      in foreign_key_text local_column_alias schema_col (esc schema) table_col (esc table))"

definition create_table_script_query :: "string \<Rightarrow> string \<Rightarrow> string" where
  "create_table_script_query schema table = create_table_script_text (esc schema) (esc table)"

definition has_all :: "string \<Rightarrow> string list \<Rightarrow> bool" where
  "has_all s pats = list_all (contains s) pats"

definition first_group :: "regex_search \<Rightarrow> string \<Rightarrow> string \<Rightarrow> string option" where
  "first_group E p sql = map_option (\<lambda>c. grp c 1) (captures E p sql)"

text \<open>The branches that look at captured names: none of them may answer.\<close>

definition known_key_query :: "regex_search \<Rightarrow> string \<Rightarrow> string \<Rightarrow> string option" where
  "known_key_query E sql normalized =
     (if has_all normalized [''pg_index'', ''indisprimary'', ''::regclass'']
      then map_option (\<lambda>(schema, table). primary_key_query schema table) (regclass_schema_table E sql)
      else None)"

definition known_foreign_query :: "regex_search \<Rightarrow> string \<Rightarrow> string \<Rightarrow> string option" where
  "known_foreign_query E sql normalized =
     (if has_all normalized [''pg_constraint'', ''generate_subscripts'', sql_text ''contype = `f`''] then
        (case (first_group E FK_OUT_SCHEMA_RE sql, first_group E FK_OUT_TABLE_RE sql) of
           (Some schema, Some table) \<Rightarrow> Some (foreign_key_query schema table False)
         | _ \<Rightarrow>
             (case (first_group E FK_IN_SCHEMA_RE sql, first_group E FK_IN_TABLE_RE sql) of
                (Some schema, Some table) \<Rightarrow> Some (foreign_key_query schema table True)
              | _ \<Rightarrow> None))
      else None)"

definition known_script_query :: "regex_search \<Rightarrow> string \<Rightarrow> string \<Rightarrow> string option" where
  "known_script_query E sql normalized =
     (if has_all normalized [''as createtable'', ''array_agg''] then
        (case (first_group E CREATE_SCRIPT_TABLE_RE sql, first_group E FK_OUT_SCHEMA_RE sql) of
           (Some table, Some schema) \<Rightarrow> Some (create_table_script_query schema table)
         | _ \<Rightarrow> None)
      else None)"

definition or_else :: "'a option \<Rightarrow> 'a option \<Rightarrow> 'a option" where
  "or_else a b = (case a of Some x \<Rightarrow> Some x | None \<Rightarrow> b)"

definition user_mappings_oid :: "string \<Rightarrow> string" where
  "user_mappings_oid normalized =
     trim (trim_end_matches '' order by srvname'' (trim_start_matches user_mappings_prefix normalized))"

definition rewrite_known_metadata_query :: "regex_search \<Rightarrow> string \<Rightarrow> string" where
  "rewrite_known_metadata_query E sql =
     (let normalized = normalize_for_match sql; compact = replace_text '' '' [] normalized in
      if normalized = ''select collation_schema, collation_name from information_schema.collations'' then collations_query
      else if compact = ''selectl.oid,l.*frompg_catalog.pg_foreign_serverl'' then foreign_server_query
      else if compact = ''selectl.oid,l.*frompg_catalog.pg_foreign_data_wrapperlleftouterjoinpg_catalog.pg_procponp.oid=l.fdwhandler''
      then foreign_data_wrapper_query
      else if starts_with normalized user_mappings_prefix \<and> ends_with normalized '' order by srvname''
      then user_mappings_query @ user_mappings_oid normalized @ '' ORDER BY srvname''
      else if starts_with normalized ''with table_privileges as ('' \<and>
              has_all normalized [''has_any_column_privilege'', ''has_table_privilege'', ''from table_privileges'']
      then table_privileges_query
      else if has_all normalized [''from information_schema.columns'', ''col_description'', ''union all'', ''from pg_catalog.pg_class'']
      then columns_query (extract_in_filter E sql ''c.table_schema'' ''C.TABLE_SCHEMA'')
             (extract_in_filter E sql ''c.table_name'' ''C.TABLE_NAME'')
      else if has_all normalized [''from pg_constraint'', ''fk-table-schema'', ''pk-table-schema'', ''any(c.conkey)'']
      then foreign_keys_query (extract_in_filter E sql ''fk_ns.nspname'' ''CC.CONSTRAINT_SCHEMA'')
             (extract_in_filter E sql ''fk_table.relname'' ''CC.CONSTRAINT_TABLE'')
      else if has_all normalized [''information_schema._pg_expandarray'', ''pg_index'', ''i.indisprimary'', ''key_seq'', ''pk_name'']
      then primary_keys_query (extract_in_or_eq_filter E sql ''n.nspname'' ''CC.CONSTRAINT_SCHEMA'')
             (extract_in_or_eq_filter E sql ''ct.relname'' ''CC.CONSTRAINT_TABLE'')
      else if has_all normalized [''information_schema._pg_expandarray'', ''pg_get_indexdef'', ''pg_catalog.pg_index'']
      then empty_index_query
      else if has_all normalized [''from pg_constraint'', ''lateral unnest'', ''array_agg(col.attname'']
      then constraints_query (unwrap_or (extract_like_filter E sql ''sch.nspname'' ''C.CONSTRAINT_SCHEMA'') ''1 = 1'')
             (unwrap_or (extract_like_filter E sql ''tbl.relname'' ''C.CONSTRAINT_TABLE'') ''1 = 1'')
      else if has_all normalized [''from pg_catalog.pg_trigger'', ''information_schema.triggers'', ''array_agg('']
      then triggers_query
      else if has_all normalized [''information_schema.tables'', ''pg_inherits'', ''relkind''] then table_list_query
      else
        unwrap_or (or_else (known_key_query E sql normalized)
          (or_else (known_foreign_query E sql normalized) (known_script_query E sql normalized))) sql)"

section \<open>Rewriting for the transpiler\<close>

definition normalize_ansi_quoted_postgres_identifiers :: "regex_search \<Rightarrow> string \<Rightarrow> string" where
  "normalize_ansi_quoted_postgres_identifiers E sql =
     (let sql1 = replace_all E QUOTED_QUALIFIED_IDENTIFIER_RE sql ''$1.$2'';
          sql2 = replace_all E RELATION_ALIAS_RE sql1 ''$1 $2''
      in replace_all_fn E CATALOG_RELATION_RE sql2 (\<lambda>cap. grp cap 1 @ grp cap 2 @ grp cap 3))"

definition rewrite_quote_ident :: "regex_search \<Rightarrow> string \<Rightarrow> string" where
  "rewrite_quote_ident E sql =
     replace_all_fn E QUOTE_IDENT_RE sql (\<lambda>cap.
       sql_text ''(`'' @ [dquote] @ sql_text ''` || REPLACE('' @ trim (grp cap 1) @ sql_text '', `'' @ [dquote] @
       sql_text ''`, `'' @ [dquote, dquote] @ sql_text ''`) || `'' @ [dquote] @ sql_text ''`)'')"

definition rewrite_qualified_operators :: "regex_search \<Rightarrow> string \<Rightarrow> string" where
  "rewrite_qualified_operators E sql =
     replace_all_fn E QUALIFIED_OPERATOR_RE sql (\<lambda>cap. '' '' @ grp cap 1 @ '' '')"

definition rewrite_object_description :: "regex_search \<Rightarrow> string \<Rightarrow> string" where
  "rewrite_object_description E sql =
     replace_all_fn E OBJ_DESCRIPTION_RE sql (\<lambda>cap.
       let classoid = (if eq_ignore_ascii_case (grp cap 2) ''pg_namespace'' then ''2615'' else ''1259'') in
       ''(SELECT D.DESCRIPTION FROM PG_CATALOG.PG_DESCRIPTION D WHERE D.OBJOID = '' @ trim (grp cap 1) @
       '' AND D.CLASSOID = '' @ classoid @ '' AND D.OBJSUBID = 0)'')"

definition rewrite_identity :: "regex_search \<Rightarrow> string \<Rightarrow> string" where
  "rewrite_identity E sql =
     replace_all_fn E PG_IDENTIFY_OBJECT_IDENTITY_RE sql (\<lambda>cap.
       ''PG_CATALOG.PG_IDENTIFY_OBJECT('' @ trim (grp cap 1) @ '', '' @ trim (grp cap 2) @ '', '' @
       trim (grp cap 3) @ '')'')"

definition qualify_schema_prefix :: "regex_search \<Rightarrow> string \<Rightarrow> string \<Rightarrow> string \<Rightarrow> string" where
  "qualify_schema_prefix E sql source target =
     replace_all E (src_text ''(?i)%b'' @ regex_escape source @ src_text ''%.'') sql (target @ ''.'')"

definition rewrite_catalog_relations :: "regex_search \<Rightarrow> string \<Rightarrow> string" where
  "rewrite_catalog_relations E sql =
     replace_all_fn E CATALOG_RELATION_RE sql (\<lambda>cap.
       let relation = grp cap 2; upper = to_ascii_uppercase relation in
       if eq_ignore_ascii_case relation ''pg_foreign_server'' \<or> eq_ignore_ascii_case relation ''pg_foreign_data_wrapper''
       then grp cap 1 @ ''PG_CATALOG.'' @ [dquote] @ upper @ [dquote] @ grp cap 3
       else grp cap 1 @ ''PG_CATALOG.'' @ upper @ grp cap 3)"

text \<open>
  \<^verbatim>\<open>qualify_function\<close> walks over the matches of the function name with an opening parenthesis and
  leaves a qualified or quoted name alone; \<open>rest\<close> is the text after the last match.
\<close>

fun qualify_loop :: "string \<Rightarrow> char option \<Rightarrow> string \<Rightarrow> rmatch list \<Rightarrow> string" where
  "qualify_loop target prev rest [] = rest"
| "qualify_loop target prev rest (mat # mats) =
     (let prior = last_char prev (m_before mat) in
      m_before mat @
      (if prior = Some (CHR ''.'') \<or> prior = Some dquote \<or> ident_end prior then m_whole mat else target @ ''('') @
      qualify_loop target (last_char prior (m_whole mat)) (m_after mat) mats)"

definition qualify_function :: "regex_search \<Rightarrow> string \<Rightarrow> string \<times> string \<Rightarrow> string" where
  "qualify_function E sql = (\<lambda>(source, target).
     qualify_loop target None sql
       (captures_iter E (src_text ''(?i)%b'' @ regex_escape source @ src_text ''%s*%('') sql))"

definition regclass_oid :: "string \<Rightarrow> string" where
  "regclass_oid name =
     (let rel = to_ascii_lowercase (last (split_char (CHR ''.'') name)) in
      if rel = ''pg_class'' then ''1259''
      else if rel = ''pg_database'' then ''1262''
      else if rel = ''pg_namespace'' then ''2615''
      else if rel = ''pg_proc'' then ''1255''
      else if rel = ''pg_type'' then ''1247''
      else ''0'')"

definition rewrite_regclass_literals :: "regex_search \<Rightarrow> string \<Rightarrow> string" where
  "rewrite_regclass_literals E sql = replace_all_fn E REGCLASS_LITERAL_RE sql (\<lambda>cap. regclass_oid (grp cap 1))"

definition rewrite_regex_operators :: "regex_search \<Rightarrow> string \<Rightarrow> string" where
  "rewrite_regex_operators E sql =
     replace_all E REGEX_MATCH_RE (replace_all E REGEX_NOT_MATCH_RE sql ''REGEXP_INSTR($1, $2) = 0'')
       ''REGEXP_INSTR($1, $2) > 0''"

definition rewrite_pg_calls :: "regex_search \<Rightarrow> string \<Rightarrow> string" where
  "rewrite_pg_calls E sql0 =
     (let sql1 = replace_all E PG_GET_VIEWDEF_PRETTY_RE sql0 ''PG_CATALOG.PG_GET_VIEWDEF($1)'';
          sql2 = replace_all E PG_GET_EXPR_PRETTY_RE sql1 ''PG_CATALOG.PG_GET_EXPR($1, $2)'';
          sql3 = replace_all E PG_GET_CONSTRAINTDEF_PRETTY_RE sql2 ''PG_CATALOG.PG_GET_CONSTRAINTDEF($1)'';
          sql4 = replace_all E CURRENT_DATABASE_RE sql3 (sql_text ''`exasol`'');
          sql5 = replace_all E CURRENT_CATALOG_RE sql4 (sql_text ''`exasol`'');
          sql6 = replace_all E CURRENT_SCHEMA_CALL_RE sql5 ''CURRENT_SCHEMA'';
          sql7 = replace_all E SESSION_USER_RE sql6 ''CURRENT_USER''
      in replace_all E CURRENT_SCHEMAS_FIRST_RE sql7 (sql_text ''`pg_catalog`''))"

definition rewrite_pg_catalog :: "regex_search \<Rightarrow> string \<Rightarrow> string" where
  "rewrite_pg_catalog E sql =
     (let sql1 = normalize_ansi_quoted_postgres_identifiers E sql;
          sql2 = replace_all E COL_DESCRIPTION_FORMAT_RE sql1 ''CAST(NULL AS VARCHAR(2000000))'';
          sql3 = rewrite_object_description E (rewrite_qualified_operators E (rewrite_quote_ident E sql2));
          sql4 = rewrite_pg_calls E (rewrite_identity E sql3);
          sql5 = qualify_schema_prefix E sql4 ''pg_catalog'' ''PG_CATALOG'';
          sql6 = qualify_schema_prefix E sql5 ''information_schema'' ''INFORMATION_SCHEMA'';
          sql7 = rewrite_catalog_relations E sql6;
          sql8 = foldl (qualify_function E) sql7 FUNCTION_REPLACEMENTS
      in rewrite_regex_operators E (rewrite_regclass_literals E sql8))"

section \<open>Repairs after the transpiler\<close>

definition replace_case_type_name_star :: "regex_search \<Rightarrow> string \<Rightarrow> string \<Rightarrow> string" where
  "replace_case_type_name_star E sql projection =
     replace_all E
       (src_text ''(?is)%bEND%s+AS%s+type_name%s*,%s*(?:[A-Z_][A-Z0-9_]*%.)?%*%s+FROM%s+INFORMATION_SCHEMA%.COLUMNS%b'')
       sql (''END AS type_name, '' @ projection @ '' FROM INFORMATION_SCHEMA.COLUMNS'')"

definition rewrite_sqlglot_edge_cases :: "regex_search \<Rightarrow> string \<Rightarrow> string" where
  "rewrite_sqlglot_edge_cases E sql =
     (let projection = join_with '', '' (map (\<lambda>column. [dquote] @ column @ [dquote]) INFORMATION_SCHEMA_COLUMNS);
          sql1 = foldl (\<lambda>s (from, to). replace_text from to s) sql edge_case_replacements;
          sql2 = replace_case_type_name_star E sql1 projection;
          sql3 = replace_all E (src_text ''(?i)%bAS%s+VARCHAR%s*%)'') sql2 ''AS VARCHAR(2000000))''
      in if contains sql3 (''PG_CATALOG.'' @ [dquote] @ ''PG_FOREIGN_SERVER'' @ [dquote] @ '' AS srv'')
         then replace_all E (src_text ''(?i)%bfs%.'') sql3 ''srv.''
         else sql3)"

section \<open>The translation\<close>

text \<open>The error is the text of a \<^verbatim>\<open>TranslationError\<close>.\<close>

definition translation_error :: "string \<Rightarrow> string" where
  "translation_error message = ''PostgreSQL-to-Exasol SQL translation failed: '' @ message"

definition translate_postgres_to_exasol ::
  "regex_search \<Rightarrow> (string \<Rightarrow> (string, string list) result) \<Rightarrow> string \<Rightarrow> (string, string) result" where
  "translate_postgres_to_exasol E transpile sql0 =
     (let sql = strip_exasol_catalog_prefix E sql0 in
      let translated =
        (if is_exasol_passthrough_sql E sql then Inr (quote_reserved_aliases E sql)
         else
           let normalized = normalize_ansi_quoted_postgres_identifiers E sql;
               known_metadata_query = rewrite_known_metadata_query E normalized
           in if known_metadata_query \<noteq> normalized
              then Inr (quote_reserved_aliases E (rewrite_ilike E known_metadata_query))
              else
                (case transpile (rewrite_pg_catalog E normalized) of
                   Inl err \<Rightarrow> Inl (translation_error err)
                 | Inr statements \<Rightarrow>
                     Inr (quote_reserved_aliases E (rewrite_ilike E
                       (rewrite_sqlglot_edge_cases E (join_with ''; '' statements))))))
      in (case translated of Inl err \<Rightarrow> Inl err | Inr t \<Rightarrow> Inr (strip_redundant_offset E t)))"

section \<open>Words\<close>

definition word_at :: "char option \<Rightarrow> string \<Rightarrow> string \<Rightarrow> bool" where
  "word_at prev pre post \<longleftrightarrow> \<not> ident_end (last_char prev pre) \<and> \<not> ident_end (first_char post)"

lemma last_char_append: "last_char prev (a @ b) = last_char (last_char prev a) b"
  by (simp add: last_char_def)

text \<open>An occurrence that starts inside an earlier one has an identifier character before it.\<close>

lemma word_occurrence_split:
  assumes s: "s = a @ needle @ rest" and occ: "s = pre @ needle @ post"
    and first: "length a \<le> length pre" and ident: "list_all is_ident_char needle"
    and ok: "word_at prev pre post" and other: "\<not> word_at prev a rest"
  shows "\<exists>mid. pre = a @ needle @ mid"
proof -
  have "take (length a) s = a" "take (length a) s = take (length a) pre"
    using first by (simp add: s, simp add: occ)
  then obtain mid where pre: "pre = a @ mid" by (metis append_take_drop_id)
  have mid: "needle @ rest = mid @ needle @ post" using s occ pre by simp
  have ne: "mid \<noteq> []" using ok other pre mid by auto
  have "length needle \<le> length mid"
  proof (rule ccontr)
    assume "\<not> length needle \<le> length mid"
    then have "mid = take (length mid) needle" using arg_cong [OF mid, of "take (length mid)"] by simp
    then have "set mid \<subseteq> set needle" by (metis set_take_subset)
    then have "is_ident_char (last mid)" using ne ident by (metis last_in_set list_all_iff subset_iff)
    then show False using ok ne pre by (simp add: word_at_def last_char_def ident_end_def)
  qed
  then have "mid = needle @ drop (length needle) mid"
    using arg_cong [OF mid, of "take (length needle)"] by (simp add: append_take_drop_id) (metis append_take_drop_id)
  then show ?thesis using pre by auto
qed

lemma word_loop_iff:
  assumes "needle \<noteq> []" and "list_all is_ident_char needle"
  shows "length s < fuel \<Longrightarrow>
    word_loop fuel needle prev s \<longleftrightarrow> (\<exists>pre post. s = pre @ needle @ post \<and> word_at prev pre post)"
proof (induction fuel arbitrary: prev s)
  case (Suc fuel)
  show ?case
  proof (cases "find_text needle s")
    case None
    then have "\<nexists>pre post. s = pre @ needle @ post" unfolding find_text_None sublist_def by blast
    then show ?thesis using None by simp
  next
    case (Some i)
    define a rest where "a = take i s" and "rest = drop (i + length needle) s"
    note f = find_text_Some [OF Some]
    have s: "s = a @ needle @ rest"
    proof -
      obtain zs where zs: "drop i s = needle @ zs" using f by (auto elim: prefixE)
      then have "drop (i + length needle) s = zs" by (metis add.commute append_eq_conv_conj drop_drop)
      then show ?thesis unfolding a_def rest_def using zs by (metis append_take_drop_id)
    qed
    have len: "length a = i" using f by (simp add: a_def)
    show ?thesis
    proof (cases "word_at prev a rest")
      case True
      then have "word_loop (Suc fuel) needle prev s"
        using Some by (simp add: word_at_def a_def rest_def)
      then show ?thesis using True s by blast
    next
      case False
      have step: "word_loop (Suc fuel) needle prev s \<longleftrightarrow> word_loop fuel needle (last_char (last_char prev a) needle) rest"
        using Some False by (auto simp: word_at_def a_def [symmetric] rest_def [symmetric] Let_def)
      have IH: "word_loop fuel needle (last_char (last_char prev a) needle) rest \<longleftrightarrow>
          (\<exists>mid post. rest = mid @ needle @ post \<and> word_at (last_char (last_char prev a) needle) mid post)"
        using Suc.prems s assms(1) by (intro Suc.IH) (cases needle; simp)
      have first: "length a \<le> length pre" if "s = pre @ needle @ post" for pre post
        using f that len by (metis append_eq_conv_conj not_le prefixI)
      show ?thesis
      proof
        assume "word_loop (Suc fuel) needle prev s"
        then obtain mid post where "rest = mid @ needle @ post" "word_at (last_char (last_char prev a) needle) mid post"
          using step IH by blast
        then have "s = (a @ needle @ mid) @ needle @ post \<and> word_at prev (a @ needle @ mid) post"
          using s by (simp add: word_at_def last_char_append)
        then show "\<exists>pre post. s = pre @ needle @ post \<and> word_at prev pre post" by blast
      next
        assume "\<exists>pre post. s = pre @ needle @ post \<and> word_at prev pre post"
        then obtain pre post where occ: "s = pre @ needle @ post" and ok: "word_at prev pre post" by blast
        obtain mid where pre: "pre = a @ needle @ mid"
          using word_occurrence_split [OF s occ first [OF occ] assms(2) ok False] by blast
        then have "rest = mid @ needle @ post" "word_at (last_char (last_char prev a) needle) mid post"
          using s occ ok by (simp_all add: word_at_def last_char_append)
        then show "word_loop (Suc fuel) needle prev s" using step IH by blast
      qed
    qed
  qed
qed simp

lemma catalog_relations_words: "list_all (\<lambda>rel. rel \<noteq> [] \<and> list_all is_ident_char rel) CATALOG_RELATIONS"
  by code_simp

section \<open>Literals of a generated query\<close>

text \<open>A lexer for SQL text that collects the string literals; \<open>LexQuote\<close> has just read a quote in one.\<close>

datatype lex_mode = LexText | LexIdent | LexLit string | LexQuote string

fun lex_char :: "lex_mode \<Rightarrow> char \<Rightarrow> lex_mode" where
  "lex_char LexIdent c = (if c = dquote then LexText else LexIdent)"
| "lex_char (LexLit v) c = (if c = squote then LexQuote v else LexLit (v @ [c]))"
| "lex_char mode c = (if c = squote then LexLit [] else if c = dquote then LexIdent else LexText)"

fun lex_step :: "lex_mode \<times> string list \<Rightarrow> char \<Rightarrow> lex_mode \<times> string list" where
  "lex_step (LexQuote v, ls) c =
     (if c = squote then (LexLit (v @ [c]), ls) else (lex_char LexText c, ls @ [v]))"
| "lex_step (mode, ls) c = (lex_char mode c, ls)"

definition lex_end :: "lex_mode \<times> string list \<Rightarrow> string list option" where
  "lex_end = (\<lambda>(mode, ls). case mode of LexText \<Rightarrow> Some ls | LexQuote v \<Rightarrow> Some (ls @ [v]) | _ \<Rightarrow> None)"

definition sql_literals :: "string \<Rightarrow> string list option" where
  "sql_literals s = lex_end (foldl lex_step (LexText, []) s)"

lemma lex_esc: "foldl lex_step (LexLit v, ls) (esc s) = (LexLit (v @ s), ls)"
  unfolding esc_def replace_doubles by (induction s arbitrary: v) simp_all

lemma esc_char: "esc [c] = (if c = squote then [squote, squote] else [c])"
  by (simp add: esc_def)


text \<open>The literals of the DDL template before the first name.\<close>

definition create_script_literals :: "string list" where
  \<open>create_script_literals =
     [''CREATE TABLE "'', ''"."'', ''" ('', '');'', ''ALTER TABLE "'', ''"."'', ''" ADD PRIMARY KEY ('', '');'', [],
      ''  "'', ''" '', [], '' NOT NULL'', '' DEFAULT '', [], '','']\<close>

section \<open>Pass-through and the engine\<close>

lemma passthrough_patterns_parse:
  "rx_parse EXASOL_CATALOG_PREFIX_RE \<noteq> None" "rx_parse ALIAS_RE \<noteq> None" "rx_parse REDUNDANT_OFFSET_RE \<noteq> None"
  "rx_parse REGEX_MATCH_RE \<noteq> None" "rx_parse REGEX_NOT_MATCH_RE \<noteq> None"
  by code_simp+

lemma passthrough_engine:
  assumes "regex_engine E"
  shows "strip_exasol_catalog_prefix E sql = strip_exasol_catalog_prefix bt_engine sql"
    and "quote_reserved_aliases E sql = quote_reserved_aliases bt_engine sql"
    and "strip_redundant_offset E sql = strip_redundant_offset bt_engine sql"
    and "is_exasol_passthrough_sql E sql = is_exasol_passthrough_sql bt_engine sql"
  unfolding strip_exasol_catalog_prefix_def quote_reserved_aliases_def strip_redundant_offset_def
    is_exasol_passthrough_sql_def
    passthrough_patterns_parse [THEN engine_ops(1) [OF assms]]
    passthrough_patterns_parse [THEN engine_ops(4) [OF assms]]
    passthrough_patterns_parse [THEN engine_ops(5) [OF assms]]
  by (rule refl)+

lemma translate_passthrough:
  "is_passthrough_query E sql \<Longrightarrow> translate_postgres_to_exasol E transpile sql =
     Inr (strip_redundant_offset E (quote_reserved_aliases E (strip_exasol_catalog_prefix E sql)))"
  by (simp add: translate_postgres_to_exasol_def is_passthrough_query_def Let_def)

section \<open>Properties\<close>

text \<open>
  C35. \<^verbatim>\<open>contains_word\<close> finds whole words: for a needle of identifier characters (every catalog
  relation is one) it answers true exactly when the needle occurs in the haystack with no
  identifier character right before or after it, although the loop skips over the occurrences
  it has rejected.
\<close>

theorem contains_word_iff:
  assumes "needle \<noteq> []" and "list_all is_ident_char needle"
  shows "contains_word haystack needle \<longleftrightarrow>
    (\<exists>pre post. haystack = pre @ needle @ post \<and>
      (pre = [] \<or> \<not> is_ident_char (last pre)) \<and> (post = [] \<or> \<not> is_ident_char (hd post)))"
proof -
  have "word_at None pre post \<longleftrightarrow>
      (pre = [] \<or> \<not> is_ident_char (last pre)) \<and> (post = [] \<or> \<not> is_ident_char (hd post))" for pre post
    by (auto simp: word_at_def last_char_def first_char_def ident_end_def split: list.splits)
  then show ?thesis
    using word_loop_iff [OF assms, of haystack "Suc (length haystack)" None] by (simp add: contains_word_def)
qed

theorem contains_word_iff_witness:
  "contains_word ''from pg_classes, pg_class c'' ''pg_class'' \<and> \<not> contains_word ''from pg_classes'' ''pg_class''"
proof -
  have n: "list_all is_ident_char ''pg_class''" by code_simp
  have "''from pg_classes, pg_class c'' = ''from pg_classes, '' @ ''pg_class'' @ '' c'' \<and>
      (''from pg_classes, '' = [] \<or> \<not> is_ident_char (last ''from pg_classes, '')) \<and>
      ('' c'' = [] \<or> \<not> is_ident_char (hd '' c''))" by code_simp
  then have "contains_word ''from pg_classes, pg_class c'' ''pg_class''"
    using contains_word_iff [OF _ n, of "''from pg_classes, pg_class c''"] by blast
  moreover have "\<not> contains_word ''from pg_classes'' ''pg_class''" by code_simp
  ultimately show ?thesis ..
qed

text \<open>
  C36. Names stay data: in the native key and DDL queries that the translator generates, a lexer
  reads the schema and table names back as string literals, whatever quotes they hold, beside
  the fixed literals of the template, and nothing of them is outside a literal.
\<close>

theorem generated_names_stay_literals:
  "sql_literals (primary_key_query None table) = Some [''PRIMARY KEY'', table] \<and>
   sql_literals (primary_key_query (Some schema) table) = Some [''PRIMARY KEY'', table, schema] \<and>
   sql_literals (foreign_key_query schema table incoming) =
     Some [''NO ACTION'', ''NO ACTION'', ''FOREIGN KEY'', schema, table] \<and>
   sql_literals (create_table_script_query schema table) =
     Some (create_script_literals @ [schema, table, [dquote], [dquote], '', '', ''PRIMARY KEY'', schema, table])"
proof (intro conjI)
  show "sql_literals (primary_key_query None table) = Some [''PRIMARY KEY'', table]"
    by (simp add: sql_literals_def primary_key_query_def primary_key_text_def sql_text_def lex_esc lex_end_def)
  show "sql_literals (primary_key_query (Some schema) table) = Some [''PRIMARY KEY'', table, schema]"
    by (simp add: sql_literals_def primary_key_query_def primary_key_text_def sql_text_def lex_esc lex_end_def)
  show "sql_literals (foreign_key_query schema table incoming) =
     Some [''NO ACTION'', ''NO ACTION'', ''FOREIGN KEY'', schema, table]"
    by (cases incoming)
      (simp_all add: sql_literals_def foreign_key_query_def foreign_key_text_def sql_text_def lex_esc lex_end_def)
  show "sql_literals (create_table_script_query schema table) =
     Some (create_script_literals @ [schema, table, [dquote], [dquote], '', '', ''PRIMARY KEY'', schema, table])"
    by (simp add: sql_literals_def create_table_script_query_def create_table_script_text_def sql_text_def
        lex_esc lex_end_def create_script_literals_def)
qed

definition literal_sql :: string where
  "literal_sql = sql_text ''SELECT `as time OFFSET 0`''"



end
