(* ===== verification/Effects.thy ===== *)
theory Effects
  imports Gateway_Prelude
begin

text \<open>
  Async methods that change a state and return a \<^verbatim>\<open>Result\<close>: a function from the state to a result
  and the state after it, or to no return. \<open>pass\<close> is \<^verbatim>\<open>Ok\<close>, \<open>raise\<close> is \<^verbatim>\<open>Err\<close>, and \<open>andthen\<close> is the
  \<^verbatim>\<open>?\<close> operator followed by the rest of the method: an error ends the method, with the state as it is.
\<close>

named_theorems keeps_rules \<open>what an action keeps of the state\<close>

type_synonym ('c, 'e, 'a) effect = "'c \<Rightarrow> (('e, 'a) result \<times> 'c) exec"

definition pass :: "'a \<Rightarrow> ('c, 'e, 'a) effect" where
  "pass a c = Ret (Inr a, c)"

definition raise :: "'e \<Rightarrow> ('c, 'e, 'a) effect" where
  "raise e c = Ret (Inl e, c)"

definition andthen :: "('c, 'e, 'a) effect \<Rightarrow> ('a \<Rightarrow> ('c, 'e, 'b) effect) \<Rightarrow> ('c, 'e, 'b) effect" where
  "andthen m f c =
     bind_exec (m c) (\<lambda>(r, c'). case r of Inl e \<Rightarrow> Ret (Inl e, c') | Inr a \<Rightarrow> f a c')"

definition of_result :: "('e, 'a) result \<Rightarrow> ('c, 'e, 'a) effect" where
  "of_result r = (case r of Inl e \<Rightarrow> raise e | Inr a \<Rightarrow> pass a)"

definition of_exec :: "'a exec \<Rightarrow> ('a \<Rightarrow> ('c, 'e, 'b) effect) \<Rightarrow> ('c, 'e, 'b) effect" where
  "of_exec x f c = bind_exec x (\<lambda>a. f a c)"

definition modify :: "('c \<Rightarrow> 'c) \<Rightarrow> ('c, 'e, unit) effect" where
  "modify f c = Ret (Inr (), f c)"

text \<open>\<open>of_call\<close> runs a call into a library that changes the state and reports an error text.\<close>

definition of_call :: "(string \<Rightarrow> 'e) \<Rightarrow> ('c \<Rightarrow> (string, 'a) result \<times> 'c) \<Rightarrow> ('c, 'e, 'a) effect" where
  "of_call err f c = (case f c of (Inl text, c') \<Rightarrow> raise (err text) c' | (Inr a, c') \<Rightarrow> pass a c')"

text \<open>\<^verbatim>\<open>map_err\<close> on the result of a method.\<close>

definition map_raise :: "('e \<Rightarrow> 'e2) \<Rightarrow> ('c, 'e, 'a) effect \<Rightarrow> ('c, 'e2, 'a) effect" where
  "map_raise g m c =
     bind_exec (m c) (\<lambda>(r, c'). Ret (case r of Inl e \<Rightarrow> Inl (g e) | Inr a \<Rightarrow> Inr a, c'))"

lemma action_simps [simp]:
  "andthen (pass a) f = f a"
  "andthen (raise e) f = raise e"
  "of_result (Inr a) = pass a"
  "of_result (Inl e) = raise e"
  "pass a c = Ret (Inr a, c)"
  "raise e c = Ret (Inl e, c)"
  "modify g c = Ret (Inr (), g c)"
  "of_exec (Ret b) k = k b"
  by (auto simp: andthen_def pass_def raise_def of_result_def modify_def of_exec_def)

lemma andthen_Ret:
  "andthen m f c = Ret (r, c'') \<longleftrightarrow>
     (\<exists>e. m c = Ret (Inl e, c'') \<and> r = Inl e) \<or> (\<exists>a c'. m c = Ret (Inr a, c') \<and> f a c' = Ret (r, c''))"
  by (cases "m c") (auto simp: andthen_def split: sum.splits)

lemma of_exec_Ret: "of_exec x f c = Ret y \<longleftrightarrow> (\<exists>a. x = Ret a \<and> f a c = Ret y)"
  by (cases x) (auto simp: of_exec_def)

lemma andthen_run:
  "m c = Ret (Inr a, c') \<Longrightarrow> andthen m f c = f a c'"
  "m c = Ret (Inl e, c') \<Longrightarrow> andthen m f c = Ret (Inl e, c')"
  by (simp_all add: andthen_def)

text \<open>An action keeps a property of the state, whatever it returns.\<close>

definition keeps :: "('c \<Rightarrow> bool) \<Rightarrow> ('c, 'e, 'a) effect \<Rightarrow> bool" where
  "keeps P m \<longleftrightarrow> (\<forall>c r c'. P c \<longrightarrow> m c = Ret (r, c') \<longrightarrow> P c')"

lemma keepsI: "(\<And>c r c'. P c \<Longrightarrow> m c = Ret (r, c') \<Longrightarrow> P c') \<Longrightarrow> keeps P m"
  by (auto simp: keeps_def)

lemma keepsD: "keeps P m \<Longrightarrow> m c = Ret (r, c') \<Longrightarrow> P c \<Longrightarrow> P c'"
  by (auto simp: keeps_def)

lemma keeps_basic [keeps_rules]: "keeps P (pass a)" "keeps P (raise e)" "keeps P (of_result x)"
  by (auto simp: keeps_def of_result_def split: sum.splits)

lemma keeps_andthen [keeps_rules]: "keeps P m \<Longrightarrow> (\<And>a. keeps P (f a)) \<Longrightarrow> keeps P (andthen m f)"
  unfolding keeps_def andthen_Ret by metis

lemma keeps_of_exec [keeps_rules]: "(\<And>a. keeps P (f a)) \<Longrightarrow> keeps P (of_exec x f)"
  unfolding keeps_def of_exec_Ret by metis

lemma keeps_modify: "(\<And>c. P c \<Longrightarrow> P (g c)) \<Longrightarrow> keeps P (modify g)"
  by (auto simp: keeps_def)

lemma keeps_case_option [keeps_rules]:
  "keeps P m \<Longrightarrow> (\<And>a. keeps P (f a)) \<Longrightarrow> keeps P (case x of None \<Rightarrow> m | Some a \<Rightarrow> f a)"
  by (cases x) auto

lemma keeps_if [keeps_rules]: "keeps P m \<Longrightarrow> keeps P m' \<Longrightarrow> keeps P (if b then m else m')"
  by simp

end
