(* ===== verification/Catalog.thy ===== *)
theory Catalog
  imports Metadata Response "HOL-Library.List_Lexorder" "HOL-Library.Char_ord" "HOL-Library.Option_ord"
begin

text \<open>
  Catalog queries that the gateway answers itself (\<^verbatim>\<open>execute_metadata_query\<close> of
  \<^verbatim>\<open>src/src/pg_server.rs\<close>): the statements it sends to Exasol instead and the rows it builds from
  the answers. Rows are sorted as Rust sorts a \<^verbatim>\<open>Vec<Vec<Option<String>>>\<close>: lexicographically,
  \<^verbatim>\<open>None\<close> first, texts by code point.
\<close>

section \<open>Statements and column names\<close>

definition schemas_sql :: string where
  "schemas_sql = ''SELECT SCHEMA_NAME FROM SYS.EXA_SCHEMAS ORDER BY SCHEMA_NAME''"

definition jdbc_tables_sql :: "string \<Rightarrow> string \<Rightarrow> string" where
  \<open>jdbc_tables_sql schema_pattern table_pattern =
    sql_text ''SELECT `exasol` AS "TABLE_CAT", object_schema AS "TABLE_SCHEM", object_name AS "TABLE_NAME", object_type AS "TABLE_TYPE", remarks AS "REMARKS", `` AS "TYPE_CAT", `` AS "TYPE_SCHEM", `` AS "TYPE_NAME", `` AS "SELF_REFERENCING_COL_NAME", `` AS "REF_GENERATION" FROM ( SELECT TABLE_SCHEMA AS object_schema, TABLE_NAME AS object_name, `TABLE` AS object_type, COALESCE(TABLE_COMMENT, ``) AS remarks FROM SYS.EXA_ALL_TABLES UNION ALL SELECT VIEW_SCHEMA AS object_schema, VIEW_NAME AS object_name, `VIEW` AS object_type, COALESCE(VIEW_COMMENT, ``) AS remarks FROM SYS.EXA_ALL_VIEWS ) objects WHERE object_schema LIKE '' @
     schema_pattern @
     '' AND object_name LIKE '' @
     table_pattern @
     '' ORDER BY "TABLE_TYPE", "TABLE_SCHEM", "TABLE_NAME"''\<close>

definition jdbc_columns_sql :: "string \<Rightarrow> string \<Rightarrow> string \<Rightarrow> string" where
  \<open>jdbc_columns_sql schema_pattern table_pattern column_pattern =
    sql_text ''SELECT COLUMN_SCHEMA, COLUMN_TABLE, COLUMN_NAME, COLUMN_TYPE, COLUMN_IS_NULLABLE, COLUMN_DEFAULT, COLUMN_COMMENT, COLUMN_ORDINAL_POSITION FROM SYS.EXA_ALL_COLUMNS WHERE COLUMN_OBJECT_TYPE IN (`TABLE`, `VIEW`) AND COLUMN_SCHEMA LIKE '' @
     schema_pattern @
     '' AND COLUMN_TABLE LIKE '' @
     table_pattern @
     '' AND COLUMN_NAME LIKE '' @
     column_pattern @
     '' ORDER BY COLUMN_SCHEMA, COLUMN_TABLE, COLUMN_ORDINAL_POSITION''\<close>

definition pg_tables_sql :: "string \<Rightarrow> string \<Rightarrow> string" where
  \<open>pg_tables_sql schema_exclude table_filter =
    sql_text ''SELECT TABLE_SCHEMA AS schemaname, TABLE_NAME AS tablename, TABLE_OWNER AS tableowner, `` AS tablespace, false AS hasindexes, false AS hasrules, false AS hastriggers, false AS rowsecurity FROM SYS.EXA_ALL_TABLES WHERE TABLE_SCHEMA != '' @
     schema_exclude @
     '' '' @
     table_filter @
     '' ORDER BY schemaname, tablename''\<close>

definition info_schema_tables_sql :: "string \<Rightarrow> string" where
  \<open>info_schema_tables_sql schema_name =
    sql_text ''SELECT TABLE_NAME FROM ( SELECT `exasol` AS TABLE_CATALOG, TABLE_SCHEMA AS TABLE_SCHEMA, TABLE_NAME AS TABLE_NAME FROM SYS.EXA_ALL_TABLES UNION ALL SELECT `exasol` AS TABLE_CATALOG, VIEW_SCHEMA AS TABLE_SCHEMA, VIEW_NAME AS TABLE_NAME FROM SYS.EXA_ALL_VIEWS ) objects WHERE TABLE_CATALOG = `exasol` AND TABLE_SCHEMA = '' @
     schema_name @
     '' ORDER BY TABLE_NAME''\<close>

definition info_schema_columns_sql :: "string \<Rightarrow> string \<Rightarrow> string" where
  \<open>info_schema_columns_sql schema_name table =
    ''SELECT COLUMN_NAME FROM SYS.EXA_ALL_COLUMNS WHERE COLUMN_SCHEMA = '' @
     schema_name @
     '' AND COLUMN_TABLE = '' @
     table @
     '' ORDER BY COLUMN_NAME''\<close>

definition jdbc_columns_columns :: "string list" where
  "jdbc_columns_columns =
    [''current_database'', ''nspname'', ''relname'', ''attname'', ''atttypid'',
     ''attnotnull'', ''atttypmod'', ''attlen'', ''typtypmod'', ''attnum'',
     ''attidentity'', ''attgenerated'', ''adsrc'', ''description'', ''typbasetype'',
     ''typtype'']"

definition pg_user_columns :: "string list" where
  "pg_user_columns =
    [''usename'', ''usesysid'', ''usecreatedb'', ''usesuper'', ''userepl'',
     ''usebypassrls'', ''passwd'', ''valuntil'', ''useconfig'']"

definition pg_stat_activity_columns :: "string list" where
  "pg_stat_activity_columns =
    [''datid'', ''datname'', ''pid'', ''leader_pid'', ''usesysid'',
     ''usename'', ''application_name'', ''client_addr'', ''client_hostname'', ''client_port'',
     ''backend_start'', ''xact_start'', ''query_start'', ''state_change'', ''wait_event_type'',
     ''wait_event'', ''state'', ''backend_xid'', ''backend_xmin'', ''query_id'',
     ''query'', ''backend_type'']"

definition pg_locks_columns :: "string list" where
  "pg_locks_columns =
    [''locktype'', ''database'', ''relation'', ''page'', ''tuple'',
     ''virtualxid'', ''transactionid'', ''classid'', ''objid'', ''objsubid'',
     ''virtualtransaction'', ''pid'', ''mode'', ''granted'', ''fastpath'',
     ''waitstart'']"

section \<open>Rows\<close>

definition cell :: "text_row \<Rightarrow> nat \<Rightarrow> string option" where
  "cell row i = unwrap_or (nth_opt row i) None"

definition all_schemas :: "text_row list \<Rightarrow> text_row list" where
  "all_schemas schemas = sort (schemas @ [[Some ''information_schema''], [Some ''pg_catalog'']])"

definition jdbc_schemas_response :: "text_row list \<Rightarrow> ('b, 's, 'j) gateway_response" where
  "jdbc_schemas_response schemas =
     RespQuery [''TABLE_SCHEM'', ''TABLE_CATALOG'']
       (map (\<lambda>row. [cell row 0, Some ''exasol'']) (all_schemas schemas))"

definition namespace_row :: "nat \<times> text_row \<Rightarrow> text_row" where
  "namespace_row = (\<lambda>(idx, row).
     [Some (show_int (wrap32 (2200 + wrap32 (int idx)))), cell row 0, Some ''10'', None])"

definition pg_namespace_response :: "text_row list \<Rightarrow> ('b, 's, 'j) gateway_response" where
  "pg_namespace_response schemas =
     RespQuery [''oid'', ''nspname'', ''nspowner'', ''nspacl'']
       (map namespace_row (List.enumerate 0 (all_schemas schemas)))"

definition jdbc_column_row :: "regex_search \<Rightarrow> text_row \<Rightarrow> text_row" where
  "jdbc_column_row E row =
     (let exa_type = unwrap_or (cell row 3) ''VARCHAR(2000) UTF8'';
          ti = map_exasol_column_type E exa_type;
          nullable = (cell row 4 = Some ''false'')
      in [Some ''exasol'', cell row 0, cell row 1, cell row 2, Some (show_int (ti_oid ti)),
          Some (if nullable then ''true'' else ''false''), Some (show_int (ti_typmod ti)),
          Some (show_int (ti_typlen ti)), Some (show_int (ti_typmod ti)),
          unwrap_or (nth_opt row 7) (Some ''0''), None, None, cell row 5, cell row 6,
          Some (show_int (ti_typbasetype ti)), Some (ti_typtype ti)])"

definition jdbc_columns_response :: "regex_search \<Rightarrow> text_row list \<Rightarrow> ('b, 's, 'j) gateway_response" where
  "jdbc_columns_response E rows = RespQuery jdbc_columns_columns (map (jdbc_column_row E) rows)"

definition pg_tables_statement :: "string option \<Rightarrow> string option \<Rightarrow> string" where
  "pg_tables_statement schema_exclude table_name =
     pg_tables_sql (sql_string_literal (unwrap_or schema_exclude ''pg_catalog''))
       (case table_name of Some value \<Rightarrow> ''AND TABLE_NAME = '' @ sql_string_literal value | None \<Rightarrow> [])"

definition pg_user_response :: "('b, 's, 'j) gateway_response" where
  "pg_user_response =
     RespQuery pg_user_columns
       [[Some ''sys'', Some ''10'', Some ''true'', Some ''true'', Some ''false'', Some ''true'', None, None, None]]"

text \<open>
  How a plan is answered: from rows that Exasol returns, by the result of a statement as it is,
  or without Exasol.
\<close>

datatype ('b, 's, 'j) catalog_answer =
    AnswerRows string "text_row list \<Rightarrow> ('b, 's, 'j) gateway_response"
  | AnswerForward string
  | AnswerLocal "('b, 's, 'j) gateway_response"

fun catalog_answer_for :: "regex_search \<Rightarrow> metadata_plan \<Rightarrow> ('b, 's, 'j) catalog_answer" where
  "catalog_answer_for E JdbcSchemas = AnswerRows schemas_sql jdbc_schemas_response"
| "catalog_answer_for E PgNamespace = AnswerRows schemas_sql pg_namespace_response"
| "catalog_answer_for E (JdbcTables schema_pattern table_pattern) =
     AnswerForward (jdbc_tables_sql (sql_string_literal schema_pattern) (sql_string_literal table_pattern))"
| "catalog_answer_for E (JdbcColumns schema_pattern table_pattern column_pattern) =
     AnswerRows (jdbc_columns_sql (sql_string_literal schema_pattern) (sql_string_literal table_pattern)
       (sql_string_literal column_pattern)) (jdbc_columns_response E)"
| "catalog_answer_for E (PgTables schema_exclude table_name) = AnswerForward (pg_tables_statement schema_exclude table_name)"
| "catalog_answer_for E (InfoSchemaTableNames catalog schema_name) =
     (if \<not> eq_ignore_ascii_case catalog ''exasol'' then AnswerLocal (empty_query [''TABLE_NAME''])
      else AnswerForward (info_schema_tables_sql (sql_string_literal schema_name)))"
| "catalog_answer_for E (InfoSchemaColumnNames catalog schema_name table) =
     (if \<not> eq_ignore_ascii_case catalog ''exasol'' then AnswerLocal (empty_query [''COLUMN_NAME''])
      else AnswerForward (info_schema_columns_sql (sql_string_literal schema_name) (sql_string_literal table)))"
| "catalog_answer_for E PgUser = AnswerLocal pg_user_response"
| "catalog_answer_for E PgGroup = AnswerLocal (empty_query [''groname'', ''grosysid'', ''grolist''])"
| "catalog_answer_for E PgStatActivity = AnswerLocal (empty_query pg_stat_activity_columns)"
| "catalog_answer_for E PgLocks = AnswerLocal (empty_query pg_locks_columns)"

end
