(* ===== verification/Session.thy ===== *)
theory Session
  imports Effects Cursor Policy Catalog Response Translator
begin

text \<open>
  The session of one client (\<^verbatim>\<open>src/src/pg_server.rs\<close>): the state the gateway keeps for a
  connection, the execution of a statement by its plan, the cursor statements, and the handlers
  of the startup, simple and extended protocol. A handler is a function from the client to a
  result and the client after it.

  The Exasol session is the type variable \<open>'x\<close> and its \<^verbatim>\<open>execute\<close> the field \<open>h_exec_sql\<close>: it may
  return any outcome or error and changes its state. pgwire, Arrow, the JSON library and the
  transpiler are further fields. The mutexes guard the state of a single connection, whose
  messages are handled one after the other, so a handler runs on the state as a whole; a write to
  the client's socket does not fail here.
\<close>

section \<open>State\<close>

record ('x, 'b, 's, 'j) session_state =
  ss_exasol :: 'x
  ss_extended_results :: "string \<rightharpoonup> ('b, 's, 'j) gateway_response"
  ss_cursors :: "string \<rightharpoonup> ('b, 's, 'j exasol_column) gateway_cursor"
  ss_current_schema :: "string option"

datatype connection_state = AuthenticationInProgress | ReadyForQuery | QueryInProgress | OtherState

datatype backend_message =
    MsgCleartextPassword
  | MsgRowDescription "field_info list"
  | MsgDataRow text_row
  | MsgComplete tag
  | MsgEmptyQuery
  | MsgError string string string
  | MsgOther string

record ('x, 'b, 's, 'j, 't) client =
  cl_session :: "('x, 'b, 's, 'j) session_state option"
  cl_user :: "string option"
  cl_pid :: int
  cl_state :: connection_state
  cl_portals :: "string \<rightharpoonup> portal"
  cl_tx :: 't
  cl_sent :: "backend_message list"

text \<open>
  What the handlers use of pgwire: \<^verbatim>\<open>send_query_response\<close> gives the messages it sends and the error
  it stops with, if any; the transaction states and the name of the unnamed portal are its own.
\<close>

record 't pgwire_ops =
  pw_send_query :: "query_response \<Rightarrow> bool \<Rightarrow> backend_message list \<times> pg_wire_error option"
  pw_in_transaction :: "'t \<Rightarrow> 't"
  pw_idle :: "'t \<Rightarrow> 't"
  pw_failed :: "'t \<Rightarrow> 't"
  pw_default_name :: string
  pw_error_text :: "pg_wire_error \<Rightarrow> string"

record ('x, 'b, 's, 'c, 'f, 'j, 'e, 't) handler =
  h_config :: app_config
  h_regex :: regex_search
  h_transpile :: "string \<Rightarrow> (string, string list) result"
  h_json :: "'j json_ops"
  h_fields :: "'s \<Rightarrow> arrow_field list"
  h_batch :: "('b, 's, 'c) batch_ops"
  h_format :: "('c, 'f) format_ops"
  h_encoder :: "'e encoder_ops"
  h_pgwire :: "'t pgwire_ops"
  h_connect_arrow :: "exasol_config \<Rightarrow> endpoint_connection \<Rightarrow> string \<Rightarrow> string \<Rightarrow> (exasol_error, 'x) result"
  h_connect_websocket :: "exasol_config \<Rightarrow> endpoint_connection \<Rightarrow> string \<Rightarrow> string \<Rightarrow> (exasol_error, 'x) result"
  h_exec_sql :: "'x \<Rightarrow> string \<Rightarrow> (exasol_error, ('b, 'j) exasol_outcome) result \<times> 'x"
  h_exec_ddl :: "'x \<Rightarrow> string \<Rightarrow> (exasol_error, unit) result \<times> 'x"

section \<open>Actions\<close>

type_synonym ('c, 'a) action = "('c, pg_wire_error, 'a) effect"

text \<open>\<^verbatim>\<open>client.session_extensions().get::<SessionState>().ok_or_else(...)\<close>.\<close>

definition need_session :: "(('x, 'b, 's, 'j, 't) client, ('x, 'b, 's, 'j) session_state) action" where
  "need_session c =
     (case cl_session c of
        Some s \<Rightarrow> pass s c
      | None \<Rightarrow> raise (pg_error ''08003'' ''Exasol session is not connected'') c)"

definition put_session :: "('x, 'b, 's, 'j) session_state \<Rightarrow> (('x, 'b, 's, 'j, 't) client, unit) action" where
  "put_session s = modify (\<lambda>c. c\<lparr>cl_session := Some s\<rparr>)"

definition error_response :: "string \<Rightarrow> string \<Rightarrow> ('c, ('b, 's, 'j) gateway_response list) action" where
  "error_response sqlstate message = pass [RespError sqlstate message]"

section \<open>Running SQL on Exasol\<close>

definition execute_exasol_sql :: "('x, 'b, 's, 'c, 'f, 'j, 'e, 't) handler \<Rightarrow> string \<Rightarrow>
    (('x, 'b, 's, 'j, 't) client, ('b, 'j) exasol_outcome) action" where
  "execute_exasol_sql h sql = andthen need_session (\<lambda>s.
     let (r, x) = h_exec_sql h (ss_exasol s) sql in
     andthen (put_session (s\<lparr>ss_exasol := x\<rparr>)) (\<lambda>_.
       of_result (case r of Inl e \<Rightarrow> Inl (map_exasol_execution_error e) | Inr outcome \<Rightarrow> Inr outcome)))"

definition should_fold_labels :: "('x, 'b, 's, 'c, 'f, 'j, 'e, 't) handler \<Rightarrow> string \<Rightarrow> bool" where
  "should_fold_labels h sql \<longleftrightarrow>
     enabled (translation (h_config h)) \<and> \<not> is_passthrough_query (h_regex h) sql"

definition translate_client_sql ::
  "('x, 'b, 's, 'c, 'f, 'j, 'e, 't) handler \<Rightarrow> string \<Rightarrow> (pg_wire_error, string) result" where
  "translate_client_sql h sql =
     (if \<not> enabled (translation (h_config h)) then Inr sql
      else
        (case translate_postgres_to_exasol (h_regex h) (h_transpile h) sql of
           Inl err \<Rightarrow> Inl (pg_error ''XX000'' err)
         | Inr translated \<Rightarrow> Inr translated))"

definition execute_client_sql :: "('x, 'b, 's, 'c, 'f, 'j, 'e, 't) handler \<Rightarrow> string \<Rightarrow>
    (('x, 'b, 's, 'j, 't) client, ('b, 'j) exasol_outcome) action" where
  "execute_client_sql h sql = andthen (of_result (translate_client_sql h sql)) (execute_exasol_sql h)"

definition execute_exasol_query :: "('x, 'b, 's, 'c, 'f, 'j, 'e, 't) handler \<Rightarrow> string \<Rightarrow>
    (('x, 'b, 's, 'j, 't) client, ('b, 's, 'j) gateway_response) action" where
  "execute_exasol_query h sql = andthen (execute_exasol_sql h sql) (\<lambda>outcome.
     let responses = map_exasol_result (h_batch h) outcome ''SELECT'' Omit False in
     pass (if responses = [] then RespEmpty else last responses))"

definition fetch_query_rows :: "('x, 'b, 's, 'c, 'f, 'j, 'e, 't) handler \<Rightarrow> string \<Rightarrow>
    (('x, 'b, 's, 'j, 't) client, text_row list) action" where
  "fetch_query_rows h sql = andthen (execute_exasol_sql h sql) (\<lambda>outcome.
     case outcome of
       ArrowRows batches \<Rightarrow> pass (arrow_batches_to_text_rows (h_batch h) (h_format h) batches)
     | TypedRows _ rows \<Rightarrow> pass rows
     | RowCount _ \<Rightarrow> raise (pg_error ''XX000'' ''metadata query unexpectedly returned a row count''))"

definition execute_metadata_query :: "('x, 'b, 's, 'c, 'f, 'j, 'e, 't) handler \<Rightarrow> string \<Rightarrow>
    (('x, 'b, 's, 'j, 't) client, ('b, 's, 'j) gateway_response option) action" where
  "execute_metadata_query h sql =
     (case detect (h_regex h) sql of
        None \<Rightarrow> pass None
      | Some plan \<Rightarrow>
          (case catalog_answer_for (h_regex h) plan of
             AnswerRows statement build \<Rightarrow> andthen (fetch_query_rows h statement) (\<lambda>rows. pass (Some (build rows)))
           | AnswerForward statement \<Rightarrow> andthen (execute_exasol_query h statement) (\<lambda>r. pass (Some r))
           | AnswerLocal r \<Rightarrow> pass (Some r)))"

section \<open>Cursor statements\<close>

definition cursor_exists_message :: "string \<Rightarrow> string" where
  "cursor_exists_message name = ''cursor '' @ [dquote] @ name @ [dquote] @ '' already exists''"

definition cursor_missing_message :: "string \<Rightarrow> string" where
  "cursor_missing_message name = ''cursor '' @ [dquote] @ name @ [dquote] @ '' does not exist''"

text \<open>The last part of \<^verbatim>\<open>declare_cursor\<close>: the name is looked up again after the query has run.\<close>

definition insert_cursor :: "cursor_declare \<Rightarrow> ('b, 's, 'j exasol_column) cursor_data \<Rightarrow>
    (('x, 'b, 's, 'j, 't) client, ('b, 's, 'j) gateway_response list) action" where
  "insert_cursor declare_plan data = andthen need_session (\<lambda>s.
     if ss_cursors s (decl_name declare_plan) \<noteq> None
     then error_response ''42P03'' (cursor_exists_message (decl_name declare_plan))
     else
       let cursor = \<lparr>cur_data = data, cur_position = -1, cur_scroll = decl_scroll declare_plan,
                     cur_hold = decl_hold declare_plan\<rparr> in
       andthen (put_session (s\<lparr>ss_cursors := (ss_cursors s)(decl_name declare_plan \<mapsto> cursor)\<rparr>)) (\<lambda>_.
         pass [RespExecution ''DECLARE CURSOR'' None]))"

definition declare_cursor :: "('x, 'b, 's, 'c, 'f, 'j, 'e, 't) handler \<Rightarrow> cursor_declare \<Rightarrow>
    (('x, 'b, 's, 'j, 't) client, ('b, 's, 'j) gateway_response list) action" where
  "declare_cursor h declare_plan =
     (if is_cursor_unsafe_query (classify_statement (h_regex h) (decl_query declare_plan))
      then error_response ''0A000'' ''cursor query must be a supported row-returning query''
      else andthen need_session (\<lambda>s.
        if ss_cursors s (decl_name declare_plan) \<noteq> None
        then error_response ''42P03'' (cursor_exists_message (decl_name declare_plan))
        else andthen (execute_client_sql h (decl_query declare_plan)) (\<lambda>outcome.
          case outcome of
            ArrowRows batches \<Rightarrow>
              insert_cursor declare_plan (ArrowData (cursor_schema_for (h_batch h) batches) batches)
          | TypedRows cols rows \<Rightarrow> insert_cursor declare_plan (TypedData cols rows)
          | RowCount _ \<Rightarrow> error_response ''0A000'' ''cursor query must return rows'')))"

text \<open>Looking up a cursor and moving it; \<open>fuel\<close> bounds the recursion of \<^verbatim>\<open>forward\<close> and \<^verbatim>\<open>backward\<close>.\<close>

definition step_cursor :: "nat \<Rightarrow> ('x, 'b, 's, 'c, 'f, 'j, 'e, 't) handler \<Rightarrow> position_plan \<Rightarrow> bool \<Rightarrow>
    (('b, 's, 'j exasol_column) gateway_cursor \<Rightarrow> 'b cursor_step \<Rightarrow>
      (('x, 'b, 's, 'j, 't) client, ('b, 's, 'j) gateway_response list) action) \<Rightarrow>
    (('x, 'b, 's, 'j, 't) client, ('b, 's, 'j) gateway_response list) action" where
  "step_cursor fuel h position return_rows respond = andthen need_session (\<lambda>s.
     case ss_cursors s (pos_name position) of
       None \<Rightarrow> error_response ''34000'' (cursor_missing_message (pos_name position))
     | Some cursor \<Rightarrow>
         of_exec (apply_cursor fuel (h_batch h) (pos_direction position) return_rows cursor) (\<lambda>r.
           case r of
             Inl e \<Rightarrow> raise e
           | Inr (step, cursor') \<Rightarrow>
               andthen (put_session (s\<lparr>ss_cursors := (ss_cursors s)(pos_name position \<mapsto> cursor')\<rparr>))
                 (\<lambda>_. respond cursor step)))"

definition fetch_response :: "('b, 's, 'j exasol_column) gateway_cursor \<Rightarrow> 'b cursor_step \<Rightarrow>
    ('c, ('b, 's, 'j) gateway_response list) action" where
  "fetch_response cursor step =
     (case (cursor_metadata_of (cur_data cursor), step_rows step) of
        (ArrowMeta sch, ArrowStep batches) \<Rightarrow> pass [RespArrow sch batches (Some ''FETCH'') False]
      | (TypedMeta cols, TypedStep rows) \<Rightarrow> pass [RespTyped cols rows (Some ''FETCH'') False]
      | _ \<Rightarrow> raise (pg_error ''XX000'' ''cursor data and step variant mismatch (internal invariant violation)''))"

definition fetch_cursor :: "nat \<Rightarrow> ('x, 'b, 's, 'c, 'f, 'j, 'e, 't) handler \<Rightarrow> position_plan \<Rightarrow>
    (('x, 'b, 's, 'j, 't) client, ('b, 's, 'j) gateway_response list) action" where
  "fetch_cursor fuel h position = step_cursor fuel h position True fetch_response"

definition move_cursor :: "nat \<Rightarrow> ('x, 'b, 's, 'c, 'f, 'j, 'e, 't) handler \<Rightarrow> position_plan \<Rightarrow>
    (('x, 'b, 's, 'j, 't) client, ('b, 's, 'j) gateway_response list) action" where
  "move_cursor fuel h position =
     step_cursor fuel h position False (\<lambda>_ step. pass [RespExecution ''MOVE'' (Some (step_count step))])"

definition close_cursor :: "cursor_close \<Rightarrow>
    (('x, 'b, 's, 'j, 't) client, ('b, 's, 'j) gateway_response list) action" where
  "close_cursor close_plan = andthen need_session (\<lambda>s.
     case close_plan of
       CloseAll \<Rightarrow>
         andthen (put_session (s\<lparr>ss_cursors := Map.empty\<rparr>)) (\<lambda>_. pass [RespExecution ''CLOSE CURSOR'' None])
     | CloseOne name \<Rightarrow>
         if ss_cursors s name = None then error_response ''34000'' (cursor_missing_message name)
         else
           andthen (put_session (s\<lparr>ss_cursors := (ss_cursors s)(name := None)\<rparr>))
             (\<lambda>_. pass [RespExecution ''CLOSE CURSOR'' None]))"

fun execute_cursor_plan :: "nat \<Rightarrow> ('x, 'b, 's, 'c, 'f, 'j, 'e, 't) handler \<Rightarrow> cursor_plan \<Rightarrow>
    (('x, 'b, 's, 'j, 't) client, ('b, 's, 'j) gateway_response list) action" where
  "execute_cursor_plan fuel h (Declare declare_plan) = declare_cursor h declare_plan"
| "execute_cursor_plan fuel h (Fetch position) = fetch_cursor fuel h position"
| "execute_cursor_plan fuel h (Move position) = move_cursor fuel h position"
| "execute_cursor_plan fuel h (Close close_plan) = close_cursor close_plan"

definition clear_non_hold_cursors :: "(('x, 'b, 's, 'j, 't) client, unit) action" where
  "clear_non_hold_cursors c =
     (case cl_session c of
        None \<Rightarrow> pass () c
      | Some s \<Rightarrow>
          put_session (s\<lparr>ss_cursors := (\<lambda>name. case ss_cursors s name of
              Some cursor \<Rightarrow> if cur_hold cursor then Some cursor else None
            | None \<Rightarrow> None)\<rparr>) c)"

section \<open>Statements\<close>

definition set_search_path :: "('x, 'b, 's, 'c, 'f, 'j, 'e, 't) handler \<Rightarrow> string \<Rightarrow>
    (('x, 'b, 's, 'j, 't) client, ('b, 's, 'j) gateway_response list) action" where
  "set_search_path h path =
     andthen need_session (\<lambda>_.
     andthen (execute_exasol_sql h (''OPEN SCHEMA '' @ [dquote] @ replace_text [dquote] [dquote, dquote] path @ [dquote]))
       (\<lambda>_. andthen need_session (\<lambda>s.
        andthen (put_session (s\<lparr>ss_current_schema := Some path\<rparr>)) (\<lambda>_.
          pass [RespExecution ''SET'' None]))))"

definition show_search_path :: "(('x, 'b, 's, 'j, 't) client, ('b, 's, 'j) gateway_response list) action" where
  "show_search_path = andthen need_session (\<lambda>s.
     pass [RespQuery [''search_path''] [[Some (unwrap_or (ss_current_schema s) ''public'')]]])"

definition execute_on_exasol :: "('x, 'b, 's, 'c, 'f, 'j, 'e, 't) handler \<Rightarrow> string \<Rightarrow> string \<Rightarrow> row_count_policy \<Rightarrow>
    (('x, 'b, 's, 'j, 't) client, ('b, 's, 'j) gateway_response list) action" where
  "execute_on_exasol h sql command row_count =
     andthen need_session (\<lambda>_.
     andthen (of_result (translate_client_sql h sql)) (\<lambda>translated.
     andthen (execute_exasol_sql h translated) (\<lambda>outcome.
       pass (map_exasol_result (h_batch h) outcome command row_count (should_fold_labels h sql)))))"

fun run_plan :: "nat \<Rightarrow> ('x, 'b, 's, 'c, 'f, 'j, 'e, 't) handler \<Rightarrow> string \<Rightarrow> statement_plan \<Rightarrow>
    (('x, 'b, 's, 'j, 't) client, ('b, 's, 'j) gateway_response list) action" where
  "run_plan fuel h sql EmptyStatement = pass [RespEmpty]"
| "run_plan fuel h sql ClientSet = pass [RespExecution ''SET'' None]"
| "run_plan fuel h sql (SetSearchPath path) = set_search_path h path"
| "run_plan fuel h sql ShowSearchPath = show_search_path"
| "run_plan fuel h sql ClientTransactionStart = pass [RespTransactionStart ''BEGIN'']"
| "run_plan fuel h sql (ClientTransactionEnd command) =
     andthen clear_non_hold_cursors (\<lambda>_. pass [RespTransactionEnd command])"
| "run_plan fuel h sql (ClientShow name value) = pass [RespQuery [name] [[Some value]]]"
| "run_plan fuel h sql (ClientSelect cols rows) = pass [RespQuery cols rows]"
| "run_plan fuel h sql (BackendPid column) = (\<lambda>c. pass [RespQuery [column] [[Some (show_int (cl_pid c))]]] c)"
| "run_plan fuel h sql (CursorStatement plan) = execute_cursor_plan fuel h plan"
| "run_plan fuel h sql (Reject sqlstate message) = pass [RespError sqlstate message]"
| "run_plan fuel h sql (Execute command row_count) = execute_on_exasol h sql command row_count"

definition execute_statement :: "nat \<Rightarrow> ('x, 'b, 's, 'c, 'f, 'j, 'e, 't) handler \<Rightarrow> string \<Rightarrow>
    (('x, 'b, 's, 'j, 't) client, ('b, 's, 'j) gateway_response list) action" where
  "execute_statement fuel h sql = andthen (execute_metadata_query h sql) (\<lambda>metadata_response.
     case metadata_response of
       Some r \<Rightarrow> pass [r]
     | None \<Rightarrow> run_plan fuel h sql (classify_statement (h_regex h) sql))"

definition to_response :: "('x, 'b, 's, 'c, 'f, 'j, 'e, 't) handler \<Rightarrow> ('b, 's, 'j) gateway_response \<Rightarrow> response" where
  "to_response h = try_from_response (h_regex h) (h_json h) (h_fields h) (h_batch h) (h_format h) (h_encoder h)"

definition execute_sql :: "nat \<Rightarrow> ('x, 'b, 's, 'c, 'f, 'j, 'e, 't) handler \<Rightarrow> string \<Rightarrow>
    (('x, 'b, 's, 'j, 't) client, response list) action" where
  "execute_sql fuel h sql = andthen (execute_statement fuel h sql) (\<lambda>rs. pass (map (to_response h) rs))"

section \<open>The simple protocol\<close>

fun is_error_response :: "response \<Rightarrow> bool" where
  "is_error_response (ErrorResponse _ _ _) = True"
| "is_error_response _ = False"

fun run_statements :: "nat \<Rightarrow> ('x, 'b, 's, 'c, 'f, 'j, 'e, 't) handler \<Rightarrow> string list \<Rightarrow> response list \<Rightarrow>
    (('x, 'b, 's, 'j, 't) client, response list) action" where
  "run_statements fuel h [] responses = pass responses"
| "run_statements fuel h (statement # statements) responses =
     andthen (execute_sql fuel h statement) (\<lambda>rs.
       if list_ex is_error_response rs then pass (responses @ rs)
       else run_statements fuel h statements (responses @ rs))"

definition execute_simple_query :: "nat \<Rightarrow> ('x, 'b, 's, 'c, 'f, 'j, 'e, 't) handler \<Rightarrow> string \<Rightarrow>
    (('x, 'b, 's, 'j, 't) client, response list) action" where
  "execute_simple_query fuel h query =
     (let statements = split_simple_query query in
      if statements = [] then pass [EmptyQuery] else run_statements fuel h statements [])"

section \<open>The extended protocol\<close>

definition cache_extended_result :: "string \<Rightarrow> ('b, 's, 'j) gateway_response \<Rightarrow>
    (('x, 'b, 's, 'j, 't) client, unit) action" where
  "cache_extended_result portal_name r = andthen need_session (\<lambda>s.
     put_session (s\<lparr>ss_extended_results := (ss_extended_results s)(portal_name \<mapsto> r)\<rparr>))"

definition take_cached_extended_result :: "string \<Rightarrow>
    (('x, 'b, 's, 'j, 't) client, ('b, 's, 'j) gateway_response option) action" where
  "take_cached_extended_result portal_name c =
     (case cl_session c of
        None \<Rightarrow> pass None c
      | Some s \<Rightarrow>
          andthen (put_session (s\<lparr>ss_extended_results := (ss_extended_results s)(portal_name := None)\<rparr>))
            (\<lambda>_. pass (ss_extended_results s portal_name)) c)"

definition last_response :: "('b, 's, 'j) gateway_response list \<Rightarrow> ('b, 's, 'j) gateway_response" where
  "last_response rs = (if rs = [] then RespEmpty else last rs)"

definition do_describe_portal :: "nat \<Rightarrow> ('x, 'b, 's, 'c, 'f, 'j, 'e, 't) handler \<Rightarrow> portal \<Rightarrow>
    (('x, 'b, 's, 'j, 't) client, field_info list) action" where
  "do_describe_portal fuel h target =
     of_exec (render_portal_sql (h_regex h) target) (\<lambda>rendered.
     andthen (of_result rendered) (\<lambda>sql.
     andthen (execute_statement fuel h sql) (\<lambda>responses.
       let r = last_response responses in
       andthen (cache_extended_result (p_name target) r)
         (\<lambda>_. pass (response_fields (h_regex h) (h_json h) (h_fields h) r)))))"

definition do_describe_statement :: "('c, pg_type list \<times> field_info list) action" where
  "do_describe_statement = pass ([], [])"

definition extended_do_query :: "nat \<Rightarrow> ('x, 'b, 's, 'c, 'f, 'j, 'e, 't) handler \<Rightarrow> portal \<Rightarrow>
    (('x, 'b, 's, 'j, 't) client, response) action" where
  "extended_do_query fuel h portal =
     of_exec (render_portal_sql (h_regex h) portal) (\<lambda>rendered.
       case rendered of
         Inl e \<Rightarrow>
           (let (severity, sqlstate, message) = error_info (pw_error_text (h_pgwire h)) e in
            pass (ErrorResponse severity sqlstate message))
       | Inr sql \<Rightarrow>
           andthen (execute_statement fuel h sql) (\<lambda>responses. pass (to_response h (last_response responses))))"

definition send_messages :: "backend_message list \<Rightarrow> (('x, 'b, 's, 'j, 't) client, unit) action" where
  "send_messages ms = modify (\<lambda>c. c\<lparr>cl_sent := cl_sent c @ ms\<rparr>)"

definition set_tx :: "('t \<Rightarrow> 't) \<Rightarrow> (('x, 'b, 's, 'j, 't) client, unit) action" where
  "set_tx f = modify (\<lambda>c. c\<lparr>cl_tx := f (cl_tx c)\<rparr>)"

definition send_response :: "('x, 'b, 's, 'c, 'f, 'j, 'e, 't) handler \<Rightarrow> response \<Rightarrow> bool \<Rightarrow>
    (('x, 'b, 's, 'j, 't) client, unit) action" where
  "send_response h r send_describe =
     (case r of
        EmptyQuery \<Rightarrow> send_messages [MsgEmptyQuery]
      | QueryResponse results \<Rightarrow>
          (let (ms, failure) = pw_send_query (h_pgwire h) results send_describe in
           andthen (send_messages ms) (\<lambda>_. case failure of None \<Rightarrow> pass () | Some e \<Rightarrow> raise e))
      | ExecutionResponse t \<Rightarrow> send_messages [MsgComplete t]
      | TransactionStart t \<Rightarrow> andthen (send_messages [MsgComplete t]) (\<lambda>_. set_tx (pw_in_transaction (h_pgwire h)))
      | TransactionEnd t \<Rightarrow> andthen (send_messages [MsgComplete t]) (\<lambda>_. set_tx (pw_idle (h_pgwire h)))
      | ErrorResponse severity sqlstate message \<Rightarrow>
          andthen (send_messages [MsgError severity sqlstate message]) (\<lambda>_. set_tx (pw_failed (h_pgwire h)))
      | CopyResponse \<Rightarrow> raise (pg_error ''0A000'' ''COPY protocol is not implemented''))"

fun is_query_response :: "response \<Rightarrow> bool" where
  "is_query_response (QueryResponse _) = True"
| "is_query_response _ = False"

text \<open>The part of \<^verbatim>\<open>on_execute\<close> that runs once the portal is found.\<close>

definition execute_portal :: "nat \<Rightarrow> ('x, 'b, 's, 'c, 'f, 'j, 'e, 't) handler \<Rightarrow> string \<Rightarrow> portal \<Rightarrow>
    (('x, 'b, 's, 'j, 't) client, unit) action" where
  "execute_portal fuel h portal_name portal =
     andthen (modify (\<lambda>c. c\<lparr>cl_state := QueryInProgress\<rparr>)) (\<lambda>_.
     andthen (take_cached_extended_result portal_name) (\<lambda>cached.
     andthen (case cached of Some r \<Rightarrow> pass (to_response h r) | None \<Rightarrow> extended_do_query fuel h portal) (\<lambda>r.
     andthen (send_response h r (\<not> is_query_response r \<or> cached = None)) (\<lambda>_.
       modify (\<lambda>c. c\<lparr>cl_state := ReadyForQuery,
         cl_portals := (if portal_name = pw_default_name (h_pgwire h)
           then (cl_portals c)(portal_name := None) else cl_portals c)\<rparr>)))))"

definition on_execute :: "nat \<Rightarrow> ('x, 'b, 's, 'c, 'f, 'j, 'e, 't) handler \<Rightarrow> string option \<Rightarrow>
    (('x, 'b, 's, 'j, 't) client, unit) action" where
  "on_execute fuel h name c =
     (if cl_state c \<noteq> ReadyForQuery then raise NotReadyForQuery c
      else
        let portal_name = unwrap_or name (pw_default_name (h_pgwire h)) in
        (case cl_portals c portal_name of
           None \<Rightarrow> raise (PortalNotFound portal_name) c
         | Some portal \<Rightarrow> execute_portal fuel h portal_name portal c))"

section \<open>Startup\<close>

text \<open>pgwire's part of the startup: \<open>'m\<close> is a message, \<^verbatim>\<open>finish_authentication\<close> ends the exchange.\<close>

record ('c, 'm) startup_ops =
  su_negotiate :: "'m \<Rightarrow> ('c, unit) action"
  su_save_parameters :: "'m \<Rightarrow> 'c \<Rightarrow> 'c"
  su_into_password :: "'m \<Rightarrow> (pg_wire_error, string) result"
  su_generate_pid :: "'c \<Rightarrow> int"
  su_finish_authentication :: "('c, unit) action"

datatype 'm startup_message = StartupMessage 'm | PasswordMessage 'm | OtherMessage

definition connect_exasol :: "('x, 'b, 's, 'c, 'f, 'j, 'e, 't) handler \<Rightarrow> string \<Rightarrow> string \<Rightarrow>
    (pg_wire_error, ('x, 'b, 's, 'j) session_state) result" where
  "connect_exasol h username password =
     (case session_connect (\<lambda>cfg ep. h_connect_arrow h cfg ep username password)
        (\<lambda>cfg ep. h_connect_websocket h cfg ep username password) (exasol (h_config h)) of
        Inl e \<Rightarrow> Inl (map_exasol_connection_error e)
      | Inr session \<Rightarrow>
          let tr = translation (h_config h) in
          (case (if enabled tr \<and> sql_preprocessor_script tr \<noteq> []
                 then session_initialize (h_exec_ddl h) (session_init_sql tr) (sql_preprocessor_script tr) session
                 else (Inr (), session)) of
             (Inl e, _) \<Rightarrow> Inl (map_exasol_connection_error e)
           | (Inr _, session') \<Rightarrow>
               Inr \<lparr>ss_exasol = session', ss_extended_results = Map.empty, ss_cursors = Map.empty,
                    ss_current_schema = None\<rparr>))"

fun on_startup :: "('x, 'b, 's, 'c, 'f, 'j, 'e, 't) handler \<Rightarrow> (('x, 'b, 's, 'j, 't) client, 'm) startup_ops \<Rightarrow>
    'm startup_message \<Rightarrow> (('x, 'b, 's, 'j, 't) client, unit) action" where
  "on_startup h su (StartupMessage m) =
     andthen (su_negotiate su m) (\<lambda>_.
     andthen (modify (\<lambda>c. (su_save_parameters su m c)\<lparr>cl_state := AuthenticationInProgress\<rparr>)) (\<lambda>_.
       send_messages [MsgCleartextPassword]))"
| "on_startup h su (PasswordMessage m) =
     andthen (of_result (su_into_password su m)) (\<lambda>password.
     (\<lambda>c. case cl_user c of
            None \<Rightarrow> raise UserNameRequired c
          | Some username \<Rightarrow>
              andthen (of_result (connect_exasol h username password)) (\<lambda>session.
              andthen (put_session session) (\<lambda>_.
              andthen (modify (\<lambda>c. c\<lparr>cl_pid := su_generate_pid su c\<rparr>)) (\<lambda>_.
                su_finish_authentication su))) c))"
| "on_startup h su OtherMessage = pass ()"

end
