(* ===== verification/Session_Laws.thy ===== *)
theory Session_Laws
  imports Session
begin

text \<open>
  Laws of the session: rules for actions, what each handler keeps of the client, the reachable
  clients, and the properties of the session.
\<close>

section \<open>Actions\<close>

lemma need_session_Ret:
  "need_session c = Ret (r, c') \<longleftrightarrow> c' = c \<and>
     r = (case cl_session c of Some s \<Rightarrow> Inr s | None \<Rightarrow> Inl (pg_error ''08003'' ''Exasol session is not connected''))"
  by (auto simp: need_session_def split: option.splits)

lemmas action_Ret = andthen_Ret of_exec_Ret need_session_Ret put_session_def error_response_def

lemma keeps_session [keeps_rules]: "keeps P need_session" "keeps P (error_response code message)"
  by (auto simp: keeps_def need_session_Ret error_response_def)

lemma step_cursor_cases:
  assumes "step_cursor fuel h position rr respond c = Ret (r, c')"
  obtains (unconnected) "cl_session c = None" "c' = c" "r = Inl (pg_error ''08003'' ''Exasol session is not connected'')"
    | (missing) s where "cl_session c = Some s" "ss_cursors s (pos_name position) = None" "c' = c"
        "r = Inr [RespError ''34000'' (cursor_missing_message (pos_name position))]"
    | (refused) s cur e where "cl_session c = Some s" "ss_cursors s (pos_name position) = Some cur" "c' = c"
        "apply_cursor fuel (h_batch h) (pos_direction position) rr cur = Ret (Inl e)" "r = Inl e"
    | (moved) s cur st cur' where "cl_session c = Some s" "ss_cursors s (pos_name position) = Some cur"
        "apply_cursor fuel (h_batch h) (pos_direction position) rr cur = Ret (Inr (st, cur'))"
        "respond cur st (c\<lparr>cl_session := Some (s\<lparr>ss_cursors := (ss_cursors s)(pos_name position \<mapsto> cur')\<rparr>)\<rparr>) = Ret (r, c')"
proof (cases "cl_session c")
  case None
  then have "c' = c" "r = Inl (pg_error ''08003'' ''Exasol session is not connected'')"
    using assms by (auto simp: step_cursor_def action_Ret)
  then show ?thesis using None by (intro unconnected)
next
  case (Some s)
  show ?thesis
  proof (cases "ss_cursors s (pos_name position)")
    case None
    then have "c' = c" "r = Inr [RespError ''34000'' (cursor_missing_message (pos_name position))]"
      using assms Some by (auto simp: step_cursor_def action_Ret)
    then show ?thesis using Some None by (intro missing)
  next
    case cur: (Some cur)
    obtain x where x: "apply_cursor fuel (h_batch h) (pos_direction position) rr cur = Ret x"
      using assms Some cur by (auto simp: step_cursor_def action_Ret)
    show ?thesis
    proof (cases x)
      case (Inl e)
      then have "c' = c" "r = Inl e" using assms Some cur x by (auto simp: step_cursor_def action_Ret)
      then show ?thesis using Some cur x Inl by (intro refused [of s cur e]) simp_all
    next
      case (Inr y)
      obtain st cur' where y: "y = (st, cur')" by fastforce
      have "respond cur st (c\<lparr>cl_session := Some (s\<lparr>ss_cursors := (ss_cursors s)(pos_name position \<mapsto> cur')\<rparr>)\<rparr>) = Ret (r, c')"
        using assms Some cur x Inr y by (auto simp: step_cursor_def action_Ret)
      then show ?thesis using Some cur x Inr y by (intro moved [of s cur st cur']) simp_all
    qed
  qed
qed

section \<open>Steps of a client\<close>

text \<open>
  What can happen to a connection: a message of the startup, a simple query, Describe and Execute
  of the extended protocol, and what pgwire itself does in between: it binds and closes portals,
  and it changes the connection state and the transaction state.
\<close>

inductive client_step :: "nat \<Rightarrow> ('x, 'b, 's, 'c, 'f, 'j, 'e, 't) handler \<Rightarrow>
    (('x, 'b, 's, 'j, 't) client, 'm) startup_ops \<Rightarrow>
    ('x, 'b, 's, 'j, 't) client \<Rightarrow> ('x, 'b, 's, 'j, 't) client \<Rightarrow> bool"
  for fuel h su where
  startup: "on_startup h su m c = Ret (r, c') \<Longrightarrow> client_step fuel h su c c'"
| query: "execute_simple_query fuel h q c = Ret (r1, c') \<Longrightarrow> client_step fuel h su c c'"
| describe: "cl_portals c name = Some p \<Longrightarrow> do_describe_portal fuel h p c = Ret (r2, c') \<Longrightarrow> client_step fuel h su c c'"
| execute: "on_execute fuel h portal_name c = Ret (r, c') \<Longrightarrow> client_step fuel h su c c'"
| bind: "client_step fuel h su c (c\<lparr>cl_portals := (cl_portals c)(p_name p \<mapsto> p)\<rparr>)"
| close: "client_step fuel h su c (c\<lparr>cl_portals := (cl_portals c)(name := None)\<rparr>)"
| sync: "client_step fuel h su c (c\<lparr>cl_state := st, cl_tx := tx\<rparr>)"

inductive_cases client_stepE: "client_step fuel h su c c'"

definition new_client :: "'t \<Rightarrow> ('x, 'b, 's, 'j, 't) client" where
  "new_client tx = \<lparr>cl_session = None, cl_user = None, cl_pid = 0, cl_state = OtherState, cl_portals = Map.empty,
     cl_tx = tx, cl_sent = []\<rparr>"

inductive reachable :: "nat \<Rightarrow> ('x, 'b, 's, 'c, 'f, 'j, 'e, 't) handler \<Rightarrow>
    (('x, 'b, 's, 'j, 't) client, 'm) startup_ops \<Rightarrow> ('x, 'b, 's, 'j, 't) client \<Rightarrow> bool"
  for fuel h su where
  start: "reachable fuel h su (new_client tx)"
| step: "reachable fuel h su c \<Longrightarrow> client_step fuel h su c c' \<Longrightarrow> reachable fuel h su c'"

section \<open>Invariants of the session\<close>

text \<open>
  A property of the client that each single update keeps is kept by every handler and holds in
  every reachable client.
\<close>

locale session_invariant =
  fixes P :: "('x, 'b, 's, 'j, 't) client \<Rightarrow> bool"
    and h :: "('x, 'b, 's, 'c, 'f, 'j, 'e, 't) handler"
    and su :: "(('x, 'b, 's, 'j, 't) client, 'm) startup_ops"
  assumes exasol_law: "P c \<Longrightarrow> cl_session c = Some s \<Longrightarrow> h_exec_sql h (ss_exasol s) sql = (r, x) \<Longrightarrow>
      P (c\<lparr>cl_session := Some (s\<lparr>ss_exasol := x\<rparr>)\<rparr>)"
    and declare_law: "P c \<Longrightarrow> cl_session c = Some s \<Longrightarrow> ss_cursors s n = None \<Longrightarrow>
      P (c\<lparr>cl_session := Some (s\<lparr>ss_cursors := (ss_cursors s)(n \<mapsto>
          \<lparr>cur_data = d, cur_position = -1, cur_scroll = scroll, cur_hold = hold\<rparr>)\<rparr>)\<rparr>)"
    and step_law: "P c \<Longrightarrow> cl_session c = Some s \<Longrightarrow> ss_cursors s n = Some cur \<Longrightarrow>
      apply_cursor fuel (h_batch h) dir rr cur = Ret (Inr (st, cur')) \<Longrightarrow>
      P (c\<lparr>cl_session := Some (s\<lparr>ss_cursors := (ss_cursors s)(n \<mapsto> cur')\<rparr>)\<rparr>)"
    and drop_law: "P c \<Longrightarrow> cl_session c = Some s \<Longrightarrow> kept \<subseteq>\<^sub>m ss_cursors s \<Longrightarrow>
      P (c\<lparr>cl_session := Some (s\<lparr>ss_cursors := kept\<rparr>)\<rparr>)"
    and path_law: "P c \<Longrightarrow> cl_session c = Some s \<Longrightarrow> P (c\<lparr>cl_session := Some (s\<lparr>ss_current_schema := Some path\<rparr>)\<rparr>)"
    and results_law: "P c \<Longrightarrow> cl_session c = Some s \<Longrightarrow> P (c\<lparr>cl_session := Some (s\<lparr>ss_extended_results := results\<rparr>)\<rparr>)"
    and connect_law: "P c \<Longrightarrow> connect_exasol h username password = Inr s \<Longrightarrow> P (c\<lparr>cl_session := Some s\<rparr>)"
    and client_law: "P c \<Longrightarrow> P (c\<lparr>cl_state := cs\<rparr>)" "P c \<Longrightarrow> P (c\<lparr>cl_portals := ps\<rparr>)" "P c \<Longrightarrow> P (c\<lparr>cl_tx := tx\<rparr>)"
      "P c \<Longrightarrow> P (c\<lparr>cl_sent := ms\<rparr>)" "P c \<Longrightarrow> P (c\<lparr>cl_pid := pid\<rparr>)"
    and startup_law: "keeps P (su_negotiate su m)" "P c \<Longrightarrow> P (su_save_parameters su m c)"
      "keeps P (su_finish_authentication su)"
    and new_law: "P (new_client tx)"
begin

lemma keeps_exasol_sql: "keeps P (execute_exasol_sql h sql)"
  by (rule keepsI)
    (auto simp: execute_exasol_sql_def action_Ret of_result_def split: option.splits prod.splits sum.splits if_splits
      intro: exasol_law)

lemma keeps_insert_cursor: "keeps P (insert_cursor d data)"
  by (rule keepsI) (auto simp: insert_cursor_def action_Ret split: option.splits if_splits intro: declare_law)

lemma keeps_step_cursor:
  assumes "\<And>cur st. keeps P (respond cur st)"
  shows "keeps P (step_cursor fuel h position rr respond)"
  by (rule keepsI, erule step_cursor_cases) (auto intro: keepsD [OF assms] step_law)

lemma keeps_close_cursor: "keeps P (close_cursor plan)"
  by (rule keepsI)
    (auto simp: close_cursor_def action_Ret map_le_def split: option.splits cursor_close.splits if_splits intro!: drop_law)

lemma keeps_clear_cursors: "keeps P clear_non_hold_cursors"
  by (rule keepsI)
    (auto simp: clear_non_hold_cursors_def action_Ret map_le_def split: option.splits if_splits intro!: drop_law)

lemma keeps_cached:
  "keeps P (cache_extended_result name r)" "keeps P (take_cached_extended_result name)"
  by (rule keepsI, auto simp: cache_extended_result_def take_cached_extended_result_def action_Ret
      split: option.splits intro: results_law)+

lemma keeps_search_path: "keeps P (set_search_path h path)"
proof -
  have "keeps P (andthen need_session (\<lambda>s. andthen (put_session (s\<lparr>ss_current_schema := Some path\<rparr>)) (\<lambda>_.
          pass [RespExecution ''SET'' None])))"
    by (rule keepsI) (auto simp: action_Ret split: option.splits intro: path_law)
  then show ?thesis
    unfolding set_search_path_def
    by (rule keeps_andthen [OF keeps_session(1) keeps_andthen [OF keeps_exasol_sql]])
qed

lemmas keeps_primitive = keeps_exasol_sql keeps_insert_cursor keeps_close_cursor keeps_clear_cursors keeps_cached
  keeps_search_path

lemma keeps_client_updates:
  "keeps P (send_messages ms)" "keeps P (set_tx f)" "keeps P (modify (\<lambda>c. c\<lparr>cl_state := cs\<rparr>))"
  "keeps P (modify (\<lambda>c. c\<lparr>cl_state := cs, cl_portals := g c\<rparr>))"
  by (auto simp: send_messages_def set_tx_def intro!: keeps_modify client_law)

lemma keeps_cursor_plan: "keeps P (execute_cursor_plan fuel h plan)"
proof (cases plan)
  case (Declare d)
  have "keeps P (case outcome of ArrowRows bs \<Rightarrow> insert_cursor d (f bs) | TypedRows cols rows \<Rightarrow> insert_cursor d (g cols rows)
      | RowCount n \<Rightarrow> error_response code msg)" for outcome f g code msg
    by (cases outcome) (simp_all add: keeps_primitive keeps_rules)
  then show ?thesis
    unfolding Declare execute_cursor_plan.simps declare_cursor_def execute_client_sql_def
    by (intro keeps_rules keeps_exasol_sql)
next
  case (Fetch p)
  show ?thesis
    unfolding Fetch execute_cursor_plan.simps fetch_cursor_def
    by (rule keeps_step_cursor)
      (auto simp: fetch_response_def keeps_rules split: cursor_metadata.splits cursor_step_rows.splits)
next
  case (Move p)
  then show ?thesis by (simp add: move_cursor_def keeps_step_cursor keeps_rules)
next
  case (Close cl)
  then show ?thesis by (simp add: keeps_close_cursor)
qed

lemma keeps_plan: "keeps P (run_plan fuel h sql plan)"
  by (cases plan)
    (auto simp: keeps_primitive keeps_cursor_plan show_search_path_def execute_on_exasol_def
      intro!: keeps_rules keeps_primitive, auto simp: keeps_def)

lemma keeps_metadata_query: "keeps P (execute_metadata_query h sql)"
proof -
  have "keeps P (fetch_query_rows h q)" for q
    unfolding fetch_query_rows_def by (intro keeps_rules keeps_primitive) (auto simp: keeps_rules split: exasol_outcome.splits)
  moreover have "keeps P (execute_exasol_query h q)" for q
    unfolding execute_exasol_query_def Let_def by (intro keeps_rules keeps_primitive)
  ultimately show ?thesis
    unfolding execute_metadata_query_def
    by (intro keeps_rules) (auto intro!: keeps_rules split: catalog_answer.splits)
qed

lemma keeps_statement: "keeps P (execute_statement fuel h sql)"
  unfolding execute_statement_def by (intro keeps_rules keeps_metadata_query keeps_plan)

lemma keeps_run_statements: "keeps P (run_statements fuel h statements responses)"
  by (induction statements arbitrary: responses)
    (auto simp: execute_sql_def intro!: keeps_rules keeps_statement)

lemma keeps_simple_query: "keeps P (execute_simple_query fuel h q)"
  unfolding execute_simple_query_def Let_def by (intro keeps_rules keeps_run_statements)

lemma keeps_describe: "keeps P (do_describe_portal fuel h p)"
  unfolding do_describe_portal_def Let_def by (intro keeps_rules keeps_statement keeps_cached)

lemma keeps_extended_query: "keeps P (extended_do_query fuel h p)"
  unfolding extended_do_query_def
  by (intro keeps_rules) (auto intro!: keeps_rules keeps_statement split: sum.splits prod.splits)

lemma keeps_send_response: "keeps P (send_response h r d)"
  unfolding send_response_def
  by (auto intro!: keeps_rules keeps_client_updates split: response.splits prod.splits)

lemma keeps_execute_portal: "keeps P (execute_portal fuel h name portal)"
  unfolding execute_portal_def
  by (intro keeps_andthen keeps_client_updates keeps_cached keeps_send_response keeps_case_option keeps_basic
      keeps_extended_query)

lemma keeps_on_execute: "keeps P (on_execute fuel h name)"
  by (rule keepsI)
    (auto simp: on_execute_def Let_def split: if_splits option.splits intro: keepsD [OF keeps_execute_portal])

lemma keeps_on_startup: "keeps P (on_startup h su msg)"
proof (cases msg)
  case (StartupMessage m)
  show ?thesis
    unfolding StartupMessage on_startup.simps
    by (intro keeps_rules keeps_client_updates startup_law keeps_modify) (auto intro: client_law startup_law)
next
  case (PasswordMessage m)
  have login: "keeps P (\<lambda>c. case cl_user c of None \<Rightarrow> raise UserNameRequired c
      | Some username \<Rightarrow> andthen (of_result (connect_exasol h username password)) (\<lambda>session.
          andthen (put_session session) (\<lambda>_. andthen (modify (\<lambda>c. c\<lparr>cl_pid := su_generate_pid su c\<rparr>)) (\<lambda>_.
            su_finish_authentication su))) c)" for password
  proof (rule keepsI)
    fix c r c'
    assume P: "P c" and run: "(case cl_user c of None \<Rightarrow> raise UserNameRequired c
      | Some username \<Rightarrow> andthen (of_result (connect_exasol h username password)) (\<lambda>session.
          andthen (put_session session) (\<lambda>_. andthen (modify (\<lambda>c. c\<lparr>cl_pid := su_generate_pid su c\<rparr>)) (\<lambda>_.
            su_finish_authentication su))) c) = Ret (r, c')"
    show "P c'"
    proof (cases "cl_user c")
      case (Some u)
      show ?thesis
      proof (cases "connect_exasol h u password")
        case (Inr s)
        let ?c = "c\<lparr>cl_session := Some s, cl_pid := su_generate_pid su (c\<lparr>cl_session := Some s\<rparr>)\<rparr>"
        have "P ?c" using connect_law [OF P Inr] client_law(5) by blast
        moreover have "su_finish_authentication su ?c = Ret (r, c')"
          using run Some Inr by (auto simp: action_Ret)
        ultimately show ?thesis using keepsD [OF startup_law(3)] by blast
      qed (use P run Some in auto)
    qed (use P run in auto)
  qed
  show ?thesis unfolding PasswordMessage on_startup.simps by (intro keeps_rules login)
next
  case OtherMessage
  then show ?thesis by (simp add: keeps_rules)
qed

lemma step_keeps: "client_step fuel h su c c' \<Longrightarrow> P c \<Longrightarrow> P c'"
  by (induction rule: client_step.induct)
    (auto intro: keepsD [OF keeps_on_startup] keepsD [OF keeps_simple_query] keepsD [OF keeps_describe]
      keepsD [OF keeps_on_execute] client_law)

theorem reachable_keeps: "reachable fuel h su c \<Longrightarrow> P c"
  by (induction rule: reachable.induct) (auto intro: new_law step_keeps)

end

section \<open>Startup\<close>

text \<open>What the session relies on of pgwire's startup: it leaves the session extension alone.\<close>

locale startup_protocol =
  fixes su :: "(('x, 'b, 's, 'j, 't) client, 'm) startup_ops"
  assumes negotiate_frame: "su_negotiate su m c = Ret (r, c') \<Longrightarrow> cl_session c' = cl_session c"
    and save_frame: "cl_session (su_save_parameters su m c) = cl_session c"
    and finish_frame: "su_finish_authentication su c = Ret (r, c') \<Longrightarrow> cl_session c' = cl_session c"
begin

lemma startup_keeps:
  "keeps (\<lambda>c. Q (cl_session c)) (su_negotiate su m)"
  "Q (cl_session c) \<Longrightarrow> Q (cl_session (su_save_parameters su m c))"
  "keeps (\<lambda>c. Q (cl_session c)) (su_finish_authentication su)"
  by (auto simp: keeps_def negotiate_frame save_frame finish_frame)

end

section \<open>Cursors in range\<close>

definition cursor_ok :: "('b, 's, 'c) batch_ops \<Rightarrow> ('b, 's, 'col) gateway_cursor \<Rightarrow> bool" where
  "cursor_ok ops cur \<longleftrightarrow> -1 \<le> cur_position cur \<and>
     (\<forall>len. cursor_len ops (cur_data cur) = Inr len \<longrightarrow> cur_position cur \<le> len)"

definition session_ok :: "('b, 's, 'c) batch_ops \<Rightarrow> ('x, 'b, 's, 'j) session_state option \<Rightarrow> bool" where
  "session_ok ops so \<longleftrightarrow> (\<forall>s n cur. so = Some s \<longrightarrow> ss_cursors s n = Some cur \<longrightarrow> cursor_ok ops cur)"

lemma cursor_len_needed:
  "forward fuel ops count rr c = Ret (Inr p) \<Longrightarrow> \<exists>len. cursor_len ops (cur_data c) = Inr len"
  "backward fuel ops count rr c = Ret (Inr p) \<Longrightarrow> \<exists>len. cursor_len ops (cur_data c) = Inr len"
  "seek ops i rr c = Ret (Inr p) \<Longrightarrow> \<exists>len. cursor_len ops (cur_data c) = Inr len"
  "absolute ops i rr c = Ret (Inr p) \<Longrightarrow> \<exists>len. cursor_len ops (cur_data c) = Inr len"
  by (cases fuel; auto simp: forward.simps backward.simps seek_def absolute_def split: sum.splits)+

lemma apply_cursor_len: "apply_cursor fuel ops d rr c = Ret (Inr p) \<Longrightarrow> \<exists>len. cursor_len ops (cur_data c) = Inr len"
  by (cases d) (auto simp: apply_cursor_def relative_def split: if_splits dest: cursor_len_needed)

lemma cursor_ok_step:
  assumes "cursor_ok ops cur" and "apply_cursor fuel ops d rr cur = Ret (Inr (st, cur'))"
  shows "cursor_ok ops cur'"
proof -
  obtain len where "cursor_len ops (cur_data cur) = Inr len" using apply_cursor_len [OF assms(2)] by blast
  then have "pos_ok ops cur" using assms(1) by (auto simp: cursor_ok_def pos_ok_def)
  then show ?thesis using apply_cursor_pos [OF _ assms(2)] by (auto simp: cursor_ok_def pos_ok_def)
qed

lemma cursor_ok_new [simp]:
  "cursor_ok ops \<lparr>cur_data = d, cur_position = -1, cur_scroll = scroll, cur_hold = hold\<rparr>"
  by (auto simp: cursor_ok_def dest: cursor_len_nonneg)

lemma connect_exasol_fresh: "connect_exasol h u p = Inr s \<Longrightarrow> ss_cursors s = Map.empty"
  by (auto simp: connect_exasol_def Let_def split: sum.splits prod.splits if_splits)

lemma cursors_invariant:
  assumes "startup_protocol su"
  shows "session_invariant (\<lambda>c. session_ok (h_batch h) (cl_session c)) h su"
  by unfold_locales
    (auto simp: session_ok_def new_client_def map_le_def dom_def startup_protocol.save_frame [OF assms] split: if_splits
      dest: cursor_ok_step connect_exasol_fresh intro: startup_protocol.startup_keeps [OF assms])

section \<open>Which actions reach Exasol\<close>

definition exasol_of :: "('x, 'b, 's, 'j, 't) client \<Rightarrow> 'x option" where
  "exasol_of c = map_option ss_exasol (cl_session c)"

abbreviation quiet :: "(('x, 'b, 's, 'j, 't) client, 'a) action \<Rightarrow> bool" where
  "quiet m \<equiv> \<forall>x. keeps (\<lambda>c. exasol_of c = x) m"

text \<open>The plans that the gateway answers without Exasol.\<close>

fun answered_locally :: "statement_plan \<Rightarrow> bool" where
  "answered_locally (Execute _ _) = False"
| "answered_locally (SetSearchPath _) = False"
| "answered_locally (CursorStatement (Declare _)) = False"
| "answered_locally _ = True"

lemma quiet_cursor:
  assumes "\<And>cur st. quiet (respond cur st)"
  shows "quiet (step_cursor fuel h position rr respond)"
  using assms by (intro allI keepsI, elim step_cursor_cases) (auto simp: keeps_def exasol_of_def)

lemma quiet_fetch_response: "quiet (fetch_response cur st)"
  by (auto simp: fetch_response_def keeps_rules split: cursor_metadata.splits cursor_step_rows.splits)

lemma quiet_close: "quiet (close_cursor plan)" and quiet_clear: "quiet clear_non_hold_cursors"
  and quiet_cache: "quiet (cache_extended_result name r)" and quiet_take: "quiet (take_cached_extended_result name)"
  by (auto simp: keeps_def exasol_of_def close_cursor_def clear_non_hold_cursors_def cache_extended_result_def
      take_cached_extended_result_def action_Ret split: option.splits cursor_close.splits if_splits)

lemma quiet_plan: "answered_locally plan \<Longrightarrow> quiet (run_plan fuel h sql plan)"
proof (induction plan)
  case (CursorStatement plan)
  then show ?case
    by (cases plan) (simp_all add: fetch_cursor_def move_cursor_def quiet_cursor quiet_fetch_response quiet_close keeps_rules)
next
  case (BackendPid column)
  then show ?case by (simp add: keeps_def)
qed (auto simp: show_search_path_def keeps_rules quiet_clear)

lemma quiet_send: "quiet (send_response h r d)"
  unfolding send_response_def
  by (auto simp: send_messages_def set_tx_def exasol_of_def intro!: keeps_rules keeps_modify split: response.splits prod.splits)

section \<open>One response per statement\<close>

lemma map_exasol_result_single: "\<exists>r. map_exasol_result ops outcome command policy fold_labels = [r]"
  by (cases outcome) (auto simp: map_exasol_result_def)

lemma insert_cursor_single: "insert_cursor d data c = Ret (Inr rs, c') \<Longrightarrow> \<exists>r. rs = [r]"
  by (auto simp: insert_cursor_def action_Ret split: option.splits if_splits)

lemma cursor_plan_single: "execute_cursor_plan fuel h plan c = Ret (Inr rs, c') \<Longrightarrow> \<exists>r. rs = [r]"
proof (cases plan)
  case (Declare d)
  then show "execute_cursor_plan fuel h plan c = Ret (Inr rs, c') \<Longrightarrow> ?thesis"
    by (auto simp: declare_cursor_def action_Ret split: option.splits if_splits exasol_outcome.splits
        dest: insert_cursor_single) (metis exasol_outcome.exhaust insert_cursor_single)
next
  case (Fetch p)
  then show "execute_cursor_plan fuel h plan c = Ret (Inr rs, c') \<Longrightarrow> ?thesis"
    by (auto simp: fetch_cursor_def fetch_response_def elim!: step_cursor_cases
        split: cursor_metadata.splits cursor_step_rows.splits)
qed (auto simp: move_cursor_def close_cursor_def action_Ret elim!: step_cursor_cases
      split: option.splits if_splits cursor_close.splits)

lemma plan_single: "run_plan fuel h sql plan c = Ret (Inr rs, c') \<Longrightarrow> \<exists>r. rs = [r]"
  by (cases plan)
    (auto simp: set_search_path_def show_search_path_def execute_on_exasol_def action_Ret map_exasol_result_single
      dest: cursor_plan_single split: option.splits)

lemma statement_single: "execute_statement fuel h sql c = Ret (Inr rs, c') \<Longrightarrow> \<exists>r. rs = [r]"
  by (auto simp: execute_statement_def action_Ret split: option.splits dest: plan_single)

lemma execute_sql_single: "execute_sql fuel h sql c = Ret (Inr rs, c') \<Longrightarrow> \<exists>r. rs = [r]"
  by (auto simp: execute_sql_def action_Ret dest: statement_single)

section \<open>A session for the examples\<close>

text \<open>Exasol answers every statement with one row that holds its text; its state is the list of statements.\<close>

definition demo_pgwire :: "nat pgwire_ops" where
  "demo_pgwire =
     \<lparr>pw_send_query = (\<lambda>q d. ((if d then [MsgRowDescription (qr_fields q)] else []) @
        concat (map (\<lambda>r. case r of Inr row \<Rightarrow> [MsgDataRow row] | Inl _ \<Rightarrow> []) (qr_rows q)), None)),
      pw_in_transaction = (\<lambda>_. 1), pw_idle = (\<lambda>_. 0), pw_failed = (\<lambda>t. t),
      pw_default_name = ''unnamed'', pw_error_text = (\<lambda>_. ''error'')\<rparr>"

definition demo_connect :: "exasol_config \<Rightarrow> endpoint_connection \<Rightarrow> string \<Rightarrow> string \<Rightarrow> (exasol_error, string list) result" where
  "demo_connect cfg ep username password =
     (if password = ''secret'' then Inr [] else Inl (AuthenticationFailed ''wrong password''))"

definition demo_app_config :: app_config where
  "demo_app_config = \<lparr>server = default_server_config, exasol = demo_config, translation = default_translation_config\<lparr>enabled := False\<rparr>\<rparr>"

definition demo_handler ::
  "(string list, string option columnar, string list, string option list, string option list, json,
    field_info list \<times> text_row, nat) handler" where
  "demo_handler =
     \<lparr>h_config = demo_app_config, h_regex = bt_engine, h_transpile = Inl, h_json = json_data, h_fields = demo_schema,
      h_batch = columnar_ops, h_format = column_format, h_encoder = text_encoder, h_pgwire = demo_pgwire,
      h_connect_arrow = demo_connect, h_connect_websocket = demo_connect,
      h_exec_sql = (\<lambda>log sql. (Inr (TypedRows [\<lparr>col_name = ''SQL'', col_data_type = JString ''VARCHAR''\<rparr>] [[Some sql]]), log @ [sql])),
      h_exec_ddl = (\<lambda>log sql. (Inr (), log @ [sql]))\<rparr>"

type_synonym demo_client = "(string list, string option columnar, string list, json, nat) client"

definition demo_startup :: "(demo_client, string) startup_ops" where
  "demo_startup =
     \<lparr>su_negotiate = (\<lambda>_. pass ()), su_save_parameters = (\<lambda>m c. c\<lparr>cl_user := Some m\<rparr>), su_into_password = Inr,
      su_generate_pid = (\<lambda>_. 7), su_finish_authentication = modify (\<lambda>c. c\<lparr>cl_state := ReadyForQuery\<rparr>)\<rparr>"

interpretation demo_su: startup_protocol demo_startup
  by unfold_locales (auto simp: demo_startup_def)

interpretation demo_inv: session_invariant "\<lambda>c. session_ok (h_batch demo_handler) (cl_session c)" demo_handler demo_startup
  by (rule cursors_invariant [OF demo_su.startup_protocol_axioms])

definition demo_session :: "(string list, string option columnar, string list, json) session_state" where
  "demo_session = \<lparr>ss_exasol = [], ss_extended_results = Map.empty, ss_cursors = Map.empty, ss_current_schema = None\<rparr>"

definition demo_client :: demo_client where
  "demo_client = \<lparr>cl_session = Some demo_session, cl_user = Some ''sys'', cl_pid = 7, cl_state = ReadyForQuery,
     cl_portals = Map.empty, cl_tx = 0, cl_sent = [MsgCleartextPassword]\<rparr>"

definition demo_greeted :: demo_client where
  "demo_greeted = (new_client 0)\<lparr>cl_user := Some ''sys'', cl_state := AuthenticationInProgress, cl_sent := [MsgCleartextPassword]\<rparr>"

lemma demo_startup_run:
  "on_startup demo_handler demo_startup (StartupMessage ''sys'') (new_client 0) = Ret (Inr (), demo_greeted)"
  by (simp add: demo_startup_def send_messages_def andthen_def new_client_def demo_greeted_def)

lemma demo_login_run: "on_startup demo_handler demo_startup (PasswordMessage ''secret'') demo_greeted = Ret (Inr (), demo_client)"
proof -
  have "show_nat 8563 = ''8563''" by (simp add: show_nat.simps digit_char_def) code_simp
  then have "\<exists>ep. endpoint_parse (dsn demo_config) demo_config = Inr ep"
    using endpoint_parse_print [of 8563 "''exa''" "''abc''" "'',exa2:8563''" demo_config] by (simp add: demo_config_def is_ws_def)
  then have "session_connect (\<lambda>cfg ep. h_connect_arrow demo_handler cfg ep ''sys'' ''secret'')
      (\<lambda>cfg ep. h_connect_websocket demo_handler cfg ep ''sys'' ''secret'') (exasol (h_config demo_handler)) = Inr []"
    by (auto simp: session_connect_def demo_handler_def demo_app_config_def transport_from_config_def demo_connect_def)
      (auto simp: demo_config_def)
  then have "connect_exasol demo_handler ''sys'' ''secret'' = Inr demo_session"
    by (simp add: connect_exasol_def demo_session_def demo_handler_def demo_app_config_def default_translation_config_def)
  then show ?thesis
    by (simp add: demo_startup_def put_session_def andthen_def new_client_def demo_client_def demo_greeted_def)
qed

lemma demo_reachable: "reachable fuel demo_handler demo_startup demo_client"
  by (rule reachable.step [OF reachable.step [OF reachable.start client_step.startup [OF demo_startup_run]]
        client_step.startup [OF demo_login_run]])

definition demo_declare :: string where "demo_declare = ''DECLARE c CURSOR FOR SELECT a FROM t''"

lemma demo_detect:
  "detect bt_engine demo_declare = None" "detect bt_engine ''COMMIT'' = None"
  "detect bt_engine ''SET search_path TO sales'' = None" "detect bt_engine ''SHOW search_path'' = None"
proof -
  have "to_ascii_lowercase (take 6 (trim demo_declare)) \<noteq> ''select''" "to_ascii_lowercase (take 6 (trim ''COMMIT'')) \<noteq> ''select''"
    "to_ascii_lowercase (take 6 (trim ''SET search_path TO sales'')) \<noteq> ''select''"
    "to_ascii_lowercase (take 6 (trim ''SHOW search_path'')) \<noteq> ''select''" by code_simp+
  then show "detect bt_engine demo_declare = None" "detect bt_engine ''COMMIT'' = None"
    "detect bt_engine ''SET search_path TO sales'' = None" "detect bt_engine ''SHOW search_path'' = None"
    using detect_select [OF bt.regex_engine_axioms] by blast+
qed

lemma demo_detect_select: "detect bt_engine ''SELECT a FROM t'' = None"
  by code_simp

lemma demo_classify:
  "classify_statement bt_engine demo_declare = CursorStatement (Declare
     \<lparr>decl_name = ''c'', decl_query = ''SELECT a FROM t'', decl_scroll = False, decl_hold = False\<rparr>)"
  "classify_statement bt_engine ''SELECT a FROM t'' = Execute ''SELECT'' Omit"
  "classify_statement bt_engine ''COMMIT'' = ClientTransactionEnd ''COMMIT''"
  "classify_statement bt_engine ''SET search_path TO sales'' = SetSearchPath ''sales''"
  "classify_statement bt_engine ''SHOW search_path'' = ShowSearchPath"
  by code_simp+

lemmas demo_plans = demo_detect demo_detect_select demo_classify

lemma demo_fields [simp]:
  "h_regex demo_handler = bt_engine" "h_batch demo_handler = columnar_ops" "h_pgwire demo_handler = demo_pgwire"
  "h_json demo_handler = json_data" "h_fields demo_handler = demo_schema" "h_encoder demo_handler = text_encoder"
  "h_exec_sql demo_handler log sql =
     (Inr (TypedRows [\<lparr>col_name = ''SQL'', col_data_type = JString ''VARCHAR''\<rparr>] [[Some sql]]), log @ [sql])"
  "translate_client_sql demo_handler sql = Inr sql" "should_fold_labels demo_handler sql = False"
  by (simp_all add: demo_handler_def translate_client_sql_def should_fold_labels_def demo_app_config_def)

lemma execute_statement_plan:
  "detect (h_regex h) sql = None \<Longrightarrow>
     execute_statement fuel h sql = run_plan fuel h sql (classify_statement (h_regex h) sql)"
  by (simp add: execute_statement_def execute_metadata_query_def)

definition demo_cursor_state :: "(string option columnar, string list, json exasol_column) gateway_cursor" where
  "demo_cursor_state = \<lparr>cur_data = TypedData [\<lparr>col_name = ''SQL'', col_data_type = JString ''VARCHAR''\<rparr>] [[Some ''SELECT a FROM t'']],
     cur_position = -1, cur_scroll = False, cur_hold = False\<rparr>"

lemma exec_simps:
  "need_session c = (case cl_session c of Some s \<Rightarrow> pass s c
     | None \<Rightarrow> raise (pg_error ''08003'' ''Exasol session is not connected'') c)"
  "put_session s c = Ret (Inr (), c\<lparr>cl_session := Some s\<rparr>)"
  "andthen m f c = (case m c of Ret (r, c') \<Rightarrow> (case r of Inl e \<Rightarrow> Ret (Inl e, c') | Inr a \<Rightarrow> f a c')
     | Panic \<Rightarrow> Panic | Diverge \<Rightarrow> Diverge)"
  by (simp_all add: need_session_def put_session_def andthen_def) (cases "m c"; auto)

definition demo_declared :: demo_client where
  "demo_declared = demo_client\<lparr>cl_session := Some (demo_session\<lparr>ss_exasol := [''SELECT a FROM t''],
     ss_cursors := [''c'' \<mapsto> demo_cursor_state]\<rparr>)\<rparr>"

lemma demo_declare_run:
  "execute_simple_query fuel demo_handler demo_declare demo_client =
     Ret (Inr [to_response demo_handler (RespExecution ''DECLARE CURSOR'' None)], demo_declared)"
proof -
  have "split_simple_query demo_declare = [demo_declare]" by code_simp
  then show ?thesis
    by (simp add: execute_simple_query_def execute_sql_def execute_statement_plan demo_plans declare_cursor_def
        execute_client_sql_def execute_exasol_sql_def insert_cursor_def exec_simps demo_client_def demo_session_def
        demo_declared_def demo_cursor_state_def to_response_def execution_tag_def)
qed

lemma demo_declared_reachable: "reachable fuel demo_handler demo_startup demo_declared"
  by (rule reachable.step [OF demo_reachable client_step.query [OF demo_declare_run]])

section \<open>Properties\<close>

text \<open>
  The invariant of a session: in each client reachable by any sequence of startup messages,
  queries, Describe and Execute messages, every declared cursor has a position between -1 and the
  number of its rows, whatever Exasol answers and whatever the batch operations are.
\<close>

lemma session_cursors_in_range:
  assumes "startup_protocol su" and "reachable fuel h su c"
    and "cl_session c = Some s" and "ss_cursors s name = Some cur"
    and "cursor_len (h_batch h) (cur_data cur) = Inr len"
  shows "-1 \<le> cur_position cur \<and> cur_position cur \<le> len"
  using session_invariant.reachable_keeps [OF cursors_invariant [OF assms(1)] assms(2)] assms(3-5)
  by (auto simp: session_ok_def cursor_ok_def)

text \<open>
  C11. The end of a transaction closes exactly the cursors that were not declared WITH HOLD: the
  statement is answered, Exasol is not asked, and everything else of the client is as before.
\<close>

theorem transaction_end_keeps_hold:
  assumes "detect (h_regex h) sql = None" and "classify_statement (h_regex h) sql = ClientTransactionEnd command"
    and "cl_session c = Some s"
  shows "execute_statement fuel h sql c = Ret (Inr [RespTransactionEnd command],
    c\<lparr>cl_session := Some (s\<lparr>ss_cursors :=
      ss_cursors s |` {name. \<exists>cur. ss_cursors s name = Some cur \<and> cur_hold cur}\<rparr>)\<rparr>)"
proof -
  have "(\<lambda>name. case ss_cursors s name of Some cursor \<Rightarrow> if cur_hold cursor then Some cursor else None | None \<Rightarrow> None) =
      ss_cursors s |` {name. \<exists>cur. ss_cursors s name = Some cur \<and> cur_hold cur}"
    by (auto simp: restrict_map_def fun_eq_iff split: option.splits)
  then show ?thesis
    using assms by (simp add: execute_statement_plan clear_non_hold_cursors_def exec_simps)
qed

theorem transaction_end_keeps_hold_witness:
  "execute_statement 2 demo_handler ''COMMIT'' demo_declared = Ret (Inr [RespTransactionEnd ''COMMIT''],
     demo_client\<lparr>cl_session := Some (demo_session\<lparr>ss_exasol := [''SELECT a FROM t''], ss_cursors := Map.empty\<rparr>)\<rparr>)"
proof -
  have "[''c'' \<mapsto> demo_cursor_state] |` {name. \<exists>cur. [''c'' \<mapsto> demo_cursor_state] name = Some cur \<and> cur_hold cur} = Map.empty"
    by (auto simp: restrict_map_def fun_eq_iff demo_cursor_state_def)
  then show ?thesis
    using transaction_end_keeps_hold [of demo_handler "''COMMIT''" "''COMMIT''" demo_declared
        "demo_session\<lparr>ss_exasol := [''SELECT a FROM t''], ss_cursors := [''c'' \<mapsto> demo_cursor_state]\<rparr>" 2]
    by (simp add: demo_plans demo_declared_def)
qed

text \<open>
  C8. What the gateway answers itself never reaches Exasol: for a statement that is no catalog
  query and whose plan is not a query, a SET search_path or a DECLARE, the state of the Exasol
  session is the same after it, whatever its \<^verbatim>\<open>execute\<close> would do. Rejected statements are among
  them.
\<close>

theorem local_plans_never_reach_exasol:
  assumes "detect (h_regex h) sql = None" and "answered_locally (classify_statement (h_regex h) sql)"
    and "execute_statement fuel h sql c = Ret (r, c')"
  shows "exasol_of c' = exasol_of c"
  using assms quiet_plan [OF assms(2), of fuel h sql] by (auto simp: execute_statement_plan keeps_def)

theorem local_plans_never_reach_exasol_witness:
  "exasol_of (demo_client\<lparr>cl_session := Some (demo_session\<lparr>ss_exasol := [''SELECT a FROM t''], ss_cursors := Map.empty\<rparr>)\<rparr>)
     = exasol_of demo_declared"
proof (rule local_plans_never_reach_exasol)
  have "[''c'' \<mapsto> demo_cursor_state] |` {name. \<exists>cur. [''c'' \<mapsto> demo_cursor_state] name = Some cur \<and> cur_hold cur} = Map.empty"
    by (auto simp: restrict_map_def fun_eq_iff demo_cursor_state_def)
  have "(\<lambda>name. case [''c'' \<mapsto> demo_cursor_state] name of Some cursor \<Rightarrow> if cur_hold cursor then Some cursor else None | None \<Rightarrow> None) = Map.empty"
    by (auto simp: fun_eq_iff demo_cursor_state_def)
  then show "execute_statement 2 demo_handler ''COMMIT'' demo_declared = Ret (Inr [RespTransactionEnd ''COMMIT''],
     demo_client\<lparr>cl_session := Some (demo_session\<lparr>ss_exasol := [''SELECT a FROM t''], ss_cursors := Map.empty\<rparr>)\<rparr>)"
    by (simp add: execute_statement_plan demo_plans clear_non_hold_cursors_def exec_simps demo_declared_def)
qed (simp_all add: demo_plans)

lemma run_statements_spec:
  "run_statements fuel h sts acc c = Ret (Inr rs, c') \<Longrightarrow>
     \<exists>new. rs = acc @ new \<and> length new \<le> length sts \<and> list_all (\<lambda>r. \<not> is_error_response r) (butlast new) \<and>
       (length new = length sts \<or> is_error_response (last new)) \<and> (sts \<noteq> [] \<longrightarrow> new \<noteq> [])"
proof (induction sts arbitrary: acc c)
  case (Cons st sts)
  obtain rs1 c1 where 1: "execute_sql fuel h st c = Ret (Inr rs1, c1)"
    and rest: "(if list_ex is_error_response rs1 then pass (acc @ rs1) else run_statements fuel h sts (acc @ rs1)) c1 = Ret (Inr rs, c')"
    using Cons.prems by (auto simp: action_Ret)
  obtain r where r: "rs1 = [r]" using execute_sql_single [OF 1] by blast
  show ?case
  proof (cases "is_error_response r")
    case True
    then show ?thesis using rest r by (intro exI [of _ "[r]"]) auto
  next
    case False
    then have "run_statements fuel h sts (acc @ [r]) c1 = Ret (Inr rs, c')" using rest r by simp
    from Cons.IH [OF this] obtain new where
      "rs = (acc @ [r]) @ new \<and> length new \<le> length sts \<and> list_all (\<lambda>r. \<not> is_error_response r) (butlast new) \<and>
       (length new = length sts \<or> is_error_response (last new)) \<and> (sts \<noteq> [] \<longrightarrow> new \<noteq> [])" ..
    then show ?thesis using False by (intro exI [of _ "r # new"]) auto
  qed
qed simp



text \<open>
  C38. SET search_path and SHOW search_path: the schema is opened on Exasol as one quoted
  identifier. When Exasol accepts it, SHOW reports the schema; when Exasol refuses it, the client
  gets the error and SHOW reports what it reported before.
\<close>

theorem search_path_roundtrip:
  assumes "detect (h_regex h) set_sql = None" and "classify_statement (h_regex h) set_sql = SetSearchPath path"
    and "detect (h_regex h) show_sql = None" and "classify_statement (h_regex h) show_sql = ShowSearchPath"
    and "cl_session c = Some s" and "h_exec_sql h (ss_exasol s) (''OPEN SCHEMA '' @ quote_ident path) = (answer, x)"
  shows "\<exists>c'. cl_session c' = Some (s\<lparr>ss_exasol := x, ss_current_schema :=
        (case answer of Inr _ \<Rightarrow> Some path | Inl _ \<Rightarrow> ss_current_schema s)\<rparr>) \<and>
    execute_statement fuel h set_sql c =
      Ret (case answer of Inr _ \<Rightarrow> Inr [RespExecution ''SET'' None] | Inl e \<Rightarrow> Inl (map_exasol_execution_error e), c') \<and>
    execute_statement fuel h show_sql c' = Ret (Inr [RespQuery [''search_path''] [[Some (case answer of
      Inr _ \<Rightarrow> path | Inl _ \<Rightarrow> unwrap_or (ss_current_schema s) ''public'')]]], c')"
proof -
  have open_sql: "''OPEN SCHEMA '' @ [dquote] @ replace_text [dquote] [dquote, dquote] path @ [dquote] =
      ''OPEN SCHEMA '' @ quote_ident path"
    by (simp add: quote_ident_def replace_doubles)
  show ?thesis
    using assms open_sql
    by (cases answer)
      (simp_all add: execute_statement_plan set_search_path_def show_search_path_def execute_exasol_sql_def exec_simps
        unwrap_or_def)
qed

theorem search_path_roundtrip_witness:
  "\<exists>c'. execute_statement 2 demo_handler ''SET search_path TO sales'' demo_client = Ret (Inr [RespExecution ''SET'' None], c') \<and>
     execute_statement 2 demo_handler ''SHOW search_path'' c' = Ret (Inr [RespQuery [''search_path''] [[Some ''sales'']]], c')"
  using search_path_roundtrip [OF demo_detect(3) [folded demo_fields(1)] demo_classify(4) [folded demo_fields(1)]
      demo_detect(4) [folded demo_fields(1)] demo_classify(5) [folded demo_fields(1)], of demo_client demo_session _ _ 2]
  by (simp add: demo_client_def) blast

text \<open>The messages that Execute sends for a response that was described before.\<close>

fun described_messages :: "('x, 'b, 's, 'c, 'f, 'j, 'e, 't) handler \<Rightarrow> response \<Rightarrow> backend_message list" where
  "described_messages h EmptyQuery = [MsgEmptyQuery]"
| "described_messages h (QueryResponse results) = fst (pw_send_query (h_pgwire h) results False)"
| "described_messages h (ExecutionResponse t) = [MsgComplete t]"
| "described_messages h (TransactionStart t) = [MsgComplete t]"
| "described_messages h (TransactionEnd t) = [MsgComplete t]"
| "described_messages h (ErrorResponse severity sqlstate message) = [MsgError severity sqlstate message]"
| "described_messages h CopyResponse = []"

lemma send_described:
  "send_response h r (\<not> is_query_response r) c = Ret (res, c') \<Longrightarrow>
     cl_sent c' = cl_sent c @ described_messages h r \<and> cl_session c' = cl_session c"
  by (cases r)
    (auto simp: send_response_def send_messages_def set_tx_def action_Ret split: prod.splits option.splits)

lemma to_response_fields: "to_response h r = QueryResponse results \<Longrightarrow>
    response_fields (h_regex h) (h_json h) (h_fields h) r = qr_fields results"
  by (cases r) (auto simp: to_response_def query_response_text_def query_response_typed_def query_response_arrow_def Let_def)

lemma describe_caches:
  assumes "do_describe_portal fuel h p c = Ret (Inr fds, c1)"
  shows "\<exists>sql rs c0 s. render_portal_sql (h_regex h) p = Ret (Inr sql) \<and> execute_statement fuel h sql c = Ret (Inr rs, c0) \<and>
    cl_session c1 = Some s \<and> ss_extended_results s (p_name p) = Some (last_response rs) \<and>
    fds = response_fields (h_regex h) (h_json h) (h_fields h) (last_response rs)"
proof -
  obtain x where x: "render_portal_sql (h_regex h) p = Ret x"
    using assms by (auto simp: do_describe_portal_def action_Ret)
  with assms obtain sql where "x = Inr sql" by (cases x) (auto simp: do_describe_portal_def)
  with assms x obtain sql rs c0 where "render_portal_sql (h_regex h) p = Ret (Inr sql)" "execute_statement fuel h sql c = Ret (Inr rs, c0)"
    and "cache_extended_result (p_name p) (last_response rs) c0 = Ret (Inr (), c1)"
    and "fds = response_fields (h_regex h) (h_json h) (h_fields h) (last_response rs)"
    by (auto simp: do_describe_portal_def action_Ret Let_def)
  then show ?thesis
    by (fastforce simp: cache_extended_result_def action_Ret split: option.splits)
qed

lemma execute_cached:
  assumes "cl_state c = ReadyForQuery" and "cl_portals c name = Some q" and "cl_session c = Some s"
    and "ss_extended_results s name = Some r" and "on_execute fuel h (Some name) c = Ret (res, c2)"
  shows "cl_sent c2 = cl_sent c @ described_messages h (to_response h r) \<and> exasol_of c2 = exasol_of c"
proof -
  let ?c1 = "c\<lparr>cl_state := QueryInProgress, cl_session := Some (s\<lparr>ss_extended_results := (ss_extended_results s)(name := None)\<rparr>)\<rparr>"
  obtain res' c3 where "send_response h (to_response h r) (\<not> is_query_response (to_response h r)) ?c1 = Ret (res', c3)"
    and "cl_sent c2 = cl_sent c3" "cl_session c2 = cl_session c3"
    using assms
    by (auto simp: on_execute_def execute_portal_def unwrap_or_def take_cached_extended_result_def action_Ret
        split: if_splits)
  then show ?thesis using send_described assms(3) by (fastforce simp: exasol_of_def)
qed

text \<open>
  C39. Execute after Describe serves the described result. Execute of a portal that was described
  sends the result that Describe computed, without another row description, and does not run
  anything on Exasol; the row description the client has is the one of the rows it gets. It does
  so whatever portal is bound to the name by then: after another statement has been bound to the
  name, the rows of the old statement are still sent.
\<close>

theorem described_portal_serves_cache:
  assumes "do_describe_portal fuel h p c = Ret (Inr fds, c1)" and "cl_state c1 = ReadyForQuery"
    and "p_name q = p_name p"
    and "on_execute fuel' h (Some (p_name p)) (c1\<lparr>cl_portals := (cl_portals c1)(p_name q \<mapsto> q)\<rparr>) = Ret (res, c2)"
  shows "\<exists>sql rs c0. render_portal_sql (h_regex h) p = Ret (Inr sql) \<and> execute_statement fuel h sql c = Ret (Inr rs, c0) \<and>
    cl_sent c2 = cl_sent c1 @ described_messages h (to_response h (last_response rs)) \<and> exasol_of c2 = exasol_of c1 \<and>
    (\<forall>results. to_response h (last_response rs) = QueryResponse results \<longrightarrow> fds = qr_fields results)"
proof -
  obtain sql rs c0 s where d: "render_portal_sql (h_regex h) p = Ret (Inr sql)" "execute_statement fuel h sql c = Ret (Inr rs, c0)"
    "cl_session c1 = Some s" "ss_extended_results s (p_name p) = Some (last_response rs)"
    "fds = response_fields (h_regex h) (h_json h) (h_fields h) (last_response rs)"
    using describe_caches [OF assms(1)] by blast
  have "cl_sent c2 = cl_sent c1 @ described_messages h (to_response h (last_response rs)) \<and> exasol_of c2 = exasol_of c1"
    using execute_cached [OF _ _ _ d(4) assms(4), of q] assms(2,3) d(3) by (simp add: exasol_of_def)
  then show ?thesis using d to_response_fields by blast
qed

definition demo_named :: "string \<Rightarrow> portal" where
  "demo_named sql = \<lparr>p_name = ''p'', p_statement = sql, p_types = [], p_is_binary = (\<lambda>_. False), p_parameters = []\<rparr>"

definition demo_result :: "(string option columnar, string list, json) gateway_response" where
  "demo_result = RespTyped [\<lparr>col_name = ''SQL'', col_data_type = JString ''VARCHAR''\<rparr>] [[Some ''SELECT a FROM t'']] None False"

definition demo_described :: demo_client where
  "demo_described = demo_client\<lparr>cl_session := Some (demo_session\<lparr>ss_exasol := [''SELECT a FROM t''],
     ss_extended_results := [''p'' \<mapsto> demo_result]\<rparr>)\<rparr>"

lemma demo_render: "render_portal_sql E (demo_named sql) = Ret (Inr sql)" "p_name (demo_named sql) = ''p''"
  by (simp_all add: render_portal_sql_def demo_named_def)

lemma demo_describe_run:
  "do_describe_portal fuel demo_handler (demo_named ''SELECT a FROM t'') demo_client =
     Ret (Inr (response_fields bt_engine json_data demo_schema demo_result), demo_described)"
  by (simp add: do_describe_portal_def demo_render execute_statement_plan demo_plans execute_on_exasol_def
      execute_exasol_sql_def cache_extended_result_def exec_simps demo_client_def demo_session_def map_exasol_result_def
      last_response_def demo_result_def demo_described_def)

lemma demo_messages: "described_messages demo_handler (to_response demo_handler demo_result) = [MsgDataRow [Some ''SELECT a FROM t'']]"
proof -
  have t: "pg_type_for_exasol_data_type bt_engine json_data (JString ''VARCHAR'') = VARCHAR" by code_simp
  show ?thesis
    by (simp add: to_response_def demo_result_def query_response_typed_def typed_fields_def t
        demo_pgwire_def text_encoder_def row_values_def nth_opt_def unwrap_or_def finish_row_def)
qed

theorem described_portal_serves_cache_witness:
  "\<exists>c2. on_execute 2 demo_handler (Some ''p'') (demo_described\<lparr>cl_portals := [''p'' \<mapsto> demo_named ''SELECT b FROM u'']\<rparr>) = Ret (Inr (), c2) \<and>
     cl_sent c2 = cl_sent demo_described @ [MsgDataRow [Some ''SELECT a FROM t'']]"
proof -
  let ?q = "demo_named ''SELECT b FROM u''"
  have st: "cl_state demo_described = ReadyForQuery" "cl_portals demo_described = Map.empty"
    by (simp_all add: demo_described_def demo_client_def)
  have n: "p_name ?q = ''p''" "p_name (demo_named ''SELECT a FROM t'') = ''p''" by (simp_all add: demo_named_def)
  have "\<exists>c2. on_execute 2 demo_handler (Some ''p'') (demo_described\<lparr>cl_portals := [''p'' \<mapsto> ?q]\<rparr>) = Ret (Inr (), c2)"
    by (simp add: on_execute_def execute_portal_def take_cached_extended_result_def exec_simps unwrap_or_def st
        demo_described_def demo_client_def demo_session_def to_response_def demo_result_def send_response_def send_messages_def
        demo_pgwire_def split: prod.splits)
  then obtain c2 where c2: "on_execute 2 demo_handler (Some ''p'') (demo_described\<lparr>cl_portals := [''p'' \<mapsto> ?q]\<rparr>) = Ret (Inr (), c2)" ..
  obtain sql rs c0 where r: "render_portal_sql (h_regex demo_handler) (demo_named ''SELECT a FROM t'') = Ret (Inr sql)"
      "execute_statement 2 demo_handler sql demo_client = Ret (Inr rs, c0)"
      "cl_sent c2 = cl_sent demo_described @ described_messages demo_handler (to_response demo_handler (last_response rs))"
    using described_portal_serves_cache [OF demo_describe_run [of 2] st(1), of ?q 2 "Inr ()" c2] c2 n st(2) by auto
  have "sql = ''SELECT a FROM t''" using r(1) by (simp add: demo_render)
  then have "rs = [demo_result]"
    using r(2) by (simp add: demo_render execute_statement_plan demo_plans execute_on_exasol_def execute_exasol_sql_def
        exec_simps demo_client_def demo_session_def map_exasol_result_def demo_result_def)
  then show ?thesis using c2 r(3) demo_messages by (simp add: last_response_def)
qed

lemma cursor_move_error:
  "forward fuel ops count rr c = Ret (Inl e) \<Longrightarrow> e = pg_error ''54000'' ''cursor result set is too large''"
  "backward fuel ops count rr c = Ret (Inl e) \<Longrightarrow> e = pg_error ''54000'' ''cursor result set is too large''"
  "seek ops i rr c = Ret (Inl e) \<Longrightarrow> e = pg_error ''54000'' ''cursor result set is too large''"
  "absolute ops i rr c = Ret (Inl e) \<Longrightarrow> e = pg_error ''54000'' ''cursor result set is too large''"
proof -
  have len: "cursor_len ops d = Inl e \<Longrightarrow> e = pg_error ''54000'' ''cursor result set is too large''" for d e
    by (auto simp: cursor_len_def Let_def split: if_splits)
  have seek_error: "seek ops i rr c = Ret (Inl e) \<Longrightarrow> e = pg_error ''54000'' ''cursor result set is too large''" for i
    by (auto simp: seek_def stay_def Let_def split: sum.splits if_splits dest: len)
  show "seek ops i rr c = Ret (Inl e) \<Longrightarrow> e = pg_error ''54000'' ''cursor result set is too large''"
    by (rule seek_error)
  show "absolute ops i rr c = Ret (Inl e) \<Longrightarrow> e = pg_error ''54000'' ''cursor result set is too large''"
    by (auto simp: absolute_def stay_def split: sum.splits if_splits dest: len seek_error)
  have "(forward fuel ops count rr c = Ret (Inl e) \<longrightarrow> e = pg_error ''54000'' ''cursor result set is too large'') \<and>
      (backward fuel ops count rr c = Ret (Inl e) \<longrightarrow> e = pg_error ''54000'' ''cursor result set is too large'')"
  proof (induction fuel arbitrary: count)
    case (Suc fuel)
    then show ?case
      by (auto simp: forward.simps backward.simps move_defs Let_def bind_exec_Ret split: sum.splits option.splits if_splits dest: len)
  qed (simp add: forward.simps backward.simps)
  then show "forward fuel ops count rr c = Ret (Inl e) \<Longrightarrow> e = pg_error ''54000'' ''cursor result set is too large''"
    "backward fuel ops count rr c = Ret (Inl e) \<Longrightarrow> e = pg_error ''54000'' ''cursor result set is too large''" by blast+
qed

lemma apply_cursor_error:
  "apply_cursor fuel ops d rr c = Ret (Inl e) \<Longrightarrow>
     e \<in> {pg_error ''0A000'' ''cursor was declared NO SCROLL'', pg_error ''54000'' ''cursor result set is too large''}"
  by (cases d) (auto simp: apply_cursor_def relative_def split: if_splits dest: cursor_move_error)

lemma fetch_response_fits: "step_fits (cur_data cur) (step_rows st) \<Longrightarrow> \<exists>r. fetch_response cur st c = Ret (Inr [r], c)"
  by (cases "cur_data cur"; cases "step_rows st") (auto simp: fetch_response_def)



end
