(* ===== verification/Websocket.thy ===== *)
theory Websocket
  imports Effects Portal Json_Value Response
begin

text \<open>
  The transports (\<^verbatim>\<open>src/src/exasol/websocket_transport.rs\<close> and \<^verbatim>\<open>src/src/exasol/arrow_transport.rs\<close>).

  The WebSocket transport speaks Exasol's JSON protocol: login with an encrypted password, one
  request and one answer at a time, results fetched in chunks. The socket of tungstenite is a
  type variable \<open>'w\<close> with the operations \<open>ws_ops\<close>; JSON, RSA, base64, SHA-256, the TCP connect, the
  WebSocket handshake and rustls are arguments. The two loops (waiting for an answer, fetching
  chunks) may run forever, so they have fuel and \<open>Diverge\<close> when it ends. The Arrow transport calls
  exarrow, whose connection and result set are arguments.
\<close>

section \<open>Messages\<close>

text \<open>tungstenite's \<^verbatim>\<open>Message\<close>; \<open>CloseMsg\<close> carries the close frame as \<^verbatim>\<open>{close:?}\<close> prints it.\<close>

datatype message =
    TextMsg string
  | BinaryMsg "byte list"
  | PingMsg "byte list"
  | PongMsg "byte list"
  | CloseMsg string
  | FrameMsg

record 'w ws_ops =
  ws_send :: "message \<Rightarrow> 'w \<Rightarrow> (string, unit) result \<times> 'w"
  ws_next :: "'w \<Rightarrow> (string, message) result option \<times> 'w"
  ws_close :: "'w \<Rightarrow> (string, unit) result \<times> 'w"

type_synonym ('w, 'a) ws_action = "('w, exasol_error, 'a) effect"

definition closed_message :: string where
  "closed_message = ''Exasol closed websocket while waiting for response''"

text \<open>A text beyond U+00FF has no representation here; it counts as a request that fails.\<close>

fun response_text_from_message :: "message \<Rightarrow> (exasol_error, string option) result" where
  "response_text_from_message (TextMsg s) = Inr (Some s)"
| "response_text_from_message (BinaryMsg bytes) =
     (case from_utf8 bytes of
        Decoded s \<Rightarrow> Inr (Some s)
      | InvalidUtf8 off len \<Rightarrow> Inl (RequestFailed (''invalid UTF-8 response: '' @ utf8_error_text off len))
      | BeyondModel \<Rightarrow> Inl (RequestFailed ''text beyond U+00FF''))"
| "response_text_from_message (PongMsg _) = Inr None"
| "response_text_from_message FrameMsg = Inr None"
| "response_text_from_message (PingMsg _) = Inr None"
| "response_text_from_message (CloseMsg close) = Inl (RequestFailed (closed_message @ '': '' @ close))"

definition send_message :: "'w ws_ops \<Rightarrow> message \<Rightarrow> ('w, unit) ws_action" where
  "send_message W m = of_call RequestFailed (ws_send W m)"

definition next_message :: "'w ws_ops \<Rightarrow> ('w, message) ws_action" where
  "next_message W w =
     (case ws_next W w of
        (None, w') \<Rightarrow> raise (RequestFailed closed_message) w'
      | (Some (Inl e), w') \<Rightarrow> raise (RequestFailed e) w'
      | (Some (Inr m), w') \<Rightarrow> pass m w')"

primrec read_json_response :: "nat \<Rightarrow> 'w ws_ops \<Rightarrow> ('w, string) ws_action" where
  "read_json_response 0 W = (\<lambda>w. Diverge)"
| "read_json_response (Suc fuel) W =
     andthen (next_message W) (\<lambda>m.
       case m of
         PingMsg payload \<Rightarrow> andthen (send_message W (PongMsg payload)) (\<lambda>_. read_json_response fuel W)
       | other \<Rightarrow>
           andthen (of_result (response_text_from_message other)) (\<lambda>text.
             case text of Some s \<Rightarrow> pass s | None \<Rightarrow> read_json_response fuel W))"

section \<open>Requests\<close>

definition status_ok :: "'j json_ops \<Rightarrow> 'j \<Rightarrow> bool" where
  "status_ok J v \<longleftrightarrow> Option.bind (jv_get J v ''status'') (jv_as_str J) = Some ''ok''"

definition exception_error :: "'j json_ops \<Rightarrow> 'j \<Rightarrow> exasol_error" where
  "exception_error J v =
     (let sql_code = unwrap_or (Option.bind (jv_pointer J v ''/exception/sqlCode'') (jv_as_str J)) ''unknown'';
          text = unwrap_or (Option.bind (jv_pointer J v ''/exception/text'') (jv_as_str J)) ''unknown Exasol error''
      in ExecutionFailed (text @ '' (SQL code: '' @ sql_code @ '')''))"

definition request :: "nat \<Rightarrow> 'j json_ops \<Rightarrow> 'w ws_ops \<Rightarrow> 'j \<Rightarrow> ('w, 'j) ws_action" where
  "request fuel J W req =
     andthen (send_message W (TextMsg (jv_text J req))) (\<lambda>_.
     andthen (read_json_response fuel W) (\<lambda>text.
       case jv_parse J text of
         Inl e \<Rightarrow> raise (RequestFailed e)
       | Inr v \<Rightarrow> if status_ok J v then pass v else raise (exception_error J v)))"

section \<open>Results\<close>

definition value_to_text :: "'j json_ops \<Rightarrow> 'j option \<Rightarrow> string option" where
  "value_to_text J value =
     (case value of
        None \<Rightarrow> None
      | Some v \<Rightarrow>
          (case jv_view J v of
             VNull \<Rightarrow> None
           | VString s \<Rightarrow> Some s
           | VBool b \<Rightarrow> Some (if b then ''t'' else ''f'')
           | VNumber \<Rightarrow> Some (jv_text J v)
           | _ \<Rightarrow> Some (jv_text J v)))"

text \<open>The rows of a column-major result: as many as the longest column has values.\<close>

definition transpose_data :: "'j json_ops \<Rightarrow> 'j option \<Rightarrow> text_row list" where
  "transpose_data J data =
     (case Option.bind data (jv_as_array J) of
        None \<Rightarrow> []
      | Some cols \<Rightarrow>
          let row_count = fold max (map length (List.map_filter (jv_as_array J) cols)) 0 in
          map (\<lambda>row_idx. map (\<lambda>col. value_to_text J
              (Option.bind (jv_as_array J col) (\<lambda>values. nth_opt values row_idx))) cols) [0..<row_count])"

definition parse_columns :: "'j json_ops \<Rightarrow> 'j \<Rightarrow> (exasol_error, 'j exasol_column list) result" where
  "parse_columns J result_set =
     (case Option.bind (jv_get J result_set ''columns'') (jv_as_array J) of
        None \<Rightarrow> Inl (ExecutionFailed ''missing resultSet columns'')
      | Some cols \<Rightarrow>
          Inr (map (\<lambda>col.
            \<lparr>col_name = unwrap_or (Option.bind (jv_get J col ''name'') (jv_as_str J)) ''column'',
             col_data_type = unwrap_or (jv_get J col ''dataType'') (jv_null J)\<rparr>) cols))"

definition fetch_request :: "'j json_ops \<Rightarrow> nat \<Rightarrow> nat \<Rightarrow> 'j" where
  "fetch_request J handle num_fetched =
     jv_object J
       [(''command'', jv_string J ''fetch''),
        (''resultSetHandle'', jv_uint J handle),
        (''startPosition'', jv_uint J num_fetched),
        (''numBytes'', jv_uint J 5242880)]"

text \<open>The rows a message carries and how many it says it carries; \<^verbatim>\<open>usize\<close> has 64 bits.\<close>

definition message_rows :: "'j json_ops \<Rightarrow> string \<Rightarrow> 'j \<Rightarrow> text_row list \<times> nat" where
  "message_rows J count_key v =
     (let rows = transpose_data J (jv_get J v ''data'') in
      (rows, unwrap_or (Option.bind (jv_get J v count_key) (jv_as_u64 J)) (length rows)))"

primrec fetch_loop :: "nat \<Rightarrow> nat \<Rightarrow> 'j json_ops \<Rightarrow> 'w ws_ops \<Rightarrow> nat \<Rightarrow> nat \<Rightarrow> nat \<Rightarrow> text_row list \<Rightarrow>
    ('w, text_row list) ws_action" where
  "fetch_loop 0 rfuel J W handle result_rows num_fetched rows =
     (if num_fetched < result_rows then (\<lambda>w. Diverge) else pass rows)"
| "fetch_loop (Suc fuel) rfuel J W handle result_rows num_fetched rows =
     (if num_fetched < result_rows then
        andthen (request rfuel J W (fetch_request J handle num_fetched)) (\<lambda>ret.
          case jv_get J ret ''responseData'' of
            None \<Rightarrow> raise (ExecutionFailed ''missing fetch responseData'')
          | Some chunk \<Rightarrow>
              (let (chunk_rows, n) = message_rows J ''numRows'' chunk in
               fetch_loop fuel rfuel J W handle result_rows ((num_fetched + n) mod 2 ^ 64) (rows @ chunk_rows)))
      else pass rows)"

definition parse_result_set :: "nat \<Rightarrow> nat \<Rightarrow> 'j json_ops \<Rightarrow> 'w ws_ops \<Rightarrow> 'j \<Rightarrow> ('w, ('b, 'j) exasol_outcome) ws_action" where
  "parse_result_set fuel rfuel J W result_value =
     (case jv_get J result_value ''resultSet'' of
        None \<Rightarrow> raise (ExecutionFailed ''missing resultSet'')
      | Some result_set \<Rightarrow>
          andthen (of_result (parse_columns J result_set)) (\<lambda>cols.
            let result_rows = unwrap_or (Option.bind (jv_get J result_set ''numRows'') (jv_as_u64 J)) 0;
                (rows, num_fetched) = message_rows J ''numRowsInMessage'' result_set
            in
            andthen (case Option.bind (jv_get J result_set ''resultSetHandle'') (jv_as_u64 J) of
                None \<Rightarrow> pass rows
              | Some handle \<Rightarrow> fetch_loop fuel rfuel J W handle result_rows num_fetched rows)
              (\<lambda>rows. pass (TypedRows cols rows))))"

definition execute_request :: "'j json_ops \<Rightarrow> string \<Rightarrow> 'j" where
  "execute_request J sql = jv_object J [(''command'', jv_string J ''execute''), (''sqlText'', jv_string J sql)]"

definition ws_execute :: "nat \<Rightarrow> nat \<Rightarrow> 'j json_ops \<Rightarrow> 'w ws_ops \<Rightarrow> string \<Rightarrow> ('w, ('b, 'j) exasol_outcome) ws_action" where
  "ws_execute fuel rfuel J W sql =
     andthen (request rfuel J W (execute_request J sql)) (\<lambda>ret.
       case jv_pointer J ret ''/responseData/results/0'' of
         None \<Rightarrow> raise (ExecutionFailed ''missing execute result'')
       | Some result_value \<Rightarrow>
           (case Option.bind (jv_get J result_value ''resultType'') (jv_as_str J) of
              None \<Rightarrow> raise (ExecutionFailed ''missing resultType'')
            | Some kind \<Rightarrow>
                if kind = ''rowCount''
                then pass (RowCount (unwrap_or (Option.bind (jv_get J result_value ''rowCount'') (jv_as_i64 J)) 0))
                else if kind = ''resultSet'' then parse_result_set fuel rfuel J W result_value
                else raise (ExecutionFailed (''unsupported resultType: '' @ kind))))"

definition ws_execute_update :: "nat \<Rightarrow> nat \<Rightarrow> 'j json_ops \<Rightarrow> 'w ws_ops \<Rightarrow> string \<Rightarrow> ('w, unit) ws_action" where
  "ws_execute_update fuel rfuel J W sql =
     andthen (ws_execute fuel rfuel J W sql) (\<lambda>outcome :: (unit, _) exasol_outcome.
       case outcome of
         RowCount _ \<Rightarrow> pass ()
       | _ \<Rightarrow> raise (ExecutionFailed ''execute_update received a result-set response; expected row count only''))"

text \<open>\<^verbatim>\<open>close\<close> ignores what sending and closing report.\<close>

definition ws_shutdown :: "'j json_ops \<Rightarrow> 'w ws_ops \<Rightarrow> ('w, unit) ws_action" where
  "ws_shutdown J W w =
     (let (_, w') = ws_send W (TextMsg (jv_text J (jv_object J [(''command'', jv_string J ''disconnect'')]))) w;
          (_, w'') = ws_close W w'
      in pass () w'')"

section \<open>Certificates\<close>

text \<open>
  The verifier the handshake uses. \<open>'r\<close> is rustls' store of root certificates; \<open>webpki\<close> is its
  check of a certificate against the store.
\<close>

datatype 'r verifier = RootStore 'r | NoCertVerifier | FingerprintVerifier string

datatype 'r connector = PlainConnector | RustlsConnector "'r verifier"

definition hex_digit :: "nat \<Rightarrow> char" where
  "hex_digit n = (if n < 10 then char_of (48 + n) else char_of (55 + n))"

definition hex_upper :: "byte list \<Rightarrow> string" where
  "hex_upper bytes = concat (map (\<lambda>b. [hex_digit (unat b div 16), hex_digit (unat b mod 16)]) bytes)"

definition certificate_sha256_hex :: "(byte list \<Rightarrow> byte list) \<Rightarrow> byte list \<Rightarrow> string" where
  "certificate_sha256_hex sha256 cert_der = hex_upper (sha256 cert_der)"

definition verify_fingerprint :: "(byte list \<Rightarrow> byte list) \<Rightarrow> string \<Rightarrow> byte list \<Rightarrow> (exasol_error, unit) result" where
  "verify_fingerprint sha256 expected cert_der =
     (let actual = certificate_sha256_hex sha256 cert_der in
      if actual \<noteq> to_ascii_uppercase expected
      then Inl (ConnectionFailed (''certificate fingerprint mismatch: expected '' @ expected @ '', got '' @ actual))
      else Inr ())"

fun verify_server_cert :: "(byte list \<Rightarrow> byte list) \<Rightarrow> ('r \<Rightarrow> byte list \<Rightarrow> (string, unit) result) \<Rightarrow>
    'r verifier \<Rightarrow> byte list \<Rightarrow> (string, unit) result" where
  "verify_server_cert sha256 webpki (RootStore roots) cert = webpki roots cert"
| "verify_server_cert sha256 webpki NoCertVerifier cert = Inr ()"
| "verify_server_cert sha256 webpki (FingerprintVerifier expected) cert =
     (case verify_fingerprint sha256 expected cert of
        Inl e \<Rightarrow> Inl (exasol_error_text e)
      | Inr _ \<Rightarrow> Inr ())"

text \<open>
  The check of the handshake's signature, for TLS 1.2 and 1.3: the gateway's own verifiers accept
  every signature.
\<close>

fun verify_tls_signature :: "('r \<Rightarrow> byte list \<Rightarrow> byte list \<Rightarrow> byte list \<Rightarrow> (string, unit) result) \<Rightarrow>
    'r verifier \<Rightarrow> byte list \<Rightarrow> byte list \<Rightarrow> byte list \<Rightarrow> (string, unit) result" where
  "verify_tls_signature webpki_sig (RootStore roots) msg cert dss = webpki_sig roots msg cert dss"
| "verify_tls_signature webpki_sig NoCertVerifier msg cert dss = Inr ()"
| "verify_tls_signature webpki_sig (FingerprintVerifier expected) msg cert dss = Inr ()"

definition default_client_config :: "('r \<Rightarrow> 'cert \<Rightarrow> (string, 'r) result) \<Rightarrow> 'r \<Rightarrow> 'cert list \<Rightarrow> 'r verifier" where
  "default_client_config add_root no_roots native_certs =
     RootStore (fold (\<lambda>cert roots. case add_root roots cert of Inl _ \<Rightarrow> roots | Inr roots' \<Rightarrow> roots') native_certs no_roots)"

definition build_connector :: "'r verifier \<Rightarrow> exasol_config \<Rightarrow> endpoint_connection \<Rightarrow> 'r connector" where
  "build_connector default_verifier config ep =
     (if \<not> encryption config then PlainConnector
      else RustlsConnector
        (case ep_fingerprint ep of
           Some fp \<Rightarrow> if fp = ''NOCERTCHECK'' then NoCertVerifier else FingerprintVerifier fp
         | None \<Rightarrow> default_verifier))"

section \<open>Login\<close>

text \<open>
  What the transport takes from its environment: the crypto of the login, the version, the
  operating system and the user it reports, the TCP connect and the WebSocket handshake.
\<close>

record ('w, 'n, 'r) ws_env =
  we_ws :: "'w ws_ops"
  we_rsa_encrypt :: "string \<Rightarrow> byte list \<Rightarrow> (string, byte list) result"
  we_base64 :: "byte list \<Rightarrow> string"
  we_version :: string
  we_os :: string
  we_user :: "string option"
  we_tcp_connect :: "string \<Rightarrow> nat \<Rightarrow> (string, 'n) result"
  we_handshake :: "string \<Rightarrow> 'n \<Rightarrow> 'r connector \<Rightarrow> (string, 'w) result"
  we_default_verifier :: "'r verifier"

definition encrypt_password :: "('w, 'n, 'r) ws_env \<Rightarrow> string \<Rightarrow> string \<Rightarrow> (exasol_error, string) result" where
  "encrypt_password env public_key_pem password =
     (case we_rsa_encrypt env public_key_pem (utf8_encode password) of
        Inl e \<Rightarrow> Inl (AuthenticationFailed e)
      | Inr encrypted \<Rightarrow> Inr (we_base64 env encrypted))"

definition login_request :: "'j json_ops \<Rightarrow> 'j" where
  "login_request J = jv_object J [(''command'', jv_string J ''login''), (''protocolVersion'', jv_uint J 3)]"

definition credentials_request :: "'j json_ops \<Rightarrow> ('w, 'n, 'r) ws_env \<Rightarrow> exasol_config \<Rightarrow> string \<Rightarrow> string \<Rightarrow> 'j" where
  "credentials_request J env config username encrypted_password =
     jv_object J
       [(''username'', jv_string J username),
        (''password'', jv_string J encrypted_password),
        (''driverName'', jv_string J ''exa-postgres-interface''),
        (''clientName'', jv_string J ''exa-postgres-interface''),
        (''clientVersion'', jv_string J (we_version env)),
        (''clientOs'', jv_string J (we_os env)),
        (''clientOsUsername'', jv_string J (unwrap_or (we_user env) ''unknown'')),
        (''clientRuntime'', jv_string J ''Rust''),
        (''useCompression'', jv_bool J False),
        (''attributes'', jv_object J
          [(''currentSchema'', jv_string J (schema config)),
           (''autocommit'', jv_bool J True),
           (''queryTimeout'', jv_uint J 0)])]"

definition ws_login :: "nat \<Rightarrow> 'j json_ops \<Rightarrow> ('w, 'n, 'r) ws_env \<Rightarrow> exasol_config \<Rightarrow> string \<Rightarrow> string \<Rightarrow> ('w, unit) ws_action" where
  "ws_login rfuel J env config username password =
     andthen (request rfuel J (we_ws env) (login_request J)) (\<lambda>ret.
       case Option.bind (jv_pointer J ret ''/responseData/publicKeyPem'') (jv_as_str J) of
         None \<Rightarrow> raise (AuthenticationFailed ''missing Exasol public key'')
       | Some public_key_pem \<Rightarrow>
           andthen (of_result (encrypt_password env public_key_pem password)) (\<lambda>encrypted_password.
           andthen (map_raise (\<lambda>e. AuthenticationFailed (exasol_error_text e))
               (request rfuel J (we_ws env) (credentials_request J env config username encrypted_password)))
             (\<lambda>_. pass ())))"

definition ws_url :: "exasol_config \<Rightarrow> endpoint_connection \<Rightarrow> string" where
  "ws_url config ep =
     (if encryption config then ''wss'' else ''ws'') @ ''://'' @ ep_host ep @ '':'' @ show_nat (ep_port ep) @ ''/''"

definition ws_connect :: "nat \<Rightarrow> 'j json_ops \<Rightarrow> ('w, 'n, 'r) ws_env \<Rightarrow> exasol_config \<Rightarrow> endpoint_connection \<Rightarrow>
    string \<Rightarrow> string \<Rightarrow> (exasol_error, 'w) result exec" where
  "ws_connect rfuel J env config ep username password =
     (if \<not> pass_client_credentials config
      then Ret (Inl (AuthenticationFailed ''only client credential passthrough is implemented''))
      else
        (case we_tcp_connect env (ep_host ep) (ep_port ep) of
           Inl e \<Rightarrow> Ret (Inl (ConnectionFailed e))
         | Inr tcp \<Rightarrow>
             (case we_handshake env (ws_url config ep) tcp
                (build_connector (we_default_verifier env) config ep) of
                Inl e \<Rightarrow> Ret (Inl (ConnectionFailed e))
              | Inr ws \<Rightarrow>
                  bind_exec (ws_login rfuel J env config username password ws) (\<lambda>(r, ws').
                    Ret (case r of Inl e \<Rightarrow> Inl e | Inr _ \<Rightarrow> Inr ws')))))"

section \<open>The Arrow transport\<close>

text \<open>exarrow: a connection \<open>'x\<close>, a result set \<open>'q\<close> with its row count and its schema, and batches.\<close>

record ('x, 'q, 'b, 's) arrow_driver =
  ad_execute :: "string \<Rightarrow> 'x \<Rightarrow> (string, 'q) result \<times> 'x"
  ad_row_count :: "'q \<Rightarrow> int option"
  ad_metadata_schema :: "'q \<Rightarrow> 's option"
  ad_fetch_all :: "'q \<Rightarrow> 'x \<Rightarrow> (string, 'b list) result \<times> 'x"
  ad_run_update :: "string \<Rightarrow> 'x \<Rightarrow> (string, int) result \<times> 'x"
  ad_close :: "'x \<Rightarrow> (string, unit) result \<times> 'x"
  ad_new_empty :: "'s \<Rightarrow> 'b"

definition backfill_schema_when_empty :: "('s \<Rightarrow> 'b) \<Rightarrow> 'b list \<Rightarrow> 's option \<Rightarrow> 'b list" where
  "backfill_schema_when_empty new_empty batches schema_opt =
     (if batches \<noteq> [] then batches
      else
        (case schema_opt of
           Some sch \<Rightarrow> [new_empty sch]
         | None \<Rightarrow> batches))"

definition arrow_execute :: "('x, 'q, 'b, 's) arrow_driver \<Rightarrow> string \<Rightarrow> ('x, exasol_error, ('b, 'j) exasol_outcome) effect" where
  "arrow_execute D sql =
     andthen (of_call ExecutionFailed (ad_execute D sql)) (\<lambda>result_set.
       case ad_row_count D result_set of
         Some count \<Rightarrow> pass (RowCount count)
       | None \<Rightarrow>
           (let schema_opt = ad_metadata_schema D result_set in
            andthen (of_call ExecutionFailed (ad_fetch_all D result_set)) (\<lambda>batches.
              pass (ArrowRows (backfill_schema_when_empty (ad_new_empty D) batches schema_opt)))))"

definition arrow_execute_update :: "('x, 'q, 'b, 's) arrow_driver \<Rightarrow> string \<Rightarrow> ('x, exasol_error, unit) effect" where
  "arrow_execute_update D sql = andthen (of_call ExecutionFailed (ad_run_update D sql)) (\<lambda>_. pass ())"

definition arrow_close :: "('x, 'q, 'b, 's) arrow_driver \<Rightarrow> ('x, exasol_error, unit) effect" where
  "arrow_close D = of_call ConnectionFailed (ad_close D)"

end
