(* ===== verification/Transport_Laws.thy ===== *)
theory Transport_Laws
  imports Websocket
begin

text \<open>
  Laws of the transports: which errors a statement can have, how a request and its answer are
  paired on a socket that also carries pings and progress frames, that a result is fetched
  completely, and which servers a pinned certificate admits.
\<close>

section \<open>Errors of a statement\<close>

definition raises :: "'e set \<Rightarrow> ('c, 'e, 'a) effect \<Rightarrow> bool" where
  "raises S m \<longleftrightarrow> (\<forall>c e c'. m c = Ret (Inl e, c') \<longrightarrow> e \<in> S)"

named_theorems raises_rules \<open>which errors an action can have\<close>

lemma raises_basic [raises_rules]:
  "raises S (pass a)" "e \<in> S \<Longrightarrow> raises S (raise e)" "raises S (\<lambda>c. Diverge)" "raises S (\<lambda>c. Ret (Inr a, c))"
  "(\<And>e. x = Inl e \<Longrightarrow> e \<in> S) \<Longrightarrow> raises S (of_result x)"
  by (auto simp: raises_def of_result_def split: sum.splits)

lemma raises_andthen [raises_rules]: "raises S m \<Longrightarrow> (\<And>a. raises S (f a)) \<Longrightarrow> raises S (andthen m f)"
  unfolding raises_def andthen_Ret by blast

lemma raises_of_call [raises_rules]: "(\<And>text. err text \<in> S) \<Longrightarrow> raises S (of_call err f)"
  by (auto simp: raises_def of_call_def split: prod.splits sum.splits)

lemma raises_cases [raises_rules]:
  "raises S m \<Longrightarrow> (\<And>a. raises S (f a)) \<Longrightarrow> raises S (case x of None \<Rightarrow> m | Some a \<Rightarrow> f a)"
  "raises S m \<Longrightarrow> raises S m' \<Longrightarrow> raises S (if b then m else m')"
  by (cases x) auto

text \<open>
  The \<^verbatim>\<open>ExasolTransport\<close> trait as the session uses it: a statement fails in the request or in its
  execution, never with a connection or login error.
\<close>

definition statement_errors :: "exasol_error set" where
  "statement_errors = range RequestFailed \<union> range ExecutionFailed"

lemma statement_errors_mem [simp]: "RequestFailed msg \<in> statement_errors" "ExecutionFailed msg \<in> statement_errors"
  by (simp_all add: statement_errors_def)

locale exasol_transport =
  fixes run_sql :: "string \<Rightarrow> ('x, exasol_error, ('b, 'j) exasol_outcome) effect"
    and run_update :: "string \<Rightarrow> ('x, exasol_error, unit) effect"
  assumes sql_errors: "raises statement_errors (run_sql sql)"
    and update_errors: "raises statement_errors (run_update sql)"
begin

lemma client_sees_statement_error:
  assumes "run_sql sql x = Ret (Inl e, x')"
  shows "\<exists>text. map_exasol_execution_error e = pg_error ''XX000'' (''Exasol request failed: '' @ text) \<or>
    map_exasol_execution_error e = pg_error ''XX000'' (''Exasol execution failed: '' @ text)"
proof -
  have "e \<in> statement_errors" using sql_errors [of sql] assms by (auto simp: raises_def)
  then consider msg where "e = RequestFailed msg" | msg where "e = ExecutionFailed msg"
    by (auto simp: statement_errors_def)
  then show ?thesis
    by cases (auto simp only: map_exasol_execution_error_def exasol_error_text.simps)
qed

end

lemma raises_next: "raises statement_errors (next_message W)"
  by (auto simp: raises_def next_message_def split: prod.splits option.splits sum.splits)

lemma raises_read: "raises statement_errors (read_json_response fuel W)"
proof (induction fuel)
  case 0
  then show ?case by (simp add: raises_rules)
next
  case (Suc fuel)
  have "raises statement_errors (case m of
         PingMsg payload \<Rightarrow> andthen (send_message W (PongMsg payload)) (\<lambda>_. read_json_response fuel W)
       | other \<Rightarrow>
           andthen (of_result (response_text_from_message other)) (\<lambda>text.
             case text of Some s \<Rightarrow> pass s | None \<Rightarrow> read_json_response fuel W))" for m
    unfolding send_message_def
    by (cases m) (auto intro!: raises_rules Suc split: utf8_result.splits)
  then show ?case unfolding read_json_response.simps by (rule raises_andthen [OF raises_next])
qed

lemma raises_request: "raises statement_errors (request fuel J W req)"
  unfolding request_def send_message_def
  by (intro raises_rules raises_read)
    (auto simp: exception_error_def Let_def intro!: raises_rules split: sum.splits)

lemma raises_fetch: "raises statement_errors (fetch_loop fuel rfuel J W handle n start rows)"
proof (induction fuel arbitrary: start rows)
  case (Suc fuel)
  show ?case
    unfolding fetch_loop.simps Let_def
    by (intro raises_rules raises_request) (auto split: prod.splits intro: Suc)
qed (simp add: raises_rules)

lemma raises_ws_execute: "raises statement_errors (ws_execute fuel rfuel J W sql)"
proof -
  have "raises statement_errors (parse_result_set fuel rfuel J W v)" for v
    unfolding parse_result_set_def Let_def
    by (auto simp: parse_columns_def split: prod.splits option.splits
        intro!: raises_rules raises_fetch)
  then show ?thesis
    unfolding ws_execute_def by (intro raises_rules raises_request) (auto intro!: raises_rules)
qed

interpretation ws: exasol_transport "ws_execute fuel rfuel J W" "ws_execute_update fuel rfuel J W"
proof
  show "raises statement_errors (ws_execute_update fuel rfuel J W sql)" for sql
    unfolding ws_execute_update_def
    by (intro raises_rules raises_ws_execute) (auto intro!: raises_rules split: exasol_outcome.splits)
qed (rule raises_ws_execute)

interpretation ar: exasol_transport "arrow_execute D" "arrow_execute_update D"
proof
  fix sql
  show "raises statement_errors (arrow_execute D sql :: ('a, exasol_error, ('c, 'j) exasol_outcome) effect)"
    unfolding arrow_execute_def Let_def by (intro raises_rules) (auto intro!: raises_rules)
  show "raises statement_errors (arrow_execute_update D sql)"
    unfolding arrow_execute_update_def by (intro raises_rules) (auto intro!: raises_rules)
qed

section \<open>Requests and answers\<close>

text \<open>Messages that are no answer: pings, pongs (Exasol's progress frames) and raw frames.\<close>

fun is_noise :: "message \<Rightarrow> bool" where
  "is_noise (PingMsg _) = True"
| "is_noise (PongMsg _) = True"
| "is_noise FrameMsg = True"
| "is_noise _ = False"

fun pong_for :: "message \<Rightarrow> message option" where
  "pong_for (PingMsg payload) = Some (PongMsg payload)"
| "pong_for _ = None"

definition pongs :: "message list \<Rightarrow> message list" where
  "pongs ms = List.map_filter pong_for ms"

fun is_text :: "message \<Rightarrow> bool" where
  "is_text (TextMsg _) = True"
| "is_text _ = False"

lemma pongs_simps [simp]: "pongs [] = []" "pongs (m # ms) = (case pong_for m of Some p \<Rightarrow> p # pongs ms | None \<Rightarrow> pongs ms)"
  by (simp_all add: pongs_def map_filter_simps split: option.splits)

lemma pongs_no_text [simp]: "filter is_text (pongs ms) = []"
proof (induction ms)
  case (Cons m ms)
  then show ?case by (cases m) simp_all
qed simp

text \<open>
  An open WebSocket: \<open>inbox\<close> are the messages that will arrive, \<open>sent\<close> the messages that were sent.
  tungstenite delivers in order and sends in order.
\<close>

locale message_channel =
  fixes W :: "'w ws_ops" and inbox :: "'w \<Rightarrow> message list" and sent :: "'w \<Rightarrow> message list"
  assumes next_law: "inbox w = m # ms \<Longrightarrow> \<exists>w'. ws_next W w = (Some (Inr m), w') \<and> inbox w' = ms \<and> sent w' = sent w"
    and send_law: "\<exists>w'. ws_send W m w = (Inr (), w') \<and> inbox w' = inbox w \<and> sent w' = sent w @ [m]"
begin

lemma next_run: "inbox w = m # ms \<Longrightarrow> \<exists>w'. next_message W w = Ret (Inr m, w') \<and> inbox w' = ms \<and> sent w' = sent w"
  using next_law [of w m ms] by (auto simp: next_message_def)

lemma send_run: "\<exists>w'. send_message W m w = Ret (Inr (), w') \<and> inbox w' = inbox w \<and> sent w' = sent w @ [m]"
  using send_law [of m w] by (auto simp: send_message_def of_call_def)

lemma read_past_noise:
  assumes "list_all is_noise noise" and "inbox w = noise @ m # rest" and "length noise < fuel"
    and "response_text_from_message m = Inr (Some s)"
  shows "\<exists>w'. read_json_response fuel W w = Ret (Inr s, w') \<and> inbox w' = rest \<and> sent w' = sent w @ pongs noise"
  using assms(1-3)
proof (induction noise arbitrary: fuel w)
  case Nil
  then obtain f w1 where "fuel = Suc f" "next_message W w = Ret (Inr m, w1)" "inbox w1 = rest" "sent w1 = sent w"
    using next_run [of w m rest] by (auto simp: gr0_conv_Suc)
  then show ?case using assms(4) by (cases m) (auto simp: andthen_run)
next
  case (Cons x noise)
  then obtain f w1 where f: "fuel = Suc f" "next_message W w = Ret (Inr x, w1)" "inbox w1 = noise @ m # rest" "sent w1 = sent w"
    using next_run [of w x "noise @ m # rest"] by (cases fuel) auto
  have later: "\<exists>w'. read_json_response f W w2 = Ret (Inr s, w') \<and> inbox w' = rest \<and> sent w' = sent w2 @ pongs noise"
    if "inbox w2 = noise @ m # rest" for w2
    using Cons.IH [of w2 f] Cons.prems(1,3) f(1) that by simp
  show ?case
  proof (cases "\<exists>p. x = PingMsg p")
    case True
    then obtain p w2 where p: "x = PingMsg p" "send_message W (PongMsg p) w1 = Ret (Inr (), w2)"
      "inbox w2 = noise @ m # rest" "sent w2 = sent w @ [PongMsg p]"
      using send_run [of _ w1] f(3,4) by metis
    then show ?thesis using later [OF p(3)] f(1,2) by (auto simp: andthen_run)
  next
    case False
    then have "response_text_from_message x = Inr None" "pong_for x = None"
      using Cons.prems(1) by (cases x; simp)+
    then show ?thesis using later [OF f(3)] f False by (cases x) (auto simp: andthen_run)
  qed
qed

lemma request_answered:
  assumes "list_all is_noise noise" and "inbox w = noise @ m # rest" and "length noise < fuel"
    and "response_text_from_message m = Inr (Some s)" and "jv_parse J s = Inr v"
  shows "\<exists>w'. request fuel J W req w = Ret (if status_ok J v then Inr v else Inl (exception_error J v), w') \<and>
    inbox w' = rest \<and> sent w' = sent w @ TextMsg (jv_text J req) # pongs noise"
proof -
  obtain w1 where w1: "send_message W (TextMsg (jv_text J req)) w = Ret (Inr (), w1)" "inbox w1 = inbox w"
    "sent w1 = sent w @ [TextMsg (jv_text J req)]"
    using send_run by blast
  obtain w2 where "read_json_response fuel W w1 = Ret (Inr s, w2)" "inbox w2 = rest" "sent w2 = sent w1 @ pongs noise"
    using read_past_noise [of noise w1 m rest fuel s] assms w1(2) by auto
  then show ?thesis using w1 assms(5) by (auto simp: request_def andthen_run)
qed

end

text \<open>An answer to a fetch request: the messages that carry it and the rows it holds.\<close>

definition chunk_answer :: "nat \<Rightarrow> 'j json_ops \<Rightarrow> message list \<Rightarrow> text_row list \<Rightarrow> bool" where
  "chunk_answer rfuel J ms crows \<longleftrightarrow> crows \<noteq> [] \<and> (\<exists>noise m s v c. ms = noise @ [m] \<and> list_all is_noise noise \<and>
     length noise < rfuel \<and> response_text_from_message m = Inr (Some s) \<and> jv_parse J s = Inr v \<and> status_ok J v \<and>
     jv_get J v ''responseData'' = Some c \<and> message_rows J ''numRows'' c = (crows, length crows))"

primrec chunk_starts :: "nat \<Rightarrow> text_row list list \<Rightarrow> nat list" where
  "chunk_starts start [] = []"
| "chunk_starts start (crows # chunks) = start # chunk_starts (start + length crows) chunks"

context message_channel
begin

lemma fetch_loop_complete:
  assumes "list_all2 (chunk_answer rfuel J) msgs chunks" and "inbox w = concat msgs @ rest"
    and "start + length (concat chunks) = n" and "n < 2 ^ 64" and "length chunks \<le> fuel"
  shows "\<exists>w'. fetch_loop fuel rfuel J W handle n start rows w = Ret (Inr (rows @ concat chunks), w') \<and> inbox w' = rest \<and>
    filter is_text (sent w') = filter is_text (sent w) @
      map (\<lambda>p. TextMsg (jv_text J (fetch_request J handle p))) (chunk_starts start chunks)"
  using assms
proof (induction msgs chunks arbitrary: start rows w fuel rule: list_all2_induct)
  case Nil
  then show ?case by (cases fuel) auto
next
  case (Cons ms msgs crows chunks)
  obtain noise m s v c where c: "ms = noise @ [m]" "list_all is_noise noise" "length noise < rfuel"
    "response_text_from_message m = Inr (Some s)" "jv_parse J s = Inr v" "status_ok J v"
    "jv_get J v ''responseData'' = Some c" "message_rows J ''numRows'' c = (crows, length crows)" and ne: "crows \<noteq> []"
    using Cons.hyps(1) by (auto simp: chunk_answer_def)
  obtain f where f: "fuel = Suc f" using Cons.prems(4) by (cases fuel) auto
  have less: "start < n" "(start + length crows) mod 2 ^ 64 = start + length crows"
    using Cons.prems(2,3) ne by (auto simp: neq_Nil_conv)
  let ?q = "TextMsg (jv_text J (fetch_request J handle start))"
  obtain w1 where w1: "request rfuel J W (fetch_request J handle start) w = Ret (Inr v, w1)"
    "inbox w1 = concat msgs @ rest" "sent w1 = sent w @ ?q # pongs noise"
    using request_answered [OF c(2) _ c(3-5), of w "concat msgs @ rest" "fetch_request J handle start"] Cons.prems(1) c(1,6)
    by auto
  have step: "fetch_loop fuel rfuel J W handle n start rows w =
      fetch_loop f rfuel J W handle n (start + length crows) (rows @ crows) w1"
    using f less w1(1) c(7,8) by (simp add: andthen_run)
  have "start + length crows + length (concat chunks) = n" "length chunks \<le> f"
    using Cons.prems(2,4) f by simp_all
  from Cons.IH [OF w1(2) this(1) Cons.prems(3) this(2), of "rows @ crows"] step w1(3) show ?case by auto
qed

end

section \<open>An in-memory socket\<close>

text \<open>A socket on two lists: what arrives and what was sent. It runs dry when nothing more arrives.\<close>

definition queue_ws :: "(message list \<times> message list) ws_ops" where
  "queue_ws =
     \<lparr>ws_send = (\<lambda>m (ins, outs). (Inr (), (ins, outs @ [m]))),
      ws_next = (\<lambda>(ins, outs). case ins of [] \<Rightarrow> (None, ([], outs)) | m # ms \<Rightarrow> (Some (Inr m), (ms, outs))),
      ws_close = (\<lambda>w. (Inr (), w))\<rparr>"

interpretation qw: message_channel queue_ws fst snd
  by unfold_locales (auto simp: queue_ws_def)

section \<open>Properties\<close>

text \<open>
  The answer to an execute request that announces a result set of \<open>n\<close> rows, delivers \<open>first_rows\<close>
  of them and gives a handle for the others.
\<close>

definition result_answer :: "nat \<Rightarrow> 'j json_ops \<Rightarrow> message list \<Rightarrow> 'j exasol_column list \<Rightarrow> nat \<Rightarrow> nat \<Rightarrow> text_row list \<Rightarrow> bool" where
  "result_answer rfuel J ms cols n handle first_rows \<longleftrightarrow> (\<exists>noise m s v r rs. ms = noise @ [m] \<and> list_all is_noise noise \<and>
     length noise < rfuel \<and> response_text_from_message m = Inr (Some s) \<and> jv_parse J s = Inr v \<and> status_ok J v \<and>
     jv_pointer J v ''/responseData/results/0'' = Some r \<and>
     Option.bind (jv_get J r ''resultType'') (jv_as_str J) = Some ''resultSet'' \<and> jv_get J r ''resultSet'' = Some rs \<and>
     parse_columns J rs = Inr cols \<and> Option.bind (jv_get J rs ''numRows'') (jv_as_u64 J) = Some n \<and>
     message_rows J ''numRowsInMessage'' rs = (first_rows, length first_rows) \<and>
     Option.bind (jv_get J rs ''resultSetHandle'') (jv_as_u64 J) = Some handle)"

text \<open>
  When Exasol answers an execute request with the first rows of a result and each fetch request
  with at least one further row, until the announced number is reached, then the statement returns
  all rows in order, for every fuel that is at least the number of chunks, and leaves later messages
  alone. It sends the statement once and then fetches each chunk at the position where the rows so
  far end; pings and progress frames may come in between.
\<close>

lemma ws_execute_complete:
  assumes "message_channel W inbox sent" and "inbox w = ms @ concat msgs @ rest"
    and "result_answer rfuel J ms cols n handle first_rows" and "list_all2 (chunk_answer rfuel J) msgs chunks"
    and "length (first_rows @ concat chunks) = n" and "n < 2 ^ 64" and "length chunks \<le> fuel"
  shows "\<exists>w'. ws_execute fuel rfuel J W sql w = Ret (Inr (TypedRows cols (first_rows @ concat chunks)), w') \<and> inbox w' = rest \<and>
    filter is_text (sent w') = filter is_text (sent w) @ TextMsg (jv_text J (execute_request J sql)) #
      map (\<lambda>p. TextMsg (jv_text J (fetch_request J handle p))) (chunk_starts (length first_rows) chunks)"
proof -
  obtain noise m s v r rs where a: "ms = noise @ [m]" "list_all is_noise noise" "length noise < rfuel"
    "response_text_from_message m = Inr (Some s)" "jv_parse J s = Inr v" "status_ok J v"
    "jv_pointer J v ''/responseData/results/0'' = Some r"
    "Option.bind (jv_get J r ''resultType'') (jv_as_str J) = Some ''resultSet''" "jv_get J r ''resultSet'' = Some rs"
    "parse_columns J rs = Inr cols" "Option.bind (jv_get J rs ''numRows'') (jv_as_u64 J) = Some n"
    "message_rows J ''numRowsInMessage'' rs = (first_rows, length first_rows)"
    "Option.bind (jv_get J rs ''resultSetHandle'') (jv_as_u64 J) = Some handle"
    using assms(3) unfolding result_answer_def by blast
  let ?q = "TextMsg (jv_text J (execute_request J sql))"
  obtain w1 where w1: "request rfuel J W (execute_request J sql) w = Ret (Inr v, w1)" "inbox w1 = concat msgs @ rest"
    "sent w1 = sent w @ ?q # pongs noise"
    using message_channel.request_answered [OF assms(1) a(2) _ a(3-5), of w "concat msgs @ rest" "execute_request J sql"]
      assms(2) a(1,6) by auto
  have run: "ws_execute fuel rfuel J W sql w =
      andthen (fetch_loop fuel rfuel J W handle n (length first_rows) first_rows) (\<lambda>rows. pass (TypedRows cols rows)) w1"
    using w1(1) a(7-13) by (simp add: ws_execute_def parse_result_set_def andthen_run unwrap_or_def)
  obtain w2 where "fetch_loop fuel rfuel J W handle n (length first_rows) first_rows w1 = Ret (Inr (first_rows @ concat chunks), w2)"
    "inbox w2 = rest" "filter is_text (sent w2) = filter is_text (sent w1) @
      map (\<lambda>p. TextMsg (jv_text J (fetch_request J handle p))) (chunk_starts (length first_rows) chunks)"
    using message_channel.fetch_loop_complete [OF assms(1,4) w1(2) _ assms(6,7), of "length first_rows" handle first_rows] assms(5)
    by auto
  then show ?thesis using run w1(3) by (auto simp: andthen_run)
qed

definition demo_answer :: json where
  "demo_answer = JObject [(''status'', JString ''ok''), (''responseData'', JObject [(''results'', JArray
     [JObject [(''resultType'', JString ''resultSet''), (''resultSet'', JObject
       [(''columns'', JArray [JObject [(''name'', JString ''A'')]]), (''numRows'', JInt 2), (''numRowsInMessage'', JInt 1),
        (''data'', JArray [JArray [JString ''x'']]), (''resultSetHandle'', JInt 7)])]])])]"

definition demo_chunk :: json where
  "demo_chunk = JObject [(''status'', JString ''ok''), (''responseData'', JObject
     [(''numRows'', JInt 1), (''data'', JArray [JArray [JBool True]])])]"

lemma demo_json_parse:
  "jv_parse json_data (json_text demo_answer) = Inr demo_answer"
  "jv_parse json_data (json_text demo_chunk) = Inr demo_chunk"
  by code_simp+

lemma demo_status: "status_ok json_data demo_answer" "status_ok json_data demo_chunk"
  by code_simp+

lemma demo_result_answer:
  "result_answer 2 json_data [PingMsg [1], TextMsg (json_text demo_answer)] [\<lparr>col_name = ''A'', col_data_type = JNull\<rparr>] 2 7 [[Some ''x'']]"
proof -
  let ?rs = "JObject [(''columns'', JArray [JObject [(''name'', JString ''A'')]]), (''numRows'', JInt 2), (''numRowsInMessage'', JInt 1),
        (''data'', JArray [JArray [JString ''x'']]), (''resultSetHandle'', JInt 7)]"
  let ?r = "JObject [(''resultType'', JString ''resultSet''), (''resultSet'', ?rs)]"
  have "jv_pointer json_data demo_answer ''/responseData/results/0'' = Some ?r" by code_simp
  moreover have "Option.bind (jv_get json_data ?r ''resultType'') (jv_as_str json_data) = Some ''resultSet''" by code_simp
  moreover have "jv_get json_data ?r ''resultSet'' = Some ?rs" by code_simp
  moreover have "parse_columns json_data ?rs = Inr [\<lparr>col_name = ''A'', col_data_type = JNull\<rparr>]" by code_simp
  moreover have "Option.bind (jv_get json_data ?rs ''numRows'') (jv_as_u64 json_data) = Some 2" by code_simp
  moreover have "message_rows json_data ''numRowsInMessage'' ?rs = ([[Some ''x'']], length [[Some ''x'']])" by code_simp
  moreover have "Option.bind (jv_get json_data ?rs ''resultSetHandle'') (jv_as_u64 json_data) = Some 7" by code_simp
  moreover have "[PingMsg [1], TextMsg (json_text demo_answer)] = [PingMsg [1]] @ [TextMsg (json_text demo_answer)]"
    "list_all is_noise [PingMsg [1]]" "length [PingMsg [1]] < (2::nat)"
    "response_text_from_message (TextMsg (json_text demo_answer)) = Inr (Some (json_text demo_answer))" by simp_all
  ultimately show ?thesis using demo_json_parse(1) demo_status(1) unfolding result_answer_def by blast
qed

lemma demo_chunk_answer: "chunk_answer 2 json_data [TextMsg (json_text demo_chunk)] [[Some ''t'']]"
proof -
  have "jv_get json_data demo_chunk ''responseData'' = Some (JObject [(''numRows'', JInt 1), (''data'', JArray [JArray [JBool True]])])"
    by code_simp
  moreover have "message_rows json_data ''numRows'' (JObject [(''numRows'', JInt 1), (''data'', JArray [JArray [JBool True]])]) =
      ([[Some ''t'']], length [[Some ''t'']])" by code_simp
  moreover have "[TextMsg (json_text demo_chunk)] = [] @ [TextMsg (json_text demo_chunk)]" "list_all is_noise []"
    "length ([] :: message list) < 2" "response_text_from_message (TextMsg (json_text demo_chunk)) = Inr (Some (json_text demo_chunk))"
    by simp_all
  ultimately show ?thesis using demo_json_parse(2) demo_status(2) unfolding chunk_answer_def by blast
qed

text \<open>
  C14. A request is paired with the first answer after it. Pings that arrive before the answer are
  answered by pongs with the same payload, in order; pongs and raw frames are skipped; an answer
  may be a text or a binary message. The answer is returned when its status is ok, and is an
  execution error with Exasol's text and code when it is not; nothing behind the answer is read.
\<close>

theorem request_gets_its_answer:
  assumes "message_channel W inbox sent" and "list_all is_noise noise" and "inbox w = noise @ m # rest"
    and "length noise < fuel" and "response_text_from_message m = Inr (Some s)" and "jv_parse J s = Inr v"
  shows "\<exists>w'. request fuel J W req w = Ret (if status_ok J v then Inr v else Inl (exception_error J v), w') \<and>
    inbox w' = rest \<and> sent w' = sent w @ TextMsg (jv_text J req) # pongs noise"
  using assms by (rule message_channel.request_answered)

lemma json_data_text: "jv_text json_data = json_text"
  by (simp add: json_data_def)

theorem request_gets_its_answer_witness:
  "\<exists>w'. request 2 json_data queue_ws (JString ''q'') ([PingMsg [1], TextMsg (json_text demo_chunk), FrameMsg], []) =
     Ret (Inr demo_chunk, w') \<and> w' = ([FrameMsg], [TextMsg (json_text (JString ''q'')), PongMsg [1]])"
  using request_gets_its_answer [OF qw.message_channel_axioms, of "[PingMsg [1]]"
      "([PingMsg [1], TextMsg (json_text demo_chunk), FrameMsg], [])" "TextMsg (json_text demo_chunk)" "[FrameMsg]" 2
      "json_text demo_chunk" json_data demo_chunk "JString ''q''"] demo_json_parse(2) demo_status(2)
    json_data_text
  by auto

text \<open>
  The fetch loop relies on the server for progress: a chunk without rows is asked for again, at
  the same position, as long as the server sends none.
\<close>

lemma empty_chunk_repeats:
  assumes "start < n" and "request rfuel J W (fetch_request J handle start) w = Ret (Inr v, w')"
    and "jv_get J v ''responseData'' = Some c" and "message_rows J ''numRows'' c = ([], 0)" and "n < 2 ^ 64"
  shows "fetch_loop (Suc fuel) rfuel J W handle n start rows w = fetch_loop fuel rfuel J W handle n start rows w'"
  using assms by (simp add: andthen_run)

lemma to_ascii_uppercase_idem: "to_ascii_uppercase (to_ascii_uppercase s) = to_ascii_uppercase s"
proof -
  have "upper_char (upper_char c) = upper_char c" for c
    by (auto simp: upper_char_def is_ascii_lower_def code_point_def)
  then show ?thesis by (simp add: to_ascii_uppercase_def)
qed

lemma parsed_fingerprint_upper:
  assumes "endpoint_parse d config = Inr ep" and "ep_fingerprint ep = Some fp"
  shows "to_ascii_uppercase fp = fp"
proof -
  have "endpoint_fingerprint config x = Some fp \<Longrightarrow> to_ascii_uppercase fp = fp" for x
    by (auto simp: endpoint_fingerprint_def to_ascii_uppercase_idem split: if_splits option.splits) code_simp
  then show ?thesis using assms by (auto simp: endpoint_parse_def Let_def split: option.splits prod.splits)
qed

text \<open>
  C15. A pinned certificate admits one server. With encryption and a fingerprint, from the
  configuration or the DSN, the handshake accepts exactly the certificates whose SHA-256 digest is
  the fingerprint in hexadecimal; when the server's certificate is another one, connecting fails
  with an error that depends neither on the user nor on the password, so that no credentials are
  sent. rustls must refuse a handshake whose certificate the verifier refuses.
\<close>

theorem pinned_server_only:
  assumes "encryption config" and "endpoint_parse (dsn config) config = Inr ep"
    and "ep_fingerprint ep = Some fp" and "fp \<noteq> ''NOCERTCHECK''"
    and "\<And>url tcp v. verify_server_cert sha256 webpki v cert \<noteq> Inr () \<Longrightarrow>
      \<exists>msg. we_handshake env url tcp (RustlsConnector v) = Inl msg"
  shows "(verify_server_cert sha256 webpki (FingerprintVerifier fp) cert = Inr () \<longleftrightarrow> certificate_sha256_hex sha256 cert = fp) \<and>
    build_connector (we_default_verifier env) config ep = RustlsConnector (FingerprintVerifier fp) \<and>
    (certificate_sha256_hex sha256 cert \<noteq> fp \<longrightarrow>
      (\<exists>e. \<forall>rfuel username password. ws_connect rfuel J env config ep username password = Ret (Inl e)))"
proof -
  have up: "to_ascii_uppercase fp = fp" using parsed_fingerprint_upper assms(2,3) by blast
  then have iff: "verify_server_cert sha256 webpki (FingerprintVerifier fp) cert = Inr () \<longleftrightarrow> certificate_sha256_hex sha256 cert = fp"
    by (simp add: verify_fingerprint_def Let_def)
  moreover have conn: "build_connector (we_default_verifier env) config ep = RustlsConnector (FingerprintVerifier fp)"
    using assms(1,3,4) by (simp add: build_connector_def)
  moreover have "\<exists>e. \<forall>rfuel username password. ws_connect rfuel J env config ep username password = Ret (Inl e)"
    if other: "certificate_sha256_hex sha256 cert \<noteq> fp"
  proof (cases "we_tcp_connect env (ep_host ep) (ep_port ep)")
    case (Inr tcp)
    obtain msg where "we_handshake env (ws_url config ep) tcp (RustlsConnector (FingerprintVerifier fp)) = Inl msg"
      using assms(5) iff other by blast
    then show ?thesis using Inr conn by (auto simp: ws_connect_def)
  qed (auto simp: ws_connect_def)
  ultimately show ?thesis by blast
qed

definition demo_env :: "(message list \<times> message list, unit, unit) ws_env" where
  "demo_env =
     \<lparr>we_ws = queue_ws, we_rsa_encrypt = (\<lambda>_ bytes. Inr bytes), we_base64 = hex_upper, we_version = ''0'', we_os = ''linux'',
      we_user = None, we_tcp_connect = (\<lambda>_ _. Inr ()),
      we_handshake = (\<lambda>url tcp conn. case conn of
          PlainConnector \<Rightarrow> Inr ([], [])
        | RustlsConnector v \<Rightarrow>
            (case verify_server_cert (\<lambda>bytes. bytes) (\<lambda>_ _. Inr ()) v [171, 206] of Inl e \<Rightarrow> Inl e | Inr _ \<Rightarrow> Inr ([], []))),
      we_default_verifier = RootStore ()\<rparr>"

definition demo_pinned :: exasol_config where
  "demo_pinned = demo_config\<lparr>dsn := ''exa'' @ CHR ''/'' # ''abcd'' @ CHR '':'' # show_nat 8563\<rparr>"

theorem pinned_server_only_witness:
  "\<exists>e. \<forall>rfuel username password. ws_connect rfuel json_data demo_env demo_pinned
      \<lparr>ep_host = ''exa'', ep_port = 8563, ep_fingerprint = Some ''ABCD''\<rparr> username password = Ret (Inl e)"
proof -
  let ?ep = "\<lparr>ep_host = ''exa'', ep_port = 8563, ep_fingerprint = Some ''ABCD''\<rparr>"
  have "certificate_fingerprint demo_pinned = []" by (simp add: demo_pinned_def demo_config_def)
  moreover have "trim [] = []" "to_ascii_uppercase ''abcd'' = ''ABCD''" by code_simp+
  ultimately have ep: "endpoint_parse (dsn demo_pinned) demo_pinned = Inr ?ep"
    using endpoint_parse_print [of 8563 "''exa''" "''abcd''" "[]" demo_pinned] by (simp add: demo_pinned_def is_ws_def)
  have hex: "certificate_sha256_hex (\<lambda>bytes. bytes) [171, 206] = ''ABCE''" by code_simp
  have enc: "encryption demo_pinned" by (simp add: demo_pinned_def demo_config_def)
  have "\<exists>msg. we_handshake demo_env url tcp (RustlsConnector v) = Inl msg"
    if "verify_server_cert (\<lambda>bytes. bytes) (\<lambda>_ _. Inr ()) v [171, 206] \<noteq> Inr ()" for url tcp v
    using that by (cases "verify_server_cert (\<lambda>bytes. bytes) (\<lambda>_ _. Inr ()) v [171, 206]") (auto simp: demo_env_def)
  from pinned_server_only [OF enc ep _ _ this, where fp = "''ABCD''" and J = json_data] hex show ?thesis by simp
qed

end
