(* ===== verification/Exasol_Session.thy ===== *)
theory Exasol_Session
  imports Transport_Laws
begin

text \<open>
  The facade \<^verbatim>\<open>ExasolSession\<close> of \<^verbatim>\<open>src/src/exasol/mod.rs\<close>: a session holds one of the two transports
  and hands every call to it. The box of a trait object is the sum of the two transports, and its
  dynamic dispatch is the case distinction. The facade keeps the contract of a transport, so its
  clients need not know which one they have.
\<close>

datatype ('w, 'x) exasol_session = WebSocketSession 'w | ArrowSession 'x

text \<open>A method of the transport in the box; the box holds the same transport afterwards.\<close>

definition in_box :: "('a \<Rightarrow> 'b) \<Rightarrow> ('a, 'e, 'r) effect \<Rightarrow> 'a \<Rightarrow> (('e, 'r) result \<times> 'b) exec" where
  "in_box box m a = bind_exec (m a) (\<lambda>(r, a'). Ret (r, box a'))"

fun session_execute :: "nat \<Rightarrow> nat \<Rightarrow> 'j json_ops \<Rightarrow> 'w ws_ops \<Rightarrow> ('x, 'q, 'b, 's) arrow_driver \<Rightarrow> string \<Rightarrow>
    (('w, 'x) exasol_session, exasol_error, ('b, 'j) exasol_outcome) effect" where
  "session_execute fuel rfuel J W D sql (WebSocketSession w) =
     in_box WebSocketSession (ws_execute fuel rfuel J W sql) w"
| "session_execute fuel rfuel J W D sql (ArrowSession x) = in_box ArrowSession (arrow_execute D sql) x"

fun session_execute_update :: "nat \<Rightarrow> nat \<Rightarrow> 'j json_ops \<Rightarrow> 'w ws_ops \<Rightarrow> ('x, 'q, 'b, 's) arrow_driver \<Rightarrow> string \<Rightarrow>
    (('w, 'x) exasol_session, exasol_error, unit) effect" where
  "session_execute_update fuel rfuel J W D sql (WebSocketSession w) =
     in_box WebSocketSession (ws_execute_update fuel rfuel J W sql) w"
| "session_execute_update fuel rfuel J W D sql (ArrowSession x) = in_box ArrowSession (arrow_execute_update D sql) x"

fun session_close :: "'j json_ops \<Rightarrow> 'w ws_ops \<Rightarrow> ('x, 'q, 'b, 's) arrow_driver \<Rightarrow>
    (('w, 'x) exasol_session, exasol_error, unit) effect" where
  "session_close J W D (WebSocketSession w) = in_box WebSocketSession (ws_shutdown J W) w"
| "session_close J W D (ArrowSession x) = in_box ArrowSession (arrow_close D) x"

lemma in_box_Ret: "in_box box m a = Ret (r, b) \<longleftrightarrow> (\<exists>a'. m a = Ret (r, a') \<and> b = box a')"
  by (auto simp: in_box_def bind_exec_Ret)

lemma raisesD: "raises S m \<Longrightarrow> m c = Ret (Inl e, c') \<Longrightarrow> e \<in> S"
  by (auto simp: raises_def)

text \<open>The facade is a transport again: its errors are the errors of a statement.\<close>

interpretation facade: exasol_transport "session_execute fuel rfuel J W D" "session_execute_update fuel rfuel J W D"
proof
  fix sql
  have "e \<in> statement_errors" if "session_execute fuel rfuel J W D sql y = Ret (Inl e, y')" for y e y'
    using that by (cases y) (auto simp: in_box_Ret intro: raisesD [OF ws.sql_errors] raisesD [OF ar.sql_errors])
  then show "raises statement_errors (session_execute fuel rfuel J W D sql)" by (auto simp: raises_def)
  have "e \<in> statement_errors" if "session_execute_update fuel rfuel J W D sql y = Ret (Inl e, y')" for y e y'
    using that by (cases y) (auto simp: in_box_Ret intro: raisesD [OF ws.update_errors] raisesD [OF ar.update_errors])
  then show "raises statement_errors (session_execute_update fuel rfuel J W D sql)" by (auto simp: raises_def)
qed

text \<open>A result that Exasol delivers in chunks over a WebSocket, seen through the facade.\<close>

lemma session_execute_complete:
  assumes "message_channel W inbox sent" and "inbox w = ms @ concat msgs @ rest"
    and "result_answer rfuel J ms cols n handle first_rows" and "list_all2 (chunk_answer rfuel J) msgs chunks"
    and "length (first_rows @ concat chunks) = n" and "n < 2 ^ 64" and "length chunks \<le> fuel"
  shows "\<exists>w'. session_execute fuel rfuel J W D sql (WebSocketSession w) =
      Ret (Inr (TypedRows cols (first_rows @ concat chunks)), WebSocketSession w') \<and> inbox w' = rest \<and>
    filter is_text (sent w') = filter is_text (sent w) @ TextMsg (jv_text J (execute_request J sql)) #
      map (\<lambda>p. TextMsg (jv_text J (fetch_request J handle p))) (chunk_starts (length first_rows) chunks)"
  unfolding session_execute.simps in_box_Ret using ws_execute_complete [OF assms] by blast

section \<open>Columns of an empty result\<close>

text \<open>
  What the gateway relies on in the Arrow driver: an empty batch has the schema it was made with,
  and the batches of a result have the schema that the metadata announces.
\<close>

locale arrow_results =
  fixes D :: "('x, 'q, 'b, 's) arrow_driver" and ops :: "('b, 's, 'c) batch_ops"
  assumes empty_schema: "rb_schema ops (ad_new_empty D sch) = sch"
    and fetched_schema: "ad_metadata_schema D q = Some sch \<Longrightarrow> ad_fetch_all D q x = (Inr batches, x') \<Longrightarrow>
      b \<in> set batches \<Longrightarrow> rb_schema ops b = sch"
    and empty_rows: "rb_num_rows ops (ad_new_empty D sch) = 0"
begin

text \<open>A result keeps its columns, also when the driver delivers no batch for it, and its rows.\<close>

lemma described_result:
  assumes "ad_execute D sql x = (Inr q, x1)" and "ad_row_count D q = None" and "ad_metadata_schema D q = Some sch"
    and "ad_fetch_all D q x1 = (Inr batches, x2)"
  shows "\<exists>bs. session_execute fuel rfuel J W D sql (ArrowSession x) = Ret (Inr (ArrowRows bs), ArrowSession x2) \<and>
    cursor_schema_for ops bs = sch \<and>
    (\<forall>F rss. map (render_batch ops F) batches = map Inr rss \<longrightarrow>
      (\<exists>rss'. map (render_batch ops F) bs = map Inr rss' \<and> concat rss' = concat rss))"
proof -
  let ?bs = "backfill_schema_when_empty (ad_new_empty D) batches (Some sch)"
  have "session_execute fuel rfuel J W D sql (ArrowSession x) = Ret (Inr (ArrowRows ?bs), ArrowSession x2)"
    using assms by (simp add: in_box_def arrow_execute_def andthen_def of_call_def)
  moreover have "cursor_schema_for ops ?bs = sch"
    using empty_schema fetched_schema [OF assms(3,4)]
    by (cases batches) (auto simp: backfill_schema_when_empty_def cursor_schema_for_def)
  moreover have "\<exists>rss'. map (render_batch ops F) ?bs = map Inr rss' \<and> concat rss' = concat rss"
    if "map (render_batch ops F) batches = map Inr rss" for F :: "('c, 'f) format_ops" and rss
    using that empty_rows by (cases batches) (auto simp: backfill_schema_when_empty_def render_batch_def intro: exI [of _ "[[]]"])
  ultimately show ?thesis by blast
qed

end

text \<open>A driver on tables in memory: the batches with the announced schema are delivered.\<close>

definition memory_driver :: "(string \<Rightarrow> string list \<times> 'v columnar list) \<Rightarrow>
    (string list, string, 'v columnar, string list) arrow_driver" where
  "memory_driver tables =
     \<lparr>ad_execute = (\<lambda>sql log. (Inr sql, log @ [sql])),
      ad_row_count = (\<lambda>_. None),
      ad_metadata_schema = (\<lambda>q. Some (fst (tables q))),
      ad_fetch_all = (\<lambda>q log. (Inr (filter (\<lambda>b. cb_fields b = fst (tables q)) (snd (tables q))), log)),
      ad_run_update = (\<lambda>sql log. (Inr 0, log @ [sql])),
      ad_close = (\<lambda>log. (Inr (), log)),
      ad_new_empty = (\<lambda>sch. \<lparr>cb_fields = sch, cb_cols = map (\<lambda>_. []) sch, cb_rows = 0\<rparr>)\<rparr>"

interpretation md: arrow_results "memory_driver tables" columnar_ops
  by unfold_locales (auto simp: memory_driver_def columnar_ops_def)

end
