(* ===== verification/Cursor_Session.thy ===== *)
theory Cursor_Session
  imports Session_Laws
begin

text \<open>
  The cursors of a session against an abstract machine. The machine keeps a list of rows and a
  position for each name and knows nothing of batches, transports or 64-bit arithmetic; the
  statements of a session (DECLARE, FETCH, MOVE, CLOSE and the end of a transaction) are shown to
  answer as the machine does and to leave its state behind, one by one and in sequence.
\<close>

section \<open>The abstract machine\<close>

record abstract_cursor =
  ac_rows :: "text_row list"
  ac_position :: int
  ac_scroll :: bool
  ac_hold :: bool

type_synonym abstract_cursors = "string \<rightharpoonup> abstract_cursor"

datatype abstract_answer = AnsRows "text_row list" | AnsCount int | AnsDone | AnsError string

text \<open>A step of a cursor: FETCH gives the rows, MOVE their number, or 0 for the current row again.\<close>

definition spec_step :: "bool \<Rightarrow> cursor_direction \<Rightarrow> abstract_cursor \<Rightarrow> abstract_answer \<times> abstract_cursor" where
  "spec_step return_rows d a =
     (if direction_requires_scroll d \<and> \<not> ac_scroll a then (AnsError ''0A000'', a)
      else
        let (rows, p) = spec_apply (ac_rows a) d (ac_position a) in
        (if return_rows then AnsRows rows else AnsCount (if is_refetch d then 0 else int (length rows)),
         a\<lparr>ac_position := p\<rparr>))"

definition spec_position :: "bool \<Rightarrow> position_plan \<Rightarrow> abstract_cursors \<Rightarrow> abstract_answer \<times> abstract_cursors" where
  "spec_position return_rows position m =
     (case m (pos_name position) of
        None \<Rightarrow> (AnsError ''34000'', m)
      | Some a \<Rightarrow> (case spec_step return_rows (pos_direction position) a of (answer, a') \<Rightarrow> (answer, m(pos_name position \<mapsto> a'))))"

text \<open>\<open>db\<close> gives the rows of a query.\<close>

fun spec_cursor_plan :: "(string \<Rightarrow> text_row list) \<Rightarrow> cursor_plan \<Rightarrow> abstract_cursors \<Rightarrow> abstract_answer \<times> abstract_cursors" where
  "spec_cursor_plan db (Declare d) m =
     (if m (decl_name d) \<noteq> None then (AnsError ''42P03'', m)
      else (AnsDone, m(decl_name d \<mapsto> \<lparr>ac_rows = db (decl_query d), ac_position = -1, ac_scroll = decl_scroll d, ac_hold = decl_hold d\<rparr>)))"
| "spec_cursor_plan db (Fetch position) m = spec_position True position m"
| "spec_cursor_plan db (Move position) m = spec_position False position m"
| "spec_cursor_plan db (Close CloseAll) m = (AnsDone, Map.empty)"
| "spec_cursor_plan db (Close (CloseOne name)) m =
     (if m name = None then (AnsError ''34000'', m) else (AnsDone, m(name := None)))"

datatype cursor_statement = OnCursor cursor_plan | EndOfTransaction string

fun spec_statement :: "(string \<Rightarrow> text_row list) \<Rightarrow> cursor_statement \<Rightarrow> abstract_cursors \<Rightarrow> abstract_answer \<times> abstract_cursors" where
  "spec_statement db (OnCursor plan) m = spec_cursor_plan db plan m"
| "spec_statement db (EndOfTransaction command) m =
     (AnsDone, m |` {name. \<exists>a. m name = Some a \<and> ac_hold a})"

primrec spec_statements :: "(string \<Rightarrow> text_row list) \<Rightarrow> cursor_statement list \<Rightarrow> abstract_cursors \<Rightarrow>
    abstract_answer list \<times> abstract_cursors" where
  "spec_statements db [] m = ([], m)"
| "spec_statements db (st # sts) m =
     (let (answer, m1) = spec_statement db st m; (answers, m2) = spec_statements db sts m1 in (answer # answers, m2))"

section \<open>The session as an implementation\<close>

fun statement_plan_of :: "cursor_statement \<Rightarrow> statement_plan" where
  "statement_plan_of (OnCursor plan) = CursorStatement plan"
| "statement_plan_of (EndOfTransaction command) = ClientTransactionEnd command"

text \<open>What a client reads from the answer to a statement.\<close>

fun answer_of :: "('b, 's, 'c) batch_ops \<Rightarrow> ('c \<Rightarrow> nat \<Rightarrow> string option) \<Rightarrow>
    (pg_wire_error, ('b, 's, 'j) gateway_response list) result \<Rightarrow> abstract_answer option" where
  "answer_of ops cell_at (Inl (UserError severity code message)) = Some (AnsError code)"
| "answer_of ops cell_at (Inr [RespError code message]) = Some (AnsError code)"
| "answer_of ops cell_at (Inr [RespArrow sch batches tag fold_labels]) = Some (AnsRows (step_view ops cell_at (ArrowStep batches)))"
| "answer_of ops cell_at (Inr [RespTyped cols rows tag fold_labels]) = Some (AnsRows rows)"
| "answer_of ops cell_at (Inr [RespExecution command (Some n)]) = Some (AnsCount n)"
| "answer_of ops cell_at (Inr [RespExecution command None]) = Some AnsDone"
| "answer_of ops cell_at (Inr [RespTransactionEnd command]) = Some AnsDone"
| "answer_of ops cell_at _ = None"

definition abs_cursor :: "('b, 's, 'c) batch_ops \<Rightarrow> ('c \<Rightarrow> nat \<Rightarrow> string option) \<Rightarrow> ('b, 's, 'col) gateway_cursor \<Rightarrow> abstract_cursor" where
  "abs_cursor ops cell_at cur =
     \<lparr>ac_rows = data_rows ops cell_at (cur_data cur), ac_position = cur_position cur, ac_scroll = cur_scroll cur, ac_hold = cur_hold cur\<rparr>"

definition abs_cursors :: "('b, 's, 'c) batch_ops \<Rightarrow> ('c \<Rightarrow> nat \<Rightarrow> string option) \<Rightarrow> ('x, 'b, 's, 'j) session_state \<Rightarrow> abstract_cursors" where
  "abs_cursors ops cell_at s = (\<lambda>n. map_option (abs_cursor ops cell_at) (ss_cursors s n))"

definition cursors_inv :: "('b, 's, 'c) batch_ops \<Rightarrow> ('b \<Rightarrow> bool) \<Rightarrow> ('c \<Rightarrow> nat \<Rightarrow> string option) \<Rightarrow>
    ('x, 'b, 's, 'j) session_state \<Rightarrow> bool" where
  "cursors_inv ops ok cell_at s \<longleftrightarrow> (\<forall>n cur. ss_cursors s n = Some cur \<longrightarrow> cursor_inv ops ok cell_at cur)"

text \<open>The outcome of a query as the data of a cursor.\<close>

fun outcome_data :: "('b, 's, 'c) batch_ops \<Rightarrow> ('b, 'j) exasol_outcome \<Rightarrow> ('b, 's, 'j exasol_column) cursor_data option" where
  "outcome_data ops (ArrowRows batches) = Some (ArrowData (cursor_schema_for ops batches) batches)"
| "outcome_data ops (TypedRows cols rows) = Some (TypedData cols rows)"
| "outcome_data ops (RowCount n) = None"

text \<open>
  Exasol answers a query with the rows \<open>db\<close> gives for it: the query may be declared, it is
  translated, and its execution returns well-formed data, in whatever state the session is.
\<close>

definition answers_query :: "('x, 'b, 's, 'c, 'f, 'j, 'e, 't) handler \<Rightarrow> ('b \<Rightarrow> bool) \<Rightarrow> ('c \<Rightarrow> nat \<Rightarrow> string option) \<Rightarrow>
    (string \<Rightarrow> text_row list) \<Rightarrow> string \<Rightarrow> bool" where
  "answers_query h ok cell_at db sql \<longleftrightarrow>
     \<not> is_cursor_unsafe_query (classify_statement (h_regex h) sql) \<and>
     (\<exists>q. translate_client_sql h sql = Inr q \<and>
       (\<forall>x. \<exists>outcome data x'. h_exec_sql h x q = (Inr outcome, x') \<and> outcome_data (h_batch h) outcome = Some data \<and>
          data_wf ok data \<and> data_rows (h_batch h) cell_at data = db sql)) \<and>
     int (length (db sql)) < i64_max"

text \<open>What a statement needs of the code's 64-bit arithmetic and of Exasol.\<close>

fun statement_safe :: "('x, 'b, 's, 'c, 'f, 'j, 'e, 't) handler \<Rightarrow> ('b \<Rightarrow> bool) \<Rightarrow> ('c \<Rightarrow> nat \<Rightarrow> string option) \<Rightarrow>
    (string \<Rightarrow> text_row list) \<Rightarrow> cursor_statement \<Rightarrow> abstract_cursors \<Rightarrow> bool" where
  "statement_safe h ok cell_at db (OnCursor (Declare d)) m = answers_query h ok cell_at db (decl_query d)"
| "statement_safe h ok cell_at db (OnCursor (Fetch position)) m =
     (\<forall>a. m (pos_name position) = Some a \<longrightarrow> no_overflow (pos_direction position) (ac_position a))"
| "statement_safe h ok cell_at db (OnCursor (Move position)) m =
     (\<forall>a. m (pos_name position) = Some a \<longrightarrow> no_overflow (pos_direction position) (ac_position a))"
| "statement_safe h ok cell_at db (OnCursor (Close plan)) m = True"
| "statement_safe h ok cell_at db (EndOfTransaction command) m = True"

primrec statements_safe :: "('x, 'b, 's, 'c, 'f, 'j, 'e, 't) handler \<Rightarrow> ('b \<Rightarrow> bool) \<Rightarrow> ('c \<Rightarrow> nat \<Rightarrow> string option) \<Rightarrow>
    (string \<Rightarrow> text_row list) \<Rightarrow> cursor_statement list \<Rightarrow> abstract_cursors \<Rightarrow> bool" where
  "statements_safe h ok cell_at db [] m = True"
| "statements_safe h ok cell_at db (st # sts) m =
     (statement_safe h ok cell_at db st m \<and> statements_safe h ok cell_at db sts (snd (spec_statement db st m)))"

section \<open>Simulation\<close>

lemma abs_cursor_simps [simp]:
  "ac_rows (abs_cursor ops cell_at cur) = data_rows ops cell_at (cur_data cur)" "ac_position (abs_cursor ops cell_at cur) = cur_position cur"
  "ac_scroll (abs_cursor ops cell_at cur) = cur_scroll cur" "ac_hold (abs_cursor ops cell_at cur) = cur_hold cur"
  "abs_cursor ops cell_at (cur\<lparr>cur_position := p\<rparr>) = (abs_cursor ops cell_at cur)\<lparr>ac_position := p\<rparr>"
  by (simp_all add: abs_cursor_def)

lemma abs_cursors_upd:
  "abs_cursors ops cell_at (s\<lparr>ss_cursors := (ss_cursors s)(n := oc)\<rparr>) = (abs_cursors ops cell_at s)(n := map_option (abs_cursor ops cell_at) oc)"
  by (auto simp: abs_cursors_def)

lemma abs_cursors_exasol [simp]: "abs_cursors ops cell_at (s\<lparr>ss_exasol := x\<rparr>) = abs_cursors ops cell_at s"
  by (simp add: abs_cursors_def)

lemma spec_apply_range:
  assumes "-1 \<le> p" and "p \<le> int (length xs)"
  shows "-1 \<le> snd (spec_apply xs d p) \<and> snd (spec_apply xs d p) \<le> int (length xs)"
  using assms
  by (cases d rule: direction_cases)
    (auto simp: spec_move_def spec_forward_def spec_backward_def spec_seek_def spec_refetch_def Let_def min_def split: if_splits)

lemma cursor_inv_moved:
  "cursor_inv ops ok cell_at cur \<Longrightarrow> cursor_inv ops ok cell_at (cur\<lparr>cur_position := snd (spec_apply (data_rows ops cell_at (cur_data cur)) d (cur_position cur))\<rparr>)"
  using spec_apply_range [of "cur_position cur" "data_rows ops cell_at (cur_data cur)" d] by (simp add: cursor_inv_def)

lemma fetch_response_view:
  "step_fits (cur_data cur) (step_rows st) \<Longrightarrow>
     \<exists>r. fetch_response cur st c = Ret (Inr [r], c) \<and> answer_of ops cell_at (Inr [r]) = Some (AnsRows (step_view ops cell_at (step_rows st)))"
  by (cases "cur_data cur"; cases "step_rows st") (auto simp: fetch_response_def)

text \<open>A step of a cursor in the session, once its answer is known.\<close>

lemma step_cursor_run:
  assumes "cl_session c = Some s" and "ss_cursors s (pos_name position) = Some cur"
    and "apply_cursor fuel (h_batch h) (pos_direction position) rr cur = Ret (Inr (st, cur'))"
  shows "step_cursor fuel h position rr respond c =
    respond cur st (c\<lparr>cl_session := Some (s\<lparr>ss_cursors := (ss_cursors s)(pos_name position \<mapsto> cur')\<rparr>)\<rparr>)"
  using assms by (simp add: step_cursor_def exec_simps)

lemma step_cursor_refused:
  assumes "cl_session c = Some s" and "ss_cursors s (pos_name position) = Some cur"
    and "\<not> cur_scroll cur" and "direction_requires_scroll (pos_direction position)"
  shows "step_cursor fuel h position rr respond c = Ret (Inl (pg_error ''0A000'' ''cursor was declared NO SCROLL''), c)"
  using assms by (simp add: step_cursor_def exec_simps apply_cursor_def)

lemma step_cursor_missing:
  assumes "cl_session c = Some s" and "ss_cursors s (pos_name position) = None"
  shows "step_cursor fuel h position rr respond c = Ret (Inr [RespError ''34000'' (cursor_missing_message (pos_name position))], c)"
  using assms by (simp add: step_cursor_def exec_simps error_response_def)

definition simulates :: "('b, 's, 'c) batch_ops \<Rightarrow> ('b \<Rightarrow> bool) \<Rightarrow> ('c \<Rightarrow> nat \<Rightarrow> string option) \<Rightarrow>
    (pg_wire_error, ('b, 's, 'j) gateway_response list) result \<Rightarrow> ('x, 'b, 's, 'j) session_state \<Rightarrow>
    abstract_answer \<times> abstract_cursors \<Rightarrow> bool" where
  "simulates ops ok cell_at r s' spec \<longleftrightarrow>
     answer_of ops cell_at r = Some (fst spec) \<and> abs_cursors ops cell_at s' = snd spec \<and> cursors_inv ops ok cell_at s'"

text \<open>A statement that answers and changes nothing.\<close>

lemma simulates_unchanged:
  assumes "cl_session c = Some s" and "cursors_inv ops ok cell_at s" and "res = Ret (r, c)"
    and "answer_of ops cell_at r = Some a" and "spec = (a, abs_cursors ops cell_at s)"
  shows "\<exists>r s'. res = Ret (r, c\<lparr>cl_session := Some s'\<rparr>) \<and> simulates ops ok cell_at r s' spec"
proof -
  have "c\<lparr>cl_session := Some s\<rparr> = c" using assms(1) by (cases c) simp
  then show ?thesis using assms by (intro exI [of _ r] exI [of _ s]) (simp add: simulates_def)
qed

lemma cursors_inv_upd:
  "cursors_inv ops ok cell_at s \<Longrightarrow> (\<And>cur. oc = Some cur \<Longrightarrow> cursor_inv ops ok cell_at cur) \<Longrightarrow>
     cursors_inv ops ok cell_at (s\<lparr>ss_cursors := (ss_cursors s)(n := oc)\<rparr>)"
  by (auto simp: cursors_inv_def split: if_splits)

lemma position_simulates:
  assumes "text_batch (h_batch h) ok cell_at arr_len fits" and "cl_session c = Some s" and "cursors_inv (h_batch h) ok cell_at s"
    and "\<And>a. abs_cursors (h_batch h) cell_at s (pos_name position) = Some a \<Longrightarrow> no_overflow (pos_direction position) (ac_position a)"
    and "respond = (if rr then fetch_response else (\<lambda>_ step. pass [RespExecution ''MOVE'' (Some (step_count step))]))"
  shows "\<exists>r s'. step_cursor (Suc (Suc fuel)) h position rr respond c = Ret (r, c\<lparr>cl_session := Some s'\<rparr>) \<and>
    simulates (h_batch h) ok cell_at r s' (spec_position rr position (abs_cursors (h_batch h) cell_at s))"
proof (cases "ss_cursors s (pos_name position)")
  case None
  then have "spec_position rr position (abs_cursors (h_batch h) cell_at s) = (AnsError ''34000'', abs_cursors (h_batch h) cell_at s)"
    by (simp add: spec_position_def abs_cursors_def)
  then show ?thesis by (intro simulates_unchanged [OF assms(2,3) step_cursor_missing [OF assms(2) None]]) simp_all
next
  case (Some cur)
  let ?ops = "h_batch h" and ?d = "pos_direction position" and ?n = "pos_name position"
  let ?spec = "spec_apply (data_rows ?ops cell_at (cur_data cur)) ?d (cur_position cur)"
  have inv: "cursor_inv ?ops ok cell_at cur" using assms(3) Some by (simp add: cursors_inv_def)
  have over: "no_overflow ?d (cur_position cur)" using assms(4) Some by (simp add: abs_cursors_def)
  have m: "abs_cursors ?ops cell_at s ?n = Some (abs_cursor ?ops cell_at cur)" using Some by (simp add: abs_cursors_def)
  show ?thesis
  proof (cases "direction_requires_scroll ?d \<and> \<not> cur_scroll cur")
    case True
    then have "spec_position rr position (abs_cursors ?ops cell_at s) = (AnsError ''0A000'', abs_cursors ?ops cell_at s)"
      using m by (auto simp: spec_position_def spec_step_def fun_upd_idem)
    then show ?thesis
      using True by (intro simulates_unchanged [OF assms(2,3) step_cursor_refused [OF assms(2) Some]]) (simp_all add: pg_error_def)
  next
    case False
    let ?cur' = "cur\<lparr>cur_position := snd ?spec\<rparr>"
    let ?s' = "s\<lparr>ss_cursors := (ss_cursors s)(?n \<mapsto> ?cur')\<rparr>"
    have s': "abs_cursors ?ops cell_at ?s' = (abs_cursors ?ops cell_at s)(?n \<mapsto> (abs_cursor ?ops cell_at cur)\<lparr>ac_position := snd ?spec\<rparr>)"
      by (simp add: abs_cursors_upd)
    have inv': "cursors_inv ?ops ok cell_at ?s'"
      by (rule cursors_inv_upd [OF assms(3)]) (use cursor_inv_moved [OF inv] in auto)
    have scroll: "cur_scroll cur \<or> \<not> direction_requires_scroll ?d" using False by blast
    show ?thesis
    proof (cases rr)
      case True
      obtain st where st: "apply_cursor (Suc (Suc fuel)) ?ops ?d True cur = Ret (Inr (st, ?cur'))"
        "step_view ?ops cell_at (step_rows st) = fst ?spec"
        using text_batch.apply_spec(1) [OF assms(1) inv over scroll refl] by (auto simp: fetched_def)
      obtain r where "fetch_response cur st (c\<lparr>cl_session := Some ?s'\<rparr>) = Ret (Inr [r], c\<lparr>cl_session := Some ?s'\<rparr>)"
        "answer_of ?ops cell_at (Inr [r]) = Some (AnsRows (fst ?spec))"
        using fetch_response_view [OF apply_cursor_fits [OF st(1)]] st(2) by metis
      then show ?thesis
        using step_cursor_run [OF assms(2) Some st(1), of fetch_response] s' inv' m False True assms(5)
        by (intro exI [of _ "Inr [r]"] exI [of _ ?s']) (auto simp: simulates_def spec_position_def spec_step_def split: prod.splits)
    next
      case no: False
      have st: "apply_cursor (Suc (Suc fuel)) ?ops ?d False cur = Ret (Inr (\<lparr>step_rows = empty_like (cur_data cur),
          step_count = (if is_refetch ?d then 0 else int (length (fst ?spec)))\<rparr>, ?cur'))"
        using text_batch.apply_spec(2) [OF assms(1) inv over scroll refl] by (simp add: moved_def)
      then show ?thesis
        using step_cursor_run [OF assms(2) Some st] s' inv' m False no assms(5)
        by (intro exI [of _ "Inr [RespExecution ''MOVE'' (Some (if is_refetch ?d then 0 else int (length (fst ?spec))))]"] exI [of _ ?s'])
          (auto simp: simulates_def spec_position_def spec_step_def split: prod.splits)
    qed
  qed
qed

lemma declare_simulates:
  assumes "cl_session c = Some s" and "cursors_inv (h_batch h) ok cell_at s"
    and "answers_query h ok cell_at db (decl_query d)"
  shows "\<exists>r s'. declare_cursor h d c = Ret (r, c\<lparr>cl_session := Some s'\<rparr>) \<and>
    simulates (h_batch h) ok cell_at r s' (spec_cursor_plan db (Declare d) (abs_cursors (h_batch h) cell_at s))"
proof (cases "ss_cursors s (decl_name d)")
  case (Some cur)
  have "declare_cursor h d c = Ret (Inr [RespError ''42P03'' (cursor_exists_message (decl_name d))], c)"
    using assms(1,3) Some by (simp add: declare_cursor_def exec_simps error_response_def answers_query_def)
  then show ?thesis
    by (rule simulates_unchanged [OF assms(1,2)]) (use Some in \<open>simp_all add: abs_cursors_def\<close>)
next
  case None
  let ?ops = "h_batch h"
  obtain q where q: "\<not> is_cursor_unsafe_query (classify_statement (h_regex h) (decl_query d))"
    "translate_client_sql h (decl_query d) = Inr q" "int (length (db (decl_query d))) < i64_max"
    and "\<forall>x. \<exists>outcome data x'. h_exec_sql h x q = (Inr outcome, x') \<and> outcome_data ?ops outcome = Some data \<and>
      data_wf ok data \<and> data_rows ?ops cell_at data = db (decl_query d)"
    using assms(3) by (auto simp: answers_query_def)
  then obtain outcome data x where x: "h_exec_sql h (ss_exasol s) q = (Inr outcome, x)" "outcome_data ?ops outcome = Some data"
    "data_wf ok data" "data_rows ?ops cell_at data = db (decl_query d)"
    by blast
  let ?cur = "\<lparr>cur_data = data, cur_position = -1, cur_scroll = decl_scroll d, cur_hold = decl_hold d\<rparr>"
  let ?s1 = "s\<lparr>ss_exasol := x\<rparr>"
  let ?s' = "?s1\<lparr>ss_cursors := (ss_cursors ?s1)(decl_name d \<mapsto> ?cur)\<rparr>"
  have "declare_cursor h d c = insert_cursor d data (c\<lparr>cl_session := Some ?s1\<rparr>)"
    using assms(1) None q(1,2) x(1,2)
    by (cases outcome) (auto simp: declare_cursor_def execute_client_sql_def execute_exasol_sql_def exec_simps)
  also have "\<dots> = Ret (Inr [RespExecution ''DECLARE CURSOR'' None], c\<lparr>cl_session := Some ?s'\<rparr>)"
    using None by (simp add: insert_cursor_def exec_simps)
  finally have run: "declare_cursor h d c = Ret (Inr [RespExecution ''DECLARE CURSOR'' None], c\<lparr>cl_session := Some ?s'\<rparr>)" .
  have "cursors_inv ?ops ok cell_at ?s1" using assms(2) by (simp add: cursors_inv_def)
  then have "cursors_inv ?ops ok cell_at ?s'"
    by (rule cursors_inv_upd) (use x(3,4) q(3) in \<open>auto simp: cursor_inv_def\<close>)
  moreover have "abs_cursors ?ops cell_at ?s' = (abs_cursors ?ops cell_at s)(decl_name d \<mapsto>
      \<lparr>ac_rows = db (decl_query d), ac_position = -1, ac_scroll = decl_scroll d, ac_hold = decl_hold d\<rparr>)"
    using x(4) by (subst abs_cursors_upd) (simp add: abs_cursor_def)
  moreover have "abs_cursors ?ops cell_at s (decl_name d) = None" using None by (simp add: abs_cursors_def)
  ultimately have "simulates ?ops ok cell_at (Inr [RespExecution ''DECLARE CURSOR'' None]) ?s'
      (spec_cursor_plan db (Declare d) (abs_cursors ?ops cell_at s))"
    by (simp add: simulates_def)
  then show ?thesis using run by blast
qed

lemma close_simulates:
  assumes "cl_session c = Some s" and "cursors_inv ops ok cell_at s"
  shows "\<exists>r s'. close_cursor plan c = Ret (r, c\<lparr>cl_session := Some s'\<rparr>) \<and>
    simulates ops ok cell_at r s' (spec_cursor_plan db (Close plan) (abs_cursors ops cell_at s))"
proof (cases plan)
  case CloseAll
  have "close_cursor plan c = Ret (Inr [RespExecution ''CLOSE CURSOR'' None], c\<lparr>cl_session := Some (s\<lparr>ss_cursors := Map.empty\<rparr>)\<rparr>)"
    using assms(1) CloseAll by (simp add: close_cursor_def exec_simps)
  moreover have "simulates ops ok cell_at (Inr [RespExecution ''CLOSE CURSOR'' None]) (s\<lparr>ss_cursors := Map.empty\<rparr>)
      (spec_cursor_plan db (Close plan) (abs_cursors ops cell_at s))"
    using CloseAll by (simp add: simulates_def abs_cursors_def cursors_inv_def)
  ultimately show ?thesis by blast
next
  case (CloseOne name)
  show ?thesis
  proof (cases "ss_cursors s name")
    case None
    have "close_cursor plan c = Ret (Inr [RespError ''34000'' (cursor_missing_message name)], c)"
      using assms(1) CloseOne None by (simp add: close_cursor_def exec_simps error_response_def)
    then show ?thesis
      by (rule simulates_unchanged [OF assms]) (use CloseOne None in \<open>simp_all add: abs_cursors_def\<close>)
  next
    case (Some cur)
    let ?s' = "s\<lparr>ss_cursors := (ss_cursors s)(name := None)\<rparr>"
    have "close_cursor plan c = Ret (Inr [RespExecution ''CLOSE CURSOR'' None], c\<lparr>cl_session := Some ?s'\<rparr>)"
      using assms(1) CloseOne Some by (simp add: close_cursor_def exec_simps)
    moreover have "abs_cursors ops cell_at s name = Some (abs_cursor ops cell_at cur)" using Some by (simp add: abs_cursors_def)
    then have "simulates ops ok cell_at (Inr [RespExecution ''CLOSE CURSOR'' None]) ?s' (spec_cursor_plan db (Close plan) (abs_cursors ops cell_at s))"
      using CloseOne cursors_inv_upd [OF assms(2), of None name] by (simp add: simulates_def abs_cursors_upd)
    ultimately show ?thesis by blast
  qed
qed

lemma commit_simulates:
  assumes "cl_session c = Some s" and "cursors_inv ops ok cell_at s"
  shows "\<exists>r s'. run_plan fuel h sql (ClientTransactionEnd command) c = Ret (r, c\<lparr>cl_session := Some s'\<rparr>) \<and>
    simulates ops ok cell_at r s' (spec_statement db (EndOfTransaction command) (abs_cursors ops cell_at s))"
proof -
  let ?kept = "\<lambda>name. case ss_cursors s name of Some cursor \<Rightarrow> if cur_hold cursor then Some cursor else None | None \<Rightarrow> None"
  have "run_plan fuel h sql (ClientTransactionEnd command) c =
      Ret (Inr [RespTransactionEnd command], c\<lparr>cl_session := Some (s\<lparr>ss_cursors := ?kept\<rparr>)\<rparr>)"
    using assms(1) by (simp add: clear_non_hold_cursors_def exec_simps)
  moreover have "abs_cursors ops cell_at (s\<lparr>ss_cursors := ?kept\<rparr>) =
      abs_cursors ops cell_at s |` {name. \<exists>a. abs_cursors ops cell_at s name = Some a \<and> ac_hold a}"
    by (auto simp: abs_cursors_def restrict_map_def fun_eq_iff split: option.splits)
  moreover have "cursors_inv ops ok cell_at (s\<lparr>ss_cursors := ?kept\<rparr>)"
    using assms(2) by (auto simp: cursors_inv_def split: option.splits if_splits)
  ultimately have "run_plan fuel h sql (ClientTransactionEnd command) c =
      Ret (Inr [RespTransactionEnd command], c\<lparr>cl_session := Some (s\<lparr>ss_cursors := ?kept\<rparr>)\<rparr>) \<and>
      simulates ops ok cell_at (Inr [RespTransactionEnd command]) (s\<lparr>ss_cursors := ?kept\<rparr>)
        (spec_statement db (EndOfTransaction command) (abs_cursors ops cell_at s))"
    by (simp add: simulates_def)
  then show ?thesis by blast
qed

lemma statement_simulates:
  assumes "text_batch (h_batch h) ok cell_at arr_len fits" and "cl_session c = Some s" and "cursors_inv (h_batch h) ok cell_at s"
    and "statement_safe h ok cell_at db st (abs_cursors (h_batch h) cell_at s)"
  shows "\<exists>r s'. run_plan (Suc (Suc fuel)) h sql (statement_plan_of st) c = Ret (r, c\<lparr>cl_session := Some s'\<rparr>) \<and>
    simulates (h_batch h) ok cell_at r s' (spec_statement db st (abs_cursors (h_batch h) cell_at s))"
proof (cases st)
  case (EndOfTransaction command)
  then show ?thesis using commit_simulates [OF assms(2,3)] by simp
next
  case (OnCursor plan)
  then show ?thesis
  proof (cases plan)
    case (Declare d)
    then show ?thesis using OnCursor declare_simulates [OF assms(2,3)] assms(4) by simp
  next
    case (Fetch position)
    then show ?thesis
      using OnCursor position_simulates [OF assms(1-3), of position fetch_response True fuel] assms(4) by (simp add: fetch_cursor_def)
  next
    case (Move position)
    then show ?thesis
      using OnCursor position_simulates [OF assms(1-3), of position _ False fuel] assms(4) by (simp add: move_cursor_def)
  next
    case (Close plan)
    then show ?thesis using OnCursor close_simulates [OF assms(2,3), of plan db] by simp
  qed
qed

section \<open>Properties\<close>

text \<open>A client that sends one statement after the other, whatever the answers are.\<close>

primrec execute_each :: "nat \<Rightarrow> ('x, 'b, 's, 'c, 'f, 'j, 'e, 't) handler \<Rightarrow> string list \<Rightarrow> ('x, 'b, 's, 'j, 't) client \<Rightarrow>
    ((pg_wire_error, ('b, 's, 'j) gateway_response list) result list \<times> ('x, 'b, 's, 'j, 't) client) exec" where
  "execute_each fuel h [] c = Ret ([], c)"
| "execute_each fuel h (sql # sqls) c =
     bind_exec (execute_statement fuel h sql c) (\<lambda>(r, c1).
     bind_exec (execute_each fuel h sqls c1) (\<lambda>(rs, c2). Ret (r # rs, c2)))"

definition states_plan :: "('x, 'b, 's, 'c, 'f, 'j, 'e, 't) handler \<Rightarrow> string \<Rightarrow> cursor_statement \<Rightarrow> bool" where
  "states_plan h sql st \<longleftrightarrow> detect (h_regex h) sql = None \<and> classify_statement (h_regex h) sql = statement_plan_of st"

text \<open>
  C3. The cursors of a session refine the abstract machine. For every sequence of DECLARE, FETCH,
  MOVE, CLOSE and transaction ends, the session returns, and the client reads exactly the answers
  of the machine, rows, counts and SQLSTATEs, on either transport; the cursors that are left are
  the machine's. Exasol must answer the declared queries with well-formed results, and no count may
  leave the 64-bit range.
\<close>

theorem cursor_session_refines:
  assumes "text_batch (h_batch h) ok cell_at arr_len fits" and "cl_session c = Some s" and "cursors_inv (h_batch h) ok cell_at s"
    and "list_all2 (states_plan h) sqls sts" and "statements_safe h ok cell_at db sts (abs_cursors (h_batch h) cell_at s)"
  shows "\<exists>rs s'. execute_each (Suc (Suc fuel)) h sqls c = Ret (rs, c\<lparr>cl_session := Some s'\<rparr>) \<and>
    map (answer_of (h_batch h) cell_at) rs = map Some (fst (spec_statements db sts (abs_cursors (h_batch h) cell_at s))) \<and>
    abs_cursors (h_batch h) cell_at s' = snd (spec_statements db sts (abs_cursors (h_batch h) cell_at s))"
  using assms(4,2,3,5)
proof (induction sqls sts arbitrary: c s rule: list_all2_induct)
  case Nil
  moreover have "c\<lparr>cl_session := Some s\<rparr> = c" using Nil.prems(1) by (cases c) simp
  ultimately show ?case by (intro exI [of _ "[]"] exI [of _ s]) simp
next
  case (Cons sql sqls st sts)
  let ?m = "abs_cursors (h_batch h) cell_at s"
  obtain r s1 where run: "execute_statement (Suc (Suc fuel)) h sql c = Ret (r, c\<lparr>cl_session := Some s1\<rparr>)"
    and sim: "answer_of (h_batch h) cell_at r = Some (fst (spec_statement db st ?m))"
      "abs_cursors (h_batch h) cell_at s1 = snd (spec_statement db st ?m)" "cursors_inv (h_batch h) ok cell_at s1"
    using statement_simulates [OF assms(1) Cons.prems(1,2), of db st fuel sql] Cons.hyps(1) Cons.prems(3)
    by (auto simp: states_plan_def execute_statement_plan simulates_def)
  obtain rs s2 where "execute_each (Suc (Suc fuel)) h sqls (c\<lparr>cl_session := Some s1\<rparr>) = Ret (rs, c\<lparr>cl_session := Some s2\<rparr>)"
    "map (answer_of (h_batch h) cell_at) rs = map Some (fst (spec_statements db sts (snd (spec_statement db st ?m))))"
    "abs_cursors (h_batch h) cell_at s2 = snd (spec_statements db sts (snd (spec_statement db st ?m)))"
    using Cons.IH [of "c\<lparr>cl_session := Some s1\<rparr>" s1] sim Cons.prems(3) by auto
  then show ?case
    using run sim(1) by (intro exI [of _ "r # rs"] exI [of _ s2]) (simp add: split_def Let_def)
qed

lemma demo_cursor_statements:
  "states_plan demo_handler demo_declare (OnCursor (Declare
     \<lparr>decl_name = ''c'', decl_query = ''SELECT a FROM t'', decl_scroll = False, decl_hold = False\<rparr>))"
  "states_plan demo_handler ''FETCH ALL FROM c'' (OnCursor (Fetch \<lparr>pos_name = ''c'', pos_direction = AllRows\<rparr>))"
  "states_plan demo_handler ''COMMIT'' (EndOfTransaction ''COMMIT'')"
  "states_plan demo_handler ''CLOSE c'' (OnCursor (Close (CloseOne ''c'')))"
proof -
  have "to_ascii_lowercase (take 6 (trim ''FETCH ALL FROM c'')) \<noteq> ''select''" "to_ascii_lowercase (take 6 (trim ''CLOSE c'')) \<noteq> ''select''"
    by code_simp+
  then have "detect bt_engine ''FETCH ALL FROM c'' = None" "detect bt_engine ''CLOSE c'' = None"
    using detect_select [OF bt.regex_engine_axioms] by blast+
  moreover have "classify_statement bt_engine ''FETCH ALL FROM c'' = CursorStatement (Fetch \<lparr>pos_name = ''c'', pos_direction = AllRows\<rparr>)"
    "classify_statement bt_engine ''CLOSE c'' = CursorStatement (Close (CloseOne ''c''))" by code_simp+
  ultimately show "states_plan demo_handler demo_declare (OnCursor (Declare
     \<lparr>decl_name = ''c'', decl_query = ''SELECT a FROM t'', decl_scroll = False, decl_hold = False\<rparr>))"
    "states_plan demo_handler ''FETCH ALL FROM c'' (OnCursor (Fetch \<lparr>pos_name = ''c'', pos_direction = AllRows\<rparr>))"
    "states_plan demo_handler ''COMMIT'' (EndOfTransaction ''COMMIT'')"
    "states_plan demo_handler ''CLOSE c'' (OnCursor (Close (CloseOne ''c'')))"
    using demo_plans by (simp_all add: states_plan_def)
qed

theorem cursor_session_refines_witness:
  "\<exists>rs c'. execute_each 2 demo_handler [demo_declare, ''FETCH ALL FROM c'', ''COMMIT'', ''CLOSE c''] demo_client = Ret (rs, c') \<and>
     map (answer_of columnar_ops nth) rs = [Some AnsDone, Some (AnsRows [[Some ''SELECT a FROM t'']]), Some AnsDone, Some (AnsError ''34000'')]"
proof -
  let ?db = "\<lambda>sql. [[Some sql]]"
  let ?sts = "[OnCursor (Declare \<lparr>decl_name = ''c'', decl_query = ''SELECT a FROM t'', decl_scroll = False, decl_hold = False\<rparr>),
    OnCursor (Fetch \<lparr>pos_name = ''c'', pos_direction = AllRows\<rparr>), EndOfTransaction ''COMMIT'', OnCursor (Close (CloseOne ''c''))]"
  have texts: "list_all2 (states_plan demo_handler) [demo_declare, ''FETCH ALL FROM c'', ''COMMIT'', ''CLOSE c''] ?sts"
    using demo_cursor_statements by simp
  have c: "cl_session demo_client = Some demo_session" "cursors_inv (h_batch demo_handler) columnar_wf nth demo_session"
    "abs_cursors columnar_ops nth demo_session = Map.empty"
    by (simp_all add: demo_client_def demo_session_def cursors_inv_def abs_cursors_def)
  have safe: "statements_safe demo_handler columnar_wf nth ?db ?sts (abs_cursors (h_batch demo_handler) nth demo_session)"
    by (simp add: answers_query_def demo_classify i64_max_def)
  have spec: "fst (spec_statements ?db ?sts Map.empty) = [AnsDone, AnsRows [[Some ''SELECT a FROM t'']], AnsDone, AnsError ''34000'']"
    by (simp add: spec_position_def spec_step_def restrict_map_def)
  have tb: "text_batch (h_batch demo_handler) columnar_wf nth length columnar_fits" using ct.text_batch_axioms by simp
  show ?thesis
    using cursor_session_refines [OF tb c(1,2) texts safe, of 0] c(3) spec by (auto simp: numeral_2_eq_2)
qed

end
