(* ===== verification/Server.thy ===== *)
theory Server
  imports Session_Laws
begin

text \<open>
  The running server: the accept loop of \<^verbatim>\<open>src/src/main.rs\<close> and the tasks it starts, one for each
  connection, with the handlers that \<^verbatim>\<open>ExasolPgWireFactory\<close> gives to pgwire. All connections use one
  handler, which holds no state that a message changes; the state of a connection is the record
  \<open>client\<close> of its task.

  The scheduler is the order of the events: at any time any task may handle its next message, a
  connection may arrive, a task may end or \<^verbatim>\<open>accept\<close> may fail. A panic ends the task in which it
  happens, as tokio catches it there. A handler that does not return is \<open>Diverge\<close> for the server,
  since it keeps its worker thread, and its recursion the stack of the process.
\<close>

section \<open>Messages of a connection\<close>

datatype ('m, 't) client_event =
    EvStartup "'m startup_message"
  | EvQuery string
  | EvDescribe string
  | EvExecute "string option"
  | EvBind portal
  | EvClose string
  | EvSync connection_state 't

definition state_after :: "('r \<times> 'c) exec \<Rightarrow> 'c exec" where
  "state_after x = bind_exec x (\<lambda>(r, c'). Ret c')"

text \<open>
  The handler that each message goes to. Binding and closing a portal and the end of a message
  sequence are pgwire's own work; it describes portals that it has.
\<close>

fun handle_event :: "nat \<Rightarrow> ('x, 'b, 's, 'c, 'f, 'j, 'e, 't) handler \<Rightarrow>
    (('x, 'b, 's, 'j, 't) client, 'm) startup_ops \<Rightarrow> ('m, 't) client_event \<Rightarrow>
    ('x, 'b, 's, 'j, 't) client \<Rightarrow> ('x, 'b, 's, 'j, 't) client exec" where
  "handle_event fuel h su (EvStartup m) c = state_after (on_startup h su m c)"
| "handle_event fuel h su (EvQuery q) c = state_after (execute_simple_query fuel h q c)"
| "handle_event fuel h su (EvDescribe name) c =
     (case cl_portals c name of
        None \<Rightarrow> Ret c
      | Some p \<Rightarrow> state_after (do_describe_portal fuel h p c))"
| "handle_event fuel h su (EvExecute name) c = state_after (on_execute fuel h name c)"
| "handle_event fuel h su (EvBind p) c = Ret (c\<lparr>cl_portals := (cl_portals c)(p_name p \<mapsto> p)\<rparr>)"
| "handle_event fuel h su (EvClose name) c = Ret (c\<lparr>cl_portals := (cl_portals c)(name := None)\<rparr>)"
| "handle_event fuel h su (EvSync st tx) c = Ret (c\<lparr>cl_state := st, cl_tx := tx\<rparr>)"

section \<open>Tasks and the accept loop\<close>

text \<open>\<open>TaskDone\<close> is the return of \<^verbatim>\<open>process_socket\<close>, with the error that is logged, if any.\<close>

datatype ('m, 't) task_event = TaskMessage "('m, 't) client_event" | TaskDone "string option"

definition task_step :: "nat \<Rightarrow> ('x, 'b, 's, 'c, 'f, 'j, 'e, 't) handler \<Rightarrow>
    (('x, 'b, 's, 'j, 't) client, 'm) startup_ops \<Rightarrow> ('m, 't) task_event \<Rightarrow>
    ('x, 'b, 's, 'j, 't) client \<Rightarrow> ('x, 'b, 's, 'j, 't) client option exec" where
  "task_step fuel h su ev c =
     (case ev of
        TaskMessage m \<Rightarrow>
          (case handle_event fuel h su m c of
             Ret c' \<Rightarrow> Ret (Some c')
           | Panic \<Rightarrow> Ret None
           | Diverge \<Rightarrow> Diverge)
      | TaskDone _ \<Rightarrow> Ret None)"

datatype ('m, 't) server_event =
    Accepted 't
  | AcceptFailed string
  | OfTask nat "('m, 't) task_event"

record ('x, 'b, 's, 'j, 't) running_server =
  rs_clients :: "nat \<rightharpoonup> ('x, 'b, 's, 'j, 't) client"
  rs_next :: nat
  rs_warnings :: "(nat \<times> string) list"

text \<open>\<open>Stopped\<close>: the loop has returned an error, \<^verbatim>\<open>main\<close> ends and the runtime drops all tasks.\<close>

datatype 'r server_state = Serving 'r | Stopped string

definition end_warning :: "nat \<Rightarrow> ('m, 't) task_event \<Rightarrow> (nat \<times> string) list" where
  "end_warning i ev = (case ev of TaskDone (Some e) \<Rightarrow> [(i, e)] | _ \<Rightarrow> [])"

fun serve_event :: "nat \<Rightarrow> ('x, 'b, 's, 'c, 'f, 'j, 'e, 't) handler \<Rightarrow>
    (('x, 'b, 's, 'j, 't) client, 'm) startup_ops \<Rightarrow> ('m, 't) server_event \<Rightarrow>
    ('x, 'b, 's, 'j, 't) running_server server_state \<Rightarrow>
    ('x, 'b, 's, 'j, 't) running_server server_state exec" where
  "serve_event fuel h su ev (Stopped e) = Ret (Stopped e)"
| "serve_event fuel h su (Accepted tx) (Serving s) =
     Ret (Serving (s\<lparr>rs_clients := (rs_clients s)(rs_next s \<mapsto> new_client tx), rs_next := rs_next s + 1\<rparr>))"
| "serve_event fuel h su (AcceptFailed e) (Serving s) = Ret (Stopped e)"
| "serve_event fuel h su (OfTask i ev) (Serving s) =
     (case rs_clients s i of
        None \<Rightarrow> Ret (Serving s)
      | Some c \<Rightarrow>
          bind_exec (task_step fuel h su ev c) (\<lambda>task.
            Ret (Serving (s\<lparr>rs_clients := (rs_clients s)(i := task),
              rs_warnings := rs_warnings s @ end_warning i ev\<rparr>))))"

primrec serve_events :: "nat \<Rightarrow> ('x, 'b, 's, 'c, 'f, 'j, 'e, 't) handler \<Rightarrow>
    (('x, 'b, 's, 'j, 't) client, 'm) startup_ops \<Rightarrow> ('m, 't) server_event list \<Rightarrow>
    ('x, 'b, 's, 'j, 't) running_server server_state \<Rightarrow>
    ('x, 'b, 's, 'j, 't) running_server server_state exec" where
  "serve_events fuel h su [] st = Ret st"
| "serve_events fuel h su (ev # evs) st = bind_exec (serve_event fuel h su ev st) (serve_events fuel h su evs)"

definition fresh_server :: "('x, 'b, 's, 'j, 't) running_server" where
  "fresh_server = \<lparr>rs_clients = Map.empty, rs_next = 0, rs_warnings = []\<rparr>"

section \<open>Laws\<close>

lemma state_after_Ret [simp]: "state_after x = Ret c' \<longleftrightarrow> (\<exists>r. x = Ret (r, c'))"
  by (auto simp: state_after_def bind_exec_Ret)

lemma handle_event_step: "handle_event fuel h su ev c = Ret c' \<Longrightarrow> c' = c \<or> client_step fuel h su c c'"
  by (cases ev) (auto intro: client_step.intros split: option.splits)

lemma task_step_reachable:
  "task_step fuel h su ev c = Ret (Some c') \<Longrightarrow> reachable fuel h su c \<Longrightarrow> reachable fuel h su c'"
  by (auto simp: task_step_def split: task_event.splits exec.splits dest!: handle_event_step intro: reachable.step)

text \<open>A stopped server stays stopped, so a server that serves has served all along.\<close>

lemma serve_stopped [simp]: "serve_events fuel h su evs (Stopped e) = Ret (Stopped e)"
  by (induction evs) auto

lemma serve_Cons:
  assumes "serve_events fuel h su (ev # evs) (Serving s) = Ret (Serving s')"
  obtains s1 where "serve_event fuel h su ev (Serving s) = Ret (Serving s1)"
    and "serve_events fuel h su evs (Serving s1) = Ret (Serving s')"
proof -
  obtain st where st: "serve_event fuel h su ev (Serving s) = Ret st" "serve_events fuel h su evs st = Ret (Serving s')"
    using assms by (auto simp: bind_exec_Ret)
  then obtain s1 where "st = Serving s1" by (cases st) auto
  then show thesis using st that by simp
qed

definition server_inv :: "nat \<Rightarrow> ('x, 'b, 's, 'c, 'f, 'j, 'e, 't) handler \<Rightarrow>
    (('x, 'b, 's, 'j, 't) client, 'm) startup_ops \<Rightarrow> ('x, 'b, 's, 'j, 't) running_server \<Rightarrow> bool" where
  "server_inv fuel h su s \<longleftrightarrow> (\<forall>i c. rs_clients s i = Some c \<longrightarrow> i < rs_next s \<and> reachable fuel h su c)"

lemma server_inv_step:
  assumes "server_inv fuel h su s" and "serve_event fuel h su ev (Serving s) = Ret (Serving s')"
  shows "server_inv fuel h su s'"
proof (cases ev)
  case (OfTask i tev)
  show ?thesis
  proof (cases "rs_clients s i")
    case (Some c)
    then obtain task where "task_step fuel h su tev c = Ret task" "rs_clients s' = (rs_clients s)(i := task)" "rs_next s' = rs_next s"
      using assms(2) OfTask by (auto simp: bind_exec_Ret)
    then show ?thesis using assms(1) Some task_step_reachable by (fastforce simp: server_inv_def split: if_splits)
  qed (use assms OfTask in auto)
qed (use assms in \<open>auto simp: server_inv_def less_Suc_eq intro: reachable.start split: if_splits\<close>)

lemma server_inv_serve:
  "serve_events fuel h su evs (Serving s) = Ret (Serving s') \<Longrightarrow> server_inv fuel h su s \<Longrightarrow> server_inv fuel h su s'"
proof (induction evs arbitrary: s)
  case (Cons ev evs)
  then show ?case by (elim serve_Cons) (blast intro: server_inv_step)
qed simp

text \<open>What a single connection sees of a run of the server.\<close>

definition tasks_of :: "nat \<Rightarrow> ('m, 't) server_event list \<Rightarrow> ('m, 't) task_event list" where
  "tasks_of i evs = List.map_filter (\<lambda>ev. case ev of OfTask j tev \<Rightarrow> if j = i then Some tev else None | _ \<Rightarrow> None) evs"

lemma tasks_of_simps [simp]:
  "tasks_of i [] = []" "tasks_of i (Accepted tx # evs) = tasks_of i evs" "tasks_of i (AcceptFailed e # evs) = tasks_of i evs"
  "tasks_of i (OfTask j tev # evs) = (if j = i then tev # tasks_of i evs else tasks_of i evs)"
  by (simp_all add: tasks_of_def map_filter_simps)

fun run_alone :: "nat \<Rightarrow> ('x, 'b, 's, 'c, 'f, 'j, 'e, 't) handler \<Rightarrow>
    (('x, 'b, 's, 'j, 't) client, 'm) startup_ops \<Rightarrow> ('m, 't) task_event list \<Rightarrow>
    ('x, 'b, 's, 'j, 't) client option \<Rightarrow> ('x, 'b, 's, 'j, 't) client option exec" where
  "run_alone fuel h su evs None = Ret None"
| "run_alone fuel h su [] (Some c) = Ret (Some c)"
| "run_alone fuel h su (ev # evs) (Some c) = bind_exec (task_step fuel h su ev c) (run_alone fuel h su evs)"

lemma run_alone_Nil [simp]: "run_alone fuel h su [] oc = Ret oc"
  by (cases oc) auto

lemma serve_projects:
  "serve_events fuel h su evs (Serving s) = Ret (Serving s') \<Longrightarrow> i < rs_next s \<Longrightarrow>
     run_alone fuel h su (tasks_of i evs) (rs_clients s i) = Ret (rs_clients s' i)"
proof (induction evs arbitrary: s)
  case (Cons ev evs)
  then obtain s1 where s1: "serve_event fuel h su ev (Serving s) = Ret (Serving s1)"
    and rest: "serve_events fuel h su evs (Serving s1) = Ret (Serving s')"
    by (elim serve_Cons)
  have "rs_next s \<le> rs_next s1" using s1 by (cases ev) (auto split: option.splits simp: bind_exec_Ret)
  then have IH: "run_alone fuel h su (tasks_of i evs) (rs_clients s1 i) = Ret (rs_clients s' i)"
    using Cons.IH [OF rest] Cons.prems(2) by simp
  show ?case
  proof (cases ev)
    case (Accepted tx)
    then show ?thesis using s1 IH Cons.prems(2) by auto
  next
    case (OfTask j tev)
    then show ?thesis using s1 IH by (cases "rs_clients s j") (auto simp: bind_exec_Ret split: if_splits)
  qed (use s1 in simp)
qed simp

text \<open>An error of \<^verbatim>\<open>accept\<close> ends every session, whatever it was.\<close>

lemma accept_failure_stops_all:
  "serve_events fuel h su evs (Serving s) = Ret (Serving s') \<Longrightarrow>
     serve_events fuel h su (evs @ AcceptFailed e # later) (Serving s) = Ret (Stopped e)"
proof (induction evs arbitrary: s)
  case (Cons ev evs)
  then show ?case by (elim serve_Cons) simp
qed simp

section \<open>Properties\<close>

text \<open>
  C4. The invariant of the server: after any sequence of connections, messages, panics and
  disconnections, interleaved in any order, every cursor of every connected client has a position
  between -1 and the number of its rows, whatever Exasol answers and whatever the batch operations
  are. pgwire's startup must leave the session alone.
\<close>

theorem server_sessions_in_range:
  assumes "startup_protocol su" and "serve_events fuel h su evs (Serving fresh_server) = Ret (Serving s)"
    and "rs_clients s i = Some c" and "cl_session c = Some ss" and "ss_cursors ss name = Some cur"
    and "cursor_len (h_batch h) (cur_data cur) = Inr len"
  shows "-1 \<le> cur_position cur \<and> cur_position cur \<le> len"
proof -
  have "server_inv fuel h su fresh_server" by (simp add: server_inv_def fresh_server_def)
  then have "reachable fuel h su c" using server_inv_serve [OF assms(2)] assms(3) by (auto simp: server_inv_def)
  then show ?thesis using session_cursors_in_range [OF assms(1) _ assms(4-6)] by blast
qed

definition demo_events :: "(string, nat) server_event list" where
  "demo_events = [Accepted 0, OfTask 0 (TaskMessage (EvStartup (StartupMessage ''sys''))), Accepted 0,
     OfTask 0 (TaskMessage (EvStartup (PasswordMessage ''secret''))), OfTask 1 (TaskDone None),
     OfTask 0 (TaskMessage (EvQuery demo_declare))]"

definition demo_serving :: "(string list, string option columnar, string list, json, nat) running_server" where
  "demo_serving = \<lparr>rs_clients = [0 \<mapsto> demo_declared], rs_next = 2, rs_warnings = []\<rparr>"

lemma demo_serve: "serve_events 2 demo_handler demo_startup demo_events (Serving fresh_server) = Ret (Serving demo_serving)"
  by (simp add: demo_events_def demo_serving_def fresh_server_def task_step_def state_after_def demo_startup_run demo_login_run
      demo_declare_run end_warning_def del: on_startup.simps)

theorem server_sessions_in_range_witness: "-1 \<le> cur_position demo_cursor_state \<and> cur_position demo_cursor_state \<le> 1"
  using server_sessions_in_range [OF demo_su.startup_protocol_axioms demo_serve, of 0 demo_declared
      "demo_session\<lparr>ss_exasol := [''SELECT a FROM t''], ss_cursors := [''c'' \<mapsto> demo_cursor_state]\<rparr>" "''c''" demo_cursor_state 1]
  by (simp add: demo_serving_def demo_declared_def demo_cursor_state_def cursor_len_def i64_max_def)



end
