(* ===== verification/Bootstrap.thy ===== *)
theory Bootstrap
  imports Effects Endpoint Response
begin

text \<open>
  The interactive set-up (\<^verbatim>\<open>src/src/bootstrap.rs\<close>): the dialogue that writes a configuration file,
  the installation of the compatibility catalog, the splitting of an SQL script into statements
  and the reading of a count from a result.

  The terminal, the file system and the Exasol server are one world \<open>'w\<close> with the operations
  \<open>boot_ops\<close>; paths are texts. A prompt is repeated until its answer is valid, which may take
  forever, so the prompts have fuel. \<^verbatim>\<open>println!\<close> does not fail here. The two SQL scripts that the
  program embeds are fields of \<open>boot_ops\<close>, so that everything holds for any script.
\<close>

section \<open>The world\<close>

record ('w, 'x, 'b, 's, 'c, 'f, 'j) boot_ops =
  bo_is_terminal :: "'w \<Rightarrow> bool"
  bo_print :: "string \<Rightarrow> 'w \<Rightarrow> 'w"
  bo_flush :: "'w \<Rightarrow> (string, unit) result \<times> 'w"
  bo_read_line :: "'w \<Rightarrow> (string, string) result \<times> 'w"
  bo_read_password :: "string \<Rightarrow> 'w \<Rightarrow> (string, string) result \<times> 'w"
  bo_exists :: "string \<Rightarrow> 'w \<Rightarrow> bool"
  bo_path_parent :: "string \<Rightarrow> string option"
  bo_create_dir_all :: "string \<Rightarrow> 'w \<Rightarrow> (string, unit) result \<times> 'w"
  bo_write_file :: "string \<Rightarrow> string \<Rightarrow> 'w \<Rightarrow> (string, unit) result \<times> 'w"
  bo_current_exe :: "string option"
  bo_connect_arrow :: "exasol_config \<Rightarrow> endpoint_connection \<Rightarrow> string \<Rightarrow> string \<Rightarrow> 'w \<Rightarrow> (exasol_error, 'x) result \<times> 'w"
  bo_connect_websocket :: "exasol_config \<Rightarrow> endpoint_connection \<Rightarrow> string \<Rightarrow> string \<Rightarrow> 'w \<Rightarrow> (exasol_error, 'x) result \<times> 'w"
  bo_run_sql :: "'x \<Rightarrow> string \<Rightarrow> 'w \<Rightarrow> (exasol_error, ('b, 'j) exasol_outcome) result \<times> 'w"
  bo_batch :: "('b, 's, 'c) batch_ops"
  bo_format :: "('c, 'f) format_ops"
  bo_int64_values :: "'c \<Rightarrow> (nat \<Rightarrow> int) option"
  bo_catalog_script :: string
  bo_preprocessor_script :: string

datatype bootstrap_mode = BootInteractive | BootSkip

abbreviation newline :: char where "newline \<equiv> CHR 0x0A"
abbreviation carriage_return :: char where "carriage_return \<equiv> CHR 0x0D"

section \<open>Scripts\<close>

text \<open>\<^verbatim>\<open>str::lines\<close>: a line ends with a newline or with carriage return and newline; the last line needs none.\<close>

definition strip_cr :: "string \<Rightarrow> string" where
  "strip_cr l = (if l \<noteq> [] \<and> last l = carriage_return then butlast l else l)"

definition text_lines :: "string \<Rightarrow> string list" where
  "text_lines s =
     (let pieces = split_char newline s in
      map strip_cr (butlast pieces) @ (if last pieces = [] then [] else [last pieces]))"

definition opens_compound :: "string \<Rightarrow> bool" where
  "opens_compound upper \<longleftrightarrow> starts_with upper ''CREATE'' \<and>
     (contains ('' '' @ upper @ '' '') '' FUNCTION '' \<or> contains ('' '' @ upper @ '' '') '' SCRIPT '')"

definition end_statement :: "string list \<Rightarrow> string" where
  "end_statement buf = trim (trim_end_by (\<lambda>c. c = CHR '';'') (trim (join_with [newline] buf)))"

definition emit :: "string \<Rightarrow> string list \<Rightarrow> string list" where
  "emit statement statements = (if statement \<noteq> [] then statement # statements else statements)"

text \<open>The loop over the lines: \<open>buf\<close> is the buffer, \<open>compound\<close> is \<^verbatim>\<open>in_compound_statement\<close>.\<close>

fun split_lines :: "string list \<Rightarrow> bool \<Rightarrow> string list \<Rightarrow> string list" where
  "split_lines buf compound [] = emit (end_statement buf) []"
| "split_lines buf compound (raw_line # rest) =
     (let stripped = trim raw_line in
      if stripped = ''--/'' then split_lines buf compound rest
      else if buf = [] \<and> (stripped = [] \<or> starts_with stripped ''--'') then split_lines buf compound rest
      else
        let buf' = buf @ [raw_line];
            compound' = (compound \<or> opens_compound (to_ascii_uppercase stripped))
        in
        if compound' \<and> stripped = ''/'' then
          emit (trim (join_with [newline] (butlast buf'))) (split_lines [] False rest)
        else if \<not> compound' \<and> ends_with stripped '';'' then
          emit (end_statement buf') (split_lines [] compound' rest)
        else split_lines buf' compound' rest)"

definition split_exasol_sql :: "string \<Rightarrow> string list" where
  "split_exasol_sql sql_script = split_lines [] False (text_lines sql_script)"

definition preview_statement :: "string \<Rightarrow> string" where
  "preview_statement sql =
     (let one_line = join_with '' '' (split_whitespace sql) in
      if length one_line \<le> 80 then one_line else take 77 one_line @ ''...'')"

section \<open>Counts\<close>

text \<open>The error texts of \<^verbatim>\<open>str::parse\<close> for integers: the first thing wrong from the left counts.\<close>

fun exceeds_first :: "int \<Rightarrow> int \<Rightarrow> string \<Rightarrow> bool" where
  "exceeds_first bound acc [] = False"
| "exceeds_first bound acc (c # cs) =
     (if \<not> is_digit c then False
      else
        let acc' = 10 * acc + int (digit_value c) in
        acc' > bound \<or> exceeds_first bound acc' cs)"

definition invalid_digit_text :: string where
  "invalid_digit_text = ''invalid digit found in string''"

definition i64_error_text :: "string \<Rightarrow> string" where
  "i64_error_text s =
     (case s of
        [] \<Rightarrow> ''cannot parse integer from empty string''
      | c # cs \<Rightarrow>
          if (c = CHR ''-'' \<or> c = CHR ''+'') \<and> cs = [] then invalid_digit_text
          else if c = CHR ''-'' then
            (if exceeds_first (2 ^ 63) 0 cs then ''number too small to fit in target type'' else invalid_digit_text)
          else if exceeds_first (2 ^ 63 - 1) 0 (if c = CHR ''+'' then cs else s)
          then ''number too large to fit in target type''
          else invalid_digit_text)"

text \<open>\<^verbatim>\<open>{:?}\<close> of a text.\<close>

definition hex_lower :: "nat \<Rightarrow> string" where
  "hex_lower n =
     (let digit = (\<lambda>d. if d < 10 then char_of (48 + d) else char_of (87 + d)) in
      (if n < 16 then [digit n] else [digit (n div 16), digit (n mod 16)]))"

definition escape_debug :: "char \<Rightarrow> string" where
  "escape_debug c =
     (let n = (of_char c :: nat) in
      if n = 0 then [backslash, CHR ''0'']
      else if n = 9 then [backslash, CHR ''t'']
      else if n = 13 then [backslash, CHR ''r'']
      else if n = 10 then [backslash, CHR ''n'']
      else if c = dquote \<or> c = backslash then [backslash, c]
      else if n < 32 \<or> 127 \<le> n \<and> n \<le> 160 \<or> n = 173 then [backslash] @ ''u{'' @ hex_lower n @ ''}''
      else [c])"

definition debug_text :: "string \<Rightarrow> string" where
  "debug_text s = [dquote] @ concat (map escape_debug s) @ [dquote]"

definition parse_count_string :: "string \<Rightarrow> (exasol_error, int) result" where
  "parse_count_string rendered =
     (let trimmed = trim rendered;
          integer_part = (case split_once (CHR ''.'') trimmed of Some (head, _) \<Rightarrow> head | None \<Rightarrow> trimmed)
      in
      (case parse_i64 integer_part of
         Some n \<Rightarrow> Inr n
       | None \<Rightarrow> Inl (ExecutionFailed (''cannot parse schema check value '' @ debug_text rendered @ '' as integer: '' @
           i64_error_text integer_part))))"

definition render_first_cell :: "('c, 'f) format_ops \<Rightarrow> 'c \<Rightarrow> (exasol_error, string) result" where
  "render_first_cell F col =
     (case fmt_new F col of
        Inl e \<Rightarrow> Inl (ExecutionFailed (''cannot format schema check column: '' @ e))
      | Inr formatter \<Rightarrow>
          (case fmt_value F formatter 0 of
             Inl e \<Rightarrow> Inl (ExecutionFailed (''cannot render schema check value: '' @ e))
           | Inr s \<Rightarrow> Inr s))"

definition read_first_scalar_as_i64 :: "('w, 'x, 'b, 's, 'c, 'f, 'j) boot_ops \<Rightarrow> 'b \<Rightarrow> (exasol_error, int) result" where
  "read_first_scalar_as_i64 B batch =
     (if rb_num_rows (bo_batch B) batch = 0 then Inl (ExecutionFailed ''schema check result set was empty'')
      else
        (case rb_columns (bo_batch B) batch of
           [] \<Rightarrow> Inl (ExecutionFailed ''schema check result set had no columns'')
         | col # _ \<Rightarrow>
             if fmt_is_null (bo_format B) col 0 then Inl (ExecutionFailed ''schema check returned a NULL count'')
             else
               (case bo_int64_values B col of
                  Some values \<Rightarrow> Inr (values 0)
                | None \<Rightarrow>
                    (case render_first_cell (bo_format B) col of
                       Inl e \<Rightarrow> Inl e
                     | Inr rendered \<Rightarrow> parse_count_string rendered))))"

definition read_first_typed :: "'j exasol_column list \<Rightarrow> text_row list \<Rightarrow> (exasol_error, int) result" where
  "read_first_typed cols rows =
     (if cols = [] then Inl (ExecutionFailed ''schema check result set had no columns'')
      else
        (case rows of
           (Some rendered # _) # _ \<Rightarrow> parse_count_string rendered
         | (None # _) # _ \<Rightarrow> Inl (ExecutionFailed ''schema check returned a NULL count'')
         | _ \<Rightarrow> Inl (ExecutionFailed ''schema check result set was empty'')))"

definition first_count :: "('w, 'x, 'b, 's, 'c, 'f, 'j) boot_ops \<Rightarrow> ('b, 'j) exasol_outcome \<Rightarrow> (exasol_error, nat) result" where
  "first_count B outcome =
     (case (case outcome of
              ArrowRows batches \<Rightarrow>
                (case batches of
                   [] \<Rightarrow> Inl (ExecutionFailed ''schema check returned no result batches'')
                 | batch # _ \<Rightarrow> read_first_scalar_as_i64 B batch)
            | TypedRows cols rows \<Rightarrow> read_first_typed cols rows
            | RowCount _ \<Rightarrow> Inl (ExecutionFailed ''schema check returned row count instead of result set'')) of
        Inl e \<Rightarrow> Inl e
      | Inr n \<Rightarrow>
          if n < 0 then Inl (ExecutionFailed (''schema check returned negative count value: '' @ show_int n))
          else Inr (nat n))"

section \<open>Prompts\<close>

type_synonym ('w, 'a) dialogue = "('w, string, 'a) effect"

definition println :: "('w, 'x, 'b, 's, 'c, 'f, 'j) boot_ops \<Rightarrow> string \<Rightarrow> ('w, 'e, unit) effect" where
  "println B s = modify (bo_print B (s @ [newline]))"

definition print_lines :: "('w, 'x, 'b, 's, 'c, 'f, 'j) boot_ops \<Rightarrow> string list \<Rightarrow> ('w, 'e, unit) effect" where
  "print_lines B ls = modify (fold (\<lambda>s. bo_print B (s @ [newline])) ls)"

definition prompt_optional :: "('w, 'x, 'b, 's, 'c, 'f, 'j) boot_ops \<Rightarrow> string \<Rightarrow> ('w, string) dialogue" where
  "prompt_optional B label =
     andthen (modify (bo_print B (label @ '': ''))) (\<lambda>_.
     andthen (of_call id (bo_flush B)) (\<lambda>_.
     andthen (of_call id (bo_read_line B)) (\<lambda>answer. pass (trim answer))))"

definition prompt_with_default :: "('w, 'x, 'b, 's, 'c, 'f, 'j) boot_ops \<Rightarrow> string \<Rightarrow> string \<Rightarrow> ('w, string) dialogue" where
  "prompt_with_default B label default_answer =
     andthen (prompt_optional B (label @ '' ['' @ default_answer @ '']'')) (\<lambda>answer.
       pass (if trim answer = [] then default_answer else answer))"

primrec prompt_required :: "nat \<Rightarrow> ('w, 'x, 'b, 's, 'c, 'f, 'j) boot_ops \<Rightarrow> string \<Rightarrow> ('w, string) dialogue" where
  "prompt_required 0 B label = (\<lambda>w. Diverge)"
| "prompt_required (Suc fuel) B label =
     andthen (prompt_optional B label) (\<lambda>answer.
       if trim answer \<noteq> [] then pass answer
       else andthen (println B (label @ '' is required.'')) (\<lambda>_. prompt_required fuel B label))"

definition yes_no :: "string \<Rightarrow> bool option" where
  "yes_no answer =
     (let lower = to_ascii_lowercase answer in
      if lower = ''y'' \<or> lower = ''yes'' then Some True
      else if lower = ''n'' \<or> lower = ''no'' then Some False
      else None)"

primrec confirm :: "nat \<Rightarrow> ('w, 'x, 'b, 's, 'c, 'f, 'j) boot_ops \<Rightarrow> string \<Rightarrow> bool \<Rightarrow> ('w, bool) dialogue" where
  "confirm 0 B label default_answer = (\<lambda>w. Diverge)"
| "confirm (Suc fuel) B label default_answer =
     andthen (prompt_optional B (label @ '' '' @ (if default_answer then ''[Y/n]'' else ''[y/N]''))) (\<lambda>answer.
       if answer = [] then pass default_answer
       else
         (case yes_no answer of
            Some b \<Rightarrow> pass b
          | None \<Rightarrow> andthen (println B ''Please answer yes or no.'') (\<lambda>_. confirm fuel B label default_answer)))"

primrec prompt_port :: "nat \<Rightarrow> ('w, 'x, 'b, 's, 'c, 'f, 'j) boot_ops \<Rightarrow> ('w, string) dialogue" where
  "prompt_port 0 B = (\<lambda>w. Diverge)"
| "prompt_port (Suc fuel) B =
     andthen (prompt_with_default B ''PostgreSQL listener port'' ''15432'') (\<lambda>answer.
       if parse_unsigned 16 answer \<noteq> None then pass answer
       else andthen (println B ''PostgreSQL listener port must be a number from 0 to 65535.'') (\<lambda>_. prompt_port fuel B))"

section \<open>The configuration file\<close>

definition toml_escape :: "string \<Rightarrow> string" where
  "toml_escape s = replace_text [dquote] [backslash, dquote] (replace_text [backslash] [backslash, backslash] s)"

definition bool_text :: "bool \<Rightarrow> string" where
  "bool_text b = (if b then ''true'' else ''false'')"

record config_answers =
  ca_listen_host :: string
  ca_listen_port :: string
  ca_log_level :: string
  ca_dsn :: string
  ca_encryption :: bool
  ca_fingerprint :: string
  ca_validate :: bool
  ca_schema :: string

definition toml_string :: "string \<Rightarrow> string" where
  "toml_string s = [dquote] @ toml_escape s @ [dquote]"

definition config_lines :: "config_answers \<Rightarrow> string list" where
  "config_lines a =
     [''[server]'',
      ''listen_host = '' @ toml_string (ca_listen_host a),
      ''listen_port = '' @ trim (ca_listen_port a),
      ''log_level = '' @ toml_string (ca_log_level a),
      [],
      ''[exasol]'',
      ''dsn = '' @ toml_string (ca_dsn a),
      ''encryption = '' @ bool_text (ca_encryption a),
      ''certificate_fingerprint = '' @ toml_string (ca_fingerprint a),
      ''validate_certificate = '' @ bool_text (ca_validate a),
      ''pass_client_credentials = true'',
      ''schema = '' @ toml_string (ca_schema a),
      [],
      ''[translation]'',
      ''enabled = true'']"

definition config_text :: "config_answers \<Rightarrow> string" where
  "config_text a = concat (map (\<lambda>l. l @ [newline]) (config_lines a))"

definition ask_config :: "nat \<Rightarrow> ('w, 'x, 'b, 's, 'c, 'f, 'j) boot_ops \<Rightarrow> ('w, config_answers) dialogue" where
  "ask_config fuel B =
     andthen (prompt_with_default B ''PostgreSQL listener host'' ''0.0.0.0'') (\<lambda>host.
     andthen (prompt_port fuel B) (\<lambda>port.
     andthen (prompt_with_default B ''Log level'' ''INFO'') (\<lambda>level.
     andthen (prompt_required fuel B ''Exasol DSN (host:port)'') (\<lambda>dsn_text.
     andthen (confirm fuel B ''Use encrypted Exasol WebSocket connection?'' True) (\<lambda>encrypted.
     andthen (prompt_optional B ''Exasol certificate SHA-256 fingerprint (blank to skip)'') (\<lambda>fingerprint.
     andthen (if fingerprint = [] then confirm fuel B ''Validate Exasol TLS certificate?'' True else pass True) (\<lambda>validate.
     andthen (prompt_optional B ''Initial Exasol schema for client sessions (blank for none)'') (\<lambda>schema_text.
       pass \<lparr>ca_listen_host = host, ca_listen_port = port, ca_log_level = level, ca_dsn = dsn_text,
             ca_encryption = encrypted, ca_fingerprint = fingerprint, ca_validate = validate,
             ca_schema = schema_text\<rparr>))))))))"

definition prompt_config :: "nat \<Rightarrow> ('w, 'x, 'b, 's, 'c, 'f, 'j) boot_ops \<Rightarrow> string \<Rightarrow> ('w, string) dialogue" where
  "prompt_config fuel B path =
     andthen (println B (''Config path: '' @ path)) (\<lambda>_.
     andthen (ask_config fuel B) (\<lambda>answers. pass (config_text answers)))"

definition print_systemd_guidance :: "('w, 'x, 'b, 's, 'c, 'f, 'j) boot_ops \<Rightarrow> string \<Rightarrow> ('w, 'e, unit) effect" where
  "print_systemd_guidance B config_path =
     (let binary = (case bo_current_exe B of
            Some p \<Rightarrow> p | None \<Rightarrow> ''/opt/exa-postgres-interface/bin/exa-postgres-interface'') in
      print_lines B
        [[],
         ''System service guidance:'',
         ''  1. Copy the binary to /opt/exa-postgres-interface/bin/exa-postgres-interface.'',
         ''  2. Copy '' @ config_path @ '' to /etc/exa-postgres-interface/config.toml.'',
         ''  3. Install packaging/exa-postgres-interface.service into /etc/systemd/system/.'',
         ''  4. Use an ExecStart like:'',
         ''     '' @ binary @ '' --config /etc/exa-postgres-interface/config.toml --no-bootstrap'',
         ''  5. Run: sudo systemctl daemon-reload && sudo systemctl enable --now exa-postgres-interface'',
         []])"

definition DEFAULT_CONFIG_PATH :: string where
  "DEFAULT_CONFIG_PATH = ''config/local.toml''"

definition create_parent :: "('w, 'x, 'b, 's, 'c, 'f, 'j) boot_ops \<Rightarrow> string \<Rightarrow> ('w, unit) dialogue" where
  "create_parent B path =
     (case bo_path_parent B path of
        Some parent \<Rightarrow> if parent \<noteq> [] then of_call id (bo_create_dir_all B parent) else pass ()
      | None \<Rightarrow> pass ())"

definition ensure_config_file :: "nat \<Rightarrow> ('w, 'x, 'b, 's, 'c, 'f, 'j) boot_ops \<Rightarrow> string option \<Rightarrow> ('w, string) dialogue" where
  "ensure_config_file fuel B requested_path w =
     (let path = unwrap_or requested_path DEFAULT_CONFIG_PATH in
      if bo_exists B path w then pass path w
      else if \<not> bo_is_terminal B w then
        raise (''configuration file '' @ path @ '' does not exist; run interactively once or pass --config'') w
      else
        andthen (println B (''No configuration file found at '' @ path @ ''.'')) (\<lambda>_.
        andthen (confirm fuel B ''Create it now?'' True) (\<lambda>create.
          if \<not> create then raise ''configuration is required''
          else
            andthen (prompt_config fuel B path) (\<lambda>content.
            andthen (create_parent B path) (\<lambda>_.
            andthen (of_call id (bo_write_file B path content)) (\<lambda>_.
            andthen (println B (''Wrote configuration to '' @ path @ ''.'')) (\<lambda>_.
            andthen (print_systemd_guidance B path) (\<lambda>_. pass path))))))) w)"

section \<open>The catalog\<close>

definition exasol_call :: "('w \<Rightarrow> (exasol_error, 'a) result \<times> 'w) \<Rightarrow> ('w, exasol_error, 'a) effect" where
  "exasol_call f w = (case f w of (r, w') \<Rightarrow> of_result r w')"

text \<open>The statements of a script, numbered from \<open>i\<close> of \<open>n\<close>.\<close>

fun run_script :: "('w, 'x, 'b, 's, 'c, 'f, 'j) boot_ops \<Rightarrow> 'x \<Rightarrow> nat \<Rightarrow> nat \<Rightarrow> string list \<Rightarrow> ('w, exasol_error, unit) effect" where
  "run_script B session i n [] = pass ()"
| "run_script B session i n (statement # statements) =
     andthen (println B (''['' @ show_nat i @ ''/'' @ show_nat n @ ''] '' @ preview_statement statement)) (\<lambda>_.
     andthen (exasol_call (bo_run_sql B session statement)) (\<lambda>_.
       run_script B session (i + 1) n statements))"

definition execute_exasol_script :: "('w, 'x, 'b, 's, 'c, 'f, 'j) boot_ops \<Rightarrow> 'x \<Rightarrow> string \<Rightarrow> ('w, exasol_error, unit) effect" where
  "execute_exasol_script B session sql_script =
     (let statements = split_exasol_sql sql_script in
      run_script B session 1 (length statements) statements)"

definition install_catalog :: "('w, 'x, 'b, 's, 'c, 'f, 'j) boot_ops \<Rightarrow> 'x \<Rightarrow> ('w, exasol_error, unit) effect" where
  "install_catalog B session =
     andthen (println B ''Installing PostgreSQL compatibility objects...'') (\<lambda>_.
     andthen (execute_exasol_script B session (bo_catalog_script B)) (\<lambda>_.
       println B ''Installed PG_CATALOG and INFORMATION_SCHEMA compatibility objects.''))"

definition query_count :: "('w, 'x, 'b, 's, 'c, 'f, 'j) boot_ops \<Rightarrow> 'x \<Rightarrow> string \<Rightarrow> ('w, exasol_error, nat) effect" where
  "query_count B session sql =
     andthen (exasol_call (bo_run_sql B session sql)) (\<lambda>outcome. of_result (first_count B outcome))"

definition installed_schema_count :: "('w, 'x, 'b, 's, 'c, 'f, 'j) boot_ops \<Rightarrow> 'x \<Rightarrow> ('w, exasol_error, nat) effect" where
  "installed_schema_count B session =
     query_count B session
       (sql_text ''SELECT COUNT(*) FROM SYS.EXA_SCHEMAS WHERE SCHEMA_NAME IN (`PG_CATALOG`, `INFORMATION_SCHEMA`)'')"

definition boxed :: "('w, exasol_error, 'a) effect \<Rightarrow> ('w, 'a) dialogue" where
  "boxed m = map_raise exasol_error_text m"

definition ensure_optional_preprocessor :: "nat \<Rightarrow> ('w, 'x, 'b, 's, 'c, 'f, 'j) boot_ops \<Rightarrow> 'x \<Rightarrow> string \<Rightarrow> ('w, unit) dialogue" where
  "ensure_optional_preprocessor fuel B session configured_script =
     (if to_ascii_uppercase (trim configured_script) \<noteq> ''PG_CATALOG.PG_SQL_PREPROCESSOR'' then
        println B (''Configured preprocessor '' @ configured_script @
          '' is not managed by bootstrap; skipping preprocessor install.'')
      else
        andthen (boxed (query_count B session (sql_text
          ''SELECT COUNT(*) FROM SYS.EXA_ALL_SCRIPTS WHERE SCRIPT_SCHEMA = `PG_CATALOG` AND SCRIPT_NAME = `PG_SQL_PREPROCESSOR`'')))
          (\<lambda>count.
            if count = 1 then pass ()
            else
              andthen (confirm fuel B
                ''Optional PG_CATALOG.PG_SQL_PREPROCESSOR fallback is configured but missing. Install it now?'' False) (\<lambda>install.
                if install then
                  andthen (boxed (execute_exasol_script B session (bo_preprocessor_script B))) (\<lambda>_.
                    println B ''Installed PG_CATALOG.PG_SQL_PREPROCESSOR.'')
                else pass ())))"

text \<open>\<^verbatim>\<open>ExasolSession::connect\<close> in the world: the transport is chosen first, then it connects.\<close>

definition boot_connect :: "('w, 'x, 'b, 's, 'c, 'f, 'j) boot_ops \<Rightarrow> exasol_config \<Rightarrow> string \<Rightarrow> string \<Rightarrow> ('w, exasol_error, 'x) effect" where
  "boot_connect B config username password =
     (case session_connect (\<lambda>cfg ep. Inr (bo_connect_arrow B cfg ep username password))
        (\<lambda>cfg ep. Inr (bo_connect_websocket B cfg ep username password)) config of
        Inl e \<Rightarrow> raise e
      | Inr connect \<Rightarrow> exasol_call connect)"

definition ensure_catalog :: "nat \<Rightarrow> ('w, 'x, 'b, 's, 'c, 'f, 'j) boot_ops \<Rightarrow> 'x \<Rightarrow> ('w, unit) dialogue" where
  "ensure_catalog fuel B session =
     andthen (boxed (installed_schema_count B session)) (\<lambda>schemas.
       if schemas < 2 then
         andthen (println B ''Missing PostgreSQL compatibility schemas.'') (\<lambda>_.
         andthen (confirm fuel B ''Create or replace PG_CATALOG and INFORMATION_SCHEMA compatibility objects?'' True) (\<lambda>create.
           if create then boxed (install_catalog B session)
           else println B ''Skipped catalog installation.''))
       else
         andthen (confirm fuel B ''PG_CATALOG and INFORMATION_SCHEMA are present. Refresh compatibility objects?'' False)
           (\<lambda>refresh. if refresh then boxed (install_catalog B session) else pass ()))"

definition run_interactive_bootstrap :: "nat \<Rightarrow> ('w, 'x, 'b, 's, 'c, 'f, 'j) boot_ops \<Rightarrow> app_config \<Rightarrow> string \<Rightarrow> ('w, unit) dialogue" where
  "run_interactive_bootstrap fuel B config config_path w =
     (if \<not> bo_is_terminal B w then pass () w
      else
        andthen (print_lines B
          [[],
           ''Exasol PostgreSQL catalog bootstrap'',
           ''The credentials entered here are used only for this installation check and are not saved.'',
           ''Normal SQL processing continues to use the credentials supplied by each client.'']) (\<lambda>_.
        andthen (confirm fuel B ''Check/install PG_CATALOG and INFORMATION_SCHEMA now?'' True) (\<lambda>check.
          if \<not> check then print_systemd_guidance B config_path
          else
            andthen (prompt_with_default B ''Exasol setup user'' ''sys'') (\<lambda>username.
            andthen (of_call id (bo_read_password B ''Exasol setup password: '')) (\<lambda>password.
            andthen (boxed (boot_connect B ((exasol config)\<lparr>pass_client_credentials := True\<rparr>) username password)) (\<lambda>session.
            andthen (ensure_catalog fuel B session) (\<lambda>_.
            andthen (if trim (sql_preprocessor_script (translation config)) \<noteq> []
                then ensure_optional_preprocessor fuel B session (sql_preprocessor_script (translation config))
                else pass ()) (\<lambda>_.
              print_systemd_guidance B config_path))))))) w)"

end
