(* ===== verification/Bootstrap_Laws.thy ===== *)
theory Bootstrap_Laws
  imports Bootstrap
begin

text \<open>
  Laws of the set-up: an SQL script is split into exactly its statements, a configuration file
  written from the dialogue reads back as the answers, and prompts return as soon as a valid
  answer is there.
\<close>

section \<open>Lines\<close>

lemma split_at_acc: "split_at sep acc s = (rev acc @ hd (split_at sep [] s)) # tl (split_at sep [] s)"
proof (induction s arbitrary: acc)
  case (Cons c s)
  show ?case using Cons.IH [of "c # acc"] Cons.IH [of "[c]"] by simp
qed simp

lemma split_char_ne [simp]: "split_char sep s \<noteq> []"
  unfolding split_char_def using split_at_acc [of sep "[]" s] by auto

lemma split_at_append: "split_at sep acc (a @ sep # b) = split_at sep acc a @ split_char sep b"
  by (induction sep acc a rule: split_at.induct) (simp_all add: split_char_def)

lemma split_char_append: "split_char sep (a @ sep # b) = split_char sep a @ split_char sep b"
  by (simp add: split_char_def split_at_append)

lemma split_char_absent: "sep \<notin> set s \<Longrightarrow> split_char sep s = [s]"
proof -
  have "sep \<notin> set s \<Longrightarrow> split_at sep acc s = [rev acc @ s]" for acc
    by (induction s arbitrary: acc) auto
  then show "sep \<notin> set s \<Longrightarrow> split_char sep s = [s]" by (simp add: split_char_def)
qed

lemma split_at_join: "join_with [sep] (split_at sep acc s) = rev acc @ s"
proof (induction sep acc s rule: split_at.induct)
  case (2 sep acc c cs)
  show ?case
  proof (cases "c = sep")
    case True
    have "split_at sep [] cs \<noteq> []" using split_char_ne [of sep cs] by (simp add: split_char_def)
    then obtain x xs where "split_at sep [] cs = x # xs" by (cases "split_at sep [] cs") auto
    then show ?thesis using 2(1) True by (simp add: join_with_Cons)
  next
    case False
    then show ?thesis using 2(2) by simp
  qed
qed simp

lemma join_split_char [simp]: "join_with [sep] (split_char sep s) = s"
  by (simp add: split_char_def split_at_join)

lemma split_at_set: "l \<in> set (split_at sep acc s) \<Longrightarrow> set l \<subseteq> set acc \<union> set s"
proof (induction sep acc s rule: split_at.induct)
  case (2 sep acc c cs)
  then show ?case by (cases "c = sep") fastforce+
qed simp

lemma split_char_set: "l \<in> set (split_char sep s) \<Longrightarrow> set l \<subseteq> set s"
  unfolding split_char_def using split_at_set by fastforce

lemma strip_cr_id: "carriage_return \<notin> set l \<Longrightarrow> strip_cr l = l"
  unfolding strip_cr_def by (metis last_in_set)

lemma text_lines_append:
  assumes "carriage_return \<notin> set s"
  shows "text_lines (s @ newline # rest) = split_char newline s @ text_lines rest"
proof -
  have "map strip_cr (split_char newline s) = split_char newline s"
    using assms split_char_set by (intro map_idI strip_cr_id) blast
  then show ?thesis
    using split_char_ne [of newline rest] by (simp add: text_lines_def split_char_append butlast_append Let_def)
qed

lemma text_lines_Nil [simp]: "text_lines [] = []"
  by (simp add: text_lines_def split_char_def)

section \<open>Scripts\<close>

text \<open>
  A script as it is written: statements that end with a semicolon, functions and scripts between
  \<^verbatim>\<open>--/\<close> and \<^verbatim>\<open>/\<close>, comments and blank lines.
\<close>

datatype script_item = PlainItem string | CompoundItem string | CommentItem string

fun item_text :: "script_item \<Rightarrow> string" where
  "item_text (PlainItem s) = s @ '';'' @ [newline]"
| "item_text (CompoundItem s) = ''--/'' @ [newline] @ s @ [newline] @ ''/'' @ [newline]"
| "item_text (CommentItem s) = s @ [newline]"

fun item_statements :: "script_item \<Rightarrow> string list" where
  "item_statements (PlainItem s) = [s]"
| "item_statements (CompoundItem s) = [s]"
| "item_statements (CommentItem s) = []"

definition skipped_line :: "string \<Rightarrow> bool" where
  "skipped_line l \<longleftrightarrow> trim l = [] \<or> starts_with (trim l) ''--''"

definition compound_line :: "string \<Rightarrow> bool" where
  "compound_line l \<longleftrightarrow> opens_compound (to_ascii_uppercase (trim l))"

text \<open>
  When an item is what it says: a statement is trimmed, has no line that ends with a semicolon and
  no line that opens a function; the first line of a function opens it and no line is a slash.
\<close>

fun item_ok :: "script_item \<Rightarrow> bool" where
  "item_ok (PlainItem s) =
     (s \<noteq> [] \<and> trim s = s \<and> last s \<noteq> CHR '';'' \<and> carriage_return \<notin> set s \<and>
      (let ls = split_char newline (s @ '';'') in
       \<not> skipped_line (hd ls) \<and> list_all (\<lambda>l. trim l \<noteq> ''--/'' \<and> \<not> compound_line l) ls \<and>
       list_all (\<lambda>l. \<not> ends_with (trim l) '';'') (butlast ls)))"
| "item_ok (CompoundItem s) =
     (s \<noteq> [] \<and> trim s = s \<and> carriage_return \<notin> set s \<and>
      (let ls = split_char newline s in
       \<not> skipped_line (hd ls) \<and> compound_line (hd ls) \<and> list_all (\<lambda>l. trim l \<noteq> ''--/'' \<and> trim l \<noteq> ''/'') ls))"
| "item_ok (CommentItem s) = (newline \<notin> set s \<and> carriage_return \<notin> set s \<and> skipped_line s)"

lemma plain_run:
  assumes "buf \<noteq> [] \<or> \<not> skipped_line (hd (ls @ [l]))"
    and "list_all (\<lambda>l. trim l \<noteq> ''--/'' \<and> \<not> compound_line l) (ls @ [l])"
    and "list_all (\<lambda>l. \<not> ends_with (trim l) '';'') ls" and "ends_with (trim l) '';''"
  shows "split_lines buf False (ls @ l # rest) = emit (end_statement (buf @ ls @ [l])) (split_lines [] False rest)"
  using assms
proof (induction ls arbitrary: buf)
  case Nil
  then show ?case by (auto simp: skipped_line_def compound_line_def Let_def)
next
  case (Cons x ls)
  have "split_lines buf False ((x # ls) @ l # rest) = split_lines (buf @ [x]) False (ls @ l # rest)"
    using Cons.prems by (auto simp: skipped_line_def compound_line_def Let_def)
  with Cons.IH [of "buf @ [x]"] Cons.prems show ?case by simp
qed

lemma compound_run:
  assumes "buf \<noteq> []" and "list_all (\<lambda>l. trim l \<noteq> ''--/'' \<and> trim l \<noteq> ''/'') ls"
  shows "split_lines buf True (ls @ ''/'' # rest) = emit (trim (join_with [newline] (buf @ ls))) (split_lines [] False rest)"
  using assms
proof (induction ls arbitrary: buf)
  case Nil
  have "trim ''/'' = ''/''" by code_simp
  with Nil show ?case by (simp add: Let_def)
next
  case (Cons x ls)
  then have "split_lines buf True ((x # ls) @ ''/'' # rest) = split_lines (buf @ [x]) True (ls @ ''/'' # rest)"
    by (simp add: Let_def)
  with Cons.IH [of "buf @ [x]"] Cons.prems show ?case by simp
qed

lemma end_statement_plain:
  assumes "s \<noteq> []" and "trim s = s" and "last s \<noteq> CHR '';''"
  shows "end_statement (split_char newline (s @ '';'')) = s"
proof -
  have "\<not> is_ws (hd s)" using trim_by_ends [of is_ws s] assms(1,2) by simp
  then have "trim (s @ '';'') = s @ '';''" using assms(1) by (intro trim_by_id) (auto simp: is_ws_def)
  moreover have "trim_end_by (\<lambda>c. c = CHR '';'') (s @ '';'') = s"
    using assms(1,3) dropWhile_hd_id [of "rev s" "\<lambda>c. c = CHR '';''"] by (simp add: trim_end_by_def hd_rev)
  ultimately show ?thesis using assms(2) by (simp add: end_statement_def)
qed

lemma semicolon_line: "ends_with (trim (l @ '';'')) '';''"
proof -
  have "dropWhile is_ws (rev (dropWhile is_ws (l @ '';''))) = CHR '';'' # rev (dropWhile is_ws l)"
    by (auto simp: dropWhile_append is_ws_def)
  then show ?thesis by (simp add: ends_with_def trim_by_def trim_start_by_def trim_end_by_def)
qed

lemma split_char_snoc: "c \<noteq> sep \<Longrightarrow> split_char sep (s @ [c]) = butlast (split_char sep s) @ [last (split_char sep s) @ [c]]"
proof -
  assume c: "c \<noteq> sep"
  have "split_at sep acc (s @ [c]) = butlast (split_at sep acc s) @ [last (split_at sep acc s) @ [c]]" for acc
    using c
  proof (induction sep acc s rule: split_at.induct)
    case (2 sep acc d cs)
    have "split_at sep [] cs \<noteq> []" "split_at sep (d # acc) cs \<noteq> []"
      using split_at_acc [of sep _ cs] by (metis list.distinct(1))+
    then show ?case using 2 by simp
  qed simp
  then show ?thesis by (simp add: split_char_def)
qed

lemma item_run: "item_ok item \<Longrightarrow>
    split_lines [] False (text_lines (item_text item @ rest)) = item_statements item @ split_lines [] False (text_lines rest)"
proof (induction item rule: item_ok.induct)
  case (1 s)
  let ?ls = "split_char newline (s @ '';'')" and ?l = "last (split_char newline s) @ '';''"
  have ls: "?ls = butlast ?ls @ [?l]"
    by (subst (1 2) split_char_snoc) auto
  have "text_lines (item_text (PlainItem s) @ rest) = ?ls @ text_lines rest"
    using text_lines_append [of "s @ '';''" rest] 1 by simp
  then have "split_lines [] False (text_lines (item_text (PlainItem s) @ rest)) =
      split_lines [] False (butlast ?ls @ ?l # text_lines rest)"
    by (subst (asm) ls) simp
  also have "\<dots> = emit (end_statement ([] @ butlast ?ls @ [?l])) (split_lines [] False (text_lines rest))"
  proof (rule plain_run)
    show "[] \<noteq> [] \<or> \<not> skipped_line (hd (butlast ?ls @ [?l]))" using 1 ls by (simp add: Let_def)
    show "list_all (\<lambda>l. trim l \<noteq> ''--/'' \<and> \<not> compound_line l) (butlast ?ls @ [?l])" using 1 ls by (simp only: item_ok.simps Let_def)
  qed (use 1 semicolon_line in \<open>simp_all add: Let_def\<close>)
  also have "[] @ butlast ?ls @ [?l] = ?ls" using ls by simp
  finally show ?case using 1 end_statement_plain [of s] by (simp add: emit_def)
next
  case (2 s)
  let ?ls = "split_char newline s"
  obtain l ls where l: "?ls = l # ls" using split_char_ne [of newline s] by (cases ?ls) auto
  have t: "trim ''--/'' = ''--/''" by code_simp
  have "text_lines (item_text (CompoundItem s) @ rest) = ''--/'' # l # ls @ ''/'' # text_lines rest"
    using text_lines_append [of "''--/''" "s @ newline # ''/'' @ newline # rest"] 2
      text_lines_append [of s "''/'' @ newline # rest"] text_lines_append [of "''/''" rest] l
    by (simp add: split_char_absent)
  then have "split_lines [] False (text_lines (item_text (CompoundItem s) @ rest)) = split_lines [l] True (ls @ ''/'' # text_lines rest)"
    using 2 l t by (auto simp: Let_def skipped_line_def compound_line_def)
  also have "\<dots> = emit (trim (join_with [newline] ?ls)) (split_lines [] False (text_lines rest))"
    using compound_run [of "[l]" ls "text_lines rest"] 2 l by (simp add: Let_def)
  finally show ?case using 2 by (simp add: emit_def)
next
  case (3 s)
  then show ?case
    using text_lines_append [of s rest] by (auto simp: split_char_absent skipped_line_def Let_def)
qed

text \<open>
  C20. A script is split into exactly its statements. For every sequence of semicolon statements,
  functions between \<^verbatim>\<open>--/\<close> and \<^verbatim>\<open>/\<close>, comments and blank lines, the installation runs each statement
  once, in order and unchanged; semicolons inside of a function do not end it.
\<close>

theorem split_script_roundtrip:
  assumes "list_all item_ok items"
  shows "split_exasol_sql (concat (map item_text items)) = concat (map item_statements items)"
proof -
  have "split_lines [] False (text_lines (concat (map item_text items))) = concat (map item_statements items)"
    using assms
  proof (induction items)
    case Nil
    have "end_statement [] = []" by code_simp
    then show ?case by (simp add: emit_def)
  next
    case (Cons item items)
    then show ?case using item_run [of item "concat (map item_text items)"] by simp
  qed
  then show ?thesis by (simp add: split_exasol_sql_def)
qed

definition demo_function :: string where
  "demo_function = ''CREATE FUNCTION F() RETURN INT IS'' @ [newline] @ ''BEGIN RETURN 1;'' @ [newline] @ ''END F;''"

theorem split_script_roundtrip_witness:
  "split_exasol_sql (concat (map item_text [CommentItem ''-- catalog'', PlainItem ''CREATE SCHEMA S'', CommentItem [],
      CompoundItem demo_function])) = [''CREATE SCHEMA S'', demo_function]"
proof -
  have "list_all item_ok [CommentItem ''-- catalog'', PlainItem ''CREATE SCHEMA S'', CommentItem [], CompoundItem demo_function]"
    by code_simp
  from split_script_roundtrip [OF this] show ?thesis by simp
qed

section \<open>The console\<close>

text \<open>
  A terminal: \<open>stdin_of\<close> are the lines that will be typed. A line is read with its newline, the end
  of the input is an empty read; printing and flushing do not change the input.
\<close>

lemma trim_snoc_ws: "is_ws c \<Longrightarrow> trim (l @ [c]) = trim l"
proof (cases "\<forall>d\<in>set l. is_ws d")
  case True
  then show "is_ws c \<Longrightarrow> ?thesis"
    by (auto simp: trim_by_def trim_start_by_def trim_end_by_def dropWhile_append dest: set_dropWhileD)
qed (auto simp: trim_by_def trim_start_by_def trim_end_by_def dropWhile_append)

lemma newline_ws: "is_ws newline"
  by (simp add: is_ws_def)

lemma trim_Nil [simp]: "trim [] = []"
  by (simp add: trim_by_def trim_start_by_def trim_end_by_def)

lemma andthen_println [simp]: "andthen (println B s) f w = f () (bo_print B (s @ [newline]) w)"
  by (simp add: println_def andthen_def)

definition typed :: "string list \<Rightarrow> string" where
  "typed ls = (case ls of [] \<Rightarrow> [] | l # _ \<Rightarrow> trim l)"

locale console =
  fixes B :: "('w, 'x, 'b, 's, 'c, 'f, 'j) boot_ops" and stdin_of :: "'w \<Rightarrow> string list"
  assumes read_law: "stdin_of w = l # ls \<Longrightarrow> \<exists>w'. bo_read_line B w = (Inr (l @ [newline]), w') \<and> stdin_of w' = ls"
    and eof_law: "stdin_of w = [] \<Longrightarrow> \<exists>w'. bo_read_line B w = (Inr [], w') \<and> stdin_of w' = []"
    and print_law: "stdin_of (bo_print B s w) = stdin_of w"
    and flush_law: "\<exists>w'. bo_flush B w = (Inr (), w') \<and> stdin_of w' = stdin_of w"
begin

text \<open>The line a prompt reads: the next one, or nothing at the end of the input.\<close>

lemma prompt_reads:
  "\<exists>w'. prompt_optional B label w = Ret (Inr (typed (stdin_of w)), w') \<and> stdin_of w' = tl (stdin_of w)"
proof -
  obtain w1 where w1: "bo_flush B (bo_print B (label @ '': '') w) = (Inr (), w1)" "stdin_of w1 = stdin_of w"
    using flush_law [of "bo_print B (label @ '': '') w"] print_law by auto
  obtain w2 where "bo_read_line B w1 = (Inr (case stdin_of w of [] \<Rightarrow> [] | l # _ \<Rightarrow> l @ [newline]), w2)"
    "stdin_of w2 = tl (stdin_of w)"
    using read_law [of w1] eof_law [of w1] w1(2) by (cases "stdin_of w") auto
  moreover have "trim (case stdin_of w of [] \<Rightarrow> [] | l # _ \<Rightarrow> l @ [newline]) = typed (stdin_of w)"
    by (cases "stdin_of w") (simp_all add: typed_def trim_snoc_ws newline_ws)
  ultimately show ?thesis using w1(1) by (simp add: prompt_optional_def andthen_run of_call_def)
qed

lemma required_returns:
  assumes "stdin_of w = blanks @ l # rest" and "list_all (\<lambda>b. trim b = []) blanks" and "trim l \<noteq> []"
    and "length blanks < fuel"
  shows "\<exists>w'. prompt_required fuel B label w = Ret (Inr (trim l), w') \<and> stdin_of w' = rest"
  using assms
proof (induction blanks arbitrary: w fuel)
  case Nil
  then obtain f w1 where "fuel = Suc f" "prompt_optional B label w = Ret (Inr (trim l), w1)" "stdin_of w1 = rest"
    using prompt_reads [of label w] by (cases fuel) (auto simp: typed_def)
  then show ?case using Nil.prems by (simp add: andthen_run)
next
  case (Cons b blanks)
  then obtain f w1 where f: "fuel = Suc f" "prompt_optional B label w = Ret (Inr [], w1)" "stdin_of w1 = blanks @ l # rest"
    using prompt_reads [of label w] by (cases fuel) (auto simp: typed_def)
  let ?w2 = "bo_print B ((label @ '' is required.'') @ [newline]) w1"
  have "prompt_required fuel B label w = prompt_required f B label ?w2"
    using f(1,2) by (simp add: andthen_run)
  then show ?case using Cons.IH [of ?w2 f] Cons.prems(2-4) print_law f(1,3) by auto
qed

text \<open>At the end of the input a required answer is asked for again and again.\<close>

lemma required_at_eof: "stdin_of w = [] \<Longrightarrow> prompt_required fuel B label w = Diverge"
proof (induction fuel arbitrary: w)
  case (Suc fuel)
  obtain w1 where w1: "prompt_optional B label w = Ret (Inr [], w1)" "stdin_of w1 = []"
    using prompt_reads [of label w] Suc.prems by (auto simp: typed_def)
  then show ?case using Suc.IH print_law by (simp add: andthen_run)
qed simp

lemma confirm_returns:
  assumes "stdin_of w = unclear @ l # rest" and "list_all (\<lambda>b. trim b \<noteq> [] \<and> yes_no (trim b) = None) unclear"
    and "trim l = [] \<and> answer = default_answer \<or> trim l \<noteq> [] \<and> yes_no (trim l) = Some answer"
    and "length unclear < fuel"
  shows "\<exists>w'. confirm fuel B label default_answer w = Ret (Inr answer, w') \<and> stdin_of w' = rest"
  using assms
proof (induction unclear arbitrary: w fuel)
  case Nil
  then obtain f w1 where "fuel = Suc f"
    "prompt_optional B (label @ '' '' @ (if default_answer then ''[Y/n]'' else ''[y/N]'')) w = Ret (Inr (trim l), w1)" "stdin_of w1 = rest"
    using prompt_reads [of "label @ '' '' @ (if default_answer then ''[Y/n]'' else ''[y/N]'')" w] by (cases fuel) (auto simp: typed_def)
  then show ?case using Nil.prems(3) by (auto simp: andthen_run)
next
  case (Cons b unclear)
  let ?label = "label @ '' '' @ (if default_answer then ''[Y/n]'' else ''[y/N]'')"
  obtain f w1 where f: "fuel = Suc f" "prompt_optional B ?label w = Ret (Inr (trim b), w1)" "stdin_of w1 = unclear @ l # rest"
    using prompt_reads [of ?label w] Cons.prems(1,4) by (cases fuel) (auto simp: typed_def)
  let ?w2 = "bo_print B (''Please answer yes or no.'' @ [newline]) w1"
  have "confirm fuel B label default_answer w = confirm f B label default_answer ?w2"
    using f(1,2) Cons.prems(2) by (simp add: andthen_run)
  then show ?case using Cons.IH [of ?w2 f] Cons.prems(2-4) print_law f(1,3) by auto
qed

end

section \<open>Reading a configuration file\<close>

text \<open>
  The part of TOML that the configuration uses, as its documentation has it: tables, keys with a
  basic string, a boolean or an integer without leading zeros. A basic string holds no control
  character but the tab; a quote and a backslash are escaped.
\<close>

definition toml_char :: "char \<Rightarrow> bool" where
  "toml_char c \<longleftrightarrow> code_point c = 9 \<or> 32 \<le> code_point c \<and> code_point c \<noteq> 127"

fun toml_body :: "string \<Rightarrow> (string \<times> string) option" where
  "toml_body [] = None"
| "toml_body (c # cs) =
     (if c = dquote then Some ([], cs)
      else if c = backslash then
        (case cs of
           [] \<Rightarrow> None
         | d # ds \<Rightarrow>
             if d = dquote \<or> d = backslash then map_option (\<lambda>(v, rest). (d # v, rest)) (toml_body ds) else None)
      else if toml_char c then map_option (\<lambda>(v, rest). (c # v, rest)) (toml_body cs)
      else None)"

datatype toml_value = TString string | TBool bool | TInt int

definition unsigned_part :: "string \<Rightarrow> string" where
  "unsigned_part s = (case s of c # cs \<Rightarrow> if c = CHR ''+'' \<or> c = CHR ''-'' then cs else s | [] \<Rightarrow> [])"

definition no_leading_zero :: "string \<Rightarrow> bool" where
  "no_leading_zero s \<longleftrightarrow> length (unsigned_part s) \<le> 1 \<or> hd (unsigned_part s) \<noteq> CHR ''0''"

definition read_value :: "string \<Rightarrow> toml_value option" where
  "read_value s =
     (if prefix [dquote] s then (case toml_body (tl s) of Some (v, []) \<Rightarrow> Some (TString v) | _ \<Rightarrow> None)
      else if s = ''true'' then Some (TBool True)
      else if s = ''false'' then Some (TBool False)
      else if no_leading_zero s then map_option TInt (parse_int s)
      else None)"

fun read_toml :: "string \<Rightarrow> string list \<Rightarrow> (string \<times> string \<times> toml_value) list option" where
  "read_toml table [] = Some []"
| "read_toml table (l # ls) =
     (let t = trim l in
      if t = [] then read_toml table ls
      else if hd t = CHR ''['' \<and> last t = CHR '']'' then read_toml (butlast (tl t)) ls
      else
        (case split_once (CHR ''='') t of
           None \<Rightarrow> None
         | Some (k, v) \<Rightarrow>
             (case read_value (trim v) of
                None \<Rightarrow> None
              | Some x \<Rightarrow> map_option (\<lambda>rest. (table, trim k, x) # rest) (read_toml table ls))))"

lemma replace_char: "replace_text [q] by s = concat (map (\<lambda>c. if c = q then by else [c]) s)"
  by (induction s) auto

lemma toml_escape_simps [simp]:
  "toml_escape [] = []"
  "toml_escape (c # s) = (if c = dquote \<or> c = backslash then [backslash, c] else [c]) @ toml_escape s"
  by (simp_all add: toml_escape_def replace_char)

lemma toml_body_escape: "list_all toml_char v \<Longrightarrow> toml_body (toml_escape v @ dquote # rest) = Some (v, rest)"
  by (induction v) auto

lemma read_string: "list_all toml_char v \<Longrightarrow> read_value (toml_string v) = Some (TString v)"
  by (simp add: read_value_def toml_string_def toml_body_escape)

lemma toml_escape_clean: "list_all toml_char v \<Longrightarrow> newline \<notin> set (toml_escape v) \<and> carriage_return \<notin> set (toml_escape v)"
  by (induction v) (auto simp: toml_char_def code_point_def)

lemma trim_cons_ws: "is_ws c \<Longrightarrow> trim (c # l) = trim l"
  by (simp add: trim_by_def trim_start_by_def)

lemma read_key:
  assumes "k \<noteq> []" and "\<not> is_ws (hd k)" and "\<not> is_ws (last k)" and "hd k \<noteq> CHR ''[''" and "CHR ''='' \<notin> set k"
    and "v \<noteq> []" and "\<not> is_ws (hd v)" and "\<not> is_ws (last v)" and "read_value v = Some x"
  shows "read_toml table ((k @ '' = '' @ v) # ls) = map_option (\<lambda>rest. (table, k, x) # rest) (read_toml table ls)"
proof -
  have t: "trim (k @ '' = '' @ v) = k @ '' = '' @ v" using assms by (intro trim_by_id) auto
  have s: "split_once (CHR ''='') (k @ '' = '' @ v) = Some (k @ '' '', '' '' @ v)"
    using split_once_append [of "CHR ''=''" "k @ '' ''" "'' '' @ v"] assms(5) by simp
  have "trim (k @ '' '') = k" "trim ('' '' @ v) = v"
    using assms by (simp_all add: trim_snoc_ws trim_cons_ws trim_by_id is_ws_def)
  then show ?thesis using t s assms by simp
qed

lemma text_lines_of: "list_all (\<lambda>l. newline \<notin> set l \<and> carriage_return \<notin> set l) ls \<Longrightarrow>
    text_lines (concat (map (\<lambda>l. l @ [newline]) ls)) = ls"
proof (induction ls)
  case (Cons l ls)
  then show ?case
    using text_lines_append [of l "concat (map (\<lambda>l. l @ [newline]) ls)"] by (simp add: split_char_absent)
qed simp

lemma port_chars:
  assumes "parse_unsigned w port = Some p"
  shows "port \<noteq> [] \<and> list_all (\<lambda>c. is_digit c \<or> c = CHR ''+'') port \<and> parse_int port = Some (int p)"
proof (cases port)
  case (Cons c cs)
  have minus: "\<not> is_digit (CHR ''-'')" by (simp add: is_digit_def code_point_def)
  show ?thesis
    using assms Cons minus
    by (auto simp: parse_unsigned_def parse_int_def parse_digits_def list_all_iff Let_def
        split: option.splits if_splits)
qed (use assms in \<open>simp add: parse_unsigned_def\<close>)

lemma port_char_props: "is_digit c \<or> c = CHR ''+'' \<Longrightarrow> \<not> is_ws c \<and> c \<noteq> newline \<and> c \<noteq> carriage_return \<and> c \<noteq> dquote \<and>
    c \<noteq> CHR ''t'' \<and> c \<noteq> CHR ''f''"
  using is_digit_props [of c] by (auto simp: is_ws_def is_digit_def code_point_def)

lemma read_port:
  assumes "parse_unsigned w port = Some p" and "no_leading_zero port"
  shows "read_value port = Some (TInt (int p)) \<and> port \<noteq> [] \<and> \<not> is_ws (hd port) \<and> \<not> is_ws (last port) \<and>
    newline \<notin> set port \<and> carriage_return \<notin> set port"
proof -
  note c = port_chars [OF assms(1)]
  have all: "\<not> is_ws c \<and> c \<noteq> newline \<and> c \<noteq> carriage_return \<and> c \<noteq> dquote \<and> c \<noteq> CHR ''t'' \<and> c \<noteq> CHR ''f''" if "c \<in> set port" for c
    using c port_char_props that by (auto simp: list_all_iff)
  have "hd port \<in> set port" "last port \<in> set port" using c by auto
  moreover have "\<not> prefix [dquote] port" "port \<noteq> ''true''" "port \<noteq> ''false''" using all by (cases port; auto)+
  ultimately show ?thesis using c all assms(2) by (auto simp: read_value_def)
qed

definition written_config :: "config_answers \<Rightarrow> nat \<Rightarrow> (string \<times> string \<times> toml_value) list" where
  "written_config a p =
     [(''server'', ''listen_host'', TString (ca_listen_host a)),
      (''server'', ''listen_port'', TInt (int p)),
      (''server'', ''log_level'', TString (ca_log_level a)),
      (''exasol'', ''dsn'', TString (ca_dsn a)),
      (''exasol'', ''encryption'', TBool (ca_encryption a)),
      (''exasol'', ''certificate_fingerprint'', TString (ca_fingerprint a)),
      (''exasol'', ''validate_certificate'', TBool (ca_validate a)),
      (''exasol'', ''pass_client_credentials'', TBool True),
      (''exasol'', ''schema'', TString (ca_schema a)),
      (''translation'', ''enabled'', TBool True)]"

definition answers_clean :: "config_answers \<Rightarrow> bool" where
  "answers_clean a \<longleftrightarrow> list_all (list_all toml_char) [ca_listen_host a, ca_log_level a, ca_dsn a, ca_fingerprint a, ca_schema a]"

lemma read_string_key:
  assumes "k \<noteq> []" and "\<not> is_ws (hd k)" and "\<not> is_ws (last k)" and "hd k \<noteq> CHR ''[''" and "CHR ''='' \<notin> set k"
    and "list_all toml_char v"
  shows "read_toml table ((k @ '' = '' @ toml_string v) # ls) = map_option (\<lambda>rest. (table, k, TString v) # rest) (read_toml table ls)"
  using read_key [OF assms(1-5) _ _ _ read_string [OF assms(6)], of table ls]
  by (simp add: toml_string_def is_ws_def)

lemma read_bool_key:
  assumes "k \<noteq> []" and "\<not> is_ws (hd k)" and "\<not> is_ws (last k)" and "hd k \<noteq> CHR ''[''" and "CHR ''='' \<notin> set k"
  shows "read_toml table ((k @ '' = '' @ bool_text b) # ls) = map_option (\<lambda>rest. (table, k, TBool b) # rest) (read_toml table ls)"
  using read_key [OF assms(1-5), of "bool_text b" "TBool b" table ls]
  by (cases b) (simp_all add: bool_text_def is_ws_def read_value_def)

lemma read_table: "read_toml table ((CHR ''['' # name @ '']'') # ls) = read_toml name ls"
proof -
  have "trim (CHR ''['' # name @ '']'') = CHR ''['' # name @ '']''" by (intro trim_by_id) (simp add: is_ws_def)
  then show ?thesis by (simp add: butlast_append)
qed

declare read_toml.simps(2) [simp del]

text \<open>The keys of the configuration, as the lines write them.\<close>

lemma key_lines:
  "''listen_host = '' @ x = ''listen_host'' @ '' = '' @ x"
  "''listen_port = '' @ x = ''listen_port'' @ '' = '' @ x"
  "''log_level = '' @ x = ''log_level'' @ '' = '' @ x"
  "''dsn = '' @ x = ''dsn'' @ '' = '' @ x"
  "''encryption = '' @ x = ''encryption'' @ '' = '' @ x"
  "''certificate_fingerprint = '' @ x = ''certificate_fingerprint'' @ '' = '' @ x"
  "''validate_certificate = '' @ x = ''validate_certificate'' @ '' = '' @ x"
  "''schema = '' @ x = ''schema'' @ '' = '' @ x"
  "''pass_client_credentials = true'' = ''pass_client_credentials'' @ '' = '' @ bool_text True"
  "''enabled = true'' = ''enabled'' @ '' = '' @ bool_text True"
  "''[server]'' = CHR ''['' # ''server'' @ '']''"
  "''[exasol]'' = CHR ''['' # ''exasol'' @ '']''"
  "''[translation]'' = CHR ''['' # ''translation'' @ '']''"
  by (simp_all add: bool_text_def)

lemma read_blank: "read_toml table ([] # ls) = read_toml table ls"
  by (simp add: read_toml.simps)

lemma string_key_lines:
  assumes "list_all toml_char v"
  shows
    "read_toml table ((''listen_host'' @ '' = '' @ toml_string v) # ls) = map_option (\<lambda>rest. (table, ''listen_host'', TString v) # rest) (read_toml table ls)"
    "read_toml table ((''log_level'' @ '' = '' @ toml_string v) # ls) = map_option (\<lambda>rest. (table, ''log_level'', TString v) # rest) (read_toml table ls)"
    "read_toml table ((''dsn'' @ '' = '' @ toml_string v) # ls) = map_option (\<lambda>rest. (table, ''dsn'', TString v) # rest) (read_toml table ls)"
    "read_toml table ((''certificate_fingerprint'' @ '' = '' @ toml_string v) # ls) = map_option (\<lambda>rest. (table, ''certificate_fingerprint'', TString v) # rest) (read_toml table ls)"
    "read_toml table ((''schema'' @ '' = '' @ toml_string v) # ls) = map_option (\<lambda>rest. (table, ''schema'', TString v) # rest) (read_toml table ls)"
  by (rule read_string_key; use assms in \<open>simp add: is_ws_def\<close>)+

lemma bool_key_lines:
  "read_toml table ((''encryption'' @ '' = '' @ bool_text b) # ls) = map_option (\<lambda>rest. (table, ''encryption'', TBool b) # rest) (read_toml table ls)"
  "read_toml table ((''validate_certificate'' @ '' = '' @ bool_text b) # ls) = map_option (\<lambda>rest. (table, ''validate_certificate'', TBool b) # rest) (read_toml table ls)"
  "read_toml table ((''pass_client_credentials'' @ '' = '' @ bool_text b) # ls) = map_option (\<lambda>rest. (table, ''pass_client_credentials'', TBool b) # rest) (read_toml table ls)"
  "read_toml table ((''enabled'' @ '' = '' @ bool_text b) # ls) = map_option (\<lambda>rest. (table, ''enabled'', TBool b) # rest) (read_toml table ls)"
  by (rule read_bool_key; simp add: is_ws_def)+

lemma port_key_line:
  assumes "parse_unsigned 16 port = Some p" and "no_leading_zero port"
  shows "read_toml table ((''listen_port'' @ '' = '' @ port) # ls) = map_option (\<lambda>rest. (table, ''listen_port'', TInt (int p)) # rest) (read_toml table ls)"
  using read_port [OF assms] by (intro read_key) (simp_all add: is_ws_def)

lemma read_config_lines:
  assumes "answers_clean a" and "parse_unsigned 16 (ca_listen_port a) = Some p" and "no_leading_zero (ca_listen_port a)"
  shows "read_toml [] (config_lines a) = Some (written_config a p)"
proof -
  have port: "trim (ca_listen_port a) = ca_listen_port a"
    using read_port [OF assms(2,3)] by (intro trim_by_id) simp
  have clean: "list_all toml_char (ca_listen_host a)" "list_all toml_char (ca_log_level a)" "list_all toml_char (ca_dsn a)"
    "list_all toml_char (ca_fingerprint a)" "list_all toml_char (ca_schema a)"
    using assms(1) by (simp_all add: answers_clean_def)
  show ?thesis
    unfolding config_lines_def key_lines port
    by (simp only: read_table read_blank port_key_line [OF assms(2,3)] string_key_lines(1) [OF clean(1)]
        string_key_lines(2) [OF clean(2)] string_key_lines(3) [OF clean(3)] string_key_lines(4) [OF clean(4)]
        string_key_lines(5) [OF clean(5)] bool_key_lines read_toml.simps(1) option.map written_config_def)
qed

section \<open>The dialogue\<close>

text \<open>What an action returns, given what it finds in the world and keeps there.\<close>

definition ensures :: "('c \<Rightarrow> bool) \<Rightarrow> ('a \<Rightarrow> bool) \<Rightarrow> ('c, 'e, 'a) effect \<Rightarrow> bool" where
  "ensures P Q m \<longleftrightarrow> (\<forall>c a c'. P c \<longrightarrow> m c = Ret (Inr a, c') \<longrightarrow> Q a \<and> P c')"

lemma ensures_andthen: "ensures P Q m \<Longrightarrow> (\<And>a. Q a \<Longrightarrow> ensures P R (f a)) \<Longrightarrow> ensures P R (andthen m f)"
  unfolding ensures_def andthen_Ret by blast

lemma ensures_pass: "Q a \<Longrightarrow> ensures P Q (pass a)"
  by (simp add: ensures_def)

lemma ensuresD: "ensures P Q m \<Longrightarrow> P c \<Longrightarrow> m c = Ret (Inr a, c') \<Longrightarrow> Q a \<and> P c'"
  by (auto simp: ensures_def)

lemma trim_clean: "list_all p l \<Longrightarrow> list_all p (trim l)"
  using trim_by_set [of is_ws l] by (auto simp: list_all_iff)

context console
begin

definition clean_input :: "'w \<Rightarrow> bool" where
  "clean_input w \<longleftrightarrow> list_all (list_all toml_char) (stdin_of w)"

lemma ensures_optional: "ensures clean_input (\<lambda>a. list_all toml_char a \<and> trim a = a) (prompt_optional B label)"
  unfolding ensures_def
proof (intro allI impI)
  fix w a w' assume w: "clean_input w" "prompt_optional B label w = Ret (Inr a, w')"
  then have "a = typed (stdin_of w)" "stdin_of w' = tl (stdin_of w)" using prompt_reads [of label w] by auto
  then show "(list_all toml_char a \<and> trim a = a) \<and> clean_input w'"
    using w(1) by (cases "stdin_of w") (auto simp: typed_def clean_input_def trim_clean)
qed

lemma ensures_print: "ensures clean_input (\<lambda>_. True) (println B s)"
  using print_law by (auto simp: ensures_def println_def clean_input_def)

lemma ensures_default: "list_all toml_char d \<Longrightarrow> trim d = d \<Longrightarrow>
    ensures clean_input (\<lambda>a. list_all toml_char a \<and> trim a = a) (prompt_with_default B label d)"
  unfolding prompt_with_default_def by (rule ensures_andthen [OF ensures_optional]) (auto intro: ensures_pass)

lemma ensures_required: "ensures clean_input (\<lambda>a. list_all toml_char a \<and> trim a \<noteq> []) (prompt_required fuel B label)"
proof (induction fuel)
  case (Suc fuel)
  have "ensures clean_input (\<lambda>a. list_all toml_char a \<and> trim a \<noteq> []) (if trim a \<noteq> [] then pass a
      else andthen (println B (label @ '' is required.'')) (\<lambda>_. prompt_required fuel B label))" if "list_all toml_char a" for a
    using that Suc by (auto intro: ensures_pass ensures_andthen [OF ensures_print])
  then show ?case unfolding prompt_required.simps by (intro ensures_andthen [OF ensures_optional]) blast
qed (simp add: ensures_def)

lemma ensures_confirm: "ensures clean_input (\<lambda>_. True) (confirm fuel B label d)"
proof (induction fuel)
  case (Suc fuel)
  have "ensures clean_input (\<lambda>_. True) (if a = [] then pass d else (case yes_no a of Some b \<Rightarrow> pass b
      | None \<Rightarrow> andthen (println B ''Please answer yes or no.'') (\<lambda>_. confirm fuel B label d)))" for a
    using Suc by (auto intro: ensures_pass ensures_andthen [OF ensures_print] split: option.splits)
  then show ?case unfolding confirm.simps by (intro ensures_andthen [OF ensures_optional])
qed (simp add: ensures_def)

lemma ensures_port: "ensures clean_input (\<lambda>a. parse_unsigned 16 a \<noteq> None) (prompt_port fuel B)"
proof (induction fuel)
  case (Suc fuel)
  have d: "list_all toml_char ''15432''" "trim ''15432'' = ''15432''" by code_simp+
  have "ensures clean_input (\<lambda>a. parse_unsigned 16 a \<noteq> None) (if parse_unsigned 16 a \<noteq> None then pass a
      else andthen (println B ''PostgreSQL listener port must be a number from 0 to 65535.'') (\<lambda>_. prompt_port fuel B))" for a
    using Suc by (auto intro: ensures_pass ensures_andthen [OF ensures_print])
  then show ?case unfolding prompt_port.simps by (intro ensures_andthen [OF ensures_default [OF d]])
qed (simp add: ensures_def)

lemma ensures_ask_config:
  "ensures clean_input (\<lambda>a. answers_clean a \<and> parse_unsigned 16 (ca_listen_port a) \<noteq> None \<and> trim (ca_dsn a) \<noteq> []) (ask_config fuel B)"
proof -
  have d: "list_all toml_char ''0.0.0.0''" "trim ''0.0.0.0'' = ''0.0.0.0''" "list_all toml_char ''INFO''" "trim ''INFO'' = ''INFO''"
    by code_simp+
  have validate: "ensures clean_input (\<lambda>_. True) (if f = [] then confirm fuel B label True else pass True)" for f label
    using ensures_confirm by (auto intro: ensures_pass)
  show ?thesis
    unfolding ask_config_def
    by (intro ensures_andthen [OF ensures_default [OF d(1,2)]] ensures_andthen [OF ensures_port]
        ensures_andthen [OF ensures_default [OF d(3,4)]] ensures_andthen [OF ensures_required]
        ensures_andthen [OF ensures_confirm] ensures_andthen [OF validate] ensures_andthen [OF ensures_optional] ensures_pass)
      (auto simp: answers_clean_def)
qed

end

lemma config_lines_clean:
  assumes "answers_clean a" and "parse_unsigned 16 (ca_listen_port a) = Some p"
  shows "list_all (\<lambda>l. newline \<notin> set l \<and> carriage_return \<notin> set l) (config_lines a)"
proof -
  have "newline \<notin> set (ca_listen_port a)" "carriage_return \<notin> set (ca_listen_port a)"
    using port_chars [OF assms(2)] port_char_props by (auto simp: list_all_iff)
  then have "newline \<notin> set (trim (ca_listen_port a))" "carriage_return \<notin> set (trim (ca_listen_port a))"
    using trim_by_set by blast+
  then show ?thesis
    using assms(1) toml_escape_clean by (simp add: config_lines_def answers_clean_def toml_string_def bool_text_def)
qed

text \<open>
  C22. A configuration file written by the dialogue reads back as the answers. Whatever lines are
  typed, without control characters, the content that \<^verbatim>\<open>prompt_config\<close> returns is TOML for exactly
  the answers, with quotes and backslashes in them; the DSN is not blank and the port is a number
  below 65536. The port must have no leading zero: the prompt accepts one, TOML does not.
\<close>

theorem written_config_reads_back:
  assumes "console B stdin_of" and "list_all (list_all toml_char) (stdin_of w)"
    and "prompt_config fuel B path w = Ret (Inr content, w')"
  shows "\<exists>a p. ask_config fuel B (bo_print B (''Config path: '' @ path @ [newline]) w) = Ret (Inr a, w') \<and>
    trim (ca_dsn a) \<noteq> [] \<and> parse_unsigned 16 (ca_listen_port a) = Some p \<and>
    (no_leading_zero (ca_listen_port a) \<longrightarrow> read_toml [] (text_lines content) = Some (written_config a p))"
proof -
  let ?w = "bo_print B (''Config path: '' @ path @ [newline]) w"
  obtain a where a: "ask_config fuel B ?w = Ret (Inr a, w')" "content = config_text a"
    using assms(3) by (auto simp: prompt_config_def andthen_Ret)
  have "console.clean_input stdin_of ?w"
    using assms(2) console.print_law [OF assms(1)] by (simp add: console.clean_input_def [OF assms(1)])
  then have q: "answers_clean a" "parse_unsigned 16 (ca_listen_port a) \<noteq> None" "trim (ca_dsn a) \<noteq> []"
    using ensuresD [OF console.ensures_ask_config [OF assms(1)] _ a(1)] by auto
  then obtain p where p: "parse_unsigned 16 (ca_listen_port a) = Some p" by auto
  have "read_toml [] (text_lines content) = Some (written_config a p)" if "no_leading_zero (ca_listen_port a)"
    using read_config_lines [OF q(1) p that] text_lines_of [OF config_lines_clean [OF q(1) p]] a(2) by (simp add: config_text_def)
  then show ?thesis using a(1) q(3) p by blast
qed

section \<open>A terminal\<close>

text \<open>A terminal on two lists, what is typed and what is printed, without files and without Exasol.\<close>

definition list_terminal :: "(string list \<times> string list, unit, unit, unit, unit, unit, unit) boot_ops" where
  "list_terminal =
     \<lparr>bo_is_terminal = (\<lambda>_. True),
      bo_print = (\<lambda>s (ins, outs). (ins, outs @ [s])),
      bo_flush = (\<lambda>w. (Inr (), w)),
      bo_read_line = (\<lambda>(ins, outs). case ins of [] \<Rightarrow> (Inr [], ([], outs)) | l # ls \<Rightarrow> (Inr (l @ [newline]), (ls, outs))),
      bo_read_password = (\<lambda>label w. (Inr [], w)),
      bo_exists = (\<lambda>_ _. False), bo_path_parent = (\<lambda>_. None), bo_create_dir_all = (\<lambda>_ w. (Inr (), w)),
      bo_write_file = (\<lambda>path content (ins, outs). (Inr (), (ins, outs @ [content]))), bo_current_exe = None,
      bo_connect_arrow = (\<lambda>_ _ _ _ w. (Inl (ConnectionFailed []), w)),
      bo_connect_websocket = (\<lambda>_ _ _ _ w. (Inl (ConnectionFailed []), w)),
      bo_run_sql = (\<lambda>_ _ w. (Inl (RequestFailed []), w)),
      bo_batch = \<lparr>rb_num_rows = (\<lambda>_. 0), rb_slice = (\<lambda>b _ _. b), rb_schema = (\<lambda>_. ()), rb_columns = (\<lambda>_. []),
        rb_take = (\<lambda>_ _. None), rb_try_new = (\<lambda>_ _. None), rb_empty_schema = ()\<rparr>,
      bo_format = \<lparr>fmt_new = (\<lambda>_. Inr ()), fmt_value = (\<lambda>_ _. Inr []), fmt_is_null = (\<lambda>_ _. True)\<rparr>,
      bo_int64_values = (\<lambda>_. None), bo_catalog_script = [], bo_preprocessor_script = []\<rparr>"

interpretation lt: console list_terminal fst
  by unfold_locales (auto simp: list_terminal_def)

definition demo_typed :: "string list" where
  "demo_typed = [[], ''7'', [], ''exa:1'', ''maybe'', ''y'', ''AB'', [dquote]]"

definition demo_answers :: config_answers where
  "demo_answers = \<lparr>ca_listen_host = ''0.0.0.0'', ca_listen_port = ''7'', ca_log_level = ''INFO'', ca_dsn = ''exa:1'',
     ca_encryption = True, ca_fingerprint = ''AB'', ca_validate = True, ca_schema = [dquote]\<rparr>"

lemma port_seven: "parse_unsigned 16 ''7'' = Some 7"
  by (simp add: parse_unsigned_def parse_digits_def is_digit_def code_point_def digits_value_def digit_value_def)

lemma demo_trims: "trim [newline] = []" "trim (''7'' @ [newline]) = ''7''" "trim (''exa:1'' @ [newline]) = ''exa:1''"
  "trim (''maybe'' @ [newline]) = ''maybe''" "trim (''y'' @ [newline]) = ''y''" "trim (''AB'' @ [newline]) = ''AB''"
  "trim [dquote, newline] = [dquote]" "trim ''7'' = ''7''" "trim ''exa:1'' = ''exa:1''"
  by code_simp+

lemma demo_yes_no: "yes_no ''maybe'' = None" "yes_no ''y'' = Some True"
  by code_simp+

lemma demo_ask:
  "\<exists>outs. ask_config 2 list_terminal (demo_typed, printed) = Ret (Inr demo_answers, ([], outs))"
  using port_seven demo_trims demo_yes_no
  by (simp add: ask_config_def prompt_with_default_def prompt_optional_def numeral_2_eq_2 andthen_def of_call_def
      list_terminal_def demo_typed_def demo_answers_def println_def)

theorem written_config_reads_back_witness:
  "\<exists>content w'. prompt_config 2 list_terminal ''c.toml'' (demo_typed, []) = Ret (Inr content, w') \<and>
     read_toml [] (text_lines content) = Some (written_config demo_answers 7)"
proof -
  let ?w1 = "bo_print list_terminal (''Config path: '' @ ''c.toml'' @ [newline]) (demo_typed, [])"
  have w1: "?w1 = (demo_typed, [''Config path: '' @ ''c.toml'' @ [newline]])" by (simp add: list_terminal_def)
  obtain outs where ask: "ask_config 2 list_terminal ?w1 = Ret (Inr demo_answers, ([], outs))"
    unfolding w1 using demo_ask by blast
  then have run: "prompt_config 2 list_terminal ''c.toml'' (demo_typed, []) = Ret (Inr (config_text demo_answers), ([], outs))"
    by (simp add: prompt_config_def andthen_run)
  have "list_all (list_all toml_char) (fst (demo_typed, []))" by code_simp
  from written_config_reads_back [OF lt.console_axioms this run] ask obtain p where
    "parse_unsigned 16 (ca_listen_port demo_answers) = Some p"
    "no_leading_zero (ca_listen_port demo_answers) \<longrightarrow> read_toml [] (text_lines (config_text demo_answers)) = Some (written_config demo_answers p)"
    by auto
  moreover have "ca_listen_port demo_answers = ''7''" "no_leading_zero ''7''"
    by (simp_all add: demo_answers_def no_leading_zero_def unsigned_part_def)
  ultimately show ?thesis using run port_seven by auto
qed

section \<open>Counts\<close>

lemma split_once_absent: "c \<notin> set s \<Longrightarrow> split_once c s = None"
proof -
  assume "c \<notin> set s"
  then have none: "dropWhile (\<lambda>d. d \<noteq> c) s = []" by (simp add: dropWhile_eq_Nil_conv) blast
  show ?thesis by (simp only: split_once_def none list.case)
qed

text \<open>A count is read from its decimal text, with a fraction or without.\<close>

lemma parse_count_text:
  assumes "in_i64 n" and "fraction = [] \<or> hd fraction = CHR ''.'' \<and> \<not> is_ws (last fraction)"
  shows "parse_count_string (show_int n @ fraction) = Inr n"
proof -
  have c: "show_int n \<noteq> []" "list_all (\<lambda>c. \<not> is_ws c) (show_int n)" "CHR ''.'' \<notin> set (show_int n)"
    using show_int_clean [of n] show_int_chars [of n]
    by (auto simp: list_all_iff is_digit_def code_point_def)
  then have "\<not> is_ws (hd (show_int n))" "\<not> is_ws (last (show_int n))" by (simp_all add: list_all_iff)
  then have t: "trim (show_int n @ fraction) = show_int n @ fraction"
    using assms(2) c(1) by (intro trim_by_id) (auto simp: last_append)
  have "(case split_once (CHR ''.'') (show_int n @ fraction) of Some (head, _) \<Rightarrow> head | None \<Rightarrow> show_int n @ fraction) = show_int n"
    using assms(2) split_once_append [OF c(3), of "tl fraction"] split_once_absent [OF c(3)] by (cases fraction) auto
  then show ?thesis using t parse_i64_show [OF assms(1)] by (simp add: parse_count_string_def Let_def)
qed

text \<open>
  The count of installed schemas is the same over both transports: the first cell of the first
  batch, as an integer or rendered, and the first text of a typed result.
\<close>

lemma counts_agree:
  assumes "rb_num_rows (bo_batch B) b \<noteq> 0" and "rb_columns (bo_batch B) b = col # other" and "\<not> fmt_is_null (bo_format B) col 0"
    and "fmt_new (bo_format B) col = Inr f" and "fmt_value (bo_format B) f 0 = Inr (show_int n @ fraction)" and "in_i64 n"
    and "fraction = [] \<or> hd fraction = CHR ''.'' \<and> \<not> is_ws (last fraction)"
    and "\<And>vs. bo_int64_values B col = Some vs \<Longrightarrow> vs 0 = n"
  shows "first_count B (ArrowRows (b # bs)) = first_count B (TypedRows (c # cs) ((Some (show_int n @ fraction) # cells) # rows)) \<and>
    (0 \<le> n \<longrightarrow> first_count B (ArrowRows (b # bs)) = Inr (nat n))"
  using assms parse_count_text [OF assms(6,7)]
  by (auto simp: first_count_def read_first_scalar_as_i64_def read_first_typed_def render_first_cell_def split: option.splits)

end
