(* ===== verification/Command_Line.thy ===== *)
theory Command_Line
  imports Bootstrap_Laws
begin

text \<open>
  The two programs: the server's start (\<^verbatim>\<open>src/src/main.rs\<close>) up to the point where it listens, and the
  SQL runner (\<^verbatim>\<open>src/src/bin/exasol_exec.rs\<close>). They run in the world of \<open>boot_ops\<close>; the TOML and PEM
  parsers, the socket address parser, the listener, rustls, the clock and floating-point numbers
  are further arguments. The accept loop is in \<open>Server\<close>.
\<close>

section \<open>The server\<close>

record cli_args =
  cli_config_path :: "string option"
  cli_bootstrap_mode :: bootstrap_mode

text \<open>\<open>Inr None\<close> is the help text and a normal exit.\<close>

fun parse_args_from :: "cli_args \<Rightarrow> string list \<Rightarrow> (string, cli_args option) result" where
  "parse_args_from args [] = Inr (Some args)"
| "parse_args_from args (arg # rest) =
     (if arg = ''--config'' then
        (case rest of
           [] \<Rightarrow> Inl ''missing value for --config''
         | path # rest' \<Rightarrow> parse_args_from (args\<lparr>cli_config_path := Some path\<rparr>) rest')
      else if arg = ''--no-bootstrap'' then parse_args_from (args\<lparr>cli_bootstrap_mode := BootSkip\<rparr>) rest
      else if arg = ''--help'' \<or> arg = ''-h'' then Inr None
      else Inl (''unknown argument: '' @ arg))"

definition parse_args :: "string list \<Rightarrow> (string, cli_args option) result" where
  "parse_args argv = parse_args_from \<lparr>cli_config_path = None, cli_bootstrap_mode = BootInteractive\<rparr> argv"

text \<open>PEM files, rustls' server configuration with its protocols, the file system and the network.\<close>

record ('w, 'cert, 'key, 'tls, 'addr, 'l) server_ops =
  so_read_file :: "string \<Rightarrow> 'w \<Rightarrow> (string, string) result"
  so_toml :: "string \<Rightarrow> (string, app_config) result"
  so_certs :: "string \<Rightarrow> (string, 'cert) result list"
  so_private_key :: "string \<Rightarrow> (string, 'key option) result"
  so_single_cert :: "'cert list \<Rightarrow> 'key \<Rightarrow> (string, 'tls) result"
  so_parse_addr :: "string \<Rightarrow> (string, 'addr) result"
  so_bind :: "'addr \<Rightarrow> 'w \<Rightarrow> (string, 'l) result \<times> 'w"

record 'tls tls_acceptor =
  ta_config :: 'tls
  ta_alpn_protocols :: "string list"

definition setup_tls :: "('w, 'cert, 'key, 'tls, 'addr, 'l) server_ops \<Rightarrow> app_config \<Rightarrow> 'w \<Rightarrow> (string, 'tls tls_acceptor option) result" where
  "setup_tls S config w =
     (if trim (tls_cert_path (server config)) = [] then Inr None
      else
        (case so_read_file S (tls_cert_path (server config)) w of
           Inl e \<Rightarrow> Inl e
         | Inr cert_pem \<Rightarrow>
             (case collect_results (so_certs S cert_pem) of
                Inl e \<Rightarrow> Inl e
              | Inr certs \<Rightarrow>
                  (case so_read_file S (tls_key_path (server config)) w of
                     Inl e \<Rightarrow> Inl e
                   | Inr key_pem \<Rightarrow>
                       (case so_private_key S key_pem of
                          Inl e \<Rightarrow> Inl e
                        | Inr None \<Rightarrow> Inl ''TLS key file contains no private key''
                        | Inr (Some key) \<Rightarrow>
                            (case so_single_cert S certs key of
                               Inl e \<Rightarrow> Inl e
                             | Inr tls \<Rightarrow> Inr (Some \<lparr>ta_config = tls, ta_alpn_protocols = [''postgresql'']\<rparr>)))))))"

text \<open>What the server has when it starts to accept connections.\<close>

record ('l, 'tls) listening =
  li_config :: app_config
  li_listener :: 'l
  li_tls :: "'tls tls_acceptor option"

definition load_config :: "('w, 'cert, 'key, 'tls, 'addr, 'l) server_ops \<Rightarrow> string \<Rightarrow> ('w, app_config) dialogue" where
  "load_config S path w = of_result (config_from_file (\<lambda>p. so_read_file S p w) (so_toml S) path) w"

definition listen :: "('w, 'cert, 'key, 'tls, 'addr, 'l) server_ops \<Rightarrow> app_config \<Rightarrow> ('w, ('l, 'tls) listening) dialogue" where
  "listen S config =
     andthen (of_result (so_parse_addr S (listen_host (server config) @ '':'' @ show_nat (listen_port (server config))))) (\<lambda>addr.
     andthen (of_call id (so_bind S addr)) (\<lambda>listener.
     andthen (\<lambda>w. of_result (setup_tls S config w) w) (\<lambda>tls.
       pass \<lparr>li_config = config, li_listener = listener, li_tls = tls\<rparr>)))"

definition run_server :: "nat \<Rightarrow> ('w, 'x, 'b, 's, 'c, 'f, 'j) boot_ops \<Rightarrow> ('w, 'cert, 'key, 'tls, 'addr, 'l) server_ops \<Rightarrow>
    string list \<Rightarrow> ('w, ('l, 'tls) listening option) dialogue" where
  "run_server fuel B S argv =
     andthen (of_result (parse_args argv)) (\<lambda>parsed.
       case parsed of
         None \<Rightarrow> pass None
       | Some args \<Rightarrow>
           andthen (ensure_config_file fuel B (cli_config_path args)) (\<lambda>config_path.
           andthen (load_config S config_path) (\<lambda>config.
           andthen (if cli_bootstrap_mode args = BootInteractive then run_interactive_bootstrap fuel B config config_path else pass ()) (\<lambda>_.
           andthen (listen S config) (\<lambda>l. pass (Some l))))))"

section \<open>The SQL runner\<close>

record exec_args =
  ea_dsn :: string
  ea_user :: string
  ea_password :: string
  ea_schema :: string
  ea_fingerprint :: string
  ea_validate :: bool
  ea_sql :: "string option"
  ea_file :: "string option"
  ea_transport :: string
  ea_repeat :: nat

definition usize_error_text :: "string \<Rightarrow> string" where
  "usize_error_text s =
     (case s of
        [] \<Rightarrow> ''cannot parse integer from empty string''
      | c # cs \<Rightarrow>
          if (c = CHR ''-'' \<or> c = CHR ''+'') \<and> cs = [] then invalid_digit_text
          else if exceeds_first (2 ^ 64 - 1) 0 (if c = CHR ''+'' then cs else s)
          then ''number too large to fit in target type''
          else invalid_digit_text)"

definition parse_usize :: "string \<Rightarrow> (string, nat) result" where
  "parse_usize s = (case parse_unsigned 64 s of Some n \<Rightarrow> Inr n | None \<Rightarrow> Inl (usize_error_text s))"

definition required_value :: "string \<Rightarrow> string list \<Rightarrow> (string, string \<times> string list) result" where
  "required_value flag args = (case args of [] \<Rightarrow> Inl (''missing value for '' @ flag) | v # rest \<Rightarrow> Inr (v, rest))"

text \<open>The flags with a value and what they set.\<close>

definition set_flag :: "string \<Rightarrow> string \<Rightarrow> exec_args \<Rightarrow> (string, exec_args) result option" where
  "set_flag flag v a =
     (if flag = ''--dsn'' then Some (Inr (a\<lparr>ea_dsn := v\<rparr>))
      else if flag = ''--user'' then Some (Inr (a\<lparr>ea_user := v\<rparr>))
      else if flag = ''--password'' then Some (Inr (a\<lparr>ea_password := v\<rparr>))
      else if flag = ''--schema'' then Some (Inr (a\<lparr>ea_schema := v\<rparr>))
      else if flag = ''--transport'' then Some (Inr (a\<lparr>ea_transport := v\<rparr>))
      else if flag = ''--repeat'' then
        Some (case parse_usize v of Inl e \<Rightarrow> Inl e | Inr n \<Rightarrow> Inr (a\<lparr>ea_repeat := n\<rparr>))
      else if flag = ''--fingerprint'' then Some (Inr (a\<lparr>ea_fingerprint := v\<rparr>))
      else if flag = ''--sql'' then Some (Inr (a\<lparr>ea_sql := Some v\<rparr>))
      else if flag = ''--file'' then Some (Inr (a\<lparr>ea_file := Some v\<rparr>))
      else None)"

function parse_exec_args :: "exec_args \<Rightarrow> string list \<Rightarrow> (string, exec_args option) result" where
  "parse_exec_args a [] = Inr (Some a)"
| "parse_exec_args a (arg # rest) =
     (if arg = ''--no-verify'' then parse_exec_args (a\<lparr>ea_validate := False\<rparr>) rest
      else if arg = ''--help'' \<or> arg = ''-h'' then Inr None
      else if set_flag arg [] a = None then Inl (''unknown argument: '' @ arg)
      else
        (case required_value arg rest of
           Inl e \<Rightarrow> Inl e
         | Inr (v, rest') \<Rightarrow>
             (case set_flag arg v a of
                None \<Rightarrow> Inl (''unknown argument: '' @ arg)
              | Some (Inl e) \<Rightarrow> Inl e
              | Some (Inr a') \<Rightarrow> parse_exec_args a' rest')))"
  by pat_completeness auto
termination
  by (relation "measure (\<lambda>(a, args). length args)") (auto simp: required_value_def split: list.splits)

definition default_exec_args :: exec_args where
  "default_exec_args = \<lparr>ea_dsn = [], ea_user = [], ea_password = [], ea_schema = [], ea_fingerprint = [], ea_validate = True,
     ea_sql = None, ea_file = None, ea_transport = DEFAULT_TRANSPORT, ea_repeat = 1\<rparr>"

definition exec_config :: "exec_args \<Rightarrow> exasol_config" where
  "exec_config a =
     \<lparr>dsn = ea_dsn a, encryption = True, certificate_fingerprint = ea_fingerprint a, validate_certificate = ea_validate a,
      pass_client_credentials = True, schema = ea_schema a, transport_name = ea_transport a\<rparr>"

text \<open>What the runner uses of Arrow and of the session beside \<open>boot_ops\<close>.\<close>

record ('w, 'x, 's, 'c) exec_ops =
  eo_read_file :: "string \<Rightarrow> 'w \<Rightarrow> (string, string) result"
  eo_close :: "'x \<Rightarrow> 'w \<Rightarrow> (exasol_error, unit) result \<times> 'w"
  eo_fields :: "'s \<Rightarrow> arrow_field list"
  eo_value_text :: "'c \<Rightarrow> nat \<Rightarrow> (string, string) result"

definition exec_sql :: "('w, 'x, 's, 'c) exec_ops \<Rightarrow> exec_args \<Rightarrow> 'w \<Rightarrow> (string, string) result" where
  "exec_sql T a w =
     (case (ea_sql a, ea_file a) of
        (Some sql, None) \<Rightarrow> Inr sql
      | (None, Some path) \<Rightarrow> eo_read_file T path w
      | (Some _, Some _) \<Rightarrow> Inl ''pass either --sql or --file, not both''
      | (None, None) \<Rightarrow> Inl ''required: --sql or --file'')"

abbreviation tab :: string where "tab \<equiv> [CHR 0x09]"

definition arrow_cell_text :: "('w, 'x, 's, 'c) exec_ops \<Rightarrow> ('c, 'f) format_ops \<Rightarrow> 'c \<Rightarrow> nat \<Rightarrow> string" where
  "arrow_cell_text T F col row_idx =
     (if fmt_is_null F col row_idx then [] else (case eo_value_text T col row_idx of Inr v \<Rightarrow> v | Inl _ \<Rightarrow> []))"

definition exec_output :: "('w, 'x, 'b, 's, 'c, 'f, 'j) boot_ops \<Rightarrow> ('w, 'x, 's, 'c) exec_ops \<Rightarrow> ('b, 'j) exasol_outcome \<Rightarrow> string list" where
  "exec_output B T outcome =
     (case outcome of
        RowCount count \<Rightarrow> [''row_count='' @ show_int count]
      | ArrowRows batches \<Rightarrow>
          (case batches of
             [] \<Rightarrow> []
           | first # _ \<Rightarrow> [join_with tab (map af_name (eo_fields T (rb_schema (bo_batch B) first)))]) @
          concat (map (\<lambda>batch. map (\<lambda>row_idx. join_with tab
              (map (\<lambda>col. arrow_cell_text T (bo_format B) col row_idx) (rb_columns (bo_batch B) batch)))
            [0..<rb_num_rows (bo_batch B) batch]) batches)
      | TypedRows cols rows \<Rightarrow>
          join_with tab (map col_name cols) # map (\<lambda>row. join_with tab (map (\<lambda>cell. unwrap_or cell []) row)) rows)"

definition rows_in :: "('b, 's, 'c) batch_ops \<Rightarrow> ('b, 'j) exasol_outcome \<Rightarrow> nat" where
  "rows_in ops outcome =
     (case outcome of
        RowCount _ \<Rightarrow> 0
      | ArrowRows batches \<Rightarrow> sum_list (map (rb_num_rows ops) batches)
      | TypedRows _ rows \<Rightarrow> length rows)"

text \<open>
  What the benchmark uses of the clock and of \<^verbatim>\<open>f64\<close>: \<open>be_elapsed_ms\<close> is the time since an instant in
  milliseconds, \<open>be_partial_cmp\<close> compares two numbers unless one is not a number, and \<open>be_fixed k\<close>
  prints a number with \<open>k\<close> digits after the point.
\<close>

datatype ordering = OrdLess | OrdEqual | OrdGreater

record ('w, 'i, 'd) bench_ops =
  be_now :: "'w \<Rightarrow> 'i \<times> 'w"
  be_elapsed_ms :: "'i \<Rightarrow> 'w \<Rightarrow> 'd \<times> 'w"
  be_partial_cmp :: "'d \<Rightarrow> 'd \<Rightarrow> ordering option"
  be_sum :: "'d list \<Rightarrow> 'd"
  be_div :: "'d \<Rightarrow> nat \<Rightarrow> 'd"
  be_fixed :: "nat \<Rightarrow> 'd \<Rightarrow> string"

definition read_clock :: "('w \<Rightarrow> 'a \<times> 'w) \<Rightarrow> ('w, 'e, 'a) effect" where
  "read_clock f w = (case f w of (a, w') \<Rightarrow> pass a w')"

text \<open>
  \<^verbatim>\<open>sort_by\<close> is stable; its comparison panics on a value that is not a number, and a list of two or
  more elements is not sorted without comparing each of them.
\<close>

fun insert_sample :: "('d \<Rightarrow> 'd \<Rightarrow> ordering option) \<Rightarrow> 'd \<Rightarrow> 'd list \<Rightarrow> 'd list" where
  "insert_sample cmp x [] = [x]"
| "insert_sample cmp x (y # ys) = (if cmp x y = Some OrdGreater then y # insert_sample cmp x ys else x # y # ys)"

definition sort_samples :: "('d \<Rightarrow> 'd \<Rightarrow> ordering option) \<Rightarrow> 'd list \<Rightarrow> 'd list exec" where
  "sort_samples cmp xs =
     (if length xs > 1 \<and> list_ex (\<lambda>x. cmp x x = None) xs then Panic else Ret (foldr (insert_sample cmp) xs []))"

definition bench_report :: "('w, 'i, 'd) bench_ops \<Rightarrow> exec_args \<Rightarrow> nat \<Rightarrow> 'd \<Rightarrow> 'd list \<Rightarrow> string list exec" where
  "bench_report C a rows connect_ms samples_ms =
     (let measured = (if length samples_ms > 1 then tl samples_ms else samples_ms) in
      bind_exec (sort_samples (be_partial_cmp C) measured) (\<lambda>sorted.
        if sorted = [] then Panic
        else
          let mn = hd sorted; mx = last sorted; median = sorted ! (length sorted div 2);
              mean = be_div C (be_sum C sorted) (length sorted)
          in Ret
            [''transport='' @ ea_transport a,
             ''rows='' @ show_nat rows,
             ''connect_ms='' @ be_fixed C 1 connect_ms,
             ''iterations='' @ show_nat (ea_repeat a) @ '' (first excluded as warm-up)'',
             ''first_ms='' @ be_fixed C 2 (hd samples_ms),
             ''min_ms='' @ be_fixed C 2 mn @ ''  median_ms='' @ be_fixed C 2 median @ ''  mean_ms='' @ be_fixed C 2 mean @
               ''  max_ms='' @ be_fixed C 2 mx]))"

text \<open>The runs of the benchmark: the number of rows of the last one and the time of each.\<close>

primrec benchmark_runs :: "('w, 'x, 'b, 's, 'c, 'f, 'j) boot_ops \<Rightarrow> ('w, 'i, 'd) bench_ops \<Rightarrow> 'x \<Rightarrow> string \<Rightarrow>
    nat \<Rightarrow> 'd list \<Rightarrow> nat \<Rightarrow> ('w, nat \<times> 'd list) dialogue" where
  "benchmark_runs B C session sql rows samples 0 = pass (rows, samples)"
| "benchmark_runs B C session sql rows samples (Suc n) =
     andthen (read_clock (be_now C)) (\<lambda>start.
     andthen (boxed (exasol_call (bo_run_sql B session sql))) (\<lambda>outcome.
     andthen (read_clock (be_elapsed_ms C start)) (\<lambda>ms.
       benchmark_runs B C session sql (rows_in (bo_batch B) outcome) (samples @ [ms]) n)))"

definition run_benchmark :: "('w, 'x, 'b, 's, 'c, 'f, 'j) boot_ops \<Rightarrow> ('w, 'x, 's, 'c) exec_ops \<Rightarrow> ('w, 'i, 'd) bench_ops \<Rightarrow>
    exec_args \<Rightarrow> string \<Rightarrow> ('w, unit) dialogue" where
  "run_benchmark B T C a sql =
     andthen (read_clock (be_now C)) (\<lambda>connect_start.
     andthen (boxed (boot_connect B (exec_config a) (ea_user a) (ea_password a))) (\<lambda>session.
     andthen (read_clock (be_elapsed_ms C connect_start)) (\<lambda>connect_ms.
     andthen (benchmark_runs B C session sql 0 [] (ea_repeat a)) (\<lambda>(rows, samples_ms).
     andthen (boxed (exasol_call (eo_close T session))) (\<lambda>_.
       of_exec (bench_report C a rows connect_ms samples_ms) (print_lines B))))))"

definition run_once :: "('w, 'x, 'b, 's, 'c, 'f, 'j) boot_ops \<Rightarrow> ('w, 'x, 's, 'c) exec_ops \<Rightarrow> exec_args \<Rightarrow> string \<Rightarrow> ('w, unit) dialogue" where
  "run_once B T a sql =
     andthen (boxed (boot_connect B (exec_config a) (ea_user a) (ea_password a))) (\<lambda>session.
     andthen (boxed (exasol_call (bo_run_sql B session sql))) (\<lambda>outcome.
     andthen (print_lines B (exec_output B T outcome)) (\<lambda>_.
       boxed (exasol_call (eo_close T session)))))"

definition exec_main :: "('w, 'x, 'b, 's, 'c, 'f, 'j) boot_ops \<Rightarrow> ('w, 'x, 's, 'c) exec_ops \<Rightarrow> ('w, 'i, 'd) bench_ops \<Rightarrow>
    string list \<Rightarrow> ('w, unit) dialogue" where
  "exec_main B T C argv =
     andthen (of_result (parse_exec_args default_exec_args argv)) (\<lambda>parsed.
       case parsed of
         None \<Rightarrow> pass ()
       | Some a \<Rightarrow>
           if ea_dsn a = [] \<or> ea_user a = [] \<or> ea_password a = [] then raise ''required: --dsn --user --password''
           else
             andthen (\<lambda>w. of_result (exec_sql T a w) w) (\<lambda>sql.
               if ea_repeat a > 1 then run_benchmark B T C a sql
               else run_once B T a sql))"

section \<open>Laws of the runner\<close>

text \<open>Each flag sets its field, the last occurrence counts, and the statement is taken from one place only.\<close>

lemma exec_args_read:
  "parse_exec_args default_exec_args [''--dsn'', d, ''--user'', u, ''--password'', p, ''--sql'', first, ''--sql'', q] =
     Inr (Some (default_exec_args\<lparr>ea_dsn := d, ea_user := u, ea_password := p, ea_sql := Some q\<rparr>))"
  by (simp add: set_flag_def required_value_def default_exec_args_def)

lemma exec_needs_one_source: "exec_sql T a w = Inr q \<Longrightarrow> (ea_sql a = None) \<noteq> (ea_file a = None)"
  by (auto simp: exec_sql_def split: option.splits)

text \<open>The runner prints a header and one line per row.\<close>

lemma exec_output_lines:
  "outcome \<noteq> ArrowRows [] \<Longrightarrow> length (exec_output B T outcome) = 1 + rows_in (bo_batch B) outcome"
  by (cases outcome) (auto simp: exec_output_def rows_in_def length_concat comp_def split: list.splits)

text \<open>
  With a clock whose times are ordered, the samples are sorted as by the library's stable sort, so
  that the report's median lies between its minimum and its maximum, and no run makes it panic.
\<close>

definition linear_cmp :: "'d :: linorder \<Rightarrow> 'd \<Rightarrow> ordering option" where
  "linear_cmp x y = Some (if x < y then OrdLess else if x = y then OrdEqual else OrdGreater)"

lemma insert_sample_insort: "insert_sample linear_cmp = insort"
proof (intro ext)
  show "insert_sample linear_cmp x ys = insort x ys" for x and ys :: "'d :: linorder list"
    by (induction ys) (auto simp: linear_cmp_def)
qed

lemma sort_samples_sort: "sort_samples linear_cmp xs = Ret (sort xs)"
  by (simp add: sort_samples_def insert_sample_insort sort_key_def linear_cmp_def list_ex_iff)

lemma sort_eq_Nil: "sort xs = [] \<longleftrightarrow> xs = []"
  by (metis length_0_conv length_sort)

lemma median_between:
  fixes xs :: "'d :: linorder list"
  assumes "xs \<noteq> []"
  shows "hd (sort xs) \<le> sort xs ! (length xs div 2) \<and> sort xs ! (length xs div 2) \<le> last (sort xs)"
proof -
  have "length xs div 2 < length xs" using assms by (cases xs) auto
  moreover have "sort xs \<noteq> []" using assms by (simp add: sort_eq_Nil)
  ultimately show ?thesis
    using sorted_nth_mono [OF sorted_sort, of 0 "length xs div 2" xs]
      sorted_nth_mono [OF sorted_sort, of "length xs div 2" "length xs - 1" xs]
    by (auto simp: hd_conv_nth last_conv_nth)
qed

lemma benchmark_runs_samples:
  "benchmark_runs B C session sql rows samples n w = Ret (Inr (rows', samples'), w') \<Longrightarrow> length samples' = length samples + n"
  by (induction n arbitrary: rows samples w) (auto simp: andthen_Ret)

lemma bench_report_returns:
  assumes "be_partial_cmp C = linear_cmp" and "samples \<noteq> []"
  shows "\<exists>report. bench_report C a rows connect_ms samples = Ret report \<and> length report = 6"
proof -
  have "(if length samples > 1 then tl samples else samples) \<noteq> []" using assms(2) by (cases samples) auto
  then show ?thesis by (simp add: bench_report_def assms(1) sort_samples_sort sort_eq_Nil Let_def del: show_nat.simps)
qed

section \<open>Properties\<close>

lemma load_config_run: "\<exists>r. load_config S path w = Ret (r, w)"
  by (cases "config_from_file (\<lambda>p. so_read_file S p w) (so_toml S) path") (auto simp: load_config_def)

lemma listen_run: "\<exists>r w'. listen S config w = Ret (r, w') \<and> (w' = w \<or> (\<exists>addr x. so_bind S addr w = (x, w')))"
proof -
  let ?addr = "listen_host (server config) @ '':'' @ show_nat (listen_port (server config))"
  show ?thesis
  proof (cases "so_parse_addr S ?addr")
    case (Inl e)
    then show ?thesis by (simp add: listen_def)
  next
    case (Inr addr)
    obtain x w1 where bound: "so_bind S addr w = (x, w1)" by fastforce
    have "\<exists>r. listen S config w = Ret (r, w1)"
      using Inr bound
      by (cases x; cases "setup_tls S config w1") (auto simp: listen_def of_call_def andthen_def)
    then show ?thesis using bound by blast
  qed
qed

text \<open>With a configuration file and without a terminal, the start loads the file and listens.\<close>

lemma start_with_config:
  assumes "\<not> bo_is_terminal B w" and "parse_args argv = Inr (Some args)"
    and "bo_exists B (unwrap_or (cli_config_path args) DEFAULT_CONFIG_PATH) w"
  shows "\<exists>r w'. run_server fuel B S argv w = Ret (r, w') \<and> (w' = w \<or> (\<exists>addr x. so_bind S addr w = (x, w')))"
proof -
  let ?path = "unwrap_or (cli_config_path args) DEFAULT_CONFIG_PATH"
  have boot: "run_interactive_bootstrap fuel B config path w = Ret (Inr (), w)" for config path
    using assms(1) by (simp add: run_interactive_bootstrap_def)
  have ensure: "ensure_config_file fuel B (cli_config_path args) w = Ret (Inr ?path, w)"
    using assms(3) by (simp add: ensure_config_file_def Let_def)
  obtain r where load: "load_config S ?path w = Ret (r, w)" using load_config_run [of S ?path w] by auto
  show ?thesis
  proof (cases r)
    case (Inl e)
    then show ?thesis using assms(2) ensure load by (auto simp: run_server_def andthen_run)
  next
    case (Inr config)
    obtain l w' where l: "listen S config w = Ret (l, w')" "w' = w \<or> (\<exists>addr x. so_bind S addr w = (x, w'))"
      using listen_run [of S config w] by auto
    have "run_server fuel B S argv w = andthen (listen S config) (\<lambda>l. pass (Some l)) w"
      using assms(2) ensure load Inr boot by (simp add: run_server_def andthen_run)
    then show ?thesis using l by (cases l) (auto simp: andthen_run)
  qed
qed


definition silent_server :: "(string list \<times> string list, unit, unit, unit, string, unit) server_ops" where
  "silent_server =
     \<lparr>so_read_file = (\<lambda>_ _. Inl ''no such file''), so_toml = Inl, so_certs = (\<lambda>_. []), so_private_key = Inl,
      so_single_cert = (\<lambda>_ _. Inr ()), so_parse_addr = Inr, so_bind = (\<lambda>_ w. (Inr (), w))\<rparr>"


end
