(* ===== verification/Edge_Cases.thy ===== *)
theory Edge_Cases
  imports Gateway_Prelude
begin

text \<open>
  The rewriting of single catalog queries, \<^verbatim>\<open>rewrite_exasol_edge_case_sql\<close> of
  \<^verbatim>\<open>src/src/pg_server.rs\<close>, which the program keeps for its tests. A query is recognised by its text
  with single blanks and in lower case; some queries are replaced as a whole, in others a part of
  the original text is replaced. In the literals a backquote stands for an apostrophe.
\<close>

definition edge_normalized :: "string \<Rightarrow> string" where
  "edge_normalized sql = to_ascii_lowercase (trim_end_by (\<lambda>c. c = CHR '';'') (join_with '' '' (split_whitespace sql)))"

text \<open>\<^verbatim>\<open>trim_start_matches\<close> and \<^verbatim>\<open>trim_end_matches\<close> with a text remove it as often as it occurs.\<close>

function trim_start_text :: "string \<Rightarrow> string \<Rightarrow> string" where
  "trim_start_text p s = (if p \<noteq> [] \<and> starts_with s p then trim_start_text p (drop (length p) s) else s)"
  by pat_completeness auto
termination
  by (relation "measure (\<lambda>(p, s). length s)") (auto simp: starts_with_def prefix_def)

declare trim_start_text.simps [simp del]

definition trim_end_text :: "string \<Rightarrow> string \<Rightarrow> string" where
  "trim_end_text p s = rev (trim_start_text (rev p) (rev s))"

section \<open>Queries replaced as a whole\<close>

definition edge_fixed :: "(string \<times> string) list" where
  \<open>edge_fixed =
    [(''select collation_schema, collation_name from information_schema.collations'',
      ''SELECT "COLLATION_SCHEMA", "COLLATION_NAME" FROM INFORMATION_SCHEMA."COLLATIONS"''),
     (''select l.oid,l.* from pg_catalog.pg_foreign_server l'',
      ''SELECT l.oid, l.srvname, l.srvowner, l.srvfdw, l.srvtype, '' @
      ''l.srvversion, l.srvacl, l.srvoptions '' @
      ''FROM PG_CATALOG."PG_FOREIGN_SERVER" l''),
     (''select l.oid,l.* from pg_catalog.pg_foreign_data_wrapper l left outer join pg_catalog.pg_proc p on p.oid=l.fdwhandler'',
      ''SELECT l.oid, l.fdwname, l.fdwowner, l.fdwhandler, '' @
      ''l.fdwvalidator, l.fdwacl, l.fdwoptions '' @
      ''FROM PG_CATALOG."PG_FOREIGN_DATA_WRAPPER" l '' @
      ''LEFT OUTER JOIN PG_CATALOG.PG_PROC p ON p.oid = l.fdwhandler'')]\<close>

section \<open>Queries in which a part is replaced\<close>

text \<open>Each rule has the texts that the normalised query must contain and the replacements, in order.\<close>

definition edge_rules :: "(string list \<times> (string \<times> string) list) list" where
  \<open>edge_rules =
    [([sql_text '' from pg_catalog.pg_class as c '',
       sql_text '' left join pg_catalog."pg_foreign_server" as fs '',
       sql_text '' c.relkind = cast(`f` as char) ''],
      [(''PG_CATALOG."PG_FOREIGN_SERVER" AS fs'', ''PG_CATALOG."PG_FOREIGN_SERVER" AS srv''),
       ('' fs.srvname AS '', '' srv.srvname AS ''),
       ('' ft.ftserver = fs.oid'', '' ft.ftserver = srv.oid''),
       ('' fs.srvname LIKE '', '' srv.srvname LIKE '')]),
     ([''array_agg(cast(event_manipulation as long varchar))'', ''from pg_catalog.pg_trigger as trg''],
      [(''ARRAY_AGG(CAST(event_manipulation AS LONG VARCHAR))'',
        sql_text ''LISTAGG(CAST(event_manipulation AS VARCHAR(2000000)), `, `) WITHIN GROUP (ORDER BY event_manipulation)'')]),
     ([''from pg_catalog.pg_proc as p'', ''p.proargtypes[-1]'',
       sql_text ''cast(`pg_catalog.cstring` as pg_catalog.regtype)''],
      [(sql_text '' WHERE p.prorettype <> CAST(`PG_CATALOG.cstring` AS PG_CATALOG.regtype) AND (p.proargtypes[-1] IS NULL OR p.proargtypes[-1] <> CAST(`PG_CATALOG.cstring` AS PG_CATALOG.regtype)) AND'',
        '' WHERE''),
       (sql_text '' WHERE p.prorettype <> CAST(`PG_CATALOG.cstring` AS PG_CATALOG.regtype) AND (p.proargtypes[-1] IS NULL OR p.proargtypes[-1] <> CAST(`PG_CATALOG.cstring` AS PG_CATALOG.regtype))'',
        '' WHERE 1 = 1'')]),
     ([''pg_catalog.pg_get_constraintdef('', '', true)''],
      [(''PG_CATALOG.pg_get_constraintdef(r.oid, TRUE)'', ''PG_CATALOG.pg_get_constraintdef(r.oid)'')]),
     ([''select p.proname as "aggregate name"'',
       sql_text ''case p.proargtypes[-1] when cast(`pg_catalog."any"` as pg_catalog.regtype)''],
      [(sql_text ''CASE p.proargtypes[-1] WHEN CAST(`PG_CATALOG."any"` AS PG_CATALOG.regtype) THEN CAST(`(all types)` AS PG_CATALOG.text) ELSE PG_CATALOG.format_type(p.proargtypes[-1], NULL) END'',
        ''PG_CATALOG.oidvectortypes(p.proargtypes)'')]),
     ([''select pg_catalog.format_type(t.oid, null) as "type name"'',
       sql_text ''or (select c.relkind = `c` from pg_catalog.pg_class as c where c.oid = t.typrelid)''],
      [(sql_text ''(t.typrelid = 0 OR (SELECT c.relkind = `c` FROM PG_CATALOG.pg_class AS c WHERE c.oid = t.typrelid))'',
        ''(t.typrelid = 0)'')])]\<close>

definition edge_mappings_prefix :: string where
  "edge_mappings_prefix =
     sql_text ''select distinct fs.srvname, case when rolname is null then `public` else rolname end '' @
     ''rolname, srvoptions, umoptions from pg_user_mappings um join pg_foreign_server fs '' @
     ''on um.srvid = fs.oid left join pg_authid pa on um.umuser = pa.oid where fs.oid = ''"

definition edge_mappings_query :: "string \<Rightarrow> string" where
  \<open>edge_mappings_query oid =
     ''SELECT DISTINCT fs.srvname, '' @
     sql_text ''CASE WHEN rolname IS NULL THEN `public` ELSE rolname END AS rolname, '' @
     ''srvoptions, umoptions '' @
     ''FROM PG_CATALOG.PG_USER_MAPPINGS um '' @
     ''JOIN PG_CATALOG."PG_FOREIGN_SERVER" fs ON um.srvid = fs.oid '' @
     ''LEFT JOIN PG_CATALOG.PG_AUTHID pa ON um.umuser = pa.oid '' @
     ''WHERE fs.oid = '' @ oid @ '' ORDER BY srvname''\<close>

fun apply_edge_rules :: "(string list \<times> (string \<times> string) list) list \<Rightarrow> string \<Rightarrow> string \<Rightarrow> string option" where
  "apply_edge_rules [] normalized sql = None"
| "apply_edge_rules ((marks, changes) # rules) normalized sql =
     (if list_all (contains normalized) marks
      then Some (fold (\<lambda>(old, new) s. replace_text old new s) changes sql)
      else apply_edge_rules rules normalized sql)"

definition rewrite_exasol_edge_case_sql :: "string \<Rightarrow> string" where
  "rewrite_exasol_edge_case_sql sql =
     (let normalized = edge_normalized sql in
      (case map_of edge_fixed normalized of
         Some r \<Rightarrow> r
       | None \<Rightarrow>
           (case apply_edge_rules edge_rules normalized sql of
              Some r \<Rightarrow> r
            | None \<Rightarrow>
                if starts_with normalized edge_mappings_prefix \<and> ends_with normalized '' order by srvname''
                then edge_mappings_query (trim (trim_end_text '' order by srvname'' (trim_start_text edge_mappings_prefix normalized)))
                else sql)))"

section \<open>Laws\<close>

text \<open>The texts replaced as a whole are recognised in any layout and case.\<close>

lemma edge_fixed_layout:
  assumes "map_of edge_fixed (edge_normalized sql) = Some r" and "edge_normalized sql' = edge_normalized sql"
  shows "rewrite_exasol_edge_case_sql sql' = r"
  using assms by (simp add: rewrite_exasol_edge_case_sql_def)

lemma edge_normalized_words:
  assumes "split_whitespace sql' = split_whitespace sql"
  shows "edge_normalized sql' = edge_normalized sql"
  using assms by (simp add: edge_normalized_def)

text \<open>The object id of a query on user mappings is carried over.\<close>

lemma edge_user_mappings:
  "rewrite_exasol_edge_case_sql (edge_mappings_prefix @ ''42  ORDER BY srvname;'') = edge_mappings_query ''42''"
  by code_simp

end
