(* ===== verification/Spec2Isabelle.thy ===== *)
theory Spec2Isabelle
  imports Cursor Policy Metadata Portal Endpoint Response Translator Session_Laws Transport_Laws Exasol_Session
    Cursor_Session Server Command_Line Edge_Cases
begin

text \<open>
  A verification of \<^bold>\<open>exa-postgres-interface\<close>, a gateway that lets PostgreSQL clients talk to an
  Exasol database.

  \<^bold>\<open>The program.\<close> A client connects with the PostgreSQL wire protocol and logs in with its Exasol
  credentials; the gateway opens one Exasol session for it, over WebSocket and JSON or over an
  Arrow driver. A query text is split into statements. A statement that asks for driver metadata
  is answered from a catalog query; any other one is classified by a policy: it is answered
  locally, refused, served by a cursor that the gateway keeps itself, or executed on Exasol after a
  translation of its text. The outcome is mapped to PostgreSQL row descriptions, data rows and
  command tags. In the extended protocol, parameters are put into the text of the statement,
  Describe runs the statement, and Execute sends the rows that Describe has cached.

  \<^bold>\<open>Theories and sources\<close> (all sources under \<^verbatim>\<open>src/src\<close>).

  \<^item> \<open>Gateway_Prelude\<close>: Rust's integers with their wrap-around, texts, results as sums, and \<open>exec\<close>, the
    outcome of a computation that returns, panics or runs forever. \<open>Effects\<close>: methods that change a
    state and may fail, with rules for what they keep.
  \<^item> \<open>Regex_Engine\<close>: the \<^verbatim>\<open>regex\<close> crate as a parameter with its documented semantics (locale
    \<open>regex_engine\<close>) and a backtracking matcher that fulfils it. \<open>Json_Value\<close>: \<^verbatim>\<open>serde_json\<close> as a
    parameter (locale \<open>json_lib\<close>) and a JSON data type that fulfils it.
  \<^item> \<open>Cursor\<close>: \<^verbatim>\<open>GatewayCursor\<close> and the batch helpers of \<^verbatim>\<open>pg_server.rs\<close>. FETCH is proved equal to a
    specification on the list of rows, for both kinds of data, and its loops are proved to return,
    but for one count. Arrow's batches are the locale \<open>record_batch\<close>.
  \<^item> \<open>Policy\<close>: \<^verbatim>\<open>policy.rs\<close>, every plan, pattern and function. What is executed on Exasol is on an
    allowlist, whatever the regex engine does; cursor and search path statements round-trip.
  \<^item> \<open>Metadata\<close>: \<^verbatim>\<open>metadata.rs\<close>. \<open>Catalog\<close>: the answers of \<^verbatim>\<open>execute_metadata_query\<close>.
  \<^item> \<open>Portal\<close>: splitting of query texts, Parse, type inference and the rendering of parameters, of
    \<^verbatim>\<open>pg_server.rs\<close>. A text parameter reads back as itself, and rendering is one simultaneous
    substitution under a condition on the values, with an example that shows why it is needed.
  \<^item> \<open>Endpoint\<close>: \<^verbatim>\<open>config.rs\<close>, the DSN, the choice of the transport and the session set-up of
    \<^verbatim>\<open>exasol/mod.rs\<close>.
  \<^item> \<open>Response\<close>: outcomes, field descriptions and data rows. pgwire's row encoder is the locale
    \<open>row_encoder\<close>.
  \<^item> \<open>Translator_Texts\<close> and \<open>Translator\<close>: \<^verbatim>\<open>translator.rs\<close>; the transpiler is a parameter.
  \<^item> \<open>Session\<close>: the state of a client and the handlers of \<^verbatim>\<open>pg_server.rs\<close>, as functions on the state.
    \<open>Session_Laws\<close>: the steps of a client (\<open>client_step\<close>), the reachable clients, invariants that hold
    in each of them (locale \<open>session_invariant\<close>), and the properties of the handlers.
    \<open>Cursor_Session\<close>: an abstract machine for the cursors of a session, and a simulation: every
    sequence of cursor statements answers as the machine does.
  \<^item> \<open>Websocket\<close>: \<^verbatim>\<open>exasol/websocket_transport.rs\<close> and \<^verbatim>\<open>exasol/arrow_transport.rs\<close>. \<open>Transport_Laws\<close>: the
    pairing of requests and answers on a socket (locale \<open>message_channel\<close>), complete results, pinned
    certificates, and the contract of a transport (locale \<open>exasol_transport\<close>). \<open>Exasol_Session\<close>: the
    facade over the two transports, which fulfils the same contract, and the laws of the Arrow
    driver (locale \<open>arrow_results\<close>).
  \<^item> \<open>Bootstrap\<close>: \<^verbatim>\<open>bootstrap.rs\<close>, the set-up dialogue and the installation of the catalog.
    \<open>Bootstrap_Laws\<close>: scripts and configuration files round-trip; prompts on a terminal (locale
    \<open>console\<close>). \<open>Command_Line\<close>: the start of the server (\<^verbatim>\<open>main.rs\<close>) and the SQL runner
    (\<^verbatim>\<open>bin/exasol_exec.rs\<close>).
  \<^item> \<open>Server\<close>: the accept loop of \<^verbatim>\<open>main.rs\<close> and the tasks of the connections, in any interleaving;
    connections are isolated from each other, and the invariant of a session holds for all of them.
  \<^item> \<open>Edge_Cases\<close>: \<^verbatim>\<open>rewrite_exasol_edge_case_sql\<close>, which is compiled for tests only.
  \<^item> This theory: properties that span the components, from a query text to the rows of the answer
    or to the error that the client gets.

  \<^bold>\<open>State and operations.\<close> A client is the record \<open>client\<close>; its \<open>cl_session\<close> is \<^verbatim>\<open>SessionState\<close>. A
  handler is the record \<open>handler\<close>: the configuration and everything that is not the gateway's own
  code (the regex engine, the transpiler, JSON, Arrow, pgwire and the Exasol session). An
  operation of the code is a function with the code's name, from the state to a result and the
  state after it; a Rust error is \<open>Inl\<close>, a panic is \<open>Panic\<close>, a loop that does not end is \<open>Diverge\<close>.
  Names that clash with names of HOL have a suffix.

  \<^bold>\<open>Bounds and fuel.\<close> Counts and positions of a cursor are integers of 64 bits and wrap around.
  \<open>forward\<close> and \<open>backward\<close> call each other at most once, so two units of fuel suffice for every count
  but -2^63, for which no fuel does. The fetch loop of the WebSocket transport needs one unit for
  each chunk, the reader one for each message; the theorems give these bounds. A prompt needs one
  unit for each invalid answer. All other recursion is structural or has a measure.

  \<^bold>\<open>Texts.\<close> Rust's strings are lists of characters with code points below 256; bytes of the wire are
  decoded and encoded as UTF-8 where the code does so, and a decoded text with a larger code point is
  outside of the model, which says so in the result.

  \<^bold>\<open>Not modelled.\<close> The sockets, threads and mutexes: the messages of a connection are handled one
  after the other, and a connection has no state in common with another one, so that a handler is
  a function on the state of its client and the scheduler is the order of the messages. The tokio
  runtime and logging. Third-party crates (regex, serde_json, arrow, pgwire, tungstenite, rustls,
  toml, the transpiler) are parameters with their documented behaviour as hypotheses, each with an
  instance that fulfils it; so are the clock and floating-point numbers. The SQL of the installed
  catalog is data of the program and arbitrary here. The example \<^verbatim>\<open>question_mark_repro.rs\<close>, which
  shows a bug of the Arrow driver and is not part of the gateway.
\<close>

section \<open>From a query to the answer\<close>

text \<open>A single statement that is executed on Exasol, through the simple protocol.\<close>

lemma simple_execute_run:
  assumes "split_simple_query query = [sql]" and "detect (h_regex h) sql = None"
    and "classify_statement (h_regex h) sql = Execute command policy" and "translate_client_sql h sql = Inr q"
    and "cl_session c = Some s" and "h_exec_sql h (ss_exasol s) q = (Inr outcome, y)"
  shows "execute_simple_query fuel h query c =
    Ret (Inr (map (to_response h) (map_exasol_result (h_batch h) outcome command policy (should_fold_labels h sql))),
      c\<lparr>cl_session := Some (s\<lparr>ss_exasol := y\<rparr>)\<rparr>)"
  using assms
  by (simp add: execute_simple_query_def execute_sql_def execute_statement_plan execute_on_exasol_def
      execute_exasol_sql_def exec_simps)

lemma encode_rows_length: "length (encode_rows K n rows e) = length rows"
  by (induction rows arbitrary: e) (auto split: prod.splits simp: Let_def)

text \<open>
  C5. A query over the WebSocket transport, from the text to the rows. When a query holds one
  statement that is executed on Exasol, the statement is translated and sent once, the result is
  fetched to its end, and the client gets one response whose description has one field for each
  column and which has a row for each row of the result; the rows sent before an encoding failure
  are the rows of the result, in order, at the width of the description. Exasol must answer as its
  protocol says, a chunk at a time; pings and progress frames may come in between.
\<close>

theorem websocket_query_answered:
  assumes "message_channel W inbox sent" and "row_encoder (h_encoder h) cells"
    and "split_simple_query query = [sql]" and "detect (h_regex h) sql = None"
    and "classify_statement (h_regex h) sql = Execute command policy" and "translate_client_sql h sql = Inr q"
    and "cl_session c = Some s" and "ss_exasol s = WebSocketSession w"
    and "session_execute fuel rfuel (h_json h) W D q (ss_exasol s) = Ret (h_exec_sql h (ss_exasol s) q)"
    and "inbox w = ms @ concat msgs @ rest" and "result_answer rfuel (h_json h) ms cols n handle first_rows"
    and "list_all2 (chunk_answer rfuel (h_json h)) msgs chunks"
    and "length (first_rows @ concat chunks) = n" and "n < 2 ^ 64" and "length chunks \<le> fuel"
  shows "\<exists>w' results. execute_simple_query cursor_fuel h query c =
      Ret (Inr [QueryResponse results], c\<lparr>cl_session := Some (s\<lparr>ss_exasol := WebSocketSession w'\<rparr>)\<rparr>) \<and>
    qr_fields results = typed_fields (h_regex h) (h_json h) cols (should_fold_labels h sql) \<and>
    length (qr_rows results) = n \<and>
    (\<forall>ok failed. qr_rows results = map Inr ok @ failed \<longrightarrow>
      ok = map (row_values (length cols)) (take (length ok) (first_rows @ concat chunks))) \<and>
    inbox w' = rest \<and>
    filter is_text (sent w') = filter is_text (sent w) @ TextMsg (jv_text (h_json h) (execute_request (h_json h) q)) #
      map (\<lambda>p. TextMsg (jv_text (h_json h) (fetch_request (h_json h) handle p))) (chunk_starts (length first_rows) chunks)"
proof -
  obtain w' where w': "session_execute fuel rfuel (h_json h) W D q (WebSocketSession w) =
      Ret (Inr (TypedRows cols (first_rows @ concat chunks)), WebSocketSession w')"
    and io: "inbox w' = rest" "filter is_text (sent w') = filter is_text (sent w) @
      TextMsg (jv_text (h_json h) (execute_request (h_json h) q)) #
      map (\<lambda>p. TextMsg (jv_text (h_json h) (fetch_request (h_json h) handle p))) (chunk_starts (length first_rows) chunks)"
    using session_execute_complete [OF assms(1,10-15)] by blast
  let ?rows = "first_rows @ concat chunks"
  let ?r = "query_response_typed (h_regex h) (h_json h) (h_encoder h) cols ?rows None (should_fold_labels h sql)"
  have "h_exec_sql h (ss_exasol s) q = (Inr (TypedRows cols ?rows), WebSocketSession w')" using assms(8,9) w' by simp
  from simple_execute_run [OF assms(3-7) this, of cursor_fuel]
  have run: "execute_simple_query cursor_fuel h query c =
      Ret (Inr [QueryResponse ?r], c\<lparr>cl_session := Some (s\<lparr>ss_exasol := WebSocketSession w'\<rparr>)\<rparr>)"
    by (simp add: map_exasol_result_def to_response_def)
  have fields: "qr_fields ?r = typed_fields (h_regex h) (h_json h) cols (should_fold_labels h sql)"
    "length (typed_fields (h_regex h) (h_json h) cols (should_fold_labels h sql)) = length cols"
    by (simp_all add: query_response_typed_def typed_fields_def Let_def)
  have "length (qr_rows ?r) = n" using assms(13) by (simp add: query_response_typed_def encode_rows_length Let_def)
  moreover have "ok = map (row_values (length cols)) (take (length ok) ?rows)" if "qr_rows ?r = map Inr ok @ failed" for ok failed
  proof (rule row_encoder.encode_rows_prefix [OF assms(2) _ row_encoder.cells_new [OF assms(2)]])
    show "encode_rows (h_encoder h) (length cols) ?rows (enc_new (h_encoder h) (qr_fields ?r)) = map Inr ok @ failed"
      using that fields by (simp add: query_response_typed_def Let_def)
  qed
  ultimately show ?thesis using run fields(1) io by blast
qed

definition facade_handler :: "(string \<Rightarrow> string list \<times> string option columnar list) \<Rightarrow>
  ((message list \<times> message list, string list) exasol_session, string option columnar, string list, string option list,
    string option list, json, field_info list \<times> text_row, nat) handler" where
  "facade_handler tables =
     \<lparr>h_config = demo_app_config, h_regex = bt_engine, h_transpile = Inl, h_json = json_data, h_fields = demo_schema,
      h_batch = columnar_ops, h_format = column_format, h_encoder = text_encoder, h_pgwire = demo_pgwire,
      h_connect_arrow = (\<lambda>_ _ _ _. Inr (ArrowSession [])), h_connect_websocket = (\<lambda>_ _ _ _. Inr (WebSocketSession ([], []))),
      h_exec_sql = (\<lambda>y sql. case session_execute 1 2 json_data queue_ws (memory_driver tables) sql y of
          Ret answer \<Rightarrow> answer | _ \<Rightarrow> (Inl (ExecutionFailed ''no answer''), y)),
      h_exec_ddl = (\<lambda>y sql. case session_execute_update 1 2 json_data queue_ws (memory_driver tables) sql y of
          Ret answer \<Rightarrow> answer | _ \<Rightarrow> (Inl (ExecutionFailed ''no answer''), y))\<rparr>"

lemma facade_fields [simp]:
  "h_regex (facade_handler tables) = bt_engine" "h_json (facade_handler tables) = json_data"
  "h_fields (facade_handler tables) = demo_schema" "h_batch (facade_handler tables) = columnar_ops"
  "h_format (facade_handler tables) = column_format" "h_encoder (facade_handler tables) = text_encoder"
  "translate_client_sql (facade_handler tables) sql = Inr sql" "should_fold_labels (facade_handler tables) sql = False"
  by (simp_all add: facade_handler_def translate_client_sql_def should_fold_labels_def demo_app_config_def)

lemma facade_exec:
  "session_execute 1 2 json_data queue_ws (memory_driver tables) sql y = Ret answer \<Longrightarrow>
     h_exec_sql (facade_handler tables) y sql = answer"
  by (simp add: facade_handler_def)

definition facade_session where
  "facade_session x = \<lparr>ss_exasol = x, ss_extended_results = Map.empty, ss_cursors = Map.empty, ss_current_schema = None\<rparr>"

definition facade_client where
  "facade_client x = \<lparr>cl_session = Some (facade_session x), cl_user = Some ''sys'', cl_pid = 7, cl_state = ReadyForQuery,
     cl_portals = Map.empty, cl_tx = (0 :: nat), cl_sent = []\<rparr>"

text \<open>A database whose only table shape is the column A without rows.\<close>

definition empty_tables :: "string \<Rightarrow> string list \<times> string option columnar list" where
  "empty_tables sql = ([''A''], [])"

lemma demo_split: "split_simple_query ''SELECT a FROM t'' = [''SELECT a FROM t'']"
  by code_simp

theorem websocket_query_answered_witness:
  "\<exists>w' results. execute_simple_query 2 (facade_handler empty_tables) ''SELECT a FROM t''
       (facade_client (WebSocketSession ([PingMsg [1], TextMsg (json_text demo_answer), TextMsg (json_text demo_chunk), FrameMsg], []))) =
     Ret (Inr [QueryResponse results], facade_client (WebSocketSession w')) \<and> length (qr_rows results) = 2 \<and> fst w' = [FrameMsg]"
proof -
  let ?in = "[PingMsg [1], TextMsg (json_text demo_answer), TextMsg (json_text demo_chunk), FrameMsg]"
  let ?q = "''SELECT a FROM t''"
  let ?y = "WebSocketSession (?in, [])"
  let ?h = "facade_handler empty_tables"
  have chunks: "list_all2 (chunk_answer 2 json_data) [[TextMsg (json_text demo_chunk)]] [[[Some ''t'']]]"
    using demo_chunk_answer by simp
  have inbox: "fst (?in, []) = [PingMsg [1], TextMsg (json_text demo_answer)] @ concat [[TextMsg (json_text demo_chunk)]] @ [FrameMsg]"
    by simp
  obtain w' where "session_execute 1 2 json_data queue_ws (memory_driver empty_tables) ?q ?y =
      Ret (Inr (TypedRows [\<lparr>col_name = ''A'', col_data_type = JNull\<rparr>] ([[Some ''x'']] @ concat [[[Some ''t'']]])), WebSocketSession w')"
    using session_execute_complete [OF qw.message_channel_axioms inbox demo_result_answer chunks, of 1 "memory_driver empty_tables" ?q] by auto
  then have carried: "session_execute 1 2 (h_json ?h) queue_ws (memory_driver empty_tables) ?q (ss_exasol (facade_session ?y)) =
      Ret (h_exec_sql ?h (ss_exasol (facade_session ?y)) ?q)"
    by (simp add: facade_exec facade_session_def)
  have s: "cl_session (facade_client ?y) = Some (facade_session ?y)" "ss_exasol (facade_session ?y) = ?y"
    "(facade_client ?y)\<lparr>cl_session := Some (facade_session ?y\<lparr>ss_exasol := z\<rparr>)\<rparr> = facade_client z" for z
    by (simp_all add: facade_client_def facade_session_def)
  have h: "result_answer 2 (h_json ?h) [PingMsg [1], TextMsg (json_text demo_answer)] [\<lparr>col_name = ''A'', col_data_type = JNull\<rparr>] 2 7 [[Some ''x'']]"
    "list_all2 (chunk_answer 2 (h_json ?h)) [[TextMsg (json_text demo_chunk)]] [[[Some ''t'']]]"
    "row_encoder (h_encoder ?h) snd" "detect (h_regex ?h) ?q = None" "classify_statement (h_regex ?h) ?q = Execute ''SELECT'' Omit"
    "translate_client_sql ?h ?q = Inr ?q"
    using demo_result_answer chunks te.row_encoder_axioms demo_plans by simp_all
  have "\<exists>w' results. execute_simple_query 2 ?h ?q (facade_client ?y) = Ret (Inr [QueryResponse results],
      (facade_client ?y)\<lparr>cl_session := Some (facade_session ?y\<lparr>ss_exasol := WebSocketSession w'\<rparr>)\<rparr>) \<and>
      length (qr_rows results) = 2 \<and> fst w' = [FrameMsg]"
    using websocket_query_answered [OF qw.message_channel_axioms h(3) demo_split h(4-6) s(1,2) carried inbox h(1,2), of 2] by auto
  then show ?thesis unfolding s(3) .
qed



section \<open>Failures\<close>

lemma run_statements_append:
  assumes "run_statements fuel h before acc c = Ret (Inr rs, c1)" and "\<not> list_ex is_error_response rs"
  shows "run_statements fuel h (before @ later) acc c = run_statements fuel h later rs c1"
  using assms
proof (induction before arbitrary: acc c)
  case (Cons st sts)
  from Cons.prems(1) obtain rs0 c0 where st: "execute_sql fuel h st c = Ret (Inr rs0, c0)"
    and cont: "(if list_ex is_error_response rs0 then pass (acc @ rs0) else run_statements fuel h sts (acc @ rs0)) c0 = Ret (Inr rs, c1)"
    by (auto simp: andthen_Ret)
  have ok: "\<not> list_ex is_error_response rs0" using cont Cons.prems(2) by (auto split: if_splits)
  then have "run_statements fuel h sts (acc @ rs0) c0 = Ret (Inr rs, c1)" using cont by simp
  from Cons.IH [OF this Cons.prems(2)] show ?case using st ok by (simp add: andthen_run)
qed simp

text \<open>
  C7. What a client gets when Exasol fails in the middle of a query. The client gets one error of
  class XX000 with the text of the request or execution error, never a connection or login error,
  on either transport; later statements are not run, and the session goes on with its cursors,
  cached results and search path. The answers to the earlier statements, which have been executed,
  are not sent.
\<close>

theorem exasol_failure_answered:
  assumes "split_simple_query query = before @ sql # later"
    and "run_statements fuel h before [] c = Ret (Inr rs, c1)" and "\<not> list_ex is_error_response rs"
    and "detect (h_regex h) sql = None" and "classify_statement (h_regex h) sql = Execute command policy"
    and "translate_client_sql h sql = Inr q" and "cl_session c1 = Some s"
    and "session_execute sfuel rfuel (h_json h) W D q (ss_exasol s) = Ret (h_exec_sql h (ss_exasol s) q)"
    and "h_exec_sql h (ss_exasol s) q = (Inl e, y)"
  shows "\<exists>detail. \<exists>kind \<in> {''Exasol request failed: '', ''Exasol execution failed: ''}.
    execute_simple_query fuel h query c =
      Ret (Inl (pg_error ''XX000'' (kind @ detail)), c1\<lparr>cl_session := Some (s\<lparr>ss_exasol := y\<rparr>)\<rparr>)"
proof -
  have "session_execute sfuel rfuel (h_json h) W D q (ss_exasol s) = Ret (Inl e, y)" using assms(8,9) by simp
  from facade.client_sees_statement_error [OF this] obtain detail kind where
    e: "map_exasol_execution_error e = pg_error ''XX000'' (kind @ detail)"
      "kind \<in> {''Exasol request failed: '', ''Exasol execution failed: ''}"
    by blast
  have "execute_simple_query fuel h query c = run_statements fuel h (sql # later) rs c1"
    using assms(1) run_statements_append [OF assms(2,3)] by (simp add: execute_simple_query_def)
  also have "\<dots> = Ret (Inl (map_exasol_execution_error e), c1\<lparr>cl_session := Some (s\<lparr>ss_exasol := y\<rparr>)\<rparr>)"
    using assms(4-7,9) by (simp add: execute_sql_def execute_statement_plan execute_on_exasol_def execute_exasol_sql_def exec_simps)
  finally show ?thesis using e by auto
qed

theorem exasol_failure_answered_witness:
  "\<exists>e. execute_simple_query 2 (facade_handler empty_tables) ''COMMIT;SELECT a FROM t'' (facade_client (WebSocketSession ([], []))) =
     Ret (Inl e, facade_client (WebSocketSession ([], [TextMsg (json_text (execute_request json_data ''SELECT a FROM t''))])))"
proof -
  let ?h = "facade_handler empty_tables"
  let ?q = "''SELECT a FROM t''"
  let ?y = "WebSocketSession ([], []) :: (message list \<times> message list, string list) exasol_session"
  let ?y' = "WebSocketSession ([], [TextMsg (json_text (execute_request json_data ?q))]) :: (message list \<times> message list, string list) exasol_session"
  have split: "split_simple_query ''COMMIT;SELECT a FROM t'' = [''COMMIT''] @ ?q # []" by code_simp
  have commit: "run_statements 2 ?h [''COMMIT''] [] (facade_client ?y) =
      Ret (Inr [to_response ?h (RespTransactionEnd ''COMMIT'')], facade_client ?y)"
    by (simp add: execute_sql_def execute_statement_plan demo_plans clear_non_hold_cursors_def exec_simps facade_client_def
        facade_session_def to_response_def)
  have ok: "\<not> list_ex is_error_response [to_response ?h (RespTransactionEnd ''COMMIT'')]" by (simp add: to_response_def)
  have s: "cl_session (facade_client ?y) = Some (facade_session ?y)" "ss_exasol (facade_session ?y) = ?y"
    "(facade_client ?y)\<lparr>cl_session := Some (facade_session ?y\<lparr>ss_exasol := z\<rparr>)\<rparr> = facade_client z" for z
    by (simp_all add: facade_client_def facade_session_def)
  have run: "\<exists>e. session_execute 1 2 json_data queue_ws (memory_driver empty_tables) ?q ?y = Ret (Inl e, ?y')"
    by (simp add: in_box_def ws_execute_def request_def send_message_def of_call_def queue_ws_def andthen_def json_data_text
        next_message_def numeral_2_eq_2)
  then obtain e where e: "session_execute 1 2 json_data queue_ws (memory_driver empty_tables) ?q ?y = Ret (Inl e, ?y')" ..
  have h: "detect (h_regex ?h) ?q = None" "classify_statement (h_regex ?h) ?q = Execute ''SELECT'' Omit"
    "translate_client_sql ?h ?q = Inr ?q"
    "session_execute 1 2 (h_json ?h) queue_ws (memory_driver empty_tables) ?q (ss_exasol (facade_session ?y)) =
      Ret (h_exec_sql ?h (ss_exasol (facade_session ?y)) ?q)"
    "h_exec_sql ?h (ss_exasol (facade_session ?y)) ?q = (Inl e, ?y')"
    using e demo_plans facade_exec [OF e] by (simp_all add: s(2))
  from exasol_failure_answered [OF split commit ok h(1-3) s(1) h(4,5)] show ?thesis unfolding s(3) by blast
qed

end
